(* ===== verification/Prelude.thy ===== *)
theory Prelude
  imports Complex_Main "HOL-Library.Sublist" "HOL-Library.Multiset"
begin

text \<open>
  Shared vocabulary of the development: Go's errors, the string functions of Go's
  standard library that the sources call, and the generic facts about lists, maps and
  rows of a table that the component theories use.

  A Go string is a sequence of bytes, so it is modelled by \<^typ>\<open>string\<close>, a list of
  8-bit characters. The case-changing functions are modelled on ASCII text: bytes that are
  not ASCII letters are left alone.
\<close>

section \<open>Names for the values the model passes around\<close>

type_synonym time = int        \<comment> \<open>\<open>time.Time\<close>, in nanoseconds\<close>
type_synonym duration = int    \<comment> \<open>\<open>time.Duration\<close>, in nanoseconds\<close>

abbreviation Second :: duration where
  "Second \<equiv> 1000000000"

abbreviation Minute :: duration where
  "Minute \<equiv> 60 * Second"

abbreviation Hour :: duration where
  "Hour \<equiv> 60 * Minute"

named_theorems row_simps "how the table operations act on rows"

section \<open>Errors\<close>

text \<open>
  An \<open>error\<close> value is \<open>pgx.ErrNoRows\<close> (the only sentinel the sources compare by
  identity beside \<open>io.EOF\<close>), \<open>io.EOF\<close>, a plain message, or an error wrapped by
  \<open>fmt.Errorf("...: %w", err)\<close>, which puts a prefix in front of the message. Some code
  decides on the text of an error, so the text is part of the model.
\<close>

datatype go_err = ErrNoRows | EOF | Msg string | Wrap string go_err

fun err_text :: "go_err \<Rightarrow> string" where
  "err_text ErrNoRows = ''no rows in result set''"
| "err_text EOF = ''EOF''"
| "err_text (Msg s) = s"
| "err_text (Wrap p e) = p @ '': '' @ err_text e"

type_synonym 'a result = "go_err + 'a"

text \<open>\<open>if err != nil { return ..., fmt.Errorf(prefix, err) }\<close>\<close>

fun wrap_err :: "string \<Rightarrow> 'a result \<Rightarrow> 'a result" where
  "wrap_err p (Inl e) = Inl (Wrap p e)"
| "wrap_err p (Inr x) = Inr x"

definition is_ok :: "'a result \<Rightarrow> bool" where
  "is_ok r = (case r of Inl _ \<Rightarrow> False | Inr _ \<Rightarrow> True)"

lemma is_ok_simps [simp]: "is_ok (Inr x)" "\<not> is_ok (Inl e)"
  by (simp_all add: is_ok_def)

lemma wrap_err_Inr [simp]: "wrap_err p r = Inr x \<longleftrightarrow> r = Inr x"
  by (cases r) auto

section \<open>Strings\<close>

text \<open>\<open>strings.HasPrefix\<close> and \<open>strings.TrimPrefix\<close>\<close>

definition has_prefix :: "string \<Rightarrow> string \<Rightarrow> bool" where
  "has_prefix s p = (take (length p) s = p)"

definition trim_prefix :: "string \<Rightarrow> string \<Rightarrow> string" where
  "trim_prefix s p = (if has_prefix s p then drop (length p) s else s)"

lemma has_prefix_append [simp]: "has_prefix (p @ s) p"
  by (simp add: has_prefix_def)

lemma has_prefixE: "has_prefix s p \<Longrightarrow> \<exists>t. s = p @ t"
  unfolding has_prefix_def by (metis append_take_drop_id)

lemma has_prefix_iff: "has_prefix s p \<longleftrightarrow> (\<exists>t. s = p @ t)"
  using has_prefixE by auto

lemma trim_prefix_append [simp]: "trim_prefix (p @ s) p = s"
  by (simp add: trim_prefix_def)

text \<open>\<open>strings.ToLower\<close> on ASCII text\<close>

definition lower_char :: "char \<Rightarrow> char" where
  "lower_char c =
     (let n = of_char c :: nat in if 65 \<le> n \<and> n \<le> 90 then char_of (n + 32) else c)"

definition to_lower :: "string \<Rightarrow> string" where
  "to_lower s = map lower_char s"

lemma of_char_lower_char:
  "(of_char (lower_char c) :: nat) =
     (let n = of_char c in if 65 \<le> n \<and> n \<le> 90 then n + 32 else n)"
  by (simp add: lower_char_def Let_def)

lemma lower_char_idem [simp]: "lower_char (lower_char c) = lower_char c"
  by (simp add: lower_char_def Let_def)

lemma to_lower_idem [simp]: "to_lower (to_lower s) = to_lower s"
  by (simp add: to_lower_def)

text \<open>\<open>strings.TrimLeft\<close>, \<open>strings.TrimRight\<close> and \<open>strings.Trim\<close> with a cutset\<close>

definition trim_left :: "char set \<Rightarrow> string \<Rightarrow> string" where
  "trim_left cs s = dropWhile (\<lambda>c. c \<in> cs) s"

definition trim_right :: "char set \<Rightarrow> string \<Rightarrow> string" where
  "trim_right cs s = rev (dropWhile (\<lambda>c. c \<in> cs) (rev s))"

definition trim :: "char set \<Rightarrow> string \<Rightarrow> string" where
  "trim cs s = trim_right cs (trim_left cs s)"

lemma dropWhile_idem [simp]: "dropWhile P (dropWhile P xs) = dropWhile P xs"
  by (induction xs) auto

lemma set_trim: "set (trim cs s) \<subseteq> set s"
  unfolding trim_def trim_left_def trim_right_def
  by (metis set_dropWhileD set_rev subsetI)

lemma hd_trim_left: "trim_left cs s \<noteq> [] \<Longrightarrow> hd (trim_left cs s) \<notin> cs"
  unfolding trim_left_def by (rule hd_dropWhile)

lemma trim_right_decomp: "\<exists>t. s = trim_right cs s @ t \<and> set t \<subseteq> cs"
proof -
  have "rev s = takeWhile (\<lambda>c. c \<in> cs) (rev s) @ dropWhile (\<lambda>c. c \<in> cs) (rev s)"
    by simp
  then have "s = trim_right cs s @ rev (takeWhile (\<lambda>c. c \<in> cs) (rev s))"
    unfolding trim_right_def by (metis rev_append rev_rev_ident)
  moreover have "set (rev (takeWhile (\<lambda>c. c \<in> cs) (rev s))) \<subseteq> cs"
    by (auto dest: set_takeWhileD)
  ultimately show ?thesis by blast
qed

lemma hd_trim: "trim cs s \<noteq> [] \<Longrightarrow> hd (trim cs s) \<notin> cs"
  unfolding trim_def
  by (metis append_is_Nil_conv hd_append2 hd_trim_left trim_right_decomp)

lemma last_trim: "trim cs s \<noteq> [] \<Longrightarrow> last (trim cs s) \<notin> cs"
  unfolding trim_def trim_right_def
  by (metis hd_dropWhile last_rev rev_is_Nil_conv)

text \<open>\<open>strings.Split\<close> with a one-character separator\<close>

fun split_on :: "char \<Rightarrow> string \<Rightarrow> string list" where
  "split_on c [] = [[]]"
| "split_on c (x # xs) =
     (if x = c then [] # split_on c xs
      else (case split_on c xs of [] \<Rightarrow> [[x]] | p # ps \<Rightarrow> (x # p) # ps))"

fun join_with :: "string \<Rightarrow> string list \<Rightarrow> string" where
  "join_with sep [] = []"
| "join_with sep [s] = s"
| "join_with sep (s # t # ts) = s @ sep @ join_with sep (t # ts)"

lemma split_on_not_Nil [simp]: "split_on c s \<noteq> []"
  by (induction s) (auto split: list.splits)

lemma join_split_on: "join_with [c] (split_on c s) = s"
proof (induction s)
  case (Cons x xs)
  obtain p ps where "split_on c xs = p # ps"
    by (meson list.exhaust split_on_not_Nil)
  with Cons show ?case
    by (cases ps) auto
qed simp

lemma split_on_no_sep: "p \<in> set (split_on c s) \<Longrightarrow> c \<notin> set p"
  by (induction s arbitrary: p) (auto split: list.splits if_splits)

lemma split_on_field: "c \<notin> set s \<Longrightarrow> split_on c s = [s]"
  by (induction s) auto

lemma split_on_append: "c \<notin> set s \<Longrightarrow> split_on c (s @ c # t) = s # split_on c t"
  by (induction s) auto

lemma split_join: "ts \<noteq> [] \<Longrightarrow> \<forall>t \<in> set ts. c \<notin> set t \<Longrightarrow> split_on c (join_with [c] ts) = ts"
  by (induction "[c]" ts rule: join_with.induct) (auto simp: split_on_field split_on_append)

text \<open>\<open>%q\<close> on text with no character that needs an escape\<close>

definition quoted :: "string \<Rightarrow> string" where
  "quoted s = CHR 0x22 # s @ [CHR 0x22]"

section \<open>Decimal numerals\<close>

text \<open>\<open>strconv.Itoa\<close> and \<open>%d\<close> on a non-negative number\<close>

definition digit_char :: "nat \<Rightarrow> char" where
  "digit_char d = char_of (48 + d)"

fun itoa :: "nat \<Rightarrow> string" where
  "itoa n = (if n < 10 then [digit_char n] else itoa (n div 10) @ [digit_char (n mod 10)])"

declare itoa.simps [simp del]

definition is_digit :: "char \<Rightarrow> bool" where
  "is_digit c = (48 \<le> (of_char c :: nat) \<and> (of_char c :: nat) \<le> 57)"

definition digit_val :: "char \<Rightarrow> nat" where
  "digit_val c = of_char c - 48"

definition digits_val :: "string \<Rightarrow> nat" where
  "digits_val s = foldl (\<lambda>v c. v * 10 + digit_val c) 0 s"

lemma digit_char_digit: "d < 10 \<Longrightarrow> is_digit (digit_char d) \<and> digit_val (digit_char d) = d"
  by (simp add: is_digit_def digit_val_def digit_char_def)

lemma digits_val_snoc [simp]: "digits_val (s @ [c]) = digits_val s * 10 + digit_val c"
  by (simp add: digits_val_def)

lemma digits_val_itoa [simp]: "digits_val (itoa n) = n"
proof (induction n rule: itoa.induct)
  case (1 n)
  show ?case
  proof (cases "n < 10")
    case True
    then show ?thesis
      by (simp add: itoa.simps [of n] digits_val_def digit_char_digit)
  next
    case False
    with 1 have "digits_val (itoa (n div 10)) = n div 10" by simp
    with False show ?thesis
      by (simp add: itoa.simps [of n] digit_char_digit)
  qed
qed

lemma itoa_digits: "c \<in> set (itoa n) \<Longrightarrow> is_digit c"
proof (induction n rule: itoa.induct)
  case (1 n)
  then show ?case
    by (cases "n < 10") (auto simp: itoa.simps [of n] digit_char_digit)
qed

lemma itoa_not_Nil [simp]: "itoa n \<noteq> []"
  by (subst itoa.simps) simp

lemma itoa_inj: "itoa m = itoa n \<Longrightarrow> m = n"
  by (metis digits_val_itoa)

section \<open>Rows of a table\<close>

text \<open>
  A table is the list of its rows. \<open>update_where\<close> is \<open>UPDATE ... SET ... WHERE\<close>,
  \<open>filter\<close> is a \<open>SELECT ... WHERE\<close>, and \<open>select_one\<close> is what \<open>QueryRow\<close> gives
  \<open>Scan\<close>: the first row that qualifies.
\<close>

definition update_where :: "('r \<Rightarrow> bool) \<Rightarrow> ('r \<Rightarrow> 'r) \<Rightarrow> 'r list \<Rightarrow> 'r list" where
  "update_where P f rows = map (\<lambda>r. if P r then f r else r) rows"

definition delete_where :: "('r \<Rightarrow> bool) \<Rightarrow> 'r list \<Rightarrow> 'r list" where
  "delete_where P rows = filter (\<lambda>r. \<not> P r) rows"

definition select_one :: "('r \<Rightarrow> bool) \<Rightarrow> 'r list \<Rightarrow> 'r option" where
  "select_one P rows = find P rows"

lemma length_update_where [row_simps, simp]: "length (update_where P f rows) = length rows"
  by (simp add: update_where_def)

lemma update_where_Nil [row_simps, simp]: "update_where P f [] = []"
  by (simp add: update_where_def)

lemma update_where_Cons [row_simps]:
  "update_where P f (r # rows) = (if P r then f r else r) # update_where P f rows"
  by (simp add: update_where_def)

lemma set_update_where [row_simps]:
  "set (update_where P f rows) = (\<lambda>r. if P r then f r else r) ` set rows"
  by (simp add: update_where_def)

lemma in_update_whereE:
  assumes "r \<in> set (update_where P f rows)"
  obtains (kept) "r \<in> set rows" "\<not> P r"
    | (changed) r0 where "r0 \<in> set rows" "P r0" "r = f r0"
  using assms by (auto simp: set_update_where split: if_splits)

lemma map_update_where_key:
  "(\<And>r. key (f r) = key r) \<Longrightarrow> map key (update_where P f rows) = map key rows"
  by (simp add: update_where_def)

lemma select_one_Some: "select_one P rows = Some r \<Longrightarrow> r \<in> set rows \<and> P r"
  by (auto simp: select_one_def find_Some_iff)

lemma select_one_None: "select_one P rows = None \<longleftrightarrow> (\<forall>r \<in> set rows. \<not> P r)"
  by (auto simp: select_one_def find_None_iff)

lemma select_one_key:
  assumes "distinct (map key rows)" "r \<in> set rows" "key r = k"
  shows "select_one (\<lambda>r. key r = k) rows = Some r"
  using assms by (induction rows) (auto simp: select_one_def)

text \<open>Rows with pairwise different keys: the primary key or a unique index.\<close>

lemma distinct_keyD:
  "distinct (map key rows) \<Longrightarrow> r \<in> set rows \<Longrightarrow> s \<in> set rows \<Longrightarrow> key r = key s \<Longrightarrow> r = s"
  by (metis distinct_map inj_onD)

end
