(* ===== verification/Pool.thy ===== *)
theory Pool
  imports Prelude "HOL-Library.Product_Lexorder"
begin

text \<open>
  The database pool that every repository of \<^verbatim>\<open>internal/db\<close> is built on. A repository's
  state is a record that extends \<open>pool\<close> with the tables it uses; a table is the list of its
  rows. PostgreSQL itself is not part of the sources. Each statement of a repository is
  modelled by what its SQL text says, under two rules: the unique and check constraints of
  the migrations are enforced, and any statement may be refused with an error (a lost
  connection, a cancelled context, a value that does not parse as a UUID, a violated foreign
  key): \<open>faults\<close> lists the outcomes of the statements to come, \<open>None\<close> for a statement that
  executes; past its end every statement executes. Theorems hold for every such list unless
  they say otherwise.
\<close>

record pool =
  clock :: time                      \<comment> \<open>\<open>NOW()\<close>\<close>
  faults :: "go_err option list"
  uuids :: "nat \<Rightarrow> string"           \<comment> \<open>\<open>gen_random_uuid()\<close>: the \<open>n\<close>-th value drawn\<close>
  uuid_count :: nat

type_synonym ('s, 'a) stmt = "'s pool_scheme \<Rightarrow> 'a result \<times> 's pool_scheme"

definition statement :: "('s, 'a) stmt \<Rightarrow> ('s, 'a) stmt" where
  "statement f d =
     (case faults d of
        [] \<Rightarrow> f d
      | None # fs \<Rightarrow> f (d\<lparr>faults := fs\<rparr>)
      | Some e # fs \<Rightarrow> (Inl e, d\<lparr>faults := fs\<rparr>))"

text \<open>\<open>DEFAULT gen_random_uuid()\<close>\<close>

definition new_uuid :: "'s pool_scheme \<Rightarrow> string \<times> 's pool_scheme" where
  "new_uuid d = (uuids d (uuid_count d), d\<lparr>uuid_count := Suc (uuid_count d)\<rparr>)"

text \<open>\<open>pgx\<close> reports a \<open>QueryRow\<close> without a row as \<open>ErrNoRows\<close>.\<close>

definition one_row :: "'r option \<Rightarrow> 'r result" where
  "one_row r = (case r of None \<Rightarrow> Inl ErrNoRows | Some x \<Rightarrow> Inr x)"

definition unique_violation :: go_err where
  "unique_violation = Msg ''duplicate key value violates unique constraint''"

definition check_violation :: go_err where
  "check_violation = Msg ''new row violates check constraint''"

lemma one_row_simps [simp]: "one_row None = Inl ErrNoRows" "one_row (Some x) = Inr x"
  by (simp_all add: one_row_def)

text \<open>A statement executes or leaves everything but the list of outcomes as it was.\<close>

lemma statement_cases [consumes 1, case_names executed refused]:
  assumes "statement f d = (res, d')"
  obtains (executed) fs where "f (d\<lparr>faults := fs\<rparr>) = (res, d')"
    | (refused) e fs where "res = Inl e" "d' = d\<lparr>faults := fs\<rparr>" "faults d = Some e # fs"
proof (cases "faults d")
  case Nil
  have "d = d\<lparr>faults := []\<rparr>" using Nil by simp
  with Nil assms executed [of "[]"] show ?thesis by (simp add: statement_def)
next
  case (Cons x xs)
  with assms executed refused show ?thesis
    by (cases x) (auto simp: statement_def)
qed

lemma statement_no_faults [simp]: "faults d = [] \<Longrightarrow> statement f d = f d"
  by (simp add: statement_def)

text \<open>A property of the tables that the statement keeps when it executes is kept.\<close>

lemma statement_preserves:
  assumes "P d" "\<And>d fs. P (d\<lparr>faults := fs\<rparr>) = P d" "\<And>d. P d \<Longrightarrow> P (snd (f d))"
  shows "P (snd (statement f d))"
proof -
  obtain r d' where s: "statement f d = (r, d')" by (meson surj_pair)
  then have "P d'"
  proof (cases rule: statement_cases)
    case (executed fs)
    then show ?thesis using assms(3) [of "d\<lparr>faults := fs\<rparr>"] assms(1,2) by simp
  qed (use assms(1,2) in simp)
  with s show ?thesis by simp
qed

text \<open>\<open>ORDER BY\<close> a key, newest first or oldest first, and \<open>LIMIT\<close>. Rows with equal keys keep the
  order of the table; PostgreSQL leaves their order open.\<close>

definition order_by :: "('r \<Rightarrow> 'k::linorder) \<Rightarrow> 'r list \<Rightarrow> 'r list" where
  "order_by k rows = sort_key k rows"

definition limit_rows :: "int \<Rightarrow> 'r list \<Rightarrow> 'r list" where
  "limit_rows n rows = take (nat n) rows"

text \<open>\<open>DESC\<close> on a nullable timestamp: PostgreSQL sorts nulls first.\<close>

definition desc_nulls_first :: "time option \<Rightarrow> nat \<times> int" where
  "desc_nulls_first t = (case t of None \<Rightarrow> (0, 0) | Some x \<Rightarrow> (1, - x))"

lemma set_order_by [simp]: "set (order_by k rows) = set rows"
  by (simp add: order_by_def)

lemma mset_order_by [simp]: "mset (order_by k rows) = mset rows"
  by (simp add: order_by_def)

lemma sorted_order_by: "sorted (map k (order_by k rows))"
  by (simp add: order_by_def)

lemma order_by_hd:
  assumes "order_by k rows = r # rest"
  shows "r \<in> set rows \<and> (\<forall>s \<in> set rows. k r \<le> k s)"
proof -
  have "r \<in> set rows" using assms set_order_by [of k rows] by auto
  moreover have "k r \<le> k s" if "s \<in> set rows" for s
    using sorted_order_by [of k rows] that set_order_by [of k rows] assms by auto
  ultimately show ?thesis by blast
qed

lemma length_limit_rows: "length (limit_rows n rows) \<le> nat n"
  by (simp add: limit_rows_def)

lemma set_limit_rows: "set (limit_rows n rows) \<subseteq> set rows"
  by (simp add: limit_rows_def set_take_subset)

text \<open>The next value of \<open>gen_random_uuid()\<close> differs from all values drawn before.\<close>

lemma fresh_uuid:
  "inj (uuids d) \<Longrightarrow> set ids \<subseteq> uuids d ` {..<uuid_count d} \<Longrightarrow> uuids d (uuid_count d) \<notin> set ids"
  by (metis imageE injD lessThan_iff less_irrefl subsetD)

section \<open>The two kinds of statement\<close>

text \<open>\<open>Exec\<close> of an update, and \<open>Query\<close> or \<open>QueryRow\<close> of a select, which leaves the tables alone.\<close>

definition exec :: "('s pool_scheme \<Rightarrow> 's pool_scheme) \<Rightarrow> ('s, unit) stmt" where
  "exec f = statement (\<lambda>d. (Inr (), f d))"

definition query :: "('s pool_scheme \<Rightarrow> 'a result) \<Rightarrow> ('s, 'a) stmt" where
  "query q = statement (\<lambda>d. (q d, d))"

lemma exec_no_faults [simp]: "faults d = [] \<Longrightarrow> exec f d = (Inr (), f d)"
  by (simp add: exec_def)

lemma query_no_faults [simp]: "faults d = [] \<Longrightarrow> query q d = (q d, d)"
  by (simp add: query_def)

lemma query_state:
  assumes "query q d = (r, d')"
  obtains fs where "d' = d\<lparr>faults := fs\<rparr>" "(\<exists>e. r = Inl e) \<or> r = q (d\<lparr>faults := fs\<rparr>)"
  using assms unfolding query_def by (cases rule: statement_cases) auto

lemma exec_state:
  assumes "exec f d = (r, d')"
  obtains (executed) fs where "r = Inr ()" "d' = f (d\<lparr>faults := fs\<rparr>)"
    | (refused) fs e where "r = Inl e" "d' = d\<lparr>faults := fs\<rparr>"
  using assms unfolding exec_def by (cases rule: statement_cases) auto

text \<open>A property of the tables, as opposed to the list of outcomes.\<close>

lemma query_preserves:
  assumes "P d" "\<And>d fs. P (d\<lparr>faults := fs\<rparr>) = P d"
  shows "P (snd (query q d))"
  unfolding query_def using assms by (intro statement_preserves [where P = P]) simp_all

lemma exec_preserves:
  assumes "P d" "\<And>d fs. P (d\<lparr>faults := fs\<rparr>) = P d" "\<And>d. P d \<Longrightarrow> P (f d)"
  shows "P (snd (exec f d))"
  unfolding exec_def using assms by (intro statement_preserves [where P = P]) simp_all

lemma order_by_sorted: "sorted (map k rows) \<Longrightarrow> order_by k rows = rows"
  by (simp add: order_by_def sorted_sort_id sort_key_id_if_sorted)

text \<open>\<open>INSERT ... RETURNING\<close> with a generated id and no unique constraint to violate.\<close>

definition insert_new ::
  "('s pool_scheme \<Rightarrow> string \<Rightarrow> 'r) \<Rightarrow> ('r \<Rightarrow> 's pool_scheme \<Rightarrow> 's pool_scheme) \<Rightarrow> ('s, 'r) stmt" where
  "insert_new mk add = statement (\<lambda>d.
     (case new_uuid d of (uid, d1) \<Rightarrow> (let row = mk d uid in (Inr row, add row d1))))"

lemma insert_new_no_faults [simp]:
  "faults d = [] \<Longrightarrow> insert_new mk add d =
     (Inr (mk d (uuids d (uuid_count d))), add (mk d (uuids d (uuid_count d))) (d\<lparr>uuid_count := Suc (uuid_count d)\<rparr>))"
  by (simp add: insert_new_def new_uuid_def Let_def)

lemma insert_new_preserves:
  assumes "P d" "\<And>d fs. P (d\<lparr>faults := fs\<rparr>) = P d"
    and "\<And>d. P d \<Longrightarrow> P (add (mk d (uuids d (uuid_count d))) (d\<lparr>uuid_count := Suc (uuid_count d)\<rparr>))"
  shows "P (snd (insert_new mk add d))"
  unfolding insert_new_def using assms
  by (intro statement_preserves [where P = P]) (simp_all add: new_uuid_def Let_def)

lemma insert_new_state:
  assumes "insert_new mk add d = (r, d')"
  obtains (executed) fs where
      "r = Inr (mk (d\<lparr>faults := fs\<rparr>) (uuids d (uuid_count d)))"
      "d' = add (mk (d\<lparr>faults := fs\<rparr>) (uuids d (uuid_count d))) (d\<lparr>faults := fs, uuid_count := Suc (uuid_count d)\<rparr>)"
    | (refused) fs e where "r = Inl e" "d' = d\<lparr>faults := fs\<rparr>"
  using assms unfolding insert_new_def
  by (cases rule: statement_cases) (auto simp: new_uuid_def Let_def)

section \<open>Sequencing\<close>

text \<open>\<open>x, err := m; if err != nil { return err }; ...\<close>, and the same with the error wrapped.\<close>

definition and_then :: "'a result \<times> 's \<Rightarrow> ('a \<Rightarrow> 's \<Rightarrow> 'b result \<times> 's) \<Rightarrow> 'b result \<times> 's" where
  "and_then m f = (case m of (Inl e, s) \<Rightarrow> (Inl e, s) | (Inr x, s) \<Rightarrow> f x s)"

definition wrapped :: "string \<Rightarrow> 'a result \<times> 's \<Rightarrow> 'a result \<times> 's" where
  "wrapped p m = (wrap_err p (fst m), snd m)"

lemma and_then_simps [simp]: "and_then (Inl e, s) f = (Inl e, s)" "and_then (Inr x, s) f = f x s"
  by (simp_all add: and_then_def)

lemma wrapped_simps [simp]: "wrapped p (Inr x, s) = (Inr x, s)" "wrapped p (Inl e, s) = (Inl (Wrap p e), s)"
  by (simp_all add: wrapped_def)

lemma and_then_Inr: "and_then m f = (Inr y, s') \<longleftrightarrow> (\<exists>x s. m = (Inr x, s) \<and> f x s = (Inr y, s'))"
  by (cases m, cases "fst m") auto

lemma wrapped_Inr [simp]: "wrapped p m = (Inr x, s) \<longleftrightarrow> m = (Inr x, s)"
  by (cases m, cases "fst m") auto

lemma and_then_preserves:
  assumes "P (snd m)" "\<And>x s. m = (Inr x, s) \<Longrightarrow> P s \<Longrightarrow> P (snd (f x s))"
  shows "P (snd (and_then m f))"
  using assms by (cases m, cases "fst m") auto

lemma snd_wrapped [simp]: "snd (wrapped p m) = snd m"
  by (simp add: wrapped_def)

end
