(* ===== verification/Agent_Repo.thy ===== *)
theory Agent_Repo
  imports Pool
begin

text \<open>
  Agent profiles and the pool of agent instances: \<^verbatim>\<open>internal/db/agent_repo.go\<close> on the tables
  \<open>agent_profiles\<close> and \<open>agent_instances\<close> of migrations 001, 006 and 011.
\<close>

section \<open>Rows\<close>

record AgentProfile =
  ap_ID :: string
  ap_TenantID :: string
  ap_Name :: string
  ap_ProfileType :: string
  ap_Visibility :: string
  ap_OwnerID :: "string option"
  ap_SystemPrompt :: string
  ap_ModelProvider :: string
  ap_ModelID :: string
  ap_Temperature :: rat
  ap_MaxTokens :: int
  ap_Skills :: "string option"     \<comment> \<open>raw JSON; \<open>None\<close> is nil\<close>
  ap_CreatedAt :: time
  ap_UpdatedAt :: time

record AgentInstance =
  ai_ID :: string
  ai_TenantID :: string
  ai_ProfileID :: "string option"
  ai_PodName :: "string option"
  ai_PodNamespace :: "string option"
  ai_State :: string
  ai_ClaimedAt :: "time option"
  ai_ReleasedAt :: "time option"
  ai_LastHeartbeat :: "time option"
  ai_CreatedAt :: time

record agent_db = pool +
  agent_profiles :: "AgentProfile list"
  agent_instances :: "AgentInstance list"

section \<open>Scanning\<close>

definition isNoRows :: "go_err \<Rightarrow> bool" where
  "isNoRows err = (err_text err = ''no rows in result set'')"

definition scanProfile :: "AgentProfile result \<Rightarrow> AgentProfile result" where
  "scanProfile row = wrap_err ''scan agent profile'' row"

definition scanInstance :: "AgentInstance result \<Rightarrow> AgentInstance result" where
  "scanInstance row = wrap_err ''scan agent instance'' row"

section \<open>Profiles\<close>

text \<open>The constraints of the table: unique \<open>(tenant_id, name)\<close>, and an owner for every profile
  with visibility \<open>user\<close>.\<close>

definition profile_ok :: "AgentProfile \<Rightarrow> bool" where
  "profile_ok p \<longleftrightarrow> (ap_Visibility p = ''user'' \<longrightarrow> ap_OwnerID p \<noteq> None)"

definition profile_conflict :: "AgentProfile list \<Rightarrow> AgentProfile \<Rightarrow> bool" where
  "profile_conflict rows p =
     list_ex (\<lambda>q. ap_ID q \<noteq> ap_ID p \<and> ap_TenantID q = ap_TenantID p \<and> ap_Name q = ap_Name p) rows"

definition skills_or_empty :: "string option \<Rightarrow> string option" where
  "skills_or_empty s = (case s of None \<Rightarrow> Some ''[]'' | Some j \<Rightarrow> Some j)"

definition CreateProfile :: "AgentProfile \<Rightarrow> 'a agent_db_scheme \<Rightarrow> AgentProfile result \<times> 'a agent_db_scheme" where
  "CreateProfile p d =
     (case statement (\<lambda>d.
        (case new_uuid d of
           (uid, d1) \<Rightarrow>
             (let row = p\<lparr>ap_ID := uid, ap_Skills := skills_or_empty (ap_Skills p),
                          ap_Visibility := (if ap_Visibility p = '''' then ''system'' else ap_Visibility p),
                          ap_CreatedAt := clock d, ap_UpdatedAt := clock d\<rparr>
              in if profile_conflict (agent_profiles d) row then (Inl unique_violation, d)
                 else if \<not> profile_ok row then (Inl check_violation, d)
                 else (Inr row, d1\<lparr>agent_profiles := agent_profiles d1 @ [row]\<rparr>)))) d of
        (row, d') \<Rightarrow> (scanProfile row, d'))"

definition GetProfile :: "string \<Rightarrow> 'a agent_db_scheme \<Rightarrow> AgentProfile result \<times> 'a agent_db_scheme" where
  "GetProfile uid d =
     (case statement (\<lambda>d. (one_row (select_one (\<lambda>p. ap_ID p = uid) (agent_profiles d)), d)) d of
        (row, d') \<Rightarrow> (scanProfile row, d'))"

definition ListProfiles ::
  "string \<Rightarrow> string \<Rightarrow> 'a agent_db_scheme \<Rightarrow> AgentProfile list result \<times> 'a agent_db_scheme" where
  "ListProfiles tenantID userID d =
     (case statement (\<lambda>d.
        (Inr (order_by ap_CreatedAt
           (filter (\<lambda>p. ap_TenantID p = tenantID \<and>
              (ap_Visibility p = ''system'' \<or>
               (ap_Visibility p = ''user'' \<and> ap_OwnerID p = Some userID))) (agent_profiles d))), d)) d of
        (rows, d') \<Rightarrow> (wrap_err ''list profiles'' rows, d'))"

text \<open>\<open>RETURNING\<close> yields the updated row; no row when the uid is unknown.\<close>

definition UpdateProfile :: "AgentProfile \<Rightarrow> 'a agent_db_scheme \<Rightarrow> AgentProfile result \<times> 'a agent_db_scheme" where
  "UpdateProfile p d =
     (case statement (\<lambda>d.
        (case select_one (\<lambda>q. ap_ID q = ap_ID p) (agent_profiles d) of
           None \<Rightarrow> (Inl ErrNoRows, d)
         | Some q \<Rightarrow>
             (let row = q\<lparr>ap_Name := ap_Name p, ap_ProfileType := ap_ProfileType p,
                          ap_Visibility := ap_Visibility p, ap_OwnerID := ap_OwnerID p,
                          ap_SystemPrompt := ap_SystemPrompt p, ap_ModelProvider := ap_ModelProvider p,
                          ap_ModelID := ap_ModelID p, ap_Temperature := ap_Temperature p,
                          ap_MaxTokens := ap_MaxTokens p, ap_Skills := skills_or_empty (ap_Skills p),
                          ap_UpdatedAt := clock d\<rparr>
              in if profile_conflict (agent_profiles d) row then (Inl unique_violation, d)
                 else if \<not> profile_ok row then (Inl check_violation, d)
                 else (Inr row, d\<lparr>agent_profiles :=
                         update_where (\<lambda>q. ap_ID q = ap_ID p) (\<lambda>_. row) (agent_profiles d)\<rparr>)))) d of
        (row, d') \<Rightarrow> (scanProfile row, d'))"

text \<open>\<open>ON DELETE SET NULL\<close> clears the profile of the instances that refer to it.\<close>

definition DeleteProfile :: "string \<Rightarrow> 'a agent_db_scheme \<Rightarrow> unit result \<times> 'a agent_db_scheme" where
  "DeleteProfile uid = statement (\<lambda>d.
     (Inr (), d\<lparr>agent_profiles := delete_where (\<lambda>p. ap_ID p = uid) (agent_profiles d),
                agent_instances := update_where (\<lambda>i. ai_ProfileID i = Some uid)
                  (\<lambda>i. i\<lparr>ai_ProfileID := None\<rparr>) (agent_instances d)\<rparr>))"

definition GetProfileByName ::
  "string \<Rightarrow> string \<Rightarrow> 'a agent_db_scheme \<Rightarrow> AgentProfile result \<times> 'a agent_db_scheme" where
  "GetProfileByName tenantID name d =
     (case statement (\<lambda>d. (one_row (select_one (\<lambda>p. ap_TenantID p = tenantID \<and> ap_Name p = name)
                                     (agent_profiles d)), d)) d of
        (row, d') \<Rightarrow> (scanProfile row, d'))"

section \<open>Instances\<close>

definition CreateInstance ::
  "string \<Rightarrow> string option \<Rightarrow> 'a agent_db_scheme \<Rightarrow> AgentInstance result \<times> 'a agent_db_scheme" where
  "CreateInstance tenantID profileID d =
     (case statement (\<lambda>d.
        (case new_uuid d of
           (uid, d1) \<Rightarrow>
             (let row = \<lparr>ai_ID = uid, ai_TenantID = tenantID, ai_ProfileID = profileID,
                         ai_PodName = None, ai_PodNamespace = None, ai_State = ''cold'',
                         ai_ClaimedAt = None, ai_ReleasedAt = None, ai_LastHeartbeat = None,
                         ai_CreatedAt = clock d\<rparr>
              in (Inr row, d1\<lparr>agent_instances := agent_instances d1 @ [row]\<rparr>)))) d of
        (row, d') \<Rightarrow> (scanInstance row, d'))"

text \<open>The subselect of \<open>ClaimInstance\<close>: the warm instances of the tenant and profile, by
  \<open>last_heartbeat DESC\<close>. A claim is one statement, so no row is locked when it runs.\<close>

definition warm_candidates :: "string \<Rightarrow> string \<Rightarrow> AgentInstance list \<Rightarrow> AgentInstance list" where
  "warm_candidates tenantID profileID rows =
     order_by (\<lambda>i. desc_nulls_first (ai_LastHeartbeat i))
       (filter (\<lambda>i. ai_TenantID i = tenantID \<and> ai_ProfileID i = Some profileID \<and> ai_State i = ''warm'') rows)"

definition claim_stmt ::
  "string \<Rightarrow> string \<Rightarrow> 'a agent_db_scheme \<Rightarrow> AgentInstance result \<times> 'a agent_db_scheme" where
  "claim_stmt tenantID profileID d =
     (case warm_candidates tenantID profileID (agent_instances d) of
        [] \<Rightarrow> (Inl ErrNoRows, d)
      | i # _ \<Rightarrow>
          (Inr (i\<lparr>ai_State := ''active'', ai_ClaimedAt := Some (clock d)\<rparr>),
           d\<lparr>agent_instances := update_where (\<lambda>j. ai_ID j = ai_ID i)
                (\<lambda>j. j\<lparr>ai_State := ''active'', ai_ClaimedAt := Some (clock d)\<rparr>) (agent_instances d)\<rparr>))"

definition ClaimInstance ::
  "string \<Rightarrow> string \<Rightarrow> 'a agent_db_scheme \<Rightarrow> AgentInstance option result \<times> 'a agent_db_scheme" where
  "ClaimInstance tenantID profileID d =
     (case statement (claim_stmt tenantID profileID) d of
        (row, d') \<Rightarrow>
          (case scanInstance row of
             Inl err \<Rightarrow> if isNoRows err then (Inr None, d') else (Inl err, d')
           | Inr inst \<Rightarrow> (Inr (Some inst), d')))"

definition ReleaseInstance :: "string \<Rightarrow> 'a agent_db_scheme \<Rightarrow> unit result \<times> 'a agent_db_scheme" where
  "ReleaseInstance uid = statement (\<lambda>d.
     (Inr (), d\<lparr>agent_instances := update_where (\<lambda>i. ai_ID i = uid)
        (\<lambda>i. i\<lparr>ai_State := ''warm'', ai_ReleasedAt := Some (clock d), ai_ClaimedAt := None\<rparr>)
        (agent_instances d)\<rparr>))"

definition Heartbeat :: "string \<Rightarrow> 'a agent_db_scheme \<Rightarrow> unit result \<times> 'a agent_db_scheme" where
  "Heartbeat uid = statement (\<lambda>d.
     (Inr (), d\<lparr>agent_instances := update_where (\<lambda>i. ai_ID i = uid)
        (\<lambda>i. i\<lparr>ai_LastHeartbeat := Some (clock d)\<rparr>) (agent_instances d)\<rparr>))"

text \<open>The partial unique index on \<open>pod_name\<close> (migration 006).\<close>

definition pod_taken :: "AgentInstance list \<Rightarrow> string \<Rightarrow> string \<Rightarrow> bool" where
  "pod_taken rows uid podName = list_ex (\<lambda>i. ai_ID i \<noteq> uid \<and> ai_PodName i = Some podName) rows"

definition SetPod ::
  "string \<Rightarrow> string \<Rightarrow> string \<Rightarrow> 'a agent_db_scheme \<Rightarrow> unit result \<times> 'a agent_db_scheme" where
  "SetPod uid podName namespace = statement (\<lambda>d.
     if list_ex (\<lambda>i. ai_ID i = uid) (agent_instances d) \<and> pod_taken (agent_instances d) uid podName
     then (Inl unique_violation, d)
     else (Inr (), d\<lparr>agent_instances := update_where (\<lambda>i. ai_ID i = uid)
        (\<lambda>i. i\<lparr>ai_PodName := Some podName, ai_PodNamespace := Some namespace,
               ai_State := ''warm'', ai_LastHeartbeat := Some (clock d)\<rparr>) (agent_instances d)\<rparr>))"

definition GetInstance :: "string \<Rightarrow> 'a agent_db_scheme \<Rightarrow> AgentInstance result \<times> 'a agent_db_scheme" where
  "GetInstance uid d =
     (case statement (\<lambda>d. (one_row (select_one (\<lambda>i. ai_ID i = uid) (agent_instances d)), d)) d of
        (row, d') \<Rightarrow> (scanInstance row, d'))"

definition GetInstanceByPodName ::
  "string \<Rightarrow> 'a agent_db_scheme \<Rightarrow> AgentInstance result \<times> 'a agent_db_scheme" where
  "GetInstanceByPodName podName d =
     (case statement (\<lambda>d. (one_row (select_one (\<lambda>i. ai_PodName i = Some podName) (agent_instances d)), d)) d of
        (row, d') \<Rightarrow> (scanInstance row, d'))"

text \<open>\<open>INSERT ... ON CONFLICT (pod_name) DO UPDATE\<close>: an active instance stays active.\<close>

definition upsert_stmt ::
  "string \<Rightarrow> string option \<Rightarrow> string \<Rightarrow> string \<Rightarrow> string \<Rightarrow> 'a agent_db_scheme \<Rightarrow>
   string result \<times> 'a agent_db_scheme" where
  "upsert_stmt tenantID profileID podName namespace state d =
     (case select_one (\<lambda>i. ai_PodName i = Some podName) (agent_instances d) of
        Some old \<Rightarrow>
          (Inr (ai_ID old), d\<lparr>agent_instances :=
             update_where (\<lambda>i. ai_PodName i = Some podName)
               (\<lambda>i. i\<lparr>ai_LastHeartbeat := Some (clock d),
                      ai_State := (if ai_State i = ''active'' then ''active'' else state)\<rparr>)
               (agent_instances d)\<rparr>)
      | None \<Rightarrow>
          (case new_uuid d of
             (uid, d1) \<Rightarrow>
               (Inr uid, d1\<lparr>agent_instances := agent_instances d1 @
                  [\<lparr>ai_ID = uid, ai_TenantID = tenantID, ai_ProfileID = profileID,
                    ai_PodName = Some podName, ai_PodNamespace = Some namespace, ai_State = state,
                    ai_ClaimedAt = None, ai_ReleasedAt = None,
                    ai_LastHeartbeat = Some (clock d), ai_CreatedAt = clock d\<rparr>]\<rparr>)))"

definition UpsertInstanceByPodName ::
  "string \<Rightarrow> string option \<Rightarrow> string \<Rightarrow> string \<Rightarrow> string \<Rightarrow> 'a agent_db_scheme \<Rightarrow>
   string result \<times> 'a agent_db_scheme" where
  "UpsertInstanceByPodName tenantID profileID podName namespace state d =
     (case statement (upsert_stmt tenantID profileID podName namespace state) d of
        (r, d') \<Rightarrow> (wrap_err ''upsert instance by pod'' r, d'))"

lemmas agent_repo_defs = CreateProfile_def GetProfile_def ListProfiles_def UpdateProfile_def
  DeleteProfile_def GetProfileByName_def CreateInstance_def ClaimInstance_def ReleaseInstance_def
  Heartbeat_def SetPod_def GetInstance_def GetInstanceByPodName_def UpsertInstanceByPodName_def

section \<open>The tables stay well-formed\<close>

text \<open>Ids are drawn values and pairwise different, no pod name occurs twice, states are legal.\<close>

definition pod_names :: "AgentInstance list \<Rightarrow> string list" where
  "pod_names rows = List.map_filter id (map ai_PodName rows)"

definition instances_inv :: "'a agent_db_scheme \<Rightarrow> bool" where
  "instances_inv d \<longleftrightarrow>
     inj (uuids d) \<and>
     distinct (map ai_ID (agent_instances d)) \<and>
     set (map ai_ID (agent_instances d)) \<subseteq> uuids d ` {..<uuid_count d} \<and>
     distinct (pod_names (agent_instances d)) \<and>
     set (map ai_State (agent_instances d)) \<subseteq> {''active'', ''warm'', ''cold''}"

lemma instances_inv_faults [simp]: "instances_inv (d\<lparr>faults := fs\<rparr>) = instances_inv d"
  by (simp add: instances_inv_def)

lemma set_pod_names: "set (pod_names rows) = {p. \<exists>i \<in> set rows. ai_PodName i = Some p}"
  by (force simp: pod_names_def List.map_filter_def)

lemma pod_names_append [simp]:
  "pod_names (rows @ [r]) = pod_names rows @ (case ai_PodName r of None \<Rightarrow> [] | Some p \<Rightarrow> [p])"
  by (simp add: pod_names_def List.map_filter_def split: option.splits)

text \<open>An update that keeps ids and pod names and sets a legal state.\<close>

lemma instances_inv_update:
  assumes "instances_inv d"
    and "\<And>i. ai_ID (f i) = ai_ID i" "\<And>i. ai_PodName (f i) = ai_PodName i"
    and "\<And>i. i \<in> set (agent_instances d) \<Longrightarrow> ai_State (f i) \<in> {''active'', ''warm'', ''cold''}"
  shows "instances_inv (d\<lparr>agent_instances := update_where P f (agent_instances d)\<rparr>)"
proof -
  have "map ai_ID (update_where P f rows) = map ai_ID rows"
    "pod_names (update_where P f rows) = pod_names rows" for rows
    using assms(2,3) by (simp_all add: pod_names_def map_update_where_key)
  moreover have "set (map ai_State (update_where P f (agent_instances d))) \<subseteq> {''active'', ''warm'', ''cold''}"
    using assms(1,4) by (auto simp: instances_inv_def set_update_where)
  ultimately show ?thesis
    using assms(1) unfolding instances_inv_def by simp
qed


lemma instances_inv_insert:
  assumes "instances_inv d" "ai_ID r = uuids d (uuid_count d)"
    and "ai_State r \<in> {''active'', ''warm'', ''cold''}"
    and "\<And>p. ai_PodName r = Some p \<Longrightarrow> p \<notin> set (pod_names (agent_instances d))"
  shows "instances_inv (d\<lparr>uuid_count := Suc (uuid_count d), agent_instances := agent_instances d @ [r]\<rparr>)"
proof -
  have "uuids d (uuid_count d) \<notin> set (map ai_ID (agent_instances d))"
    using assms(1) by (intro fresh_uuid) (simp_all add: instances_inv_def)
  with assms show ?thesis
    by (auto simp: instances_inv_def lessThan_Suc split: option.splits)
qed

text \<open>The operations that change instances, with the states the code passes to the upsert.\<close>

inductive instance_step :: "'a agent_db_scheme \<Rightarrow> 'a agent_db_scheme \<Rightarrow> bool" where
  is_create: "instance_step d (snd (CreateInstance t p d))"
| is_claim: "instance_step d (snd (ClaimInstance t pid d))"
| is_release: "instance_step d (snd (ReleaseInstance i d))"
| is_heartbeat: "instance_step d (snd (Heartbeat i d))"
| is_setpod: "instance_step d (snd (SetPod i pn ns d))"
| is_upsert: "st \<in> {''active'', ''warm'', ''cold''} \<Longrightarrow>
    instance_step d (snd (UpsertInstanceByPodName t p pn ns st d))"
| is_delprofile: "instance_step d (snd (DeleteProfile pid d))"

lemma statement_instances_inv:
  assumes "instances_inv d" "\<And>d. instances_inv d \<Longrightarrow> instances_inv (snd (f d))"
  shows "instances_inv (snd (statement f d))"
  using assms by (intro statement_preserves [where P = instances_inv]) simp_all

lemma legal_state: "instances_inv d \<Longrightarrow> i \<in> set (agent_instances d) \<Longrightarrow>
    ai_State i \<in> {''active'', ''warm'', ''cold''}"
  by (auto simp: instances_inv_def)

lemma claim_stmt_inv: "instances_inv d \<Longrightarrow> instances_inv (snd (claim_stmt t p d))"
  by (simp add: claim_stmt_def instances_inv_update split: list.splits)

lemma upsert_stmt_inv:
  assumes "instances_inv d" "st \<in> {''active'', ''warm'', ''cold''}"
  shows "instances_inv (snd (upsert_stmt t p pn ns st d))"
proof (cases "select_one (\<lambda>i. ai_PodName i = Some pn) (agent_instances d)")
  case None
  then have "pn \<notin> set (pod_names (agent_instances d))"
    by (auto simp: select_one_None set_pod_names)
  with None assms show ?thesis
    by (auto simp: upsert_stmt_def new_uuid_def intro!: instances_inv_insert)
next
  case (Some old)
  let ?f = "\<lambda>i. i\<lparr>ai_LastHeartbeat := Some (clock d),
                   ai_State := (if ai_State i = ''active'' then ''active'' else st)\<rparr>"
  have "instances_inv (d\<lparr>agent_instances := update_where (\<lambda>i. ai_PodName i = Some pn) ?f (agent_instances d)\<rparr>)"
    using assms by (intro instances_inv_update) simp_all
  with Some show ?thesis by (simp add: upsert_stmt_def)
qed

text \<open>Giving a pod name to one instance keeps pod names apart, since the index refuses a name that
  another instance has.\<close>

lemma pod_names_Cons:
  "pod_names (r # rows) = (case ai_PodName r of None \<Rightarrow> [] | Some p \<Rightarrow> [p]) @ pod_names rows"
  by (simp add: pod_names_def List.map_filter_simps split: option.splits)

lemma update_where_none: "(\<And>r. r \<in> set rows \<Longrightarrow> \<not> P r) \<Longrightarrow> update_where P f rows = rows"
  by (simp add: update_where_def map_idI)

lemma pod_names_setpod:
  assumes "distinct (map ai_ID rows)" "distinct (pod_names rows)" "\<not> pod_taken rows i pn"
    and g: "\<And>j. ai_PodName (g j) = Some pn"
  shows "distinct (pod_names (update_where (\<lambda>j. ai_ID j = i) g rows))"
  using assms(1-3)
proof (induction rows)
  case (Cons r rows)
  show ?case
  proof (cases "ai_ID r = i")
    case True
    with Cons.prems have others: "ai_ID j \<noteq> i" if "j \<in> set rows" for j
      using that by (metis distinct.simps(2) imageI list.set_map list.simps(9))
    then have "update_where (\<lambda>j. ai_ID j = i) g rows = rows"
      by (intro update_where_none)
    moreover have "pn \<notin> set (pod_names rows)"
      using Cons.prems(3) others by (auto simp: set_pod_names pod_taken_def list_ex_iff)
    ultimately show ?thesis
      using Cons.prems True by (simp add: update_where_Cons pod_names_Cons g)
  next
    case False
    have "set (pod_names (update_where (\<lambda>j. ai_ID j = i) g rows)) \<subseteq> insert pn (set (pod_names rows))"
      by (auto simp: set_pod_names set_update_where g split: if_splits)
    moreover have "ai_PodName r \<noteq> Some pn"
      using Cons.prems(3) False by (simp add: pod_taken_def)
    ultimately show ?thesis
      using Cons False
      by (auto simp: update_where_Cons pod_names_Cons pod_taken_def split: option.splits)
  qed
qed simp

lemma setpod_stmt_inv:
  assumes d: "instances_inv d" and "\<not> pod_taken (agent_instances d) i pn"
    and g: "\<And>j. ai_PodName (g j) = Some pn" "\<And>j. ai_ID (g j) = ai_ID j" "\<And>j. ai_State (g j) = ''warm''"
  shows "instances_inv (d\<lparr>agent_instances := update_where (\<lambda>j. ai_ID j = i) g (agent_instances d)\<rparr>)"
proof -
  have "distinct (pod_names (update_where (\<lambda>j. ai_ID j = i) g (agent_instances d)))"
    using assms by (intro pod_names_setpod) (auto simp: instances_inv_def)
  moreover have "set (map ai_State (update_where (\<lambda>j. ai_ID j = i) g (agent_instances d)))
      \<subseteq> {''active'', ''warm'', ''cold''}"
    using d g(3) by (auto simp: instances_inv_def set_update_where)
  moreover have "map ai_ID (update_where (\<lambda>j. ai_ID j = i) g (agent_instances d)) = map ai_ID (agent_instances d)"
    by (simp add: map_update_where_key g)
  ultimately show ?thesis using d by (simp add: instances_inv_def)
qed

lemma setpod_unknown: "\<not> list_ex (\<lambda>j. ai_ID j = i) rows \<Longrightarrow> update_where (\<lambda>j. ai_ID j = i) g rows = rows"
  by (rule update_where_none) (auto simp: list_ex_iff)

lemma SetPod_inv: "instances_inv d \<Longrightarrow> instances_inv (snd (SetPod i pn ns d))"
  unfolding SetPod_def
proof (erule statement_instances_inv)
  fix d :: "'a agent_db_scheme"
  assume d: "instances_inv d"
  let ?g = "\<lambda>i. i\<lparr>ai_PodName := Some pn, ai_PodNamespace := Some ns,
               ai_State := ''warm'', ai_LastHeartbeat := Some (clock d)\<rparr>"
  show "instances_inv (snd (if list_ex (\<lambda>j. ai_ID j = i) (agent_instances d) \<and> pod_taken (agent_instances d) i pn
     then (Inl unique_violation, d)
     else (Inr (), d\<lparr>agent_instances := update_where (\<lambda>j. ai_ID j = i) ?g (agent_instances d)\<rparr>)))"
    using d setpod_unknown [of i "agent_instances d" ?g] setpod_stmt_inv [OF d, of i pn ?g]
    by (cases "list_ex (\<lambda>j. ai_ID j = i) (agent_instances d)") simp_all
qed

lemma instance_steps_inv:
  assumes "instance_step\<^sup>*\<^sup>* d d'" "instances_inv d"
  shows "instances_inv d'"
  using assms
proof (induction rule: rtranclp_induct)
  case (step y z)
  from step.hyps(2) step.IH [OF step.prems] show ?case
  proof (induction rule: instance_step.induct)
    case (is_create d t p)
    then show ?case unfolding CreateInstance_def case_prod_beta snd_conv
      by (intro statement_instances_inv) (auto simp: new_uuid_def Let_def intro!: instances_inv_insert)
  next
    case (is_claim d t pid)
    then have "instances_inv (snd (statement (claim_stmt t pid) d))"
      by (intro statement_instances_inv claim_stmt_inv)
    then show ?case by (simp add: ClaimInstance_def case_prod_beta split: sum.split)
  next
    case (is_upsert st d t p pn ns)
    then have "instances_inv (snd (statement (upsert_stmt t p pn ns st) d))"
      by (intro statement_instances_inv upsert_stmt_inv)
    then show ?case by (simp add: UpsertInstanceByPodName_def case_prod_beta)
  next
    case (is_delprofile d pid)
    then show ?case unfolding DeleteProfile_def
    proof (rule statement_instances_inv)
      fix d :: "'a agent_db_scheme"
      assume d: "instances_inv d"
      have "instances_inv (d\<lparr>agent_instances := update_where (\<lambda>i. ai_ProfileID i = Some pid)
                  (\<lambda>i. i\<lparr>ai_ProfileID := None\<rparr>) (agent_instances d)\<rparr>)"
        using d legal_state [OF d] by (intro instances_inv_update) simp_all
      then show "instances_inv (snd (Inr () :: unit result,
          d\<lparr>agent_profiles := delete_where (\<lambda>p. ap_ID p = pid) (agent_profiles d),
            agent_instances := update_where (\<lambda>i. ai_ProfileID i = Some pid)
              (\<lambda>i. i\<lparr>ai_ProfileID := None\<rparr>) (agent_instances d)\<rparr>))"
        by (simp add: instances_inv_def)
    qed
  next
    case (is_heartbeat d i)
    then show ?case unfolding Heartbeat_def
      by (elim statement_instances_inv) (simp add: instances_inv_update legal_state [simplified])
  next
    case (is_release d i)
    then show ?case unfolding ReleaseInstance_def
      by (elim statement_instances_inv) (auto intro!: instances_inv_update)
  qed (rule SetPod_inv)
qed simp

text \<open>The table of agent instances stays well-formed under every operation that writes it,
  whatever statements the database refuses: ids are unique values of \<open>gen_random_uuid()\<close>, no two
  instances share a pod name, and every state is one of the three legal ones.\<close>

theorem instance_table_invariant:
  assumes "instance_step\<^sup>*\<^sup>* d d'" "instances_inv d"
  shows "instances_inv d'"
  using assms by (rule instance_steps_inv)

section \<open>Claiming\<close>

text \<open>The error of an empty claim is wrapped before it is compared, so it never matches.\<close>

lemma isNoRows_scan [simp]: "\<not> isNoRows (Wrap ''scan agent instance'' e)"
  by (simp add: isNoRows_def)

lemma ClaimInstance_result:
  "ClaimInstance t p d =
     (case statement (claim_stmt t p) d of
        (Inl e, d') \<Rightarrow> (Inl (Wrap ''scan agent instance'' e), d')
      | (Inr i, d') \<Rightarrow> (Inr (Some i), d'))"
  by (auto simp: ClaimInstance_def scanInstance_def split: prod.splits sum.splits)

text \<open>\<open>ClaimInstance\<close> never reports the absence of a warm instance as \<open>nil, nil\<close>, which its callers
  are written for: with no refused statement and no warm instance it returns the wrapped
  \<open>no rows\<close> error, and it returns \<open>Inr None\<close> in no case at all.\<close>

theorem claim_without_warm_instance_is_an_error:
  "fst (ClaimInstance t p d) \<noteq> Inr None \<and>
   (faults d = [] \<and> warm_candidates t p (agent_instances d) = [] \<longrightarrow>
      ClaimInstance t p d = (Inl (Wrap ''scan agent instance'' ErrNoRows), d))"
  by (auto simp: ClaimInstance_result claim_stmt_def split: prod.splits sum.splits)

theorem claim_without_warm_instance_is_an_error_witness:
  "fst (ClaimInstance ''t'' ''p'' \<lparr>clock = 0, faults = [], uuids = (\<lambda>n. replicate n CHR ''u''),
      uuid_count = 0, agent_profiles = [], agent_instances = []\<rparr>) =
   Inl (Wrap ''scan agent instance'' ErrNoRows)"
  using claim_without_warm_instance_is_an_error [of "''t''" "''p''" "\<lparr>clock = 0, faults = [],
      uuids = (\<lambda>n. replicate n CHR ''u''), uuid_count = 0, agent_profiles = [], agent_instances = []\<rparr>"]
  by (simp add: warm_candidates_def order_by_def)

text \<open>What a successful claim does, as other components use it.\<close>

definition warm_for :: "string \<Rightarrow> string \<Rightarrow> AgentInstance \<Rightarrow> bool" where
  "warm_for t p i \<longleftrightarrow> ai_TenantID i = t \<and> ai_ProfileID i = Some p \<and> ai_State i = ''warm''"

definition claimed_row :: "time \<Rightarrow> AgentInstance \<Rightarrow> AgentInstance" where
  "claimed_row now i = i\<lparr>ai_State := ''active'', ai_ClaimedAt := Some now\<rparr>"

lemma set_warm_candidates: "set (warm_candidates t p rows) = {i \<in> set rows. warm_for t p i}"
  by (simp add: warm_candidates_def warm_for_def)

lemma warm_candidates_empty: "warm_candidates t p rows = [] \<longleftrightarrow> (\<forall>i \<in> set rows. \<not> warm_for t p i)"
proof -
  have "warm_candidates t p rows = [] \<longleftrightarrow> set (warm_candidates t p rows) = {}" by simp
  then show ?thesis by (auto simp: set_warm_candidates)
qed

lemma claim_stmt_Inr:
  assumes "claim_stmt t p d = (Inr inst, d')"
  obtains i where "i \<in> set (agent_instances d)" "warm_for t p i"
    "\<forall>j \<in> set (agent_instances d). warm_for t p j \<longrightarrow>
       desc_nulls_first (ai_LastHeartbeat i) \<le> desc_nulls_first (ai_LastHeartbeat j)"
    "inst = claimed_row (clock d) i"
    "d' = d\<lparr>agent_instances := update_where (\<lambda>j. ai_ID j = ai_ID i) (claimed_row (clock d)) (agent_instances d)\<rparr>"
proof (cases "warm_candidates t p (agent_instances d)")
  case (Cons i rest)
  have "i \<in> {i \<in> set (agent_instances d). warm_for t p i}"
    using Cons set_warm_candidates [of t p "agent_instances d"] by auto
  moreover have "\<forall>j \<in> set (agent_instances d). warm_for t p j \<longrightarrow>
       desc_nulls_first (ai_LastHeartbeat i) \<le> desc_nulls_first (ai_LastHeartbeat j)"
    using order_by_hd [OF Cons [unfolded warm_candidates_def]] by (simp add: warm_for_def)
  ultimately show ?thesis
    using that [of i] Cons assms by (simp add: claim_stmt_def claimed_row_def [abs_def])
qed (use assms in \<open>simp add: claim_stmt_def\<close>)

lemma claim_takes_one_warm_row:
  assumes "ClaimInstance t p d = (Inr (Some inst), d')"
  shows "\<exists>i \<in> set (agent_instances d). warm_for t p i \<and> inst = claimed_row (clock d) i \<and>
    agent_instances d' = update_where (\<lambda>j. ai_ID j = ai_ID i) (claimed_row (clock d)) (agent_instances d) \<and>
    (\<forall>j \<in> set (agent_instances d). warm_for t p j \<longrightarrow>
       desc_nulls_first (ai_LastHeartbeat i) \<le> desc_nulls_first (ai_LastHeartbeat j))"
proof -
  have "statement (claim_stmt t p) d = (Inr inst, d')"
    using assms by (auto simp: ClaimInstance_result split: prod.splits sum.splits)
  then show ?thesis
  proof (cases rule: statement_cases)
    case (executed fs)
    then show ?thesis by (elim claim_stmt_Inr) auto
  qed simp
qed

lemma update_the_row:
  assumes "distinct (map k rows)" "i \<in> set rows"
  obtains xs ys where "rows = xs @ i # ys" "update_where (\<lambda>j. k j = k i) f rows = xs @ f i # ys"
proof -
  obtain xs ys where rows: "rows = xs @ i # ys" using assms(2) by (meson split_list)
  have "k j \<noteq> k i" if "j \<in> set xs \<union> set ys" for j
  proof
    assume "k j = k i"
    then have "k i \<in> k ` (set xs \<union> set ys)" using that by (metis imageI)
    then show False using assms(1) unfolding rows by auto
  qed
  then have "map (\<lambda>j. if k j = k i then f j else j) zs = zs" if "set zs \<subseteq> set xs \<union> set ys" for zs
    using that by (induction zs) auto
  then show ?thesis using that [OF rows] by (simp add: rows update_where_def)
qed

lemma desc_nulls_first_le:
  "desc_nulls_first a \<le> desc_nulls_first b \<longleftrightarrow> (case a of None \<Rightarrow> True | Some x \<Rightarrow> (case b of None \<Rightarrow> False | Some y \<Rightarrow> y \<le> x))"
  by (auto simp: desc_nulls_first_def split: option.splits)

text \<open>C13: a claim, on every outcome. In a table with distinct ids a claim that succeeds changes exactly one
  row, a warm instance of the tenant and profile, to active and claimed now, and returns it.
  The row is one without a heartbeat if a warm one exists, since \<open>ORDER BY last_heartbeat
  DESC\<close> puts \<open>NULL\<close> first, and otherwise one whose heartbeat is the latest. A claim that does
  not succeed changes no table: the statement was refused, or there is no warm instance of
  the tenant and profile. It always reports an error then, never \<open>nil, nil\<close>.\<close>

theorem claim_takes_one_warm_instance:
  assumes "instances_inv d" "ClaimInstance t p d = (r, d')"
  shows "case r of
    Inr (Some inst) \<Rightarrow>
      \<exists>xs i ys fs. agent_instances d = xs @ i # ys \<and> warm_for t p i \<and> inst = claimed_row (clock d) i \<and>
        d' = d\<lparr>faults := fs, agent_instances := xs @ inst # ys\<rparr> \<and>
        (\<forall>j \<in> set xs \<union> set ys. warm_for t p j \<longrightarrow>
           (case ai_LastHeartbeat i of None \<Rightarrow> True | Some x \<Rightarrow> \<exists>y \<le> x. ai_LastHeartbeat j = Some y))
  | Inr None \<Rightarrow> False
  | Inl err \<Rightarrow>
      \<exists>e fs. err = Wrap ''scan agent instance'' e \<and> d' = d\<lparr>faults := fs\<rparr> \<and>
        (faults d = Some e # fs \<or> e = ErrNoRows \<and> (\<forall>i \<in> set (agent_instances d). \<not> warm_for t p i))"
proof -
  obtain res where st: "statement (claim_stmt t p) d = (res, d')" and
    r: "r = (case res of Inl e \<Rightarrow> Inl (Wrap ''scan agent instance'' e) | Inr i \<Rightarrow> Inr (Some i))"
    using assms(2) by (auto simp: ClaimInstance_result split: prod.splits sum.splits)
  show ?thesis
  proof (cases res)
    case (Inl e)
    from st show ?thesis
    proof (cases rule: statement_cases)
      case (executed fs)
      then have "e = ErrNoRows" "d' = d\<lparr>faults := fs\<rparr>" "warm_candidates t p (agent_instances d) = []"
        using Inl by (auto simp: claim_stmt_def split: list.splits)
      then show ?thesis unfolding r using Inl by (simp add: warm_candidates_empty) blast
    next
      case (refused e' fs)
      then show ?thesis unfolding r using Inl by auto
    qed
  next
    case (Inr inst)
    from st show ?thesis
    proof (cases rule: statement_cases)
      case (executed fs)
      then have "claim_stmt t p (d\<lparr>faults := fs\<rparr>) = (Inr inst, d')" using Inr by simp
      then obtain i where i: "i \<in> set (agent_instances d)" "warm_for t p i" "inst = claimed_row (clock d) i"
        "\<forall>j \<in> set (agent_instances d). warm_for t p j \<longrightarrow>
           desc_nulls_first (ai_LastHeartbeat i) \<le> desc_nulls_first (ai_LastHeartbeat j)"
        "d' = d\<lparr>faults := fs, agent_instances := update_where (\<lambda>j. ai_ID j = ai_ID i) (claimed_row (clock d)) (agent_instances d)\<rparr>"
        by (rule claim_stmt_Inr) simp
      obtain xs ys where split: "agent_instances d = xs @ i # ys"
        "update_where (\<lambda>j. ai_ID j = ai_ID i) (claimed_row (clock d)) (agent_instances d) = xs @ claimed_row (clock d) i # ys"
        using assms(1) update_the_row [OF _ i(1), of ai_ID] by (auto simp: instances_inv_def)
      have "\<forall>j \<in> set xs \<union> set ys. warm_for t p j \<longrightarrow>
          (case ai_LastHeartbeat i of None \<Rightarrow> True | Some x \<Rightarrow> \<exists>y \<le> x. ai_LastHeartbeat j = Some y)"
        using i(4) unfolding split(1) desc_nulls_first_le by (auto split: option.splits)
      with i split Inr show ?thesis unfolding r by auto
    qed (simp add: Inr)
  qed
qed

definition warm_row :: "string \<Rightarrow> time \<Rightarrow> AgentInstance" where
  "warm_row uid hb = \<lparr>ai_ID = uid, ai_TenantID = ''t'', ai_ProfileID = Some ''p'', ai_PodName = None,
     ai_PodNamespace = None, ai_State = ''warm'', ai_ClaimedAt = None, ai_ReleasedAt = None,
     ai_LastHeartbeat = Some hb, ai_CreatedAt = 0\<rparr>"

definition two_warm :: agent_db where
  "two_warm = \<lparr>clock = 10, faults = [], uuids = (\<lambda>n. replicate (Suc n) CHR ''u''), uuid_count = 2,
     agent_profiles = [], agent_instances = [warm_row ''u'' 3, warm_row ''uu'' 7]\<rparr>"

lemma two_warm_claim:
  "ClaimInstance ''t'' ''p'' two_warm =
     (Inr (Some (claimed_row 10 (warm_row ''uu'' 7))),
      two_warm\<lparr>agent_instances := [warm_row ''u'' 3, claimed_row 10 (warm_row ''uu'' 7)]\<rparr>)"
  by (simp add: ClaimInstance_result claim_stmt_def two_warm_def warm_candidates_def order_by_def
      warm_row_def desc_nulls_first_def claimed_row_def update_where_def)


lemma two_warm_inv: "instances_inv two_warm"
proof -
  have "inj (\<lambda>n. replicate (Suc n) CHR ''u'')" by (rule injI) (metis length_replicate nat.inject)
  moreover have "{''u'', ''uu''} \<subseteq> (\<lambda>n. replicate (Suc n) CHR ''u'') ` {..<2}"
  proof -
    have "''u'' = replicate (Suc 0) CHR ''u''" "''uu'' = replicate (Suc (Suc 0)) CHR ''u''"
      "0 \<in> {..<2::nat}" "Suc 0 \<in> {..<2::nat}"
      by simp_all
    then show ?thesis by blast
  qed
  ultimately show ?thesis
    by (simp add: instances_inv_def two_warm_def warm_row_def pod_names_def List.map_filter_simps)
qed

theorem claim_takes_one_warm_instance_witness:
  "\<exists>xs i ys fs. [warm_row ''u'' 3, warm_row ''uu'' 7] = xs @ i # ys \<and> warm_for ''t'' ''p'' i \<and>
     claimed_row 10 (warm_row ''uu'' 7) = claimed_row 10 i \<and>
     two_warm\<lparr>agent_instances := [warm_row ''u'' 3, claimed_row 10 (warm_row ''uu'' 7)]\<rparr> =
       two_warm\<lparr>faults := fs, agent_instances := xs @ claimed_row 10 (warm_row ''uu'' 7) # ys\<rparr>"
proof -
  have rows: "agent_instances two_warm = [warm_row ''u'' 3, warm_row ''uu'' 7]" "clock two_warm = 10"
    by (simp_all add: two_warm_def)
  from claim_takes_one_warm_instance [OF two_warm_inv two_warm_claim, unfolded rows] show ?thesis
    unfolding sum.case option.case by blast
qed

theorem instance_table_invariant_witness:
  "instances_inv (snd (ReleaseInstance ''uu'' (snd (ClaimInstance ''t'' ''p'' two_warm))))"
proof (rule instance_table_invariant [OF _ two_warm_inv])
  show "instance_step\<^sup>*\<^sup>* two_warm (snd (ReleaseInstance ''uu'' (snd (ClaimInstance ''t'' ''p'' two_warm))))"
    by (meson is_claim is_release converse_rtranclp_into_rtranclp rtranclp.rtrancl_refl)
qed

end
