(* ===== verification/Task_Repo.thy ===== *)
theory Task_Repo
  imports Agent_Repo
begin

text \<open>
  Tasks, the records that track one agent run: \<^verbatim>\<open>internal/db/task_repo.go\<close> on the table \<open>tasks\<close> of
  migration 001.
\<close>

record Task =
  tk_ID :: string
  tk_TenantID :: string
  tk_ConversationID :: "string option"
  tk_AgentID :: "string option"
  tk_Title :: string
  tk_Status :: string
  tk_Result :: "string option"
  tk_Error :: "string option"
  tk_CreatedAt :: time
  tk_UpdatedAt :: time
  tk_CompletedAt :: "time option"

record task_db = agent_db +
  tasks :: "Task list"

definition scanTask :: "Task result \<Rightarrow> Task result" where
  "scanTask row = wrap_err ''scan task'' row"

definition Task_Create ::
  "string \<Rightarrow> string option \<Rightarrow> string \<Rightarrow> 'a task_db_scheme \<Rightarrow> Task result \<times> 'a task_db_scheme" where
  "Task_Create tenantID conversationID title d =
     (case insert_new (\<lambda>d uid.
          \<lparr>tk_ID = uid, tk_TenantID = tenantID, tk_ConversationID = conversationID,
           tk_AgentID = None, tk_Title = title, tk_Status = ''pending'',
           tk_Result = None, tk_Error = None, tk_CreatedAt = clock d,
           tk_UpdatedAt = clock d, tk_CompletedAt = None\<rparr>)
        (\<lambda>row d. d\<lparr>tasks := tasks d @ [row]\<rparr>) d of
        (row, d') \<Rightarrow> (scanTask row, d'))"

definition Task_Get :: "string \<Rightarrow> 'a task_db_scheme \<Rightarrow> Task result \<times> 'a task_db_scheme" where
  "Task_Get uid d =
     (case query (\<lambda>d. one_row (select_one (\<lambda>t. tk_ID t = uid) (tasks d))) d of
        (row, d') \<Rightarrow> (scanTask row, d'))"

definition Task_ListByTenant ::
  "string \<Rightarrow> int \<Rightarrow> 'a task_db_scheme \<Rightarrow> Task list result \<times> 'a task_db_scheme" where
  "Task_ListByTenant tenantID limit0 d =
     (let limit = (if limit0 \<le> 0 then 50 else limit0) in
      (case query (\<lambda>d. Inr (limit_rows limit
              (order_by (\<lambda>t. - tk_CreatedAt t) (filter (\<lambda>t. tk_TenantID t = tenantID) (tasks d))))) d of
         (rows, d') \<Rightarrow> (wrap_err ''list tasks'' rows, d')))"

definition update_task :: "string \<Rightarrow> (Task \<Rightarrow> Task) \<Rightarrow> 'a task_db_scheme \<Rightarrow> 'a task_db_scheme" where
  "update_task uid f d = d\<lparr>tasks := update_where (\<lambda>t. tk_ID t = uid) f (tasks d)\<rparr>"

definition SetRunning :: "string \<Rightarrow> string \<Rightarrow> 'a task_db_scheme \<Rightarrow> unit result \<times> 'a task_db_scheme" where
  "SetRunning uid agentID = exec (\<lambda>d. update_task uid
     (\<lambda>t. t\<lparr>tk_Status := ''running'', tk_AgentID := Some agentID, tk_UpdatedAt := clock d\<rparr>) d)"

definition Complete :: "string \<Rightarrow> string \<Rightarrow> 'a task_db_scheme \<Rightarrow> unit result \<times> 'a task_db_scheme" where
  "Complete uid res = exec (\<lambda>d. update_task uid
     (\<lambda>t. t\<lparr>tk_Status := ''completed'', tk_Result := Some res, tk_UpdatedAt := clock d,
            tk_CompletedAt := Some (clock d)\<rparr>) d)"

definition Fail :: "string \<Rightarrow> string \<Rightarrow> 'a task_db_scheme \<Rightarrow> unit result \<times> 'a task_db_scheme" where
  "Fail uid errMsg = exec (\<lambda>d. update_task uid
     (\<lambda>t. t\<lparr>tk_Status := ''failed'', tk_Error := Some errMsg, tk_UpdatedAt := clock d,
            tk_CompletedAt := Some (clock d)\<rparr>) d)"

definition Cancel :: "string \<Rightarrow> 'a task_db_scheme \<Rightarrow> unit result \<times> 'a task_db_scheme" where
  "Cancel uid = exec (\<lambda>d. update_task uid
     (\<lambda>t. t\<lparr>tk_Status := ''cancelled'', tk_UpdatedAt := clock d\<rparr>) d)"

lemmas task_repo_defs = Task_Create_def Task_Get_def Task_ListByTenant_def SetRunning_def Complete_def
  Fail_def Cancel_def

section \<open>The table stays well-formed\<close>

text \<open>Statuses are the five of the schema, and a task that is completed or failed has the time
  when it ended.\<close>

definition task_ok :: "Task \<Rightarrow> bool" where
  "task_ok t \<longleftrightarrow> tk_Status t \<in> {''pending'', ''running'', ''completed'', ''failed'', ''cancelled''} \<and>
     (tk_Status t \<in> {''completed'', ''failed''} \<longrightarrow> tk_CompletedAt t \<noteq> None)"

definition tasks_inv :: "'a task_db_scheme \<Rightarrow> bool" where
  "tasks_inv d \<longleftrightarrow> inj (uuids d) \<and> distinct (map tk_ID (tasks d)) \<and>
     set (map tk_ID (tasks d)) \<subseteq> uuids d ` {..<uuid_count d} \<and> (\<forall>t \<in> set (tasks d). task_ok t)"

lemma tasks_inv_faults [simp]: "tasks_inv (d\<lparr>faults := fs\<rparr>) = tasks_inv d"
  by (simp add: tasks_inv_def)

inductive task_step :: "'a task_db_scheme \<Rightarrow> 'a task_db_scheme \<Rightarrow> bool" where
  ts_create: "task_step d (snd (Task_Create t c title d))"
| ts_running: "task_step d (snd (SetRunning uid a d))"
| ts_complete: "task_step d (snd (Complete uid r d))"
| ts_fail: "task_step d (snd (Fail uid m d))"
| ts_cancel: "task_step d (snd (Cancel uid d))"

lemma tasks_inv_update:
  assumes "tasks_inv d" "\<And>t. tk_ID (f t) = tk_ID t" "\<And>t. task_ok t \<Longrightarrow> task_ok (f t)"
  shows "tasks_inv (update_task uid f d)"
  using assms(1) map_update_where_key [of tk_ID f, OF assms(2)] assms(3)
  by (auto simp: tasks_inv_def update_task_def set_update_where)

lemma tasks_inv_insert:
  assumes "tasks_inv d" "tk_ID t = uuids d (uuid_count d)" "task_ok t"
  shows "tasks_inv (d\<lparr>uuid_count := Suc (uuid_count d), tasks := tasks d @ [t]\<rparr>)"
proof -
  have "uuids d (uuid_count d) \<notin> set (map tk_ID (tasks d))"
    using assms(1) by (intro fresh_uuid) (simp_all add: tasks_inv_def)
  with assms show ?thesis by (auto simp: tasks_inv_def lessThan_Suc)
qed

lemma task_step_inv: "task_step d d' \<Longrightarrow> tasks_inv d \<Longrightarrow> tasks_inv d'"
proof (induction rule: task_step.induct)
  case (ts_create d t c title)
  then show ?case unfolding Task_Create_def case_prod_beta snd_conv
    by (intro insert_new_preserves [where P = tasks_inv]) (simp_all add: tasks_inv_insert task_ok_def)
qed (auto simp: SetRunning_def Complete_def Fail_def Cancel_def task_ok_def
    intro!: exec_preserves [where P = tasks_inv] tasks_inv_update)

text \<open>Every sequence of writes to the task table, refused statements included, keeps its ids
  unique and its statuses legal, and every task that is completed or failed has its
  completion time.\<close>

theorem task_table_invariant:
  assumes "task_step\<^sup>*\<^sup>* d d'" "tasks_inv d"
  shows "tasks_inv d'"
  using assms by (induction rule: rtranclp_induct) (auto intro: task_step_inv)

text \<open>a listing of tasks holds at most the requested number of rows (fifty when the request names
  none), only tasks of the tenant, newest first, and no task of the tenant that is left out
  is newer than one that is listed.\<close>

theorem task_listing:
  assumes "Task_ListByTenant tenant limit d = (Inr ts, d')"
  shows "int (length ts) \<le> (if limit \<le> 0 then 50 else limit) \<and>
    (\<forall>t \<in> set ts. t \<in> set (tasks d) \<and> tk_TenantID t = tenant) \<and>
    sorted (map (\<lambda>t. - tk_CreatedAt t) ts) \<and>
    (\<forall>s \<in> set (tasks d). tk_TenantID s = tenant \<and> s \<notin> set ts \<longrightarrow> (\<forall>t \<in> set ts. tk_CreatedAt s \<le> tk_CreatedAt t))"
proof -
  let ?n = "if limit \<le> 0 then 50 else limit"
  let ?rows = "order_by (\<lambda>t. - tk_CreatedAt t) (filter (\<lambda>t. tk_TenantID t = tenant) (tasks d))"
  obtain r where "query (\<lambda>d. Inr (limit_rows ?n
      (order_by (\<lambda>t. - tk_CreatedAt t) (filter (\<lambda>t. tk_TenantID t = tenant) (tasks d))))) d = (r, d')" "r = Inr ts"
    using assms by (auto simp: Task_ListByTenant_def Let_def split: prod.splits)
  then have ts: "ts = take (nat ?n) ?rows"
    by (elim query_state) (auto simp: limit_rows_def)
  have sorted: "sorted (map (\<lambda>t. - tk_CreatedAt t) ?rows)" by (rule sorted_order_by)
  have split: "?rows = ts @ drop (nat ?n) ?rows" by (simp add: ts)
  have "int (length ts) \<le> ?n" by (auto simp: ts)
  moreover have "\<forall>t \<in> set ts. t \<in> set (tasks d) \<and> tk_TenantID t = tenant"
    using set_take_subset [of "nat ?n" ?rows] by (auto simp: ts)
  moreover have "sorted (map (\<lambda>t. - tk_CreatedAt t) ts)"
    using sorted split by (metis map_append sorted_append)
  moreover have "tk_CreatedAt s \<le> tk_CreatedAt t"
    if "s \<in> set (tasks d)" "tk_TenantID s = tenant" "s \<notin> set ts" "t \<in> set ts" for s t
  proof -
    have "s \<in> set ?rows" using that(1,2) by simp
    then have "s \<in> set (drop (nat ?n) ?rows)" using that(3) split by (metis Un_iff set_append)
    moreover have "sorted (map (\<lambda>t. - tk_CreatedAt t) (ts @ drop (nat ?n) ?rows))" using sorted split by metis
    ultimately have "- tk_CreatedAt t \<le> - tk_CreatedAt s" using that(4) by (simp add: sorted_append)
    then show ?thesis by simp
  qed
  ultimately show ?thesis by blast
qed

definition one_task :: task_db where
  "one_task = snd (Task_Create ''t'' None ''job''
     \<lparr>clock = 3, faults = [], uuids = (\<lambda>n. replicate (Suc n) CHR ''u''), uuid_count = 0,
      agent_profiles = [], agent_instances = [], tasks = []\<rparr>)"

lemma one_task_inv: "tasks_inv one_task"
proof -
  have "inj (\<lambda>n. replicate (Suc n) CHR ''u'')" by (rule injI) (metis length_replicate nat.inject)
  then show ?thesis by (simp add: one_task_def Task_Create_def scanTask_def tasks_inv_def task_ok_def)
qed

theorem task_table_invariant_witness: "tasks_inv (snd (Cancel ''u'' (snd (SetRunning ''u'' ''i'' one_task))))"
proof (rule task_table_invariant [OF _ one_task_inv])
  show "task_step\<^sup>*\<^sup>* one_task (snd (Cancel ''u'' (snd (SetRunning ''u'' ''i'' one_task))))"
    by (meson ts_running ts_cancel converse_rtranclp_into_rtranclp rtranclp.rtrancl_refl)
qed

theorem task_listing_witness: "\<forall>t \<in> set (tasks one_task). t \<in> set (tasks one_task) \<and> tk_TenantID t = ''t''"
proof -
  have "Task_ListByTenant ''t'' 5 one_task = (Inr (tasks one_task), one_task)"
    by (simp add: Task_ListByTenant_def one_task_def Task_Create_def scanTask_def order_by_def limit_rows_def)
  from task_listing [OF this] show ?thesis by blast
qed

end
