(* ===== verification/Conversation_Repo.thy ===== *)
theory Conversation_Repo
  imports Task_Repo
begin

text \<open>
  Conversations and their messages: \<^verbatim>\<open>internal/db/conversation_repo.go\<close> on the tables
  \<open>conversations\<close> and \<open>messages\<close> of migration 001.
\<close>

record Conversation =
  cv_ID :: string
  cv_TenantID :: string
  cv_UserID :: "string option"
  cv_Title :: string
  cv_Status :: string
  cv_CreatedAt :: time
  cv_UpdatedAt :: time

record DB_Message =
  dm_ID :: string
  dm_ConversationID :: string
  dm_Role :: string
  dm_AuthorType :: string
  dm_AuthorID :: "string option"
  dm_AgentName :: "string option"
  dm_Content :: string               \<comment> \<open>raw JSON\<close>
  dm_ToolCallID :: "string option"
  dm_InputTokens :: int
  dm_OutputTokens :: int
  dm_CreatedAt :: time

record conv_db = task_db +
  conversations :: "Conversation list"
  messages :: "DB_Message list"

definition scanConversation :: "Conversation result \<Rightarrow> Conversation result" where
  "scanConversation row = wrap_err ''scan conversation'' row"

definition scanMessage :: "DB_Message result \<Rightarrow> DB_Message result" where
  "scanMessage row = wrap_err ''scan message'' row"

section \<open>Conversations\<close>

definition Conv_Create ::
  "string \<Rightarrow> string option \<Rightarrow> string \<Rightarrow> 'a conv_db_scheme \<Rightarrow> Conversation result \<times> 'a conv_db_scheme" where
  "Conv_Create tenantID userID title d =
     (case insert_new (\<lambda>d uid.
          \<lparr>cv_ID = uid, cv_TenantID = tenantID, cv_UserID = userID, cv_Title = title,
           cv_Status = ''active'', cv_CreatedAt = clock d, cv_UpdatedAt = clock d\<rparr>)
        (\<lambda>row d. d\<lparr>conversations := conversations d @ [row]\<rparr>) d of
        (row, d') \<Rightarrow> (scanConversation row, d'))"

definition Conv_Get :: "string \<Rightarrow> 'a conv_db_scheme \<Rightarrow> Conversation result \<times> 'a conv_db_scheme" where
  "Conv_Get uid d =
     (case query (\<lambda>d. one_row (select_one (\<lambda>c. cv_ID c = uid) (conversations d))) d of
        (row, d') \<Rightarrow> (scanConversation row, d'))"

definition Conv_ListByUser ::
  "string \<Rightarrow> string \<Rightarrow> 'a conv_db_scheme \<Rightarrow> Conversation list result \<times> 'a conv_db_scheme" where
  "Conv_ListByUser tenantID userID d =
     (case query (\<lambda>d. Inr (order_by (\<lambda>c. - cv_UpdatedAt c)
         (filter (\<lambda>c. cv_TenantID c = tenantID \<and> cv_UserID c = Some userID \<and> cv_Status c = ''active'')
            (conversations d)))) d of
        (rows, d') \<Rightarrow> (wrap_err ''list conversations'' rows, d'))"

definition update_conv :: "string \<Rightarrow> (Conversation \<Rightarrow> Conversation) \<Rightarrow> 'a conv_db_scheme \<Rightarrow> 'a conv_db_scheme" where
  "update_conv uid f d = d\<lparr>conversations := update_where (\<lambda>c. cv_ID c = uid) f (conversations d)\<rparr>"

definition UpdateTitle :: "string \<Rightarrow> string \<Rightarrow> 'a conv_db_scheme \<Rightarrow> unit result \<times> 'a conv_db_scheme" where
  "UpdateTitle uid title = exec (\<lambda>d. update_conv uid (\<lambda>c. c\<lparr>cv_Title := title, cv_UpdatedAt := clock d\<rparr>) d)"

definition Conv_Delete :: "string \<Rightarrow> 'a conv_db_scheme \<Rightarrow> unit result \<times> 'a conv_db_scheme" where
  "Conv_Delete uid = exec (\<lambda>d. update_conv uid (\<lambda>c. c\<lparr>cv_Status := ''deleted'', cv_UpdatedAt := clock d\<rparr>) d)"

section \<open>Messages\<close>

text \<open>Two statements: the insert, and the update of the conversation, whose error is ignored. The
  second one runs whatever became of the first.\<close>

definition AddMessage :: "DB_Message \<Rightarrow> 'a conv_db_scheme \<Rightarrow> DB_Message result \<times> 'a conv_db_scheme" where
  "AddMessage m d =
     (case insert_new (\<lambda>d uid. m\<lparr>dm_ID := uid, dm_CreatedAt := clock d\<rparr>)
             (\<lambda>row d. d\<lparr>messages := messages d @ [row]\<rparr>) d of
        (row, d1) \<Rightarrow>
          (case exec (\<lambda>d. update_conv (dm_ConversationID m) (\<lambda>c. c\<lparr>cv_UpdatedAt := clock d\<rparr>) d) d1 of
             (_, d2) \<Rightarrow> (scanMessage row, d2)))"

definition ListMessages ::
  "string \<Rightarrow> int \<Rightarrow> 'a conv_db_scheme \<Rightarrow> DB_Message list result \<times> 'a conv_db_scheme" where
  "ListMessages conversationID limit0 d =
     (let limit = (if limit0 \<le> 0 then 100 else limit0) in
      (case query (\<lambda>d. Inr (limit_rows limit (order_by dm_CreatedAt
              (filter (\<lambda>m. dm_ConversationID m = conversationID) (messages d))))) d of
         (rows, d') \<Rightarrow> (wrap_err ''list messages'' rows, d')))"

lemmas conv_repo_defs = Conv_Create_def Conv_Get_def Conv_ListByUser_def UpdateTitle_def Conv_Delete_def
  AddMessage_def ListMessages_def

section \<open>The history of a conversation\<close>

text \<open>The messages of a conversation in the order they were added; time does not run backwards.\<close>

definition history :: "string \<Rightarrow> 'a conv_db_scheme \<Rightarrow> DB_Message list" where
  "history c d = filter (\<lambda>m. dm_ConversationID m = c) (messages d)"

definition chronological :: "'a conv_db_scheme \<Rightarrow> bool" where
  "chronological d \<longleftrightarrow> sorted (map dm_CreatedAt (messages d)) \<and> (\<forall>m \<in> set (messages d). dm_CreatedAt m \<le> clock d)"

lemma history_update_conv [simp]: "history c (update_conv uid f d) = history c d" "messages (update_conv uid f d) = messages d"
  by (simp_all add: history_def update_conv_def)

lemma history_faults [simp]: "history c (d\<lparr>faults := fs\<rparr>) = history c d"
  by (simp add: history_def)

lemma chronological_faults [simp]: "chronological (d\<lparr>faults := fs\<rparr>) = chronological d"
  by (simp add: chronological_def)

lemma chronological_update_conv [simp]: "chronological (update_conv uid f d) = chronological d"
  by (simp add: chronological_def update_conv_def)

lemma sorted_map_filter: "sorted (map k rows) \<Longrightarrow> sorted (map k (filter P rows))"
  by (induction rows) auto

lemma touch_messages:
  "messages (snd (exec (\<lambda>d. update_conv c (\<lambda>x. x\<lparr>cv_UpdatedAt := clock d\<rparr>) d) d)) = messages d"
  by (rule exec_preserves [where P = "\<lambda>x. messages x = messages d"]) simp_all

text \<open>A message is added at the end of its conversation's history, or not at all.\<close>

lemma AddMessage_messages:
  assumes "AddMessage m d = (r, d')"
  shows "(\<exists>row. r = Inr row \<and> messages d' = messages d @ [row] \<and> dm_CreatedAt row = clock d \<and>
            dm_ConversationID row = dm_ConversationID m \<and> dm_Content row = dm_Content m \<and>
            dm_Role row = dm_Role m \<and> dm_AgentName row = dm_AgentName m) \<or>
         (\<exists>e. r = Inl e \<and> messages d' = messages d)"
proof -
  obtain r1 d1 where ins: "insert_new (\<lambda>d uid. m\<lparr>dm_ID := uid, dm_CreatedAt := clock d\<rparr>)
      (\<lambda>row d. d\<lparr>messages := messages d @ [row]\<rparr>) d = (r1, d1)" by (meson surj_pair)
  have "messages d' = messages d1" "r = scanMessage r1"
    using assms ins touch_messages [of "dm_ConversationID m" d1] by (auto simp: AddMessage_def split: prod.splits)
  with ins show ?thesis
    by (cases rule: insert_new_state) (auto simp: scanMessage_def)
qed

lemma ListMessages_result:
  assumes "ListMessages c limit d = (Inr ms, d')" "chronological d"
  shows "ms = take (nat (if limit \<le> 0 then 100 else limit)) (history c d)"
proof -
  have sorted: "order_by dm_CreatedAt (history c d) = history c d"
    using assms(2) unfolding history_def chronological_def by (intro order_by_sorted sorted_map_filter) simp
  obtain r where "query (\<lambda>d. Inr (limit_rows (if limit \<le> 0 then 100 else limit) (order_by dm_CreatedAt
              (filter (\<lambda>m. dm_ConversationID m = c) (messages d))))) d = (r, d')" "r = Inr ms"
    using assms(1) by (auto simp: ListMessages_def Let_def split: prod.splits)
  then show ?thesis
    by (elim query_state) (use sorted in \<open>auto simp: limit_rows_def history_def\<close>)
qed

text \<open>C36: a conversation's history reads back in the order it was written. After any message has been
  added, \<open>ListMessages\<close> with a limit that is not exceeded returns the earlier messages of the
  conversation followed by the new one, and the histories of other conversations are
  unchanged.\<close>

theorem history_roundtrip:
  assumes "chronological d" "AddMessage m d = (Inr row, d1)" "ListMessages c limit d1 = (Inr ms, d2)"
    and "length (history c d1) \<le> nat (if limit \<le> 0 then 100 else limit)"
  shows "ms = (if c = dm_ConversationID m then history c d @ [row] else history c d) \<and>
    dm_Content row = dm_Content m"
proof -
  have add: "messages d1 = messages d @ [row]" "dm_ConversationID row = dm_ConversationID m"
    "dm_CreatedAt row = clock d" "dm_Content row = dm_Content m"
    using AddMessage_messages [OF assms(2)] by auto
  have "sorted (map dm_CreatedAt (messages d1))"
    using assms(1) add by (simp add: chronological_def sorted_append)
  moreover have "history c d1 = (if c = dm_ConversationID m then history c d @ [row] else history c d)"
    using add by (simp add: history_def)
  moreover have "order_by dm_CreatedAt (history c d1) = history c d1"
    unfolding history_def by (rule order_by_sorted, rule sorted_map_filter, rule calculation)
  ultimately show ?thesis
    using assms(3,4) add(4) by (auto simp: ListMessages_def Let_def limit_rows_def history_def split: prod.splits elim!: query_state)
qed

text \<open>A long conversation loses its newest messages. Once a conversation holds more messages than
  the limit, \<open>ListMessages\<close> returns the oldest ones: a message added to a history that already
  has \<open>limit\<close> messages is not among the messages returned.\<close>

theorem long_history_drops_the_newest:
  assumes "chronological d" "AddMessage m d = (Inr row, d1)" "0 < limit"
    and "limit \<le> int (length (history (dm_ConversationID m) d))"
    and "ListMessages (dm_ConversationID m) limit d1 = (Inr ms, d2)"
  shows "ms = take (nat limit) (history (dm_ConversationID m) d)"
proof -
  have add: "messages d1 = messages d @ [row]" "dm_ConversationID row = dm_ConversationID m" "dm_CreatedAt row = clock d"
    using AddMessage_messages [OF assms(2)] by auto
  have "sorted (map dm_CreatedAt (messages d1))"
    using assms(1) add by (simp add: chronological_def sorted_append)
  then have "order_by dm_CreatedAt (history (dm_ConversationID m) d1) = history (dm_ConversationID m) d1"
    unfolding history_def by (intro order_by_sorted sorted_map_filter)
  moreover have "history (dm_ConversationID m) d1 = history (dm_ConversationID m) d @ [row]"
    using add by (simp add: history_def)
  ultimately show ?thesis
    using assms(3,4,5) by (auto simp: ListMessages_def Let_def limit_rows_def history_def split: prod.splits elim!: query_state)
qed

definition user_message :: "string \<Rightarrow> string \<Rightarrow> DB_Message" where
  "user_message c text =
     \<lparr>dm_ID = '''', dm_ConversationID = c, dm_Role = ''user'', dm_AuthorType = ''user'', dm_AuthorID = None,
      dm_AgentName = None, dm_Content = text, dm_ToolCallID = None, dm_InputTokens = 0, dm_OutputTokens = 0,
      dm_CreatedAt = 0\<rparr>"

definition empty_convs :: conv_db where
  "empty_convs = \<lparr>clock = 4, faults = [], uuids = (\<lambda>n. replicate (Suc n) CHR ''u''), uuid_count = 0,
     agent_profiles = [], agent_instances = [], tasks = [], conversations = [], messages = []\<rparr>"

definition one_message :: conv_db where
  "one_message = snd (AddMessage (user_message ''c'' ''hi'') empty_convs)"

lemma one_message_chronological: "chronological one_message"
  by (simp add: one_message_def AddMessage_def empty_convs_def chronological_def user_message_def update_conv_def)

lemma one_message_add:
  "AddMessage (user_message ''c'' ''more'') one_message =
     (Inr ((user_message ''c'' ''more'')\<lparr>dm_ID := ''uu'', dm_CreatedAt := 4\<rparr>),
      snd (AddMessage (user_message ''c'' ''more'') one_message))"
  by (simp add: one_message_def AddMessage_def empty_convs_def user_message_def scanMessage_def update_conv_def)

lemma one_message_history: "history ''c'' one_message = [(user_message ''c'' ''hi'')\<lparr>dm_ID := ''u'', dm_CreatedAt := 4\<rparr>]"
  by (simp add: one_message_def AddMessage_def empty_convs_def user_message_def update_conv_def history_def)

lemma one_message_no_faults [simp]: "faults (snd (AddMessage (user_message ''c'' ''more'') one_message)) = []"
  by (simp add: one_message_def AddMessage_def empty_convs_def user_message_def update_conv_def)

lemma ListMessages_no_faults:
  "faults d = [] \<Longrightarrow> ListMessages c limit d =
     (Inr (limit_rows (if limit \<le> 0 then 100 else limit) (order_by dm_CreatedAt (history c d))), d)"
  by (simp add: ListMessages_def history_def Let_def)

theorem history_roundtrip_witness:
  "limit_rows 100 (order_by dm_CreatedAt (history ''c'' (snd (AddMessage (user_message ''c'' ''more'') one_message)))) =
     history ''c'' one_message @ [(user_message ''c'' ''more'')\<lparr>dm_ID := ''uu'', dm_CreatedAt := 4\<rparr>]"
proof -
  have "length (history ''c'' (snd (AddMessage (user_message ''c'' ''more'') one_message))) \<le> 100"
    by (simp add: one_message_def AddMessage_def empty_convs_def user_message_def update_conv_def history_def)
  moreover have c: "dm_ConversationID (user_message ''c'' ''more'') = ''c''" by (simp add: user_message_def)
  ultimately show ?thesis
    using history_roundtrip [OF one_message_chronological one_message_add ListMessages_no_faults, of "''c''" 0]
    by simp
qed

theorem long_history_drops_the_newest_witness:
  "limit_rows 1 (order_by dm_CreatedAt (history ''c'' (snd (AddMessage (user_message ''c'' ''more'') one_message)))) =
     [(user_message ''c'' ''hi'')\<lparr>dm_ID := ''u'', dm_CreatedAt := 4\<rparr>]"
proof -
  have c: "dm_ConversationID (user_message ''c'' ''more'') = ''c''" by (simp add: user_message_def)
  show ?thesis
    using long_history_drops_the_newest [OF one_message_chronological one_message_add, of 1, unfolded c,
        OF _ _ ListMessages_no_faults]
    by (simp add: one_message_history)
qed

end
