(* ===== verification/User_Repo.thy ===== *)
theory User_Repo
  imports Conversation_Repo
begin

text \<open>
  Users, organisations, invites and refresh tokens: \<^verbatim>\<open>user_repo.go\<close>, \<^verbatim>\<open>tenant_repo.go\<close>,
  \<^verbatim>\<open>invite_repo.go\<close> and \<^verbatim>\<open>refresh_token_repo.go\<close> of \<^verbatim>\<open>internal/db\<close> on the tables of migrations 001
  and 002.
\<close>

section \<open>Rows\<close>

record User =
  us_ID :: string
  us_Email :: string
  us_DisplayName :: string
  us_PasswordHash :: "string option"
  us_OIDCSubject :: "string option"
  us_OIDCProvider :: "string option"
  us_CreatedAt :: time
  us_UpdatedAt :: time

record Tenant =
  tn_ID :: string
  tn_Name :: string
  tn_Slug :: string
  tn_Plan :: string
  tn_CreatedAt :: time
  tn_UpdatedAt :: time

record org_member =
  om_TenantID :: string
  om_UserID :: string
  om_Role :: string
  om_JoinedAt :: time

record Invite =
  iv_ID :: string
  iv_TenantID :: string
  iv_Email :: string
  iv_Role :: string
  iv_Token :: string
  iv_ExpiresAt :: time
  iv_AcceptedAt :: "time option"
  iv_InvitedBy :: "string option"
  iv_CreatedAt :: time

record RefreshToken =
  rf_ID :: string
  rf_UserID :: string
  rf_TenantID :: string
  rf_TokenHash :: string
  rf_ExpiresAt :: time
  rf_CreatedAt :: time
  rf_RevokedAt :: "time option"

record user_db = conv_db +
  users :: "User list"
  tenants :: "Tenant list"
  org_members :: "org_member list"
  org_invites :: "Invite list"
  refresh_tokens :: "RefreshToken list"

text \<open>\<open>INSERT ... RETURNING\<close> into a table with a unique column.\<close>

definition insert_unique ::
  "('s pool_scheme \<Rightarrow> bool) \<Rightarrow> ('s pool_scheme \<Rightarrow> string \<Rightarrow> 'r) \<Rightarrow> ('r \<Rightarrow> 's pool_scheme \<Rightarrow> 's pool_scheme) \<Rightarrow> ('s, 'r) stmt" where
  "insert_unique taken mk add = statement (\<lambda>d.
     if taken d then (Inl unique_violation, d)
     else (case new_uuid d of (uid, d1) \<Rightarrow> (let row = mk d uid in (Inr row, add row d1))))"

lemma insert_unique_no_faults:
  "faults d = [] \<Longrightarrow> insert_unique taken mk add d =
     (if taken d then (Inl unique_violation, d)
      else (Inr (mk d (uuids d (uuid_count d))), add (mk d (uuids d (uuid_count d))) (d\<lparr>uuid_count := Suc (uuid_count d)\<rparr>)))"
  by (simp add: insert_unique_def new_uuid_def Let_def)

lemma insert_unique_state:
  assumes "insert_unique taken mk add d = (r, d')"
  obtains (executed) fs where "\<not> taken (d\<lparr>faults := fs\<rparr>)"
      "r = Inr (mk (d\<lparr>faults := fs\<rparr>) (uuids d (uuid_count d)))"
      "d' = add (mk (d\<lparr>faults := fs\<rparr>) (uuids d (uuid_count d))) (d\<lparr>faults := fs, uuid_count := Suc (uuid_count d)\<rparr>)"
    | (refused) fs e where "r = Inl e" "d' = d\<lparr>faults := fs\<rparr>"
  using assms unfolding insert_unique_def
  by (cases rule: statement_cases) (auto simp: new_uuid_def Let_def split: if_splits)

section \<open>Users\<close>

definition scanUser :: "User result \<Rightarrow> User result" where
  "scanUser row = wrap_err ''scan user'' row"

definition User_Create :: "string \<Rightarrow> string \<Rightarrow> 'a user_db_scheme \<Rightarrow> User result \<times> 'a user_db_scheme" where
  "User_Create email displayName d =
     (case insert_unique (\<lambda>d. list_ex (\<lambda>u. us_Email u = email) (users d))
        (\<lambda>d uid. \<lparr>us_ID = uid, us_Email = email, us_DisplayName = displayName, us_PasswordHash = None,
           us_OIDCSubject = None, us_OIDCProvider = None, us_CreatedAt = clock d, us_UpdatedAt = clock d\<rparr>)
        (\<lambda>row d. d\<lparr>users := users d @ [row]\<rparr>) d of
        (row, d') \<Rightarrow> (scanUser row, d'))"

definition User_GetByID :: "string \<Rightarrow> 'a user_db_scheme \<Rightarrow> User result \<times> 'a user_db_scheme" where
  "User_GetByID uid d =
     (case query (\<lambda>d. one_row (select_one (\<lambda>u. us_ID u = uid) (users d))) d of
        (row, d') \<Rightarrow> (scanUser row, d'))"

definition GetByEmail :: "string \<Rightarrow> 'a user_db_scheme \<Rightarrow> User result \<times> 'a user_db_scheme" where
  "GetByEmail email d =
     (case query (\<lambda>d. one_row (select_one (\<lambda>u. us_Email u = email) (users d))) d of
        (row, d') \<Rightarrow> (scanUser row, d'))"

definition SetPasswordHash :: "string \<Rightarrow> string \<Rightarrow> 'a user_db_scheme \<Rightarrow> unit result \<times> 'a user_db_scheme" where
  "SetPasswordHash uid hash = exec (\<lambda>d. d\<lparr>users := update_where (\<lambda>u. us_ID u = uid)
     (\<lambda>u. u\<lparr>us_PasswordHash := Some hash, us_UpdatedAt := clock d\<rparr>) (users d)\<rparr>)"

text \<open>\<open>ON CONFLICT (tenant_id, user_id) DO UPDATE SET role = EXCLUDED.role\<close>\<close>

definition AddToTenant :: "string \<Rightarrow> string \<Rightarrow> string \<Rightarrow> 'a user_db_scheme \<Rightarrow> unit result \<times> 'a user_db_scheme" where
  "AddToTenant tenantID userID role = exec (\<lambda>d.
     if list_ex (\<lambda>m. om_TenantID m = tenantID \<and> om_UserID m = userID) (org_members d)
     then d\<lparr>org_members := update_where (\<lambda>m. om_TenantID m = tenantID \<and> om_UserID m = userID)
              (\<lambda>m. m\<lparr>om_Role := role\<rparr>) (org_members d)\<rparr>
     else d\<lparr>org_members := org_members d @
              [\<lparr>om_TenantID = tenantID, om_UserID = userID, om_Role = role, om_JoinedAt = clock d\<rparr>]\<rparr>)"

text \<open>Every scan error is taken for "no membership yet".\<close>

definition GetPrimaryMembership ::
  "string \<Rightarrow> 'a user_db_scheme \<Rightarrow> (string \<times> string) result \<times> 'a user_db_scheme" where
  "GetPrimaryMembership userID d =
     (case query (\<lambda>d. one_row (case order_by om_JoinedAt (filter (\<lambda>m. om_UserID m = userID) (org_members d)) of
                                  [] \<Rightarrow> None | m # _ \<Rightarrow> Some m)) d of
        (Inl _, d') \<Rightarrow> (Inr ('''', ''member''), d')
      | (Inr m, d') \<Rightarrow> (Inr (om_TenantID m, om_Role m), d'))"

text \<open>The join of \<open>users\<close> with \<open>org_members\<close>: one row per membership.\<close>

definition User_ListByTenant :: "string \<Rightarrow> 'a user_db_scheme \<Rightarrow> User list result \<times> 'a user_db_scheme" where
  "User_ListByTenant tenantID d =
     (case query (\<lambda>d. Inr (order_by us_CreatedAt (concat (map (\<lambda>u.
          map (\<lambda>_. u) (filter (\<lambda>m. om_UserID m = us_ID u \<and> om_TenantID m = tenantID) (org_members d))) (users d))))) d of
        (rows, d') \<Rightarrow> (wrap_err ''user list by tenant'' rows, d'))"

definition link_stmt :: "string \<Rightarrow> string \<Rightarrow> string \<Rightarrow> 'a user_db_scheme \<Rightarrow> unit result \<times> 'a user_db_scheme" where
  "link_stmt provider subject uid = exec (\<lambda>d. d\<lparr>users := update_where (\<lambda>u. us_ID u = uid)
     (\<lambda>u. u\<lparr>us_OIDCProvider := Some provider, us_OIDCSubject := Some subject, us_UpdatedAt := clock d\<rparr>) (users d)\<rparr>)"

definition FindOrCreateByOIDC ::
  "string \<Rightarrow> string \<Rightarrow> string \<Rightarrow> string \<Rightarrow> 'a user_db_scheme \<Rightarrow> (User \<times> bool) result \<times> 'a user_db_scheme" where
  "FindOrCreateByOIDC provider subject email displayName0 d =
     (case query (\<lambda>d. one_row (select_one (\<lambda>u. us_OIDCProvider u = Some provider \<and> us_OIDCSubject u = Some subject)
                                (users d))) d of
        (Inr u, d1) \<Rightarrow> (Inr (u, False), d1)
      | (Inl _, d1) \<Rightarrow>
          (case GetByEmail email d1 of
             (Inr existing, d2) \<Rightarrow>
               (case link_stmt provider subject (us_ID existing) d2 of
                  (Inl err, d3) \<Rightarrow> (Inl (Wrap ''link oidc to user'' err), d3)
                | (Inr _, d3) \<Rightarrow>
                    (Inr (existing\<lparr>us_OIDCProvider := Some provider, us_OIDCSubject := Some subject\<rparr>, False), d3))
           | (Inl _, d2) \<Rightarrow>
               (let displayName = (if displayName0 = '''' then email else displayName0) in
                (case insert_unique (\<lambda>d. list_ex (\<lambda>u. us_Email u = email) (users d))
                   (\<lambda>d uid. \<lparr>us_ID = uid, us_Email = email, us_DisplayName = displayName, us_PasswordHash = None,
                      us_OIDCSubject = Some subject, us_OIDCProvider = Some provider,
                      us_CreatedAt = clock d, us_UpdatedAt = clock d\<rparr>)
                   (\<lambda>row d. d\<lparr>users := users d @ [row]\<rparr>) d2 of
                   (row, d3) \<Rightarrow>
                     (case scanUser row of
                        Inl err \<Rightarrow> (Inl (Wrap ''create oidc user'' err), d3)
                      | Inr u \<Rightarrow> (Inr (u, True), d3))))))"

section \<open>Tenants\<close>

definition scanTenant :: "Tenant result \<Rightarrow> Tenant result" where
  "scanTenant row = wrap_err ''scan tenant'' row"

definition Tenant_Create ::
  "string \<Rightarrow> string \<Rightarrow> string \<Rightarrow> 'a user_db_scheme \<Rightarrow> Tenant result \<times> 'a user_db_scheme" where
  "Tenant_Create name slug plan d =
     (case insert_unique (\<lambda>d. list_ex (\<lambda>t. tn_Slug t = slug) (tenants d))
        (\<lambda>d uid. \<lparr>tn_ID = uid, tn_Name = name, tn_Slug = slug, tn_Plan = plan,
           tn_CreatedAt = clock d, tn_UpdatedAt = clock d\<rparr>)
        (\<lambda>row d. d\<lparr>tenants := tenants d @ [row]\<rparr>) d of
        (row, d') \<Rightarrow> (scanTenant row, d'))"

definition Tenant_GetByID :: "string \<Rightarrow> 'a user_db_scheme \<Rightarrow> Tenant result \<times> 'a user_db_scheme" where
  "Tenant_GetByID uid d =
     (case query (\<lambda>d. one_row (select_one (\<lambda>t. tn_ID t = uid) (tenants d))) d of
        (row, d') \<Rightarrow> (scanTenant row, d'))"

definition GetBySlug :: "string \<Rightarrow> 'a user_db_scheme \<Rightarrow> Tenant result \<times> 'a user_db_scheme" where
  "GetBySlug slug d =
     (case query (\<lambda>d. one_row (select_one (\<lambda>t. tn_Slug t = slug) (tenants d))) d of
        (row, d') \<Rightarrow> (scanTenant row, d'))"

definition Tenant_Update :: "Tenant \<Rightarrow> 'a user_db_scheme \<Rightarrow> Tenant result \<times> 'a user_db_scheme" where
  "Tenant_Update t d =
     (case statement (\<lambda>d.
        (case select_one (\<lambda>x. tn_ID x = tn_ID t) (tenants d) of
           None \<Rightarrow> (Inl ErrNoRows, d)
         | Some x \<Rightarrow>
             (let row = x\<lparr>tn_Name := tn_Name t, tn_Plan := tn_Plan t, tn_UpdatedAt := clock d\<rparr>
              in (Inr row, d\<lparr>tenants := update_where (\<lambda>x. tn_ID x = tn_ID t) (\<lambda>_. row) (tenants d)\<rparr>)))) d of
        (row, d') \<Rightarrow> (scanTenant row, d'))"

text \<open>\<open>ON DELETE CASCADE\<close> removes what belongs to the tenant, and the messages of its conversations;
  tasks keep no reference to a removed conversation or instance.\<close>

definition cascade_tenant :: "string \<Rightarrow> 'a user_db_scheme \<Rightarrow> 'a user_db_scheme" where
  "cascade_tenant uid d =
     (let gone = map cv_ID (filter (\<lambda>c. cv_TenantID c = uid) (conversations d));
          lost = map ai_ID (filter (\<lambda>i. ai_TenantID i = uid) (agent_instances d));
          profs = map ap_ID (filter (\<lambda>p. ap_TenantID p = uid) (agent_profiles d)) in
      d\<lparr>tenants := delete_where (\<lambda>t. tn_ID t = uid) (tenants d),
        org_members := delete_where (\<lambda>m. om_TenantID m = uid) (org_members d),
        org_invites := delete_where (\<lambda>i. iv_TenantID i = uid) (org_invites d),
        refresh_tokens := delete_where (\<lambda>t. rf_TenantID t = uid) (refresh_tokens d),
        agent_profiles := delete_where (\<lambda>p. ap_TenantID p = uid) (agent_profiles d),
        agent_instances := update_where (\<lambda>i. \<exists>p \<in> set profs. ai_ProfileID i = Some p) (\<lambda>i. i\<lparr>ai_ProfileID := None\<rparr>)
          (delete_where (\<lambda>i. ai_TenantID i = uid) (agent_instances d)),
        messages := delete_where (\<lambda>m. dm_ConversationID m \<in> set gone) (messages d),
        conversations := delete_where (\<lambda>c. cv_TenantID c = uid) (conversations d),
        tasks := map (\<lambda>t. t\<lparr>tk_ConversationID := (case tk_ConversationID t of None \<Rightarrow> None
                                | Some c \<Rightarrow> if c \<in> set gone then None else Some c),
                             tk_AgentID := (case tk_AgentID t of None \<Rightarrow> None
                                | Some a \<Rightarrow> if a \<in> set lost then None else Some a)\<rparr>)
          (delete_where (\<lambda>t. tk_TenantID t = uid) (tasks d))\<rparr>)"

text \<open>\<open>further\<close> is what the cascades of later migrations do to the tables that this theory does not know.\<close>

definition Tenant_Delete ::
  "(string \<Rightarrow> 'a user_db_scheme \<Rightarrow> 'a user_db_scheme) \<Rightarrow> string \<Rightarrow> 'a user_db_scheme \<Rightarrow> unit result \<times> 'a user_db_scheme" where
  "Tenant_Delete further uid = exec (\<lambda>d. cascade_tenant uid (further uid d))"

definition Tenant_List :: "'a user_db_scheme \<Rightarrow> Tenant list result \<times> 'a user_db_scheme" where
  "Tenant_List d =
     (case query (\<lambda>d. Inr (order_by (\<lambda>t. - tn_CreatedAt t) (tenants d))) d of
        (rows, d') \<Rightarrow> (wrap_err ''tenant list'' rows, d'))"

section \<open>Refresh tokens and invites\<close>

definition isNotFound :: "go_err \<Rightarrow> bool" where
  "isNotFound err = (err = ErrNoRows \<or> err_text err = ''scan refresh token: no rows in result set'')"

definition scanRefreshToken :: "RefreshToken result \<Rightarrow> RefreshToken result" where
  "scanRefreshToken row = wrap_err ''scan refresh token'' row"

text \<open>The columns \<open>user_id\<close> and \<open>tenant_id\<close> are of type \<open>UUID\<close>: PostgreSQL refuses the empty string.\<close>

definition invalid_uuid :: go_err where
  "invalid_uuid = Msg ''invalid input syntax for type uuid''"

text \<open>The expiry is computed from the server's clock, which is the clock of the database here.\<close>

definition Refresh_Create ::
  "string \<Rightarrow> string \<Rightarrow> string \<Rightarrow> duration \<Rightarrow> 'a user_db_scheme \<Rightarrow> RefreshToken result \<times> 'a user_db_scheme" where
  "Refresh_Create userID tenantID tokenHash ttl d =
     (case (if userID = '''' \<or> tenantID = '''' then statement (\<lambda>d. (Inl invalid_uuid, d)) d
            else insert_unique (\<lambda>d. list_ex (\<lambda>t. rf_TokenHash t = tokenHash) (refresh_tokens d))
              (\<lambda>d uid. \<lparr>rf_ID = uid, rf_UserID = userID, rf_TenantID = tenantID, rf_TokenHash = tokenHash,
                 rf_ExpiresAt = clock d + ttl, rf_CreatedAt = clock d, rf_RevokedAt = None\<rparr>)
              (\<lambda>row d. d\<lparr>refresh_tokens := refresh_tokens d @ [row]\<rparr>) d) of
        (row, d') \<Rightarrow> (scanRefreshToken row, d'))"

definition usable_token :: "time \<Rightarrow> string \<Rightarrow> RefreshToken \<Rightarrow> bool" where
  "usable_token now tokenHash t \<longleftrightarrow> rf_TokenHash t = tokenHash \<and> rf_RevokedAt t = None \<and> now < rf_ExpiresAt t"

definition GetByHash :: "string \<Rightarrow> 'a user_db_scheme \<Rightarrow> RefreshToken option result \<times> 'a user_db_scheme" where
  "GetByHash tokenHash d =
     (case query (\<lambda>d. one_row (select_one (usable_token (clock d) tokenHash) (refresh_tokens d))) d of
        (row, d') \<Rightarrow>
          (case scanRefreshToken row of
             Inl err \<Rightarrow> if isNotFound err then (Inr None, d') else (Inl err, d')
           | Inr rt \<Rightarrow> (Inr (Some rt), d')))"

definition Revoke :: "string \<Rightarrow> 'a user_db_scheme \<Rightarrow> unit result \<times> 'a user_db_scheme" where
  "Revoke uid = exec (\<lambda>d. d\<lparr>refresh_tokens := update_where (\<lambda>t. rf_ID t = uid)
     (\<lambda>t. t\<lparr>rf_RevokedAt := Some (clock d)\<rparr>) (refresh_tokens d)\<rparr>)"

definition RevokeAllForUser :: "string \<Rightarrow> 'a user_db_scheme \<Rightarrow> unit result \<times> 'a user_db_scheme" where
  "RevokeAllForUser userID = exec (\<lambda>d. d\<lparr>refresh_tokens := update_where
     (\<lambda>t. rf_UserID t = userID \<and> rf_RevokedAt t = None)
     (\<lambda>t. t\<lparr>rf_RevokedAt := Some (clock d)\<rparr>) (refresh_tokens d)\<rparr>)"

definition scanInvite :: "Invite result \<Rightarrow> Invite result" where
  "scanInvite row = wrap_err ''scan invite'' row"

definition Invite_Create ::
  "string \<Rightarrow> string \<Rightarrow> string \<Rightarrow> string \<Rightarrow> duration \<Rightarrow> string option \<Rightarrow> 'a user_db_scheme \<Rightarrow>
   Invite result \<times> 'a user_db_scheme" where
  "Invite_Create tenantID email role token ttl invitedBy d =
     (case insert_unique (\<lambda>d. list_ex (\<lambda>i. iv_Token i = token) (org_invites d))
        (\<lambda>d uid. \<lparr>iv_ID = uid, iv_TenantID = tenantID, iv_Email = email, iv_Role = role, iv_Token = token,
           iv_ExpiresAt = clock d + ttl, iv_AcceptedAt = None, iv_InvitedBy = invitedBy, iv_CreatedAt = clock d\<rparr>)
        (\<lambda>row d. d\<lparr>org_invites := org_invites d @ [row]\<rparr>) d of
        (row, d') \<Rightarrow> (scanInvite row, d'))"

definition open_invite :: "time \<Rightarrow> string \<Rightarrow> Invite \<Rightarrow> bool" where
  "open_invite now token i \<longleftrightarrow> iv_Token i = token \<and> iv_AcceptedAt i = None \<and> now < iv_ExpiresAt i"

definition GetByToken :: "string \<Rightarrow> 'a user_db_scheme \<Rightarrow> Invite option result \<times> 'a user_db_scheme" where
  "GetByToken token d =
     (case query (\<lambda>d. one_row (select_one (open_invite (clock d) token) (org_invites d))) d of
        (row, d') \<Rightarrow>
          (case scanInvite row of
             Inl err \<Rightarrow> if isNotFound err then (Inr None, d') else (Inl err, d')
           | Inr invite \<Rightarrow> (Inr (Some invite), d')))"

definition Accept :: "string \<Rightarrow> 'a user_db_scheme \<Rightarrow> unit result \<times> 'a user_db_scheme" where
  "Accept uid = exec (\<lambda>d. d\<lparr>org_invites := update_where (\<lambda>i. iv_ID i = uid)
     (\<lambda>i. i\<lparr>iv_AcceptedAt := Some (clock d)\<rparr>) (org_invites d)\<rparr>)"

definition Invite_ListByTenant :: "string \<Rightarrow> 'a user_db_scheme \<Rightarrow> Invite list result \<times> 'a user_db_scheme" where
  "Invite_ListByTenant tenantID d =
     (case query (\<lambda>d. Inr (order_by (\<lambda>i. - iv_CreatedAt i)
             (filter (\<lambda>i. iv_TenantID i = tenantID) (org_invites d)))) d of
        (rows, d') \<Rightarrow> (wrap_err ''list invites'' rows, d'))"

section \<open>Tokens and invites that are found are usable\<close>

lemma isNotFound_refresh [simp]: "isNotFound (Wrap ''scan refresh token'' e) \<longleftrightarrow> err_text e = ''no rows in result set''"
  by (simp add: isNotFound_def)

lemma isNotFound_invite [simp]: "\<not> isNotFound (Wrap ''scan invite'' e)"
  by (simp add: isNotFound_def)

lemma GetByHash_state: "\<exists>fs. snd (GetByHash h d) = d\<lparr>faults := fs\<rparr>"
  unfolding GetByHash_def
  by (cases "query (\<lambda>d. one_row (select_one (usable_token (clock d) h) (refresh_tokens d))) d")
    (auto split: sum.splits elim: query_state)

lemma GetByHash_Some:
  assumes "GetByHash h d = (Inr (Some rt), d')"
  shows "rt \<in> set (refresh_tokens d) \<and> usable_token (clock d) h rt"
proof -
  have "query (\<lambda>d. one_row (select_one (usable_token (clock d) h) (refresh_tokens d))) d = (Inr rt, d')"
    using assms by (auto simp: GetByHash_def scanRefreshToken_def split: prod.splits sum.splits if_splits)
  then obtain fs where "one_row (select_one (usable_token (clock d) h) (refresh_tokens d)) = Inr rt"
    by (elim query_state) auto
  then show ?thesis
    by (cases "select_one (usable_token (clock d) h) (refresh_tokens d)") (auto dest: select_one_Some)
qed

lemma GetByHash_None:
  assumes "faults d = []" "\<And>rt. rt \<in> set (refresh_tokens d) \<Longrightarrow> \<not> usable_token (clock d) h rt"
  shows "GetByHash h d = (Inr None, d)"
proof -
  have "select_one (usable_token (clock d) h) (refresh_tokens d) = None"
    using assms(2) by (auto simp: select_one_None)
  then show ?thesis using assms(1) by (simp add: GetByHash_def scanRefreshToken_def)
qed

text \<open>A missing invite is an error. \<open>GetByToken\<close> is documented to return nothing for an invite that does
  not exist, has expired or was accepted; it never does: with no refused statement it
  returns the wrapped \<open>no rows\<close> error in these cases and the invite otherwise.\<close>

theorem missing_invite_is_an_error:
  "fst (GetByToken token d) \<noteq> Inr None \<and>
   (faults d = [] \<longrightarrow>
      GetByToken token d =
        (case select_one (open_invite (clock d) token) (org_invites d) of
           None \<Rightarrow> (Inl (Wrap ''scan invite'' ErrNoRows), d)
         | Some i \<Rightarrow> (Inr (Some i), d)))"
proof -
  have scan: "(case scanInvite row of Inl err \<Rightarrow> if isNotFound err then (Inr None, x) else (Inl err, x)
      | Inr invite \<Rightarrow> (Inr (Some invite), x)) =
    (case row of Inl e \<Rightarrow> (Inl (Wrap ''scan invite'' e), x) | Inr invite \<Rightarrow> (Inr (Some invite), x))"
    for row :: "Invite result" and x :: "'a user_db_scheme"
    by (cases row) (simp_all add: scanInvite_def)
  show ?thesis
    unfolding GetByToken_def scan by (auto split: prod.splits sum.splits option.splits)
qed

definition no_users :: user_db where
  "no_users = \<lparr>clock = 4, faults = [], uuids = (\<lambda>n. replicate (Suc n) CHR ''u''), uuid_count = 0,
     agent_profiles = [], agent_instances = [], tasks = [], conversations = [], messages = [],
     users = [], tenants = [], org_members = [], org_invites = [], refresh_tokens = []\<rparr>"

theorem missing_invite_is_an_error_witness:
  "fst (GetByToken ''x'' no_users) = Inl (Wrap ''scan invite'' ErrNoRows)"
  using missing_invite_is_an_error [of "''x''" no_users] by (simp add: no_users_def select_one_def)

end
