(* ===== verification/Routing.thy ===== *)
theory Routing
  imports Prelude
begin

text \<open>
  The conversation-to-instance routing tables of \<^verbatim>\<open>internal/gateway/routing.go\<close>: the table
  kept in Redis, with its hand-written RESP protocol and reconnection, and the in-memory
  fallback. The interface \<open>RoutingTable\<close> is the locale \<open>routing_table\<close>; the claim manager is
  verified against it. The Redis server is not part of the sources: it is the argument
  \<open>serve\<close> (bytes written at a time in, bytes sent back out), and \<open>redis_spec\<close> states the
  documented behaviour of \<open>GET\<close>, \<open>SET ... EX\<close> and \<open>DEL\<close> that the table relies on.
\<close>

section \<open>Wire format\<close>

abbreviation CRLF :: string where
  "CRLF \<equiv> [CHR 0x0D, CHR 0x0A]"

text \<open>\<open>strconv.Itoa\<close>\<close>

definition itoa_int :: "int \<Rightarrow> string" where
  "itoa_int i = (if i < 0 then CHR ''-'' # itoa (nat (- i)) else itoa (nat i))"

text \<open>\<open>n, _ := strconv.Atoi(s)\<close>: 0 when the text is not a number; a number that does not fit an
  \<open>int\<close> cannot be the length of a reply and is not modelled.\<close>

definition atoi :: "string \<Rightarrow> int" where
  "atoi s =
     (case s of
        [] \<Rightarrow> 0
      | c # cs \<Rightarrow>
          if c = CHR ''-'' \<or> c = CHR ''+'' then
            (if cs \<noteq> [] \<and> list_all is_digit cs
             then (if c = CHR ''-'' then - int (digits_val cs) else int (digits_val cs)) else 0)
          else if list_all is_digit s then int (digits_val s) else 0)"

definition resp_bulk :: "string \<Rightarrow> string" where
  "resp_bulk a = CHR ''$'' # itoa (length a) @ CRLF @ a @ CRLF"

definition resp_command :: "string list \<Rightarrow> string" where
  "resp_command args = CHR ''*'' # itoa (length args) @ CRLF @ concat (map resp_bulk args)"

text \<open>
  Reading one reply from the bytes that the connection delivers: the returned string or
  error, and the bytes left in the reader; \<open>None\<close> is a failed read (the deadline passes
  before the bytes arrive), after which the code reconnects.
\<close>

definition read_reply :: "string \<Rightarrow> (string result \<times> string) option" where
  "read_reply buf =
     (if CHR 0x0A \<notin> set buf then None
      else
        (let raw = takeWhile (\<lambda>c. c \<noteq> CHR 0x0A) buf @ [CHR 0x0A];
             rest = drop (length raw) buf;
             line = trim_right {CHR 0x0D, CHR 0x0A} raw
         in case line of
              [] \<Rightarrow> Some (Inl (Msg ''empty redis response''), rest)
            | c # body \<Rightarrow>
                if c = CHR ''+'' then Some (Inr body, rest)
                else if c = CHR ''-'' then Some (Inl (Msg (''redis: '' @ body)), rest)
                else if c = CHR '':'' then Some (Inr body, rest)
                else if c = CHR ''$'' then
                  (let n = atoi body in
                   if n < 0 then Some (Inr '''', rest)
                   else if length rest < nat n + 2 then None
                   else Some (Inr (take (nat n) rest), drop (nat n + 2) rest))
                else Some (Inr line, rest)))"

section \<open>The Redis table\<close>

text \<open>A connection is closed, or live with the bytes that the server has sent on it and its reader has not consumed,
  whether they have arrived yet or not.\<close>

datatype conn = Closed | Live string

text \<open>\<open>net\<close> lists the outcomes of the network operations to come (dialling, writing, waiting for
  the reply); past its end every operation succeeds.\<close>

record 'srv RedisRoutingTable =
  rt_conn :: "conn option"
  rt_srv :: 'srv
  rt_net :: "bool list"

definition net_op :: "'srv RedisRoutingTable \<Rightarrow> bool \<times> 'srv RedisRoutingTable" where
  "net_op rt = (case rt_net rt of [] \<Rightarrow> (True, rt) | b # bs \<Rightarrow> (b, rt\<lparr>rt_net := bs\<rparr>))"

definition connect :: "'srv RedisRoutingTable \<Rightarrow> unit result \<times> 'srv RedisRoutingTable" where
  "connect rt =
     (case net_op rt of
        (False, rt1) \<Rightarrow> (Inl (Msg ''dial tcp''), rt1)
      | (True, rt1) \<Rightarrow> (Inr (), rt1\<lparr>rt_conn := Some (Live '''')\<rparr>))"

definition reconnect :: "'srv RedisRoutingTable \<Rightarrow> unit result \<times> 'srv RedisRoutingTable" where
  "reconnect rt =
     connect (case rt_conn rt of None \<Rightarrow> rt | Some _ \<Rightarrow> rt\<lparr>rt_conn := Some Closed\<rparr>)"

definition key :: "string \<Rightarrow> string" where
  "key convID = ''rt:'' @ convID"

text \<open>The body of \<open>doLocked\<close> after the connection is known to be non-nil. A read that fails, because the deadline passes,
  leaves the reply on its connection.\<close>

definition exchange ::
  "(time \<Rightarrow> string \<Rightarrow> 'srv \<Rightarrow> string \<times> 'srv) \<Rightarrow> time \<Rightarrow> string list \<Rightarrow> 'srv RedisRoutingTable \<Rightarrow>
   string result \<times> 'srv RedisRoutingTable" where
  "exchange serve now args rt =
     (case rt_conn rt of
        Some (Live buf) \<Rightarrow>
          (case net_op rt of
             (False, rt1) \<Rightarrow> (Inl (Msg ''write''), snd (reconnect rt1))
           | (True, rt1) \<Rightarrow>
               (case serve now (resp_command args) (rt_srv rt1) of
                  (sent, srv') \<Rightarrow>
                    (case net_op (rt1\<lparr>rt_srv := srv', rt_conn := Some (Live (buf @ sent))\<rparr>) of
                       (False, rt2) \<Rightarrow> (Inl (Msg ''read''), snd (reconnect rt2))
                     | (True, rt2) \<Rightarrow>
                         (case read_reply (buf @ sent) of
                            None \<Rightarrow> (Inl (Msg ''read''), snd (reconnect rt2))
                          | Some (res, rest) \<Rightarrow> (res, rt2\<lparr>rt_conn := Some (Live rest)\<rparr>)))))
      | _ \<Rightarrow> (Inl (Msg ''write''), snd (reconnect rt)))"

definition doLocked ::
  "(time \<Rightarrow> string \<Rightarrow> 'srv \<Rightarrow> string \<times> 'srv) \<Rightarrow> time \<Rightarrow> string list \<Rightarrow> 'srv RedisRoutingTable \<Rightarrow>
   string result \<times> 'srv RedisRoutingTable" where
  "doLocked serve now args rt =
     (if rt_conn rt = None then
        (case reconnect rt of
           (Inl err, rt1) \<Rightarrow> (Inl err, rt1)
         | (Inr _, rt1) \<Rightarrow> exchange serve now args rt1)
      else exchange serve now args rt)"

definition Redis_Get ::
  "(time \<Rightarrow> string \<Rightarrow> 'srv \<Rightarrow> string \<times> 'srv) \<Rightarrow> time \<Rightarrow> string \<Rightarrow> 'srv RedisRoutingTable \<Rightarrow>
   string \<times> 'srv RedisRoutingTable" where
  "Redis_Get serve now convID rt =
     (case doLocked serve now [''GET'', key convID] rt of
        (Inl err, rt') \<Rightarrow> ('''', rt')
      | (Inr val, rt') \<Rightarrow> (val, rt'))"

abbreviation defaultRouteTTL :: duration where
  "defaultRouteTTL \<equiv> 35 * Minute"

text \<open>\<open>int(ttl.Seconds())\<close> truncates towards zero.\<close>

definition ttl_seconds :: "duration \<Rightarrow> int" where
  "ttl_seconds ttl = (if ttl < 0 then - ((- ttl) div Second) else ttl div Second)"

definition Redis_Set ::
  "(time \<Rightarrow> string \<Rightarrow> 'srv \<Rightarrow> string \<times> 'srv) \<Rightarrow> time \<Rightarrow> string \<Rightarrow> string \<Rightarrow> duration \<Rightarrow>
   'srv RedisRoutingTable \<Rightarrow> 'srv RedisRoutingTable" where
  "Redis_Set serve now convID instanceID ttl0 rt =
     (let ttl = (if ttl0 = 0 then defaultRouteTTL else ttl0) in
      snd (doLocked serve now
             [''SET'', key convID, instanceID, ''EX'', itoa_int (ttl_seconds ttl)] rt))"

definition Redis_Delete ::
  "(time \<Rightarrow> string \<Rightarrow> 'srv \<Rightarrow> string \<times> 'srv) \<Rightarrow> time \<Rightarrow> string \<Rightarrow> 'srv RedisRoutingTable \<Rightarrow>
   'srv RedisRoutingTable" where
  "Redis_Delete serve now convID rt = snd (doLocked serve now [''DEL'', key convID] rt)"

definition Redis_Close :: "'srv RedisRoutingTable \<Rightarrow> 'srv RedisRoutingTable" where
  "Redis_Close rt = rt\<lparr>rt_conn := None\<rparr>"

section \<open>The in-memory table\<close>

record MemoryRoutingTable =
  table :: "string \<rightharpoonup> string"

definition NewMemoryRoutingTable :: MemoryRoutingTable where
  "NewMemoryRoutingTable = \<lparr>table = Map.empty\<rparr>"

text \<open>A missing key of a Go map reads as the zero value, the empty string.\<close>

definition Memory_Get :: "string \<Rightarrow> MemoryRoutingTable \<Rightarrow> string" where
  "Memory_Get convID m = (case table m convID of None \<Rightarrow> '''' | Some v \<Rightarrow> v)"

definition Memory_Set :: "string \<Rightarrow> string \<Rightarrow> duration \<Rightarrow> MemoryRoutingTable \<Rightarrow> MemoryRoutingTable" where
  "Memory_Set convID instanceID ttl m = m\<lparr>table := (table m)(convID \<mapsto> instanceID)\<rparr>"

definition Memory_Delete :: "string \<Rightarrow> MemoryRoutingTable \<Rightarrow> MemoryRoutingTable" where
  "Memory_Delete convID m = m\<lparr>table := (table m)(convID := None)\<rparr>"

section \<open>The interface\<close>

text \<open>
  What a client of \<open>RoutingTable\<close> may rely on: \<open>view t c\<close> is the instance recorded for
  conversation \<open>c\<close>, the empty string when there is none.
\<close>

locale routing_table =
  fixes get :: "string \<Rightarrow> 't \<Rightarrow> string \<times> 't"
    and set_route :: "string \<Rightarrow> string \<Rightarrow> 't \<Rightarrow> 't"
    and del :: "string \<Rightarrow> 't \<Rightarrow> 't"
    and view :: "'t \<Rightarrow> string \<Rightarrow> string"
    and rinv :: "'t \<Rightarrow> bool"
  assumes get_view: "rinv t \<Longrightarrow> fst (get c t) = view t c"
    and get_pure: "rinv t \<Longrightarrow> view (snd (get c t)) = view t"
    and set_view: "rinv t \<Longrightarrow> view (set_route c i t) = (view t)(c := i)"
    and del_view: "rinv t \<Longrightarrow> view (del c t) = (view t)(c := '''')"
    and rinv_get: "rinv t \<Longrightarrow> rinv (snd (get c t))"
    and rinv_set: "rinv t \<Longrightarrow> rinv (set_route c i t)"
    and rinv_del: "rinv t \<Longrightarrow> rinv (del c t)"
begin

lemma get_after_set: "rinv t \<Longrightarrow> fst (get c (set_route d i t)) = (if c = d then i else fst (get c t))"
  by (simp add: get_view rinv_set set_view)

lemma get_after_del: "rinv t \<Longrightarrow> fst (get c (del d t)) = (if c = d then '''' else fst (get c t))"
  by (simp add: get_view rinv_del del_view)

lemma set_overwrites:
  "rinv t \<Longrightarrow> view (set_route c i (set_route c j t)) = view (set_route c i t)"
  by (simp add: set_view rinv_set)

end

interpretation memory: routing_table
  "\<lambda>c m. (Memory_Get c m, m)" "\<lambda>c i. Memory_Set c i ttl" Memory_Delete "\<lambda>m c. Memory_Get c m" "\<lambda>_. True"
  for ttl
  by unfold_locales
    (auto simp: Memory_Get_def Memory_Set_def Memory_Delete_def fun_eq_iff)

section \<open>The protocol is unambiguous\<close>

text \<open>A reader of the command format, as a server has one: an array header, then bulk strings.\<close>

definition take_number :: "string \<Rightarrow> (nat \<times> string) option" where
  "take_number s =
     (let ds = takeWhile is_digit s; rest = dropWhile is_digit s in
      if ds \<noteq> [] \<and> take 2 rest = CRLF then Some (digits_val ds, drop 2 rest) else None)"

fun take_bulks :: "nat \<Rightarrow> string \<Rightarrow> (string list \<times> string) option" where
  "take_bulks 0 s = Some ([], s)"
| "take_bulks (Suc k) s =
     (case s of
        [] \<Rightarrow> None
      | c # s1 \<Rightarrow>
          if c \<noteq> CHR ''$'' then None
          else (case take_number s1 of
                  None \<Rightarrow> None
                | Some (n, s2) \<Rightarrow>
                    if length s2 < n + 2 \<or> take 2 (drop n s2) \<noteq> CRLF then None
                    else map_option (map_prod ((#) (take n s2)) id)
                           (take_bulks k (drop (n + 2) s2))))"

definition decode_command :: "string \<Rightarrow> (string list \<times> string) option" where
  "decode_command s =
     (case s of
        [] \<Rightarrow> None
      | c # s1 \<Rightarrow>
          if c \<noteq> CHR ''*'' then None
          else (case take_number s1 of None \<Rightarrow> None | Some (k, s2) \<Rightarrow> take_bulks k s2))"

lemma not_digit_CR [simp]: "\<not> is_digit (CHR 0x0D)"
  by (simp add: is_digit_def)

lemma takeWhile_itoa:
  assumes "\<not> is_digit c"
  shows "takeWhile is_digit (itoa n @ c # s) = itoa n" "dropWhile is_digit (itoa n @ c # s) = c # s"
  using assms itoa_digits by (auto simp: takeWhile_append2 dropWhile_append2)

lemma take_number_itoa [simp]: "take_number (itoa n @ CHR 0x0D # CHR 0x0A # s) = Some (n, s)"
  by (simp add: take_number_def takeWhile_itoa Let_def)

lemma take_bulks_encode: "take_bulks (length args) (concat (map resp_bulk args) @ s) = Some (args, s)"
  by (induction args) (simp_all add: resp_bulk_def)

text \<open>a command is encoded so that a RESP reader recovers exactly its arguments, whatever
  bytes they contain, and stops exactly at the end of the command; so no argument can be
  mistaken for part of the protocol and different commands have different encodings.\<close>

theorem resp_command_roundtrip:
  "decode_command (resp_command args @ s) = Some (args, s) \<and>
   (resp_command args = resp_command args' \<longleftrightarrow> args = args')"
proof -
  have dec: "decode_command (resp_command args @ s) = Some (args, s)" for args s
    by (simp add: decode_command_def resp_command_def take_bulks_encode)
  moreover have "args = args'" if "resp_command args = resp_command args'"
    using dec [of args "[]"] dec [of args' "[]"] that by simp
  ultimately show ?thesis by blast
qed

lemma read_line:
  assumes "CHR 0x0A \<notin> set l" "CHR 0x0D \<notin> set l"
  shows "read_reply (l @ CRLF @ rest) =
     (case l of
        [] \<Rightarrow> Some (Inl (Msg ''empty redis response''), rest)
      | c # body \<Rightarrow>
          if c = CHR ''+'' then Some (Inr body, rest)
          else if c = CHR ''-'' then Some (Inl (Msg (''redis: '' @ body)), rest)
          else if c = CHR '':'' then Some (Inr body, rest)
          else if c = CHR ''$'' then
            (let n = atoi body in
             if n < 0 then Some (Inr '''', rest)
             else if length rest < nat n + 2 then None
             else Some (Inr (take (nat n) rest), drop (nat n + 2) rest))
          else Some (Inr l, rest))"
proof -
  let ?P = "\<lambda>c. c \<noteq> CHR 0x0A"
  have raw: "takeWhile ?P (l @ CRLF @ rest) = l @ [CHR 0x0D]"
    using assms(1) takeWhile_append2 [of l ?P "CRLF @ rest"] by fastforce
  have trim: "trim_right {CHR 0x0D, CHR 0x0A} ((l @ [CHR 0x0D]) @ [CHR 0x0A]) = l"
  proof (cases l rule: rev_cases)
    case (snoc ys y)
    with assms show ?thesis by (auto simp: trim_right_def)
  qed (simp add: trim_right_def)
  have rest: "drop (length ((l @ [CHR 0x0D]) @ [CHR 0x0A])) (l @ CRLF @ rest) = rest" by simp
  have "(CHR 0x0A \<notin> set (l @ CRLF @ rest)) = False" by simp
  then show ?thesis
    unfolding read_reply_def Let_def raw trim rest by (simp only: if_False)
qed

lemma no_newline_itoa: "CHR 0x0A \<notin> set (itoa n)" "CHR 0x0D \<notin> set (itoa n)"
  using itoa_digits by (fastforce simp: is_digit_def)+

lemma atoi_itoa [simp]: "atoi (itoa n) = int n"
proof -
  obtain c cs where c: "itoa n = c # cs"
    by (meson itoa_not_Nil list.exhaust)
  have "list_all is_digit (itoa n)" using itoa_digits by (auto simp: list_all_iff)
  moreover from this c have "c \<noteq> CHR ''-''" "c \<noteq> CHR ''+''"
    by (auto simp: is_digit_def)
  moreover have "digits_val (c # cs) = n" using digits_val_itoa [of n] c by simp
  ultimately show ?thesis using c by (simp add: atoi_def)
qed

lemma read_reply_bulk [simp]: "read_reply (resp_bulk v @ rest) = Some (Inr v, rest)"
  using read_line [of "CHR ''$'' # itoa (length v)" "v @ CRLF @ rest"] no_newline_itoa
  by (simp add: resp_bulk_def Let_def)

text \<open>The replies that the three commands of the table can get.\<close>

definition nil_bulk :: string where
  "nil_bulk = ''$-1'' @ CRLF"

definition wf_reply :: "string \<Rightarrow> bool" where
  "wf_reply s \<longleftrightarrow>
     s = nil_bulk \<or> (\<exists>v. s = resp_bulk v) \<or>
     (\<exists>c body. s = (c # body) @ CRLF \<and> c \<in> {CHR ''+'', CHR ''-'', CHR '':''} \<and>
        CHR 0x0A \<notin> set body \<and> CHR 0x0D \<notin> set body)"

lemma atoi_minus_one [simp]: "atoi ''-1'' = - 1"
  by (simp add: atoi_def is_digit_def digits_val_def digit_val_def)

lemma read_nil_bulk [simp]: "read_reply (nil_bulk @ rest) = Some (Inr '''', rest)"
  using read_line [of "''$-1''" rest] by (simp add: nil_bulk_def Let_def)

lemma read_status [simp]: "read_reply (''+OK'' @ CRLF @ rest) = Some (Inr ''OK'', rest)"
  using read_line [of "''+OK''" rest] by simp

lemma read_wf_reply:
  assumes "wf_reply s"
  shows "\<exists>res. read_reply s = Some (res, '''')"
  using assms unfolding wf_reply_def
proof (elim disjE exE conjE)
  assume "s = nil_bulk"
  then show ?thesis using read_nil_bulk [of "[]"] by simp
next
  fix v assume "s = resp_bulk v"
  then show ?thesis using read_reply_bulk [of v "[]"] by simp
next
  fix c body
  assume s: "s = (c # body) @ CRLF" "c \<in> {CHR ''+'', CHR ''-'', CHR '':''}"
    "CHR 0x0A \<notin> set body" "CHR 0x0D \<notin> set body"
  then show ?thesis using read_line [of "c # body" "[]"] by auto
qed

section \<open>The connection stays in step with the server\<close>

text \<open>No unread bytes: the next reply that is read belongs to the next command.\<close>

definition in_step :: "'srv RedisRoutingTable \<Rightarrow> bool" where
  "in_step rt \<longleftrightarrow> rt_conn rt \<in> {None, Some Closed, Some (Live '''')}"

lemma in_step_reconnect: "in_step (snd (reconnect rt))"
  by (auto simp: reconnect_def connect_def net_op_def in_step_def
      split: option.splits list.splits bool.splits)

text \<open>The errors that \<open>doLocked\<close> makes itself, and the answer that the server gives to a command in its present state\<close>

definition network_error :: "string result \<Rightarrow> bool" where
  "network_error r \<longleftrightarrow> r \<in> {Inl (Msg ''dial tcp''), Inl (Msg ''write''), Inl (Msg ''read'')}"

definition answered_by ::
  "(time \<Rightarrow> string \<Rightarrow> 'srv \<Rightarrow> string \<times> 'srv) \<Rightarrow> time \<Rightarrow> string list \<Rightarrow> 'srv \<Rightarrow> string result \<Rightarrow> 'srv \<Rightarrow> bool" where
  "answered_by serve now args srv r srv' \<longleftrightarrow>
     (case serve now (resp_command args) srv of (sent, s) \<Rightarrow> read_reply sent = Some (r, '''') \<and> srv' = s)"

lemma exchange_answers:
  assumes "\<And>now cmd srv. wf_reply (fst (serve now cmd srv))" "in_step rt"
  shows "in_step (snd (exchange serve now args rt)) \<and>
    (network_error (fst (exchange serve now args rt)) \<or>
     answered_by serve now args (rt_srv rt) (fst (exchange serve now args rt)) (rt_srv (snd (exchange serve now args rt))))"
proof (cases "rt_conn rt")
  case (Some c)
  show ?thesis
  proof (cases c)
    case (Live buf)
    with Some assms(2) have buf: "buf = ''''" by (simp add: in_step_def)
    obtain ok1 rt1 where 1: "net_op rt = (ok1, rt1)" by (meson surj_pair)
    obtain sent srv' where 2: "serve now (resp_command args) (rt_srv rt1) = (sent, srv')"
      by (meson surj_pair)
    obtain ok2 rt2 where 3: "net_op (rt1\<lparr>rt_srv := srv', rt_conn := Some (Live sent)\<rparr>) = (ok2, rt2)" by (meson surj_pair)
    obtain res where "read_reply sent = Some (res, '''')"
      using read_wf_reply assms(1) [of now "resp_command args" "rt_srv rt1"] 2 by auto
    moreover have "in_step (rt2\<lparr>rt_conn := Some (Live [])\<rparr>)" by (simp add: in_step_def)
    moreover have "rt_srv rt1 = rt_srv rt" "rt_srv rt2 = srv'" using 1 3 by (auto simp: net_op_def split: list.splits)
    ultimately show ?thesis
      using Some Live buf 1 2 3
      by (cases ok1; cases ok2) (simp_all add: exchange_def in_step_reconnect network_error_def answered_by_def)
  qed (simp add: exchange_def Some in_step_reconnect network_error_def)
qed (simp add: exchange_def in_step_reconnect network_error_def)

lemma reconnect_frame:
  "rt_srv (snd (reconnect rt)) = rt_srv rt"
  "fst (reconnect rt) = Inl err \<Longrightarrow> err = Msg ''dial tcp''"
  by (auto simp: reconnect_def connect_def net_op_def split: option.splits list.splits bool.splits)

lemma doLocked_answers:
  assumes "\<And>now cmd srv. wf_reply (fst (serve now cmd srv))" "in_step rt"
  shows "in_step (snd (doLocked serve now args rt)) \<and>
    (network_error (fst (doLocked serve now args rt)) \<or>
     answered_by serve now args (rt_srv rt) (fst (doLocked serve now args rt)) (rt_srv (snd (doLocked serve now args rt))))"
proof (cases "rt_conn rt = None")
  case True
  obtain r rt1 where r: "reconnect rt = (r, rt1)" by (meson surj_pair)
  have step: "in_step rt1" "rt_srv rt1 = rt_srv rt" using in_step_reconnect [of rt] reconnect_frame(1) [of rt] r by simp_all
  show ?thesis
  proof (cases r)
    case (Inl err)
    then show ?thesis using True r step reconnect_frame(2) [of rt err] by (simp add: doLocked_def network_error_def)
  next
    case (Inr u)
    then show ?thesis using True r step exchange_answers [where serve = serve and now = now and args = args, OF assms(1) step(1)] by (simp add: doLocked_def)
  qed
next
  case False
  then have "doLocked serve now args rt = exchange serve now args rt" by (simp only: doLocked_def if_False)
  then show ?thesis using exchange_answers [where serve = serve and now = now and args = args, OF assms] by simp
qed

text \<open>What happens to a table over its life: commands (each may meet any network failures that \<open>rt_net\<close> lists),
  \<open>Close\<close>, other clients of the server, and a network that behaves differently from now on.\<close>

inductive redis_step :: "(time \<Rightarrow> string \<Rightarrow> 'srv \<Rightarrow> string \<times> 'srv) \<Rightarrow> 'srv RedisRoutingTable \<Rightarrow> 'srv RedisRoutingTable \<Rightarrow> bool"
  for serve where
  command: "redis_step serve rt (snd (doLocked serve now args rt))"
| close: "redis_step serve rt (Redis_Close rt)"
| others: "redis_step serve rt (rt\<lparr>rt_srv := srv\<rparr>)"
| net: "redis_step serve rt (rt\<lparr>rt_net := bs\<rparr>)"

lemma redis_run_in_step:
  assumes "(redis_step serve)\<^sup>*\<^sup>* rt0 rt" "\<And>now cmd srv. wf_reply (fst (serve now cmd srv))" "in_step rt0"
  shows "in_step rt"
  using assms(1)
proof (induction rule: rtranclp_induct)
  case base
  then show ?case by (rule assms(3))
next
  case (step y z)
  from step.hyps(2) show ?case
  proof cases
    case (command now args)
    then show ?thesis using doLocked_answers [where serve = serve, OF assms(2) step.IH] by simp
  qed (use step.IH in \<open>simp_all add: in_step_def Redis_Close_def\<close>)
qed

text \<open>C15: a reply is never taken for the answer to another command. A connection holds the bytes that the server sent and
  the reader has not consumed, so a reply that comes after its read has timed out is waiting there. Provided the server
  answers each command with one well-formed reply, then after any history of a table that starts without a connection,
  with commands, \<open>Close\<close>, other clients and network failures in any order and number, a command returns an error of the
  network (dial, write or read) or what the server answers to this very command in its present state, and leaves no
  unread byte behind.\<close>

theorem redis_replies_never_shift:
  assumes "\<And>now cmd srv. wf_reply (fst (serve now cmd srv))"
    and "rt_conn rt0 = None" "(redis_step serve)\<^sup>*\<^sup>* rt0 rt"
    and "doLocked serve now args rt = (r, rt')"
  shows "in_step rt' \<and> (network_error r \<or> answered_by serve now args (rt_srv rt) r (rt_srv rt'))"
proof -
  have "in_step rt0" using assms(2) by (simp add: in_step_def)
  from doLocked_answers [where serve = serve and now = now and args = args, OF assms(1) redis_run_in_step [where serve = serve, OF assms(3,1) this]]
  show ?thesis using assms(4) by simp
qed

section \<open>The Redis table implements the interface\<close>

text \<open>
  The documented behaviour of the server: \<open>content s t k\<close> is the value of key \<open>k\<close> at time
  \<open>t\<close>. \<open>GET\<close> answers with the value or the nil bulk string, \<open>SET k v EX n\<close> stores a value
  for \<open>n\<close> seconds, \<open>DEL\<close> removes a key.
\<close>

definition redis_spec ::
  "(time \<Rightarrow> string \<Rightarrow> 'srv \<Rightarrow> string \<times> 'srv) \<Rightarrow> ('srv \<Rightarrow> time \<Rightarrow> string \<Rightarrow> string option) \<Rightarrow> bool" where
  "redis_spec serve content \<longleftrightarrow>
     (\<forall>now k s. \<exists>s'. serve now (resp_command [''GET'', k]) s =
          ((case content s now k of None \<Rightarrow> nil_bulk | Some v \<Rightarrow> resp_bulk v), s') \<and>
        (\<forall>t. content s' t = content s t)) \<and>
     (\<forall>now k v n s. 0 < n \<longrightarrow>
        (\<exists>s'. serve now (resp_command [''SET'', k, v, ''EX'', itoa_int n]) s = (''+OK'' @ CRLF, s') \<and>
          (\<forall>t. content s' t = (content s t)(k := if t < now + n * Second then Some v else None)))) \<and>
     (\<forall>now k s. \<exists>n s'. serve now (resp_command [''DEL'', k]) s = (CHR '':'' # itoa n @ CRLF, s') \<and>
        (\<forall>t. content s' t = (content s t)(k := None)))"

definition redis_view ::
  "('srv \<Rightarrow> time \<Rightarrow> string \<Rightarrow> string option) \<Rightarrow> time \<Rightarrow> 'srv RedisRoutingTable \<Rightarrow> string \<Rightarrow> string" where
  "redis_view content t rt c = (case content (rt_srv rt) t (key c) of None \<Rightarrow> '''' | Some v \<Rightarrow> v)"

text \<open>No network failure is pending and the connection is fresh or not yet made.\<close>

definition redis_up :: "'srv RedisRoutingTable \<Rightarrow> bool" where
  "redis_up rt \<longleftrightarrow> rt_net rt = [] \<and> rt_conn rt \<in> {None, Some (Live '''')}"

lemma key_inj [simp]: "key c = key d \<longleftrightarrow> c = d"
  by (simp add: key_def)

lemma doLocked_up:
  assumes "redis_up rt" "serve now (resp_command args) (rt_srv rt) = (sent, srv')"
    and "read_reply sent = Some (res, '''')"
  shows "doLocked serve now args rt = (res, \<lparr>rt_conn = Some (Live ''''), rt_srv = srv', rt_net = []\<rparr>)"
  using assms
  by (auto simp: redis_up_def doLocked_def exchange_def reconnect_def connect_def net_op_def)

lemma redis_up_fresh [simp]: "redis_up \<lparr>rt_conn = Some (Live ''''), rt_srv = s, rt_net = []\<rparr>"
  by (simp add: redis_up_def)

lemma Redis_Get_up:
  assumes "redis_spec serve content" "redis_up rt"
  shows "fst (Redis_Get serve now c rt) = redis_view content now rt c"
    and "redis_up (snd (Redis_Get serve now c rt))"
    and "redis_view content t (snd (Redis_Get serve now c rt)) = redis_view content t rt"
proof -
  obtain s' where s': "serve now (resp_command [''GET'', key c]) (rt_srv rt) =
      ((case content (rt_srv rt) now (key c) of None \<Rightarrow> nil_bulk | Some v \<Rightarrow> resp_bulk v), s')"
    "\<forall>t. content s' t = content (rt_srv rt) t"
    using assms(1) unfolding redis_spec_def by blast
  have read: "read_reply (case content (rt_srv rt) now (key c) of None \<Rightarrow> nil_bulk | Some v \<Rightarrow> resp_bulk v) =
      Some (Inr (redis_view content now rt c), '''')"
    using read_nil_bulk [of "[]"] read_reply_bulk [of _ "[]"]
    by (simp add: redis_view_def split: option.splits)
  note run = doLocked_up [where serve = serve, OF assms(2) s'(1) read]
  show "fst (Redis_Get serve now c rt) = redis_view content now rt c"
    "redis_up (snd (Redis_Get serve now c rt))"
    "redis_view content t (snd (Redis_Get serve now c rt)) = redis_view content t rt"
    using s'(2) by (simp_all add: Redis_Get_def run redis_view_def fun_eq_iff)
qed

lemma Redis_Set_up:
  assumes "redis_spec serve content" "redis_up rt" "0 < ttl_seconds (if ttl = 0 then defaultRouteTTL else ttl)"
  shows "redis_up (Redis_Set serve now c i ttl rt)"
    and "redis_view content t (Redis_Set serve now c i ttl rt) =
      (redis_view content t rt)(c :=
         if t < now + ttl_seconds (if ttl = 0 then defaultRouteTTL else ttl) * Second then i else '''')"
proof -
  let ?n = "ttl_seconds (if ttl = 0 then defaultRouteTTL else ttl)"
  obtain s' where s': "serve now (resp_command [''SET'', key c, i, ''EX'', itoa_int ?n]) (rt_srv rt) =
      (''+OK'' @ CRLF, s')"
    "\<forall>t. content s' t = (content (rt_srv rt) t)(key c := if t < now + ?n * Second then Some i else None)"
    using assms(1,3) unfolding redis_spec_def by blast
  have "read_reply (''+OK'' @ CRLF) = Some (Inr ''OK'', '''')"
    using read_status [of "[]"] by simp
  note run = doLocked_up [where serve = serve, OF assms(2) s'(1) this]
  show "redis_up (Redis_Set serve now c i ttl rt)"
    "redis_view content t (Redis_Set serve now c i ttl rt) =
      (redis_view content t rt)(c := if t < now + ?n * Second then i else '''')"
    using s'(2) by (simp_all add: Redis_Set_def run redis_view_def fun_eq_iff Let_def)
qed

lemma Redis_Delete_up:
  assumes "redis_spec serve content" "redis_up rt"
  shows "redis_up (Redis_Delete serve now c rt)"
    and "redis_view content t (Redis_Delete serve now c rt) = (redis_view content t rt)(c := '''')"
proof -
  obtain n s' where s': "serve now (resp_command [''DEL'', key c]) (rt_srv rt) = (CHR '':'' # itoa n @ CRLF, s')"
    "\<forall>t. content s' t = (content (rt_srv rt) t)(key c := None)"
    using assms(1) unfolding redis_spec_def by blast
  have "read_reply (CHR '':'' # itoa n @ CRLF) = Some (Inr (itoa n), '''')"
    using read_line [of "CHR '':'' # itoa n" "[]"] no_newline_itoa by simp
  note run = doLocked_up [where serve = serve, OF assms(2) s'(1) this]
  show "redis_up (Redis_Delete serve now c rt)"
    "redis_view content t (Redis_Delete serve now c rt) = (redis_view content t rt)(c := '''')"
    using s'(2) by (simp_all add: Redis_Delete_def run redis_view_def fun_eq_iff)
qed

text \<open>C18: the shared table works. While the network is up, a conversation's route reads back as
  the instance it was set to until the entry's time to live is over and as absent from then
  on; setting it does not disturb the route of any other conversation, and deleting it
  makes it absent at once.\<close>

theorem redis_routing_table_correct:
  assumes "redis_spec serve content" "redis_up rt"
  shows "fst (Redis_Get serve t d (Redis_Set serve now c i 0 rt)) =
           (if d = c then (if t < now + defaultRouteTTL then i else '''') else fst (Redis_Get serve t d rt)) \<and>
         fst (Redis_Get serve t d (Redis_Delete serve now c rt)) =
           (if d = c then '''' else fst (Redis_Get serve t d rt))"
proof -
  have n: "ttl_seconds (if 0 = (0::int) then defaultRouteTTL else 0) = 2100"
    by (simp add: ttl_seconds_def)
  then have "0 < ttl_seconds (if 0 = (0::int) then defaultRouteTTL else 0)" by simp
  note set_ok = Redis_Set_up [OF assms this] and del_ok = Redis_Delete_up [OF assms]
  show ?thesis
    using set_ok(2) del_ok(2) n
    by (simp add: Redis_Get_up(1) [OF assms(1)] set_ok(1) del_ok(1) assms(2))
qed

text \<open>A server that behaves as documented: keys with a value and the time they expire.\<close>

type_synonym ref_store = "string \<rightharpoonup> string \<times> time"

definition ref_content :: "ref_store \<Rightarrow> time \<Rightarrow> string \<Rightarrow> string option" where
  "ref_content s t k = (case s k of Some (v, e) \<Rightarrow> if t < e then Some v else None | None \<Rightarrow> None)"

definition ref_serve :: "time \<Rightarrow> string \<Rightarrow> ref_store \<Rightarrow> string \<times> ref_store" where
  "ref_serve now cmd s =
     (case decode_command cmd of
        None \<Rightarrow> (''-ERR protocol'' @ CRLF, s)
      | Some (args, _) \<Rightarrow>
          if length args = 2 \<and> args ! 0 = ''GET'' then
            ((case ref_content s now (args ! 1) of None \<Rightarrow> nil_bulk | Some v \<Rightarrow> resp_bulk v), s)
          else if length args = 5 \<and> args ! 0 = ''SET'' then
            (''+OK'' @ CRLF, s(args ! 1 \<mapsto> (args ! 2, now + atoi (args ! 4) * Second)))
          else if length args = 2 \<and> args ! 0 = ''DEL'' then
            (CHR '':'' # itoa (if s (args ! 1) = None then 0 else 1) @ CRLF, s(args ! 1 := None))
          else (''-ERR unknown command'' @ CRLF, s))"

lemma decode_resp_command [simp]: "decode_command (resp_command args) = Some (args, [])"
  by (simp add: decode_command_def resp_command_def take_bulks_encode [of _ "[]", simplified])

lemma ref_content_upd:
  "ref_content (s(k := x)) t =
     (ref_content s t)(k := case x of Some (v, e) \<Rightarrow> if t < e then Some v else None | None \<Rightarrow> None)"
  by (auto simp: ref_content_def fun_eq_iff split: option.splits)

lemma ref_serve_spec: "redis_spec ref_serve ref_content"
  unfolding redis_spec_def
  by (simp add: ref_serve_def ref_content_upd itoa_int_def) blast

lemma ref_serve_wf: "wf_reply (fst (ref_serve now cmd s))"
  unfolding wf_reply_def ref_serve_def using no_newline_itoa
  by (auto split: option.splits)

definition empty_redis :: "ref_store RedisRoutingTable" where
  "empty_redis = \<lparr>rt_conn = None, rt_srv = Map.empty, rt_net = []\<rparr>"

lemma empty_redis_up [simp]: "redis_up empty_redis"
  by (simp add: redis_up_def empty_redis_def)

theorem redis_routing_table_correct_witness:
  "fst (Redis_Get ref_serve 5 ''conv'' (Redis_Set ref_serve 1 ''conv'' ''inst'' 0 empty_redis)) = ''inst''"
  using redis_routing_table_correct [OF ref_serve_spec empty_redis_up, of 5 "''conv''" 1 "''conv''" "''inst''"]
  by simp

text \<open>A table whose first read times out (dialling and writing succeed): \<open>GET j\<close> fails, and its reply \<open>old\<close> is not what
  \<open>GET k\<close> returns afterwards.\<close>

definition slow_redis :: "ref_store RedisRoutingTable" where
  "slow_redis = \<lparr>rt_conn = None, rt_srv = [''j'' \<mapsto> (''old'', 9), ''k'' \<mapsto> (''new'', 9)], rt_net = [True, True, False]\<rparr>"

definition recovered_redis :: "ref_store RedisRoutingTable" where
  "recovered_redis = slow_redis\<lparr>rt_conn := Some (Live ''''), rt_net := []\<rparr>"

lemma slow_redis_runs:
  "doLocked ref_serve 1 [''GET'', ''j''] slow_redis = (Inl (Msg ''read''), recovered_redis)"
  "doLocked ref_serve 2 [''GET'', ''k''] recovered_redis = (Inr ''new'', recovered_redis)"
  using read_reply_bulk [of _ "[]"]
  by (simp_all add: slow_redis_def recovered_redis_def doLocked_def exchange_def reconnect_def connect_def net_op_def
      ref_serve_def ref_content_def)

theorem redis_replies_never_shift_witness:
  "doLocked ref_serve 1 [''GET'', ''j''] slow_redis = (Inl (Msg ''read''), recovered_redis) \<and>
   in_step recovered_redis \<and>
   answered_by ref_serve 2 [''GET'', ''k''] (rt_srv recovered_redis) (Inr ''new'') (rt_srv recovered_redis)"
proof -
  have "(redis_step ref_serve)\<^sup>*\<^sup>* slow_redis recovered_redis"
    using redis_step.command [of ref_serve slow_redis 1 "[''GET'', ''j'']"] slow_redis_runs(1) by simp
  from redis_replies_never_shift [OF ref_serve_wf _ this slow_redis_runs(2)]
  show ?thesis using slow_redis_runs(1) by (simp add: network_error_def slow_redis_def)
qed

interpretation redis: routing_table
  "Redis_Get ref_serve now" "\<lambda>c i. Redis_Set ref_serve now c i 0" "Redis_Delete ref_serve now"
  "redis_view ref_content now" redis_up
  for now
proof -
  have "0 < ttl_seconds (if 0 = (0::int) then defaultRouteTTL else 0)"
    "ttl_seconds (if 0 = (0::int) then defaultRouteTTL else 0) = 2100"
    by (simp_all add: ttl_seconds_def)
  note set_ok = Redis_Set_up [OF ref_serve_spec _ this(1)]
  show "routing_table (Redis_Get ref_serve now) (\<lambda>c i. Redis_Set ref_serve now c i 0)
      (Redis_Delete ref_serve now) (redis_view ref_content now) redis_up"
    by unfold_locales
      (simp_all add: Redis_Get_up [OF ref_serve_spec] Redis_Delete_up [OF ref_serve_spec] set_ok
        ttl_seconds_def)
qed

end
