(* ===== verification/Auth_Token.thy ===== *)
theory Auth_Token
  imports Routing
begin

text \<open>
  Access tokens and the interceptors that check them: \<^verbatim>\<open>internal/auth/jwt.go\<close>,
  \<^verbatim>\<open>internal/auth/middleware.go\<close> and the password and token helpers of
  \<^verbatim>\<open>internal/auth/password.go\<close>. The JWT and bcrypt packages are not part of the sources: they are
  parameters (\<open>jwt_lib\<close>, \<open>bcrypt\<close>), and what the code relies on of the JWT package is \<open>jwt_spec\<close>; a
  symbolic signer, which reuses the array codec of \<open>Routing\<close>, shows that it can be met.
\<close>

section \<open>Claims\<close>

record Claims =
  cl_Subject :: string
  cl_IssuedAt :: time
  cl_ExpiresAt :: "time option"
  cl_Issuer :: string
  cl_TenantID :: string
  cl_Role :: string

text \<open>The families of signing methods the package knows; the header of a token names one.\<close>

datatype signing_method = HMAC | RSA | ECDSA | EdDSA | NoneMethod

text \<open>\<open>NewNumericDate\<close>, \<open>SignedString\<close> with HS256, and \<open>ParseWithClaims\<close>, which asks its key function for
  the key of the method that the token's header names and reports the claims and whether the
  token is valid.\<close>

record jwt_lib =
  jl_date :: "time \<Rightarrow> time"
  jl_sign :: "string \<Rightarrow> Claims \<Rightarrow> string result"
  jl_parse :: "(signing_method \<Rightarrow> string result) \<Rightarrow> time \<Rightarrow> string \<Rightarrow> (Claims \<times> bool) result"

record TokenManager =
  tm_secret :: string

definition NewTokenManager :: "string \<Rightarrow> TokenManager" where
  "NewTokenManager secret = \<lparr>tm_secret = secret\<rparr>"

definition Generate ::
  "jwt_lib \<Rightarrow> TokenManager \<Rightarrow> time \<Rightarrow> string \<Rightarrow> string \<Rightarrow> string \<Rightarrow> duration \<Rightarrow> string result" where
  "Generate J tm now subject tenantID role ttl =
     jl_sign J (tm_secret tm)
       \<lparr>cl_Subject = subject, cl_IssuedAt = jl_date J now, cl_ExpiresAt = Some (jl_date J (now + ttl)),
        cl_Issuer = ''volund'', cl_TenantID = tenantID, cl_Role = role\<rparr>"

definition token_key :: "TokenManager \<Rightarrow> signing_method \<Rightarrow> string result" where
  "token_key tm m = (if m \<noteq> HMAC then Inl (Msg ''unexpected signing method'') else Inr (tm_secret tm))"

definition Validate :: "jwt_lib \<Rightarrow> TokenManager \<Rightarrow> time \<Rightarrow> string \<Rightarrow> Claims result" where
  "Validate J tm now tokenStr =
     (case jl_parse J (token_key tm) now tokenStr of
        Inl err \<Rightarrow> Inl (Wrap ''invalid token'' err)
      | Inr (claims, valid) \<Rightarrow>
          if \<not> valid then Inl (Msg ''invalid token claims'') else Inr claims)"

section \<open>Passwords and random tokens\<close>

text \<open>\<open>bcrypt\<close> and the system's random source, the latter as the list of byte strings it is about to
  deliver (\<open>None\<close> for a failed read).\<close>

record bcrypt =
  bc_hash :: "string \<Rightarrow> nat \<Rightarrow> string result"
  bc_compare :: "string \<Rightarrow> string \<Rightarrow> bool"

definition bcryptCost :: nat where
  "bcryptCost = 12"

definition HashPassword :: "bcrypt \<Rightarrow> string \<Rightarrow> string result" where
  "HashPassword B password = wrap_err ''hash password'' (bc_hash B password bcryptCost)"

definition CheckPassword :: "bcrypt \<Rightarrow> string \<Rightarrow> string \<Rightarrow> bool" where
  "CheckPassword B hash password = bc_compare B hash password"

text \<open>\<open>base64.RawURLEncoding\<close>: six bits per character, no padding.\<close>

definition b64_char :: "nat \<Rightarrow> char" where
  "b64_char n =
     (if n < 26 then char_of (65 + n) else if n < 52 then char_of (97 + (n - 26))
      else if n < 62 then char_of (48 + (n - 52)) else if n = 62 then CHR ''-'' else CHR ''_'')"

fun b64_encode :: "string \<Rightarrow> string" where
  "b64_encode [] = []"
| "b64_encode [a] = (let n = of_char a * 16 in [b64_char (n div 64), b64_char (n mod 64)])"
| "b64_encode [a, b] =
     (let n = (of_char a * 256 + of_char b) * 4
      in [b64_char (n div 4096), b64_char (n div 64 mod 64), b64_char (n mod 64)])"
| "b64_encode (a # b # c # s) =
     (let n = (of_char a * 256 + of_char b) * 256 + of_char c
      in [b64_char (n div 262144), b64_char (n div 4096 mod 64), b64_char (n div 64 mod 64), b64_char (n mod 64)]
         @ b64_encode s)"

type_synonym entropy = "string option list"

definition GenerateToken :: "nat \<Rightarrow> entropy \<Rightarrow> string result \<times> entropy" where
  "GenerateToken byteLen src =
     (case src of
        [] \<Rightarrow> (Inl (Wrap ''generate token'' EOF), [])
      | None # src' \<Rightarrow> (Inl (Wrap ''generate token'' (Msg ''read'')), src')
      | Some b # src' \<Rightarrow> (Inr (b64_encode (take byteLen b)), src'))"

section \<open>The interceptors\<close>

definition skipMethods :: "string list" where
  "skipMethods =
     [''/grpc.health.v1.Health/'', ''/grpc.reflection.v1alpha.ServerReflection/'',
      ''/grpc.reflection.v1.ServerReflection/'', ''/volund.v1.AuthService/Login'',
      ''/volund.v1.LLMService/'']"

definition shouldSkipAuth :: "string \<Rightarrow> bool" where
  "shouldSkipAuth method = list_ex (\<lambda>skip. has_prefix method skip \<or> method = skip) skipMethods"

datatype grpc_code = Unauthenticated | OtherCode

text \<open>The metadata of a call: absent, or the values of the \<open>authorization\<close> key.\<close>

definition extractGRPCClaims ::
  "jwt_lib \<Rightarrow> TokenManager \<Rightarrow> time \<Rightarrow> string list option \<Rightarrow> (grpc_code \<times> string) + Claims" where
  "extractGRPCClaims J tm now md =
     (case md of
        None \<Rightarrow> Inl (Unauthenticated, ''missing metadata'')
      | Some [] \<Rightarrow> Inl (Unauthenticated, ''missing authorization header'')
      | Some (v # _) \<Rightarrow>
          (case Validate J tm now (trim_prefix v ''Bearer '') of
             Inl err \<Rightarrow> Inl (Unauthenticated, ''invalid token: '' @ err_text err)
           | Inr claims \<Rightarrow> Inr claims))"

text \<open>A handler receives the claims that the context carries; the stream interceptor passes the
  stream on with its context unchanged.\<close>

definition UnaryServerInterceptor ::
  "jwt_lib \<Rightarrow> TokenManager \<Rightarrow> time \<Rightarrow> string \<Rightarrow> string list option \<Rightarrow>
   (Claims option \<Rightarrow> (grpc_code \<times> string) + 'resp) \<Rightarrow> (grpc_code \<times> string) + 'resp" where
  "UnaryServerInterceptor J tm now method md handler =
     (if shouldSkipAuth method then handler None
      else (case extractGRPCClaims J tm now md of
              Inl err \<Rightarrow> Inl err
            | Inr claims \<Rightarrow> handler (Some claims)))"

definition StreamServerInterceptor ::
  "jwt_lib \<Rightarrow> TokenManager \<Rightarrow> time \<Rightarrow> string \<Rightarrow> string list option \<Rightarrow>
   (Claims option \<Rightarrow> (grpc_code \<times> string) + 'resp) \<Rightarrow> (grpc_code \<times> string) + 'resp" where
  "StreamServerInterceptor J tm now method md handler =
     (if shouldSkipAuth method then handler None
      else (case extractGRPCClaims J tm now md of
              Inl err \<Rightarrow> Inl err
            | Inr _ \<Rightarrow> handler None))"

section \<open>What the JWT package promises\<close>

text \<open>
  \<open>signed_by\<close> says that a token carries claims and a signature by a key with a method. Parsing
  succeeds only for a token that is signed with the key that the key function gave for its
  method and that has not expired (a token without an expiry never does), and then yields the signed claims; a freshly signed token
  is signed with HMAC and its key; dates are cut to full seconds.
\<close>

definition unexpired :: "time \<Rightarrow> Claims \<Rightarrow> bool" where
  "unexpired now claims \<longleftrightarrow> (case cl_ExpiresAt claims of None \<Rightarrow> True | Some e \<Rightarrow> now < e)"

definition jwt_spec :: "jwt_lib \<Rightarrow> (signing_method \<Rightarrow> string \<Rightarrow> Claims \<Rightarrow> string \<Rightarrow> bool) \<Rightarrow> bool" where
  "jwt_spec J signed_by \<longleftrightarrow>
     (\<forall>kf now tok claims valid. jl_parse J kf now tok = Inr (claims, valid) \<longrightarrow>
        (\<exists>m k. kf m = Inr k \<and> signed_by m k claims tok \<and> unexpired now claims)) \<and>
     (\<forall>m k claims tok kf now. signed_by m k claims tok \<and> kf m = Inr k \<and> unexpired now claims \<longrightarrow>
        jl_parse J kf now tok = Inr (claims, True)) \<and>
     (\<forall>k claims tok. jl_sign J k claims = Inr tok \<longrightarrow> signed_by HMAC k claims tok) \<and>
     (\<forall>m k claims tok m' k' claims'. signed_by m k claims tok \<and> signed_by m' k' claims' tok \<longrightarrow> claims = claims') \<and>
     (\<forall>t. jl_date J t \<le> t \<and> t < jl_date J t + Second)"

lemma jwt_specD:
  assumes "jwt_spec J signed_by"
  shows "jl_parse J kf now tok = Inr (claims, valid) \<Longrightarrow>
        \<exists>m k. kf m = Inr k \<and> signed_by m k claims tok \<and> unexpired now claims"
    and "signed_by m k claims tok \<Longrightarrow> kf m = Inr k \<Longrightarrow> unexpired now claims \<Longrightarrow>
        jl_parse J kf now tok = Inr (claims, True)"
    and "jl_sign J k claims = Inr tok \<Longrightarrow> signed_by HMAC k claims tok"
    and "signed_by m k claims tok \<Longrightarrow> signed_by m' k' claims' tok \<Longrightarrow> claims = claims'"
    and "jl_date J t \<le> t" "t < jl_date J t + Second"
  using assms [unfolded jwt_spec_def] by meson+

lemma Validate_sound:
  assumes "jwt_spec J signed_by" "Validate J tm now tok = Inr claims"
  shows "signed_by HMAC (tm_secret tm) claims tok \<and> unexpired now claims"
proof -
  have "jl_parse J (token_key tm) now tok = Inr (claims, True)"
    using assms(2) by (auto simp: Validate_def split: sum.splits prod.splits if_splits)
  then obtain m k where "token_key tm m = Inr k" "signed_by m k claims tok" "unexpired now claims"
    using jwt_specD(1) [OF assms(1)] by meson
  then show ?thesis by (auto simp: token_key_def split: if_splits)
qed

lemma Validate_complete:
  assumes "jwt_spec J signed_by" "signed_by HMAC (tm_secret tm) claims tok" "unexpired now claims"
  shows "Validate J tm now tok = Inr claims"
proof -
  have "token_key tm HMAC = Inr (tm_secret tm)" by (simp add: token_key_def)
  then have "jl_parse J (token_key tm) now tok = Inr (claims, True)"
    using jwt_specD(2) [OF assms(1,2)] assms(3) by blast
  then show ?thesis by (simp add: Validate_def)
qed

text \<open>The claims that \<open>Generate\<close> signs.\<close>

definition issued_claims :: "jwt_lib \<Rightarrow> time \<Rightarrow> string \<Rightarrow> string \<Rightarrow> string \<Rightarrow> duration \<Rightarrow> Claims" where
  "issued_claims J now subject tenantID role ttl =
     \<lparr>cl_Subject = subject, cl_IssuedAt = jl_date J now, cl_ExpiresAt = Some (jl_date J (now + ttl)),
      cl_Issuer = ''volund'', cl_TenantID = tenantID, cl_Role = role\<rparr>"

text \<open>An access token is worth what was put into it, until it expires. A token issued for a subject,
  tenant and role validates to exactly these claims at every moment before the expiry, which
  lies at most one second before the issue time plus the time to live, and is refused at
  every later moment.\<close>

theorem token_roundtrip:
  assumes "jwt_spec J signed_by" "Generate J tm now sub tenant role ttl = Inr tok"
  shows "(later + Second \<le> now + ttl \<longrightarrow> Validate J tm later tok = Inr (issued_claims J now sub tenant role ttl)) \<and>
    (now + ttl \<le> later \<longrightarrow> \<not> is_ok (Validate J tm later tok))"
proof -
  let ?c = "issued_claims J now sub tenant role ttl"
  have s: "signed_by HMAC (tm_secret tm) ?c tok"
    using jwt_specD(3) [OF assms(1)] assms(2) by (simp add: Generate_def issued_claims_def)
  let ?e = "jl_date J (now + ttl)"
  have date: "?e \<le> now + ttl" "now + ttl < ?e + Second" using jwt_specD(5,6) [OF assms(1)] by simp_all
  have exp: "unexpired later ?c \<longleftrightarrow> later < ?e" by (simp add: unexpired_def issued_claims_def)
  have "Validate J tm later tok = Inr ?c" if "later + Second \<le> now + ttl"
    using that date exp by (intro Validate_complete [OF assms(1) s]) linarith
  moreover have "\<not> is_ok (Validate J tm later tok)" if "now + ttl \<le> later"
  proof (cases "Validate J tm later tok")
    case (Inr c)
    from Validate_sound [OF assms(1) this] have "signed_by HMAC (tm_secret tm) c tok" "unexpired later c" by auto
    moreover have "c = ?c" using jwt_specD(4) [OF assms(1) calculation(1) s] .
    ultimately show ?thesis using that date exp by simp
  qed simp
  ultimately show ?thesis by blast
qed

text \<open>A call reaches its handler only with a valid token or by exemption. If the unary interceptor
  lets a call through to a handler that answers, then the method is one of the exempted ones
  or the first \<open>authorization\<close> value, less its \<open>Bearer\<close> prefix, is an unexpired token signed with HMAC and
  the server's own secret, whose claims the handler gets; a token signed with any other
  method or key is never accepted.\<close>

theorem grpc_calls_are_authenticated:
  assumes "jwt_spec J signed_by" "UnaryServerInterceptor J tm now method md handler = Inr resp"
  shows "shouldSkipAuth method \<and> handler None = Inr resp \<or>
    (\<exists>v vs claims. md = Some (v # vs) \<and> signed_by HMAC (tm_secret tm) claims (trim_prefix v ''Bearer '') \<and>
       unexpired now claims \<and> handler (Some claims) = Inr resp)"
  using assms(2) Validate_sound [OF assms(1)]
  by (fastforce simp: UnaryServerInterceptor_def extractGRPCClaims_def split: if_splits option.splits list.splits sum.splits)

section \<open>A signer that keeps the promises\<close>

text \<open>A token is the array of its key and its claims; signing is symbolic.\<close>

definition time_fields :: "time \<Rightarrow> string list" where
  "time_fields t = [itoa (nat t), itoa (nat (- t))]"

definition ref_fields :: "string \<Rightarrow> Claims \<Rightarrow> string list" where
  "ref_fields k c = [k, cl_Subject c, cl_Issuer c, cl_TenantID c, cl_Role c] @
     time_fields (cl_IssuedAt c) @ (case cl_ExpiresAt c of None \<Rightarrow> ['''', ''''] | Some e \<Rightarrow> time_fields e)"

definition ref_claims :: "string list \<Rightarrow> Claims" where
  "ref_claims fs = \<lparr>cl_Subject = fs ! 1, cl_IssuedAt = int (digits_val (fs ! 5)) - int (digits_val (fs ! 6)),
     cl_ExpiresAt = (if fs ! 7 = '''' then None else Some (int (digits_val (fs ! 7)) - int (digits_val (fs ! 8)))),
     cl_Issuer = fs ! 2, cl_TenantID = fs ! 3, cl_Role = fs ! 4\<rparr>"

lemma ref_claims_fields [simp]: "ref_claims (ref_fields k c) = c"
  by (cases c) (simp add: ref_claims_def ref_fields_def time_fields_def split: option.splits)

definition ref_jwt :: jwt_lib where
  "ref_jwt = \<lparr>jl_date = (\<lambda>t. t div Second * Second),
     jl_sign = (\<lambda>k c. Inr (resp_command (ref_fields k c))),
     jl_parse = (\<lambda>kf now tok.
       (case decode_command tok of
          Some (fs, []) \<Rightarrow>
            (if kf HMAC = Inr (fs ! 0) \<and> fs = ref_fields (fs ! 0) (ref_claims fs) \<and> unexpired now (ref_claims fs)
             then Inr (ref_claims fs, True) else Inl (Msg ''signature is invalid''))
        | _ \<Rightarrow> Inl (Msg ''token is malformed'')))\<rparr>"

definition ref_signed :: "signing_method \<Rightarrow> string \<Rightarrow> Claims \<Rightarrow> string \<Rightarrow> bool" where
  "ref_signed m k c tok \<longleftrightarrow> m = HMAC \<and> decode_command tok = Some (ref_fields k c, [])"

lemma ref_fields_0 [simp]: "ref_fields k c ! 0 = k"
  by (simp add: ref_fields_def)

lemma ref_signed_unique: "ref_signed m k c tok \<Longrightarrow> ref_signed m' k' c' tok \<Longrightarrow> c = c'"
  unfolding ref_signed_def by (metis option.inject prod.inject ref_claims_fields)

lemma ref_parse_sound:
  assumes "jl_parse ref_jwt kf now tok = Inr (c, valid)"
  shows "\<exists>m k. kf m = Inr k \<and> ref_signed m k c tok \<and> unexpired now c"
  using assms
  by (auto simp: ref_jwt_def ref_signed_def split: option.splits prod.splits list.splits if_splits intro!: exI [of _ HMAC])

lemma ref_jwt_spec: "jwt_spec ref_jwt ref_signed"
  unfolding jwt_spec_def
proof (intro conjI allI impI)
  fix t :: time
  show "jl_date ref_jwt t \<le> t" "t < jl_date ref_jwt t + Second" by (simp_all add: ref_jwt_def)
next
  fix m k claims tok m' k' claims'
  show "ref_signed m k claims tok \<and> ref_signed m' k' claims' tok \<Longrightarrow> claims = claims'"
    using ref_signed_unique by blast
qed (simp add: ref_parse_sound, auto simp: ref_signed_def ref_jwt_def)

lemma ref_Generate:
  "Generate ref_jwt tm now sub tenant role ttl =
     Inr (resp_command (ref_fields (tm_secret tm) (issued_claims ref_jwt now sub tenant role ttl)))"
  by (simp add: Generate_def issued_claims_def ref_jwt_def)

theorem token_roundtrip_witness:
  "\<exists>tok. Generate ref_jwt (NewTokenManager ''s'') 0 ''u'' ''t'' ''owner'' (15 * Minute) = Inr tok \<and>
     Validate ref_jwt (NewTokenManager ''s'') Minute tok = Inr (issued_claims ref_jwt 0 ''u'' ''t'' ''owner'' (15 * Minute)) \<and>
     \<not> is_ok (Validate ref_jwt (NewTokenManager ''s'') (16 * Minute) tok)"
  using token_roundtrip [OF ref_jwt_spec ref_Generate, of Minute 0 "15 * Minute" "NewTokenManager ''s''" "''u''" "''t''" "''owner''"]
    token_roundtrip [OF ref_jwt_spec ref_Generate, of "16 * Minute" 0 "15 * Minute" "NewTokenManager ''s''" "''u''" "''t''" "''owner''"]
    ref_Generate [of "NewTokenManager ''s''" 0 "''u''" "''t''" "''owner''" "15 * Minute"]
  by simp

theorem grpc_calls_are_authenticated_witness:
  "\<exists>resp. UnaryServerInterceptor ref_jwt (NewTokenManager ''s'') 0 ''/volund.v1.LLMService/Chat'' None (\<lambda>_. Inr (7::nat)) = Inr resp \<and>
     resp = 7"
proof -
  have "UnaryServerInterceptor ref_jwt (NewTokenManager ''s'') 0 ''/volund.v1.LLMService/Chat'' None (\<lambda>_. Inr (7::nat)) = Inr 7"
    by (simp add: UnaryServerInterceptor_def shouldSkipAuth_def skipMethods_def has_prefix_def)
  with grpc_calls_are_authenticated [OF ref_jwt_spec this] show ?thesis by auto
qed

end
