(* ===== verification/Auth_Service.thy ===== *)
theory Auth_Service
  imports User_Repo Auth_Token
begin

text \<open>
  Registration, login, token rotation and logout: \<^verbatim>\<open>internal/auth/service.go\<close>. The state is the
  database and the random source; \<open>time.Now()\<close> is the clock of the database. The JWT and bcrypt
  packages are parameters.
\<close>

section \<open>Definitions\<close>

type_synonym 'a auth_state = "'a user_db_scheme \<times> entropy"

definition on_db :: "('d \<Rightarrow> 'r \<times> 'd) \<Rightarrow> 'd \<times> 'e \<Rightarrow> 'r \<times> 'd \<times> 'e" where
  "on_db f s = (case s of (d, src) \<Rightarrow> case f d of (r, d') \<Rightarrow> (r, d', src))"

abbreviation AccessTokenTTL :: duration where
  "AccessTokenTTL \<equiv> 15 * Minute"

abbreviation RefreshTokenTTL :: duration where
  "RefreshTokenTTL \<equiv> 30 * 24 * Hour"

definition refreshTokenLen :: nat where
  "refreshTokenLen = 32"

definition ErrInvalidCredentials :: go_err where
  "ErrInvalidCredentials = Msg ''invalid email or password''"

definition ErrInvalidRefreshToken :: go_err where
  "ErrInvalidRefreshToken = Msg ''invalid or expired refresh token''"

record TokenPair =
  tp_AccessToken :: string
  tp_RefreshToken :: string
  tp_ExpiresAt :: time

record RegisterInput =
  ri_Email :: string
  ri_Password :: string
  ri_DisplayName :: string
  ri_OrgName :: string

record Service =
  sv_jwt :: jwt_lib
  sv_bcrypt :: bcrypt
  sv_tm :: TokenManager

text \<open>\<open>strings.TrimSpace\<close> on ASCII text.\<close>

definition spaces :: "char set" where
  "spaces = {CHR 0x09, CHR 0x0A, CHR 0x0B, CHR 0x0C, CHR 0x0D, CHR '' ''}"

definition trim_space :: "string \<Rightarrow> string" where
  "trim_space s = trim spaces s"

definition is_lower :: "char \<Rightarrow> bool" where
  "is_lower c = (97 \<le> (of_char c :: nat) \<and> (of_char c :: nat) \<le> 122)"

definition slug_char :: "char \<Rightarrow> string" where
  "slug_char r =
     (if is_lower r \<or> is_digit r then [r]
      else if r = CHR '' '' \<or> r = CHR ''-'' \<or> r = CHR ''_'' then ''-''
      else '''')"

definition slugify :: "string \<Rightarrow> string" where
  "slugify name = trim {CHR ''-''} (concat (map slug_char (to_lower name)))"

definition issuePair ::
  "Service \<Rightarrow> string \<Rightarrow> string \<Rightarrow> string \<Rightarrow> 'a auth_state \<Rightarrow> TokenPair result \<times> 'a auth_state" where
  "issuePair S userID tenantID role s =
     (let expiresAt = clock (fst s) + AccessTokenTTL in
      (case Generate (sv_jwt S) (sv_tm S) (clock (fst s)) userID tenantID role AccessTokenTTL of
         Inl err \<Rightarrow> (Inl (Wrap ''generate access token'' err), s)
       | Inr accessToken \<Rightarrow>
           (case GenerateToken refreshTokenLen (snd s) of
              (Inl err, src) \<Rightarrow> (Inl err, fst s, src)
            | (Inr rawRefresh, src) \<Rightarrow>
                and_then (wrapped ''store refresh token''
                    (on_db (Refresh_Create userID tenantID rawRefresh RefreshTokenTTL) (fst s, src)))
                  (\<lambda>_ s2. (Inr \<lparr>tp_AccessToken = accessToken, tp_RefreshToken = rawRefresh,
                               tp_ExpiresAt = expiresAt\<rparr>, s2)))))"

definition primaryTenant :: "string \<Rightarrow> 'a auth_state \<Rightarrow> (string \<times> string) result \<times> 'a auth_state" where
  "primaryTenant userID = on_db (GetPrimaryMembership userID)"

text \<open>\<open>Register\<close> from the point where the user row exists.\<close>

definition register_org ::
  "Service \<Rightarrow> User \<Rightarrow> string \<Rightarrow> string \<Rightarrow> 'a auth_state \<Rightarrow> (TokenPair \<times> User) result \<times> 'a auth_state" where
  "register_org S user hash orgName s =
     and_then (wrapped ''set password'' (on_db (SetPasswordHash (us_ID user) hash) s)) (\<lambda>_ s.
     and_then (wrapped ''create tenant'' (on_db (Tenant_Create orgName (slugify orgName) ''free'') s)) (\<lambda>tenant s.
     and_then (wrapped ''add owner'' (on_db (AddToTenant (tn_ID tenant) (us_ID user) ''owner'') s)) (\<lambda>_ s.
     and_then (issuePair S (us_ID user) (tn_ID tenant) ''owner'' s) (\<lambda>pair s.
       (Inr (pair, user\<lparr>us_PasswordHash := Some hash\<rparr>), s)))))"

definition Auth_Register ::
  "Service \<Rightarrow> RegisterInput \<Rightarrow> 'a auth_state \<Rightarrow> (TokenPair \<times> User) result \<times> 'a auth_state" where
  "Auth_Register S inp s =
     (let email = to_lower (trim_space (ri_Email inp)) in
      if email = '''' \<or> ri_Password inp = '''' then (Inl (Msg ''email and password are required''), s)
      else if length (ri_Password inp) < 8 then (Inl (Msg ''password must be at least 8 characters''), s)
      else
        (case on_db (GetByEmail email) s of
           (Inr _, s1) \<Rightarrow> (Inl (Msg ''email already in use''), s1)
         | (Inl _, s1) \<Rightarrow>
             (case HashPassword (sv_bcrypt S) (ri_Password inp) of
                Inl err \<Rightarrow> (Inl err, s1)
              | Inr hash \<Rightarrow>
                  (let displayName = (if ri_DisplayName inp = '''' then hd (split_on CHR ''@'' email)
                                      else ri_DisplayName inp);
                       orgName = (if ri_OrgName inp = '''' then displayName @ [CHR 0x27] @ ''s Org''
                                  else ri_OrgName inp) in
                   and_then (wrapped ''create user'' (on_db (User_Create email displayName) s1)) (\<lambda>user s2.
                     register_org S user hash orgName s2)))))"

definition Auth_Login ::
  "Service \<Rightarrow> string \<Rightarrow> string \<Rightarrow> 'a auth_state \<Rightarrow> (TokenPair \<times> User) result \<times> 'a auth_state" where
  "Auth_Login S email0 password s =
     (let email = to_lower (trim_space email0) in
      (case on_db (GetByEmail email) s of
         (Inl _, s1) \<Rightarrow> (Inl ErrInvalidCredentials, s1)
       | (Inr user, s1) \<Rightarrow>
           (case us_PasswordHash user of
              None \<Rightarrow> (Inl ErrInvalidCredentials, s1)
            | Some hash \<Rightarrow>
                if \<not> CheckPassword (sv_bcrypt S) hash password then (Inl ErrInvalidCredentials, s1)
                else
                  and_then (wrapped ''resolve tenant'' (primaryTenant (us_ID user) s1)) (\<lambda>(tenantID, role) s2.
                  and_then (issuePair S (us_ID user) tenantID role s2) (\<lambda>pair s3.
                    (Inr (pair, user), s3))))))"

definition Service_RefreshToken ::
  "Service \<Rightarrow> string \<Rightarrow> 'a auth_state \<Rightarrow> TokenPair result \<times> 'a auth_state" where
  "Service_RefreshToken S rawRefreshToken s =
     and_then (wrapped ''lookup refresh token'' (on_db (GetByHash rawRefreshToken) s)) (\<lambda>found s1.
       (case found of
          None \<Rightarrow> (Inl ErrInvalidRefreshToken, s1)
        | Some rt \<Rightarrow>
            and_then (wrapped ''revoke old token'' (on_db (Revoke (rf_ID rt)) s1)) (\<lambda>_ s2.
              issuePair S (rf_UserID rt) (rf_TenantID rt) ''member'' s2)))"

record OIDCClaims =
  oc_Subject :: string
  oc_Email :: string
  oc_Name :: string
  oc_Provider :: string

definition LoginOIDC ::
  "Service \<Rightarrow> OIDCClaims \<Rightarrow> 'a auth_state \<Rightarrow> (TokenPair \<times> User) result \<times> 'a auth_state" where
  "LoginOIDC S claims s =
     (if oc_Email claims = '''' then (Inl (Msg ''OIDC provider did not return an email''), s)
      else
        and_then (wrapped ''find or create OIDC user''
            (on_db (FindOrCreateByOIDC (oc_Provider claims) (oc_Subject claims) (oc_Email claims) (oc_Name claims)) s))
          (\<lambda>(user, created) s1.
            and_then
              (if created then
                 (let orgName = (if oc_Name claims = '''' then hd (split_on CHR ''@'' (oc_Email claims))
                                 else oc_Name claims) @ [CHR 0x27] @ ''s Org'' in
                  and_then (wrapped ''create tenant for OIDC user''
                      (on_db (Tenant_Create orgName (slugify orgName) ''free'') s1)) (\<lambda>tenant s2.
                    wrapped ''add OIDC user to tenant''
                      (on_db (AddToTenant (tn_ID tenant) (us_ID user) ''owner'') s2)))
               else (Inr (), s1))
              (\<lambda>_ s3.
                and_then (wrapped ''resolve tenant for OIDC user'' (primaryTenant (us_ID user) s3)) (\<lambda>(tenantID, role) s4.
                and_then (issuePair S (us_ID user) tenantID role s4) (\<lambda>pair s5.
                  (Inr (pair, user), s5))))))"

definition Auth_Logout :: "string \<Rightarrow> 'a auth_state \<Rightarrow> unit result \<times> 'a auth_state" where
  "Auth_Logout rawRefreshToken s =
     (case on_db (GetByHash rawRefreshToken) s of
        (Inl _, s1) \<Rightarrow> (Inr (), s1)
      | (Inr None, s1) \<Rightarrow> (Inr (), s1)
      | (Inr (Some rt), s1) \<Rightarrow> on_db (Revoke (rf_ID rt)) s1)"

section \<open>Slugs\<close>

lemma trim_fixed: "s = [] \<or> hd s \<notin> cs \<and> last s \<notin> cs \<Longrightarrow> trim cs s = s"
proof -
  assume a: "s = [] \<or> hd s \<notin> cs \<and> last s \<notin> cs"
  then have "trim_left cs s = s" by (cases s) (auto simp: trim_left_def)
  moreover have "trim_right cs s = s"
  proof (cases "rev s")
    case (Cons x xs)
    then have "last s = x" "s \<noteq> []" by (auto simp: rev_swap)
    with a Cons show ?thesis by (simp add: trim_right_def)
  qed (simp add: trim_right_def)
  ultimately show ?thesis by (simp add: trim_def)
qed

definition slug_alphabet :: "char set" where
  "slug_alphabet = {c. is_lower c \<or> is_digit c \<or> c = CHR ''-''}"

lemma set_slug: "set (concat (map slug_char s)) \<subseteq> slug_alphabet"
  by (auto simp: slug_alphabet_def slug_char_def split: if_splits)

lemma slug_char_fixed: "c \<in> slug_alphabet \<Longrightarrow> slug_char c = [c] \<and> lower_char c = c"
  by (auto simp: slug_alphabet_def slug_char_def is_lower_def is_digit_def lower_char_def)

lemma slug_fixed: "set s \<subseteq> slug_alphabet \<Longrightarrow> concat (map slug_char (to_lower s)) = s"
  by (induction s) (auto simp: to_lower_def slug_char_fixed)

text \<open>every slug consists of lower-case letters, digits and dashes, neither begins nor ends with a
  dash, and is its own slug.\<close>

theorem slug_wellformed:
  "set (slugify name) \<subseteq> {c. is_lower c \<or> is_digit c \<or> c = CHR ''-''} \<and>
   (slugify name \<noteq> [] \<longrightarrow> hd (slugify name) \<noteq> CHR ''-'' \<and> last (slugify name) \<noteq> CHR ''-'') \<and>
   slugify (slugify name) = slugify name"
proof -
  let ?s = "slugify name"
  have alpha: "set ?s \<subseteq> slug_alphabet"
    unfolding slugify_def using set_trim set_slug by fast
  have ends: "?s \<noteq> [] \<Longrightarrow> hd ?s \<noteq> CHR ''-'' \<and> last ?s \<noteq> CHR ''-''"
    unfolding slugify_def using hd_trim last_trim by (metis singletonI)
  have "slugify ?s = trim {CHR ''-''} ?s"
    unfolding slugify_def [of ?s] by (simp add: slug_fixed [OF alpha])
  also have "\<dots> = ?s" using ends by (intro trim_fixed) auto
  finally show ?thesis using alpha ends by (simp add: slug_alphabet_def)
qed

theorem slug_wellformed_witness: "slugify ''Ann s_Org!'' = ''ann-s-org'' \<and> slugify ''ann-s-org'' = ''ann-s-org''"
proof -
  have "slugify ''Ann s_Org!'' = ''ann-s-org''" by code_simp
  with slug_wellformed [of "''Ann s_Org!''"] show ?thesis by simp
qed

section \<open>Issued tokens\<close>

lemma on_db_eq [simp]: "on_db f (d, src) = (r, d', src') \<longleftrightarrow> f d = (r, d') \<and> src' = src"
  by (auto simp: on_db_def split: prod.splits)

lemma on_db_unfold: "on_db f (d, src) = (fst (f d), snd (f d), src)"
  by (simp add: on_db_def split: prod.splits)

definition tokens_ok :: "'a user_db_scheme \<Rightarrow> bool" where
  "tokens_ok d \<longleftrightarrow> inj (uuids d) \<and> distinct (map rf_ID (refresh_tokens d)) \<and>
     distinct (map rf_TokenHash (refresh_tokens d)) \<and>
     set (map rf_ID (refresh_tokens d)) \<subseteq> uuids d ` {..<uuid_count d}"

lemma Refresh_Create_Inr:
  assumes "Refresh_Create u t h ttl d = (Inr row, d')"
  shows "h \<notin> rf_TokenHash ` set (refresh_tokens d) \<and> u \<noteq> '''' \<and> t \<noteq> '''' \<and>
    row = \<lparr>rf_ID = uuids d (uuid_count d), rf_UserID = u, rf_TenantID = t, rf_TokenHash = h,
           rf_ExpiresAt = clock d + ttl, rf_CreatedAt = clock d, rf_RevokedAt = None\<rparr> \<and>
    (\<exists>fs. d' = d\<lparr>faults := fs, uuid_count := Suc (uuid_count d), refresh_tokens := refresh_tokens d @ [row]\<rparr>)"
proof -
  have ids: "u \<noteq> ''''" "t \<noteq> ''''"
  proof -
    have "\<not> (u = '''' \<or> t = '''')"
    proof
      assume "u = '''' \<or> t = ''''"
      with assms obtain r where "statement (\<lambda>d. (Inl invalid_uuid, d)) d = (r, d')" "scanRefreshToken r = Inr row"
        by (auto simp: Refresh_Create_def split: prod.splits)
      then show False by (elim statement_cases) (auto simp: scanRefreshToken_def)
    qed
    then show "u \<noteq> ''''" "t \<noteq> ''''" by auto
  qed
  then obtain r where ins: "insert_unique (\<lambda>d. list_ex (\<lambda>t. rf_TokenHash t = h) (refresh_tokens d))
        (\<lambda>d uid. \<lparr>rf_ID = uid, rf_UserID = u, rf_TenantID = t, rf_TokenHash = h,
           rf_ExpiresAt = clock d + ttl, rf_CreatedAt = clock d, rf_RevokedAt = None\<rparr>)
        (\<lambda>row d. d\<lparr>refresh_tokens := refresh_tokens d @ [row]\<rparr>) d = (r, d')" "scanRefreshToken r = Inr row"
    using assms by (auto simp: Refresh_Create_def split: prod.splits)
  from ins(1) show ?thesis
    by (cases rule: insert_unique_state) (use ins(2) ids in \<open>auto simp: scanRefreshToken_def list_ex_iff\<close>)
qed

lemma issuePair_Inr:
  assumes "issuePair S u t role (d, src) = (Inr pair, d', src')"
  shows "Generate (sv_jwt S) (sv_tm S) (clock d) u t role AccessTokenTTL = Inr (tp_AccessToken pair) \<and>
    (\<exists>row. Refresh_Create u t (tp_RefreshToken pair) RefreshTokenTTL d = (Inr row, d'))"
  using assms by (auto simp: issuePair_def Let_def and_then_Inr split: sum.splits prod.splits)

lemma Revoke_Inr:
  assumes "Revoke uid d = (Inr (), d')"
  shows "\<exists>fs. d' = d\<lparr>faults := fs, refresh_tokens := update_where (\<lambda>t. rf_ID t = uid)
     (\<lambda>t. t\<lparr>rf_RevokedAt := Some (clock d)\<rparr>) (refresh_tokens d)\<rparr>"
  using assms unfolding Revoke_def by (cases rule: exec_state) auto

lemma refresh_steps:
  assumes "Service_RefreshToken S raw (d, src) = (Inr pair, d', src')"
  obtains rt fs1 fs2 row where
    "rt \<in> set (refresh_tokens d)" "usable_token (clock d) raw rt"
    "Refresh_Create (rf_UserID rt) (rf_TenantID rt) (tp_RefreshToken pair) RefreshTokenTTL
       (d\<lparr>faults := fs2, refresh_tokens := update_where (\<lambda>t. rf_ID t = rf_ID rt)
          (\<lambda>t. t\<lparr>rf_RevokedAt := Some (clock d)\<rparr>) (refresh_tokens d)\<rparr>) = (Inr row, d')"
    "Generate (sv_jwt S) (sv_tm S) (clock d) (rf_UserID rt) (rf_TenantID rt) ''member'' AccessTokenTTL =
       Inr (tp_AccessToken pair)"
proof -
  from assms obtain found s1 where get: "on_db (GetByHash raw) (d, src) = (Inr found, s1)"
    and k: "(case found of
          None \<Rightarrow> (Inl ErrInvalidRefreshToken, s1)
        | Some rt \<Rightarrow>
            and_then (wrapped ''revoke old token'' (on_db (Revoke (rf_ID rt)) s1)) (\<lambda>_ s2.
              issuePair S (rf_UserID rt) (rf_TenantID rt) ''member'' s2)) = (Inr pair, d', src')"
    by (auto simp: Service_RefreshToken_def and_then_Inr)
  obtain d1 where s1: "s1 = (d1, src)" "GetByHash raw d = (Inr found, d1)" using get by (cases s1) auto
  from k obtain rt where found: "found = Some rt" by (cases found) auto
  with k s1 obtain d2 where rev: "Revoke (rf_ID rt) d1 = (Inr (), d2)"
    and iss: "issuePair S (rf_UserID rt) (rf_TenantID rt) ''member'' (d2, src) = (Inr pair, d', src')"
    by (auto simp: and_then_Inr)
  obtain fs1 where d1: "d1 = d\<lparr>faults := fs1\<rparr>" using GetByHash_state [of raw d] s1(2) by auto
  obtain fs2 where d2: "d2 = d\<lparr>faults := fs2, refresh_tokens := update_where (\<lambda>t. rf_ID t = rf_ID rt)
          (\<lambda>t. t\<lparr>rf_RevokedAt := Some (clock d)\<rparr>) (refresh_tokens d)\<rparr>"
    using Revoke_Inr [OF rev] by (auto simp: d1)
  note rt = GetByHash_Some [OF s1(2) [unfolded found]]
  from issuePair_Inr [OF iss] show thesis
    using that [of rt fs2] rt d2 by auto
qed

text \<open>C6: a refresh token works once. A successful refresh needs a stored token with this value that is
  neither revoked nor expired; afterwards no stored token with this value is usable, at any
  time, so a replay is refused, while the new refresh token is stored for the same user and
  tenant, usable for thirty days, and differs from every token stored before.\<close>

theorem refresh_token_rotates:
  assumes "tokens_ok d" "Service_RefreshToken S raw (d, src) = (Inr pair, d', src')"
  shows "\<exists>old \<in> set (refresh_tokens d). usable_token (clock d) raw old \<and>
      (\<forall>t \<in> set (refresh_tokens d'). \<forall>now. \<not> usable_token now raw t) \<and>
      tp_RefreshToken pair \<notin> rf_TokenHash ` set (refresh_tokens d) \<and>
      (\<exists>new \<in> set (refresh_tokens d'). rf_UserID new = rf_UserID old \<and> rf_TenantID new = rf_TenantID old \<and>
         (\<forall>now. usable_token now (tp_RefreshToken pair) new \<longleftrightarrow> now < clock d + RefreshTokenTTL)) \<and>
      tokens_ok d'"
proof -
  from assms(2) obtain rt fs2 row where rt: "rt \<in> set (refresh_tokens d)" "usable_token (clock d) raw rt"
    and cr: "Refresh_Create (rf_UserID rt) (rf_TenantID rt) (tp_RefreshToken pair) RefreshTokenTTL
       (d\<lparr>faults := fs2, refresh_tokens := update_where (\<lambda>t. rf_ID t = rf_ID rt)
          (\<lambda>t. t\<lparr>rf_RevokedAt := Some (clock d)\<rparr>) (refresh_tokens d)\<rparr>) = (Inr row, d')"
    by (rule refresh_steps)
  let ?rev = "\<lambda>t. t\<lparr>rf_RevokedAt := Some (clock d)\<rparr>"
  let ?toks = "update_where (\<lambda>t. rf_ID t = rf_ID rt) ?rev (refresh_tokens d)"
  note c = Refresh_Create_Inr [OF cr]
  have toks: "refresh_tokens d' = ?toks @ [row]" and row: "rf_TokenHash row = tp_RefreshToken pair"
    "rf_UserID row = rf_UserID rt" "rf_TenantID row = rf_TenantID rt" "rf_RevokedAt row = None"
    "rf_ExpiresAt row = clock d + RefreshTokenTTL" "rf_ID row = uuids d (uuid_count d)"
    and d': "uuids d' = uuids d" "uuid_count d' = Suc (uuid_count d)"
    using c by auto
  have keys: "map rf_ID ?toks = map rf_ID (refresh_tokens d)" "map rf_TokenHash ?toks = map rf_TokenHash (refresh_tokens d)"
    by (simp_all add: map_update_where_key)
  have "rf_TokenHash ` set ?toks = rf_TokenHash ` set (refresh_tokens d)" using keys(2) by (metis list.set_map)
  then have new: "tp_RefreshToken pair \<notin> rf_TokenHash ` set (refresh_tokens d)" using c by simp
  have old: "\<not> usable_token now raw t" if t: "t \<in> set (refresh_tokens d')" for t now
  proof (cases "t = row")
    case True
    then show ?thesis using new rt by (auto simp: usable_token_def row(1))
  next
    case False
    then have "t \<in> set ?toks" using t toks by auto
    then show ?thesis
    proof (cases rule: in_update_whereE)
      case kept
      then show ?thesis
        using distinct_keyD [of rf_TokenHash "refresh_tokens d" t rt] assms(1) rt
        by (auto simp: usable_token_def tokens_ok_def)
    qed (simp add: usable_token_def)
  qed
  have "uuids d (uuid_count d) \<notin> set (map rf_ID (refresh_tokens d))"
    using assms(1) by (intro fresh_uuid) (simp_all add: tokens_ok_def)
  then have ok: "tokens_ok d'"
    unfolding tokens_ok_def toks d' map_append keys using assms(1) new row(1,6)
    by (auto simp: tokens_ok_def lessThan_Suc)
  have "usable_token now (tp_RefreshToken pair) row \<longleftrightarrow> now < clock d + RefreshTokenTTL" for now
    by (simp add: usable_token_def row)
  with rt old new ok show ?thesis using toks row by (intro bexI [of _ rt]) auto
qed

lemma issued_token_valid:
  assumes "jwt_spec J signed_by" "Generate J tm now u t role AccessTokenTTL = Inr tok"
  shows "Validate J tm now tok = Inr (issued_claims J now u t role AccessTokenTTL)"
proof (rule Validate_complete [OF assms(1)])
  show "signed_by HMAC (tm_secret tm) (issued_claims J now u t role AccessTokenTTL) tok"
    using jwt_specD(3) [OF assms(1)] assms(2) by (simp add: Generate_def issued_claims_def)
  show "unexpired now (issued_claims J now u t role AccessTokenTTL)"
    using jwt_specD(6) [OF assms(1), of "now + AccessTokenTTL"] by (simp add: issued_claims_def unexpired_def)
qed

text \<open>A refresh forgets the role. Whatever role the user holds in the organisation, the access token
  of a refreshed pair carries the role \<open>member\<close>, for the user and tenant of the old refresh token.\<close>

theorem refresh_downgrades_to_member:
  assumes "jwt_spec (sv_jwt S) signed_by" "Service_RefreshToken S raw (d, src) = (Inr pair, d', src')"
  shows "\<exists>old \<in> set (refresh_tokens d). usable_token (clock d) raw old \<and>
    Validate (sv_jwt S) (sv_tm S) (clock d) (tp_AccessToken pair) =
      Inr (issued_claims (sv_jwt S) (clock d) (rf_UserID old) (rf_TenantID old) ''member'' AccessTokenTTL)"
proof -
  from assms(2) obtain rt where rt: "rt \<in> set (refresh_tokens d)" "usable_token (clock d) raw rt"
    and gen: "Generate (sv_jwt S) (sv_tm S) (clock d) (rf_UserID rt) (rf_TenantID rt) ''member'' AccessTokenTTL =
       Inr (tp_AccessToken pair)"
    by (rule refresh_steps)
  from issued_token_valid [OF assms(1) gen] rt show ?thesis by auto
qed

section \<open>Logging in\<close>

lemma GetByEmail_Inr:
  assumes "GetByEmail e d = (Inr u, d')"
  shows "u \<in> set (users d) \<and> us_Email u = e" "\<exists>fs. d' = d\<lparr>faults := fs\<rparr>"
proof -
  have "query (\<lambda>d. one_row (select_one (\<lambda>u. us_Email u = e) (users d))) d = (Inr u, d')"
    using assms by (auto simp: GetByEmail_def scanUser_def split: prod.splits)
  then obtain fs where fs: "one_row (select_one (\<lambda>u. us_Email u = e) (users d)) = Inr u" "d' = d\<lparr>faults := fs\<rparr>"
    by (elim query_state) auto
  then show "\<exists>fs. d' = d\<lparr>faults := fs\<rparr>" by blast
  show "u \<in> set (users d) \<and> us_Email u = e"
    using fs(1) by (cases "select_one (\<lambda>u. us_Email u = e) (users d)") (auto dest: select_one_Some)
qed

text \<open>The membership a login is for: the one the user joined first.\<close>

definition primary_of :: "string \<Rightarrow> 'a user_db_scheme \<Rightarrow> string \<Rightarrow> string \<Rightarrow> bool" where
  "primary_of u d tenant role \<longleftrightarrow>
     (\<exists>m \<in> set (org_members d). om_UserID m = u \<and> om_TenantID m = tenant \<and> om_Role m = role \<and>
        (\<forall>m' \<in> set (org_members d). om_UserID m' = u \<longrightarrow> om_JoinedAt m \<le> om_JoinedAt m'))"

text \<open>An empty tenant stands for a user without a membership, or for a failed query.\<close>

lemma GetPrimaryMembership_Inr:
  assumes "GetPrimaryMembership u d = (Inr (tenant, role), d')"
  shows "tenant = '''' \<or> primary_of u d tenant role" "\<exists>fs. d' = d\<lparr>faults := fs\<rparr>"
proof -
  let ?first = "\<lambda>d. case order_by om_JoinedAt (filter (\<lambda>m. om_UserID m = u) (org_members d)) of [] \<Rightarrow> None | m # _ \<Rightarrow> Some m"
  obtain r where q: "query (\<lambda>d. one_row (?first d)) d = (r, d')"
    using assms by (auto simp: GetPrimaryMembership_def split: prod.splits sum.splits)
  then show "\<exists>fs. d' = d\<lparr>faults := fs\<rparr>" by (elim query_state) auto
  show "tenant = '''' \<or> primary_of u d tenant role"
  proof (cases r)
    case (Inl e)
    then show ?thesis using assms q by (simp add: GetPrimaryMembership_def)
  next
    case (Inr m)
    then have m: "tenant = om_TenantID m" "role = om_Role m"
      using assms q by (auto simp: GetPrimaryMembership_def)
    from q Inr have "?first d = Some m" by (elim query_state) (auto simp: one_row_def split: option.splits)
    then obtain rest where "order_by om_JoinedAt (filter (\<lambda>m. om_UserID m = u) (org_members d)) = m # rest"
      by (auto split: list.splits)
    from order_by_hd [OF this] show ?thesis using m by (auto simp: primary_of_def)
  qed
qed

text \<open>C16: a login needs the password and yields a token for that user. When \<open>Auth_Login\<close> succeeds, the returned
  user is stored under the normalised address, the password matches the stored hash, the user
  has a membership, and the access token validates to the user's id and to the tenant and
  role of the membership the user joined first. The new refresh token is stored for that user
  and tenant. In particular no login succeeds without a membership: the empty tenant that
  \<open>GetPrimaryMembership\<close> reports then is refused where the refresh token is stored.\<close>

theorem login_is_authenticated:
  assumes "jwt_spec (sv_jwt S) signed_by" "Auth_Login S email password (d, src) = (Inr (pair, user), d', src')"
  shows "user \<in> set (users d) \<and> us_Email user = to_lower (trim_space email) \<and>
    (\<exists>hash. us_PasswordHash user = Some hash \<and> bc_compare (sv_bcrypt S) hash password) \<and>
    (\<exists>tenant role row. primary_of (us_ID user) d tenant role \<and>
       Validate (sv_jwt S) (sv_tm S) (clock d) (tp_AccessToken pair) =
         Inr (issued_claims (sv_jwt S) (clock d) (us_ID user) tenant role AccessTokenTTL) \<and>
       refresh_tokens d' = refresh_tokens d @ [row] \<and> rf_TokenHash row = tp_RefreshToken pair \<and>
       rf_UserID row = us_ID user \<and> rf_TenantID row = tenant)"
proof -
  let ?email = "to_lower (trim_space email)"
  obtain u d1 where get: "GetByEmail ?email d = (Inr u, d1)"
    using assms(2) by (auto simp: Auth_Login_def Let_def on_db_unfold split: prod.splits sum.splits)
      (metis (lifting) Inl_Inr_False prod.inject prod.collapse sumE)
  obtain fs where d1: "d1 = d\<lparr>faults := fs\<rparr>" using GetByEmail_Inr(2) [OF get] by blast
  from assms(2) get obtain hash where hash: "us_PasswordHash u = Some hash" "bc_compare (sv_bcrypt S) hash password"
    and rest: "and_then (wrapped ''resolve tenant'' (primaryTenant (us_ID u) (d1, src))) (\<lambda>(tenantID, role) s2.
                  and_then (issuePair S (us_ID u) tenantID role s2) (\<lambda>pair s3.
                    (Inr (pair, u), s3))) = (Inr (pair, user), d', src')"
    by (auto simp: Auth_Login_def Let_def on_db_unfold CheckPassword_def split: option.splits if_splits)
  from rest obtain tenant role d2 where prim: "GetPrimaryMembership (us_ID u) d1 = (Inr (tenant, role), d2)"
    and iss: "issuePair S (us_ID u) tenant role (d2, src) = (Inr pair, d', src')" and user: "user = u"
    by (auto simp: and_then_Inr primaryTenant_def)
  obtain fs2 where d2: "d2 = d1\<lparr>faults := fs2\<rparr>" using GetPrimaryMembership_Inr(2) [OF prim] by blast
  obtain row where "Refresh_Create (us_ID u) tenant (tp_RefreshToken pair) RefreshTokenTTL d2 = (Inr row, d')"
    using issuePair_Inr [OF iss] by blast
  from Refresh_Create_Inr [OF this] have row: "tenant \<noteq> ''''" "refresh_tokens d' = refresh_tokens d @ [row]"
    "rf_TokenHash row = tp_RefreshToken pair" "rf_UserID row = us_ID u" "rf_TenantID row = tenant"
    by (auto simp: d1 d2)
  have "primary_of (us_ID u) d tenant role"
    using GetPrimaryMembership_Inr(1) [OF prim] row(1) by (simp add: d1 primary_of_def)
  moreover have "Generate (sv_jwt S) (sv_tm S) (clock d) (us_ID u) tenant role AccessTokenTTL = Inr (tp_AccessToken pair)"
    using issuePair_Inr [OF iss] by (simp add: d1 d2)
  ultimately show ?thesis
    using GetByEmail_Inr(1) [OF get] hash user issued_token_valid [OF assms(1)] row(2-5) by blast
qed

section \<open>Registration\<close>

text \<open>Ids of users and of the users in memberships are values that were drawn.\<close>

definition accounts_ok :: "'a user_db_scheme \<Rightarrow> bool" where
  "accounts_ok d \<longleftrightarrow> inj (uuids d) \<and> us_ID ` set (users d) \<subseteq> uuids d ` {..<uuid_count d} \<and>
     om_UserID ` set (org_members d) \<subseteq> uuids d ` {..<uuid_count d}"

definition registered_user :: "'a user_db_scheme \<Rightarrow> string \<Rightarrow> string \<Rightarrow> string \<Rightarrow> User" where
  "registered_user d email displayName hash =
     \<lparr>us_ID = uuids d (uuid_count d), us_Email = email, us_DisplayName = displayName, us_PasswordHash = Some hash,
      us_OIDCSubject = None, us_OIDCProvider = None, us_CreatedAt = clock d, us_UpdatedAt = clock d\<rparr>"

lemma fresh_user_id:
  assumes "accounts_ok d"
  shows "uuids d (uuid_count d) \<notin> us_ID ` set (users d)" "uuids d (uuid_count d) \<notin> om_UserID ` set (org_members d)"
  using assms fresh_uuid [of d "map us_ID (users d)"] fresh_uuid [of d "map om_UserID (org_members d)"]
  by (simp_all add: accounts_ok_def)

lemma Refresh_Create_faults: "faults d = [] \<Longrightarrow> Refresh_Create u t h ttl d = (r, d') \<Longrightarrow> faults d' = []"
  by (auto simp: Refresh_Create_def insert_unique_no_faults split: if_splits prod.splits)

text \<open>The three writes after the user row, without refused statements.\<close>

lemma register_org_effect:
  assumes ok: "accounts_ok d" and nf: "faults d = []"
    and u0: "u0 = (registered_user d email name hash)\<lparr>us_PasswordHash := None\<rparr>"
    and d1: "d1 = d\<lparr>uuid_count := Suc (uuid_count d), users := users d @ [u0]\<rparr>"
    and reg: "register_org S u0 hash orgName (d1, src) = (Inr (pair, user), d', src')"
  shows "user = registered_user d email name hash \<and> users d' = users d @ [user] \<and>
    org_members d' = org_members d @ [\<lparr>om_TenantID = uuids d (Suc (uuid_count d)), om_UserID = us_ID user,
        om_Role = ''owner'', om_JoinedAt = clock d\<rparr>] \<and>
    tenants d' = tenants d @ [\<lparr>tn_ID = uuids d (Suc (uuid_count d)), tn_Name = orgName, tn_Slug = slugify orgName, tn_Plan = ''free'',
           tn_CreatedAt = clock d, tn_UpdatedAt = clock d\<rparr>] \<and>
    us_ID user \<noteq> '''' \<and> uuids d (Suc (uuid_count d)) \<noteq> '''' \<and>
    (\<exists>row. refresh_tokens d' = refresh_tokens d @ [row]) \<and>
    clock d' = clock d \<and> uuids d' = uuids d \<and> faults d' = []"
proof -
  let ?uid = "uuids d (uuid_count d)" and ?tid = "uuids d (Suc (uuid_count d))"
  have fresh: "?uid \<notin> us_ID ` set (users d)" "?uid \<notin> om_UserID ` set (org_members d)"
    using fresh_user_id [OF ok] .
  have others: "update_where (\<lambda>u. us_ID u = ?uid) f (users d) = users d" for f
    using fresh(1) by (intro update_where_none) (metis imageI)
  have nomem: "\<not> list_ex (\<lambda>m. om_TenantID m = ?tid \<and> om_UserID m = ?uid) (org_members d)"
    unfolding list_ex_iff using fresh(2) by (metis imageI)
  let ?d2 = "d1\<lparr>users := users d @ [registered_user d email name hash]\<rparr>"
  have set_pw: "SetPasswordHash (us_ID u0) hash d1 = (Inr (), ?d2)"
    using nf others
    by (simp add: SetPasswordHash_def d1 u0 registered_user_def update_where_def)
  have taken: "\<not> list_ex (\<lambda>t. tn_Slug t = slugify orgName) (tenants d)"
  proof
    assume "list_ex (\<lambda>t. tn_Slug t = slugify orgName) (tenants d)"
    then have "Tenant_Create orgName (slugify orgName) ''free'' ?d2 = (Inl (Wrap ''scan tenant'' unique_violation), ?d2)"
      using nf by (simp add: Tenant_Create_def insert_unique_no_faults d1 scanTenant_def)
    with reg set_pw show False by (simp add: register_org_def on_db_unfold)
  qed
  let ?t = "\<lparr>tn_ID = ?tid, tn_Name = orgName, tn_Slug = slugify orgName, tn_Plan = ''free'',
           tn_CreatedAt = clock d, tn_UpdatedAt = clock d\<rparr>"
  let ?d3 = "?d2\<lparr>uuid_count := Suc (Suc (uuid_count d)), tenants := tenants d @ [?t]\<rparr>"
  have mk: "Tenant_Create orgName (slugify orgName) ''free'' ?d2 = (Inr ?t, ?d3)"
    using nf taken by (simp add: Tenant_Create_def insert_unique_no_faults d1 scanTenant_def)
  let ?d4 = "?d3\<lparr>org_members := org_members d @ [\<lparr>om_TenantID = ?tid, om_UserID = ?uid,
        om_Role = ''owner'', om_JoinedAt = clock d\<rparr>]\<rparr>"
  have add: "AddToTenant ?tid (us_ID u0) ''owner'' ?d3 = (Inr (), ?d4)"
    using nf nomem by (simp add: AddToTenant_def d1 u0 registered_user_def)
  have iss: "issuePair S (us_ID u0) ?tid ''owner'' (?d4, src) = (Inr pair, d', src')"
    and user: "user = u0\<lparr>us_PasswordHash := Some hash\<rparr>"
    using reg set_pw mk add by (auto simp: register_org_def on_db_unfold and_then_Inr)
  obtain row where cr: "Refresh_Create (us_ID u0) ?tid (tp_RefreshToken pair) RefreshTokenTTL ?d4 = (Inr row, d')"
    using issuePair_Inr [OF iss] by blast
  from Refresh_Create_Inr [OF cr] have ids: "us_ID u0 \<noteq> ''''" "?tid \<noteq> ''''" by blast+
  from Refresh_Create_Inr [OF cr] Refresh_Create_faults [OF _ cr] nf obtain fs where
    "d' = ?d4\<lparr>faults := fs, uuid_count := Suc (uuid_count ?d4), refresh_tokens := refresh_tokens d @ [row]\<rparr>" "faults d' = []"
    by (auto simp: d1)
  then show ?thesis using ids by (simp add: user u0 d1 registered_user_def)
qed

lemma register_effect:
  assumes ok: "accounts_ok d" and nf: "faults d = []"
    and reg: "Auth_Register S inp (d, src) = (Inr (pair, user), d', src')"
  obtains email name hash orgName where "ri_OrgName inp = '''' \<or> orgName = ri_OrgName inp" "email = to_lower (trim_space (ri_Email inp))" "email \<noteq> ''''" "8 \<le> length (ri_Password inp)"
    "email \<notin> us_Email ` set (users d)"
    "HashPassword (sv_bcrypt S) (ri_Password inp) = Inr hash"
    "register_org S ((registered_user d email name hash)\<lparr>us_PasswordHash := None\<rparr>) hash orgName
       (d\<lparr>uuid_count := Suc (uuid_count d), users := users d @ [(registered_user d email name hash)\<lparr>us_PasswordHash := None\<rparr>]\<rparr>, src) =
       (Inr (pair, user), d', src')"
proof -
  let ?email = "to_lower (trim_space (ri_Email inp))"
  have pre: "?email \<noteq> ''''" "8 \<le> length (ri_Password inp)" "ri_Password inp \<noteq> ''''" "\<not> length (ri_Password inp) < 8"
    using reg by (auto simp: Auth_Register_def Let_def split: if_splits)
  have none: "select_one (\<lambda>u. us_Email u = ?email) (users d) = None"
    using reg pre nf by (cases "select_one (\<lambda>u. us_Email u = ?email) (users d)")
      (auto simp: Auth_Register_def Let_def on_db_unfold GetByEmail_def scanUser_def)
  then have free: "\<not> list_ex (\<lambda>u. us_Email u = ?email) (users d)" by (auto simp: select_one_None list_ex_iff)
  obtain hash where hash: "HashPassword (sv_bcrypt S) (ri_Password inp) = Inr hash"
    using reg pre none nf by (cases "HashPassword (sv_bcrypt S) (ri_Password inp)")
      (auto simp: Auth_Register_def Let_def on_db_unfold GetByEmail_def scanUser_def)
  show thesis
    by (rule that [of "if ri_OrgName inp = '''' then (if ri_DisplayName inp = '''' then hd (split_on CHR ''@'' ?email)
           else ri_DisplayName inp) @ [CHR 0x27] @ ''s Org'' else ri_OrgName inp" ?email hash])
      (use reg pre none nf hash free in \<open>auto simp: Auth_Register_def Let_def on_db_unfold GetByEmail_def scanUser_def
         User_Create_def insert_unique_no_faults registered_user_def select_one_None\<close>)
qed

lemma select_one_append_new: "rows' = rows @ [x] \<Longrightarrow> P x \<Longrightarrow> \<forall>r \<in> set rows. \<not> P r \<Longrightarrow> select_one P rows' = Some x"
  by (induction rows arbitrary: rows') (auto simp: select_one_def)

text \<open>C19: whoever registers can log in, as the owner of the new organisation. After a successful
  registration on a database that refuses no statement, exactly one user and one organisation
  have been added, the organisation under an id that none had before and with the name that
  was asked for (if one was), and exactly one membership, which makes the user its owner. The
  same address (in any case and with surrounding blanks) and password are then accepted by
  \<open>Auth_Login\<close> as long as tokens can be signed and the random source delivers an unused value; the
  login returns the registered user and an access token for that new organisation with the
  role \<open>owner\<close>.\<close>

theorem register_then_login:
  assumes "jwt_spec (sv_jwt S) signed_by" "\<And>k c. is_ok (jl_sign (sv_jwt S) k c)"
    and "\<And>pw n h. bc_hash (sv_bcrypt S) pw n = Inr h \<Longrightarrow> bc_compare (sv_bcrypt S) h pw"
    and ok: "accounts_ok d" and nf: "faults d = []"
    and reg: "Auth_Register S inp (d, src) = (Inr (pair, user), d', src')"
    and drawn: "tn_ID ` set (tenants d) \<subseteq> uuids d ` {..<uuid_count d}"
    and fresh: "b64_encode (take refreshTokenLen b) \<notin> rf_TokenHash ` set (refresh_tokens d')"
  shows "\<exists>pair' s' t. Auth_Login S (ri_Email inp) (ri_Password inp) (d', Some b # src'') = (Inr (pair', user), s') \<and>
    users d' = users d @ [user] \<and> us_Email user = to_lower (trim_space (ri_Email inp)) \<and>
    tenants d' = tenants d @ [t] \<and> tn_ID t \<notin> tn_ID ` set (tenants d) \<and> (ri_OrgName inp \<noteq> '''' \<longrightarrow> tn_Name t = ri_OrgName inp) \<and>
    org_members d' = org_members d @ [\<lparr>om_TenantID = tn_ID t, om_UserID = us_ID user, om_Role = ''owner'', om_JoinedAt = clock d\<rparr>] \<and>
    Validate (sv_jwt S) (sv_tm S) (clock d') (tp_AccessToken pair') =
      Inr (issued_claims (sv_jwt S) (clock d') (us_ID user) (tn_ID t) ''owner'' AccessTokenTTL)"
proof -
  from register_effect [OF ok nf reg] obtain email name hash orgName where
    name: "ri_OrgName inp = '''' \<or> orgName = ri_OrgName inp" and email: "email = to_lower (trim_space (ri_Email inp))" "email \<notin> us_Email ` set (users d)"
    and hash: "HashPassword (sv_bcrypt S) (ri_Password inp) = Inr hash"
    and org: "register_org S ((registered_user d email name hash)\<lparr>us_PasswordHash := None\<rparr>) hash orgName
       (d\<lparr>uuid_count := Suc (uuid_count d), users := users d @ [(registered_user d email name hash)\<lparr>us_PasswordHash := None\<rparr>]\<rparr>, src) =
       (Inr (pair, user), d', src')" .
  let ?tid = "uuids d (Suc (uuid_count d))"
  note eff = register_org_effect [OF ok nf refl refl org]
  have u: "user = registered_user d email name hash" "users d' = users d @ [user]" "faults d' = []" "clock d' = clock d"
    using eff by auto
  have members: "org_members d' = org_members d @ [\<lparr>om_TenantID = ?tid, om_UserID = us_ID user,
        om_Role = ''owner'', om_JoinedAt = clock d\<rparr>]" using eff by blast
  obtain t where t: "tenants d' = tenants d @ [t]" "tn_ID t = ?tid" "tn_Name t = orgName" using eff by fastforce
  have ids: "us_ID user \<noteq> ''''" "?tid \<noteq> ''''" using eff by blast+
  have newt: "tn_ID t \<notin> tn_ID ` set (tenants d)"
  proof
    assume "tn_ID t \<in> tn_ID ` set (tenants d)"
    then obtain n where "n < uuid_count d" "?tid = uuids d n" using drawn t(2) by auto
    then show False using ok by (auto simp: accounts_ok_def dest: injD)
  qed
  have "select_one (\<lambda>x. us_Email x = email) (users d') = Some user"
    using email(2) by (intro select_one_append_new) (auto simp: u(1,2) registered_user_def)
  then have get: "GetByEmail email d' = (Inr user, d')" by (simp add: GetByEmail_def u(3) scanUser_def)
  have "filter (\<lambda>m. om_UserID m = us_ID user) (org_members d) = []"
    unfolding filter_empty_conv using fresh_user_id(2) [OF ok] by (simp add: u(1) registered_user_def) (metis imageI)
  then have prim: "GetPrimaryMembership (us_ID user) d' = (Inr (?tid, ''owner''), d')"
    by (simp add: GetPrimaryMembership_def u(3) members order_by_def)
  obtain tok where tok: "Generate (sv_jwt S) (sv_tm S) (clock d') (us_ID user) ?tid ''owner'' AccessTokenTTL = Inr tok"
    unfolding Generate_def using assms(2) by (metis is_ok_simps(2) sumE)
  let ?raw = "b64_encode (take refreshTokenLen b)"
  have "\<not> list_ex (\<lambda>t. rf_TokenHash t = ?raw) (refresh_tokens d')"
    unfolding list_ex_iff using fresh by (metis imageI)
  then obtain row d2 where cr: "Refresh_Create (us_ID user) ?tid ?raw RefreshTokenTTL d' = (Inr row, d2)"
    using ids by (simp add: Refresh_Create_def insert_unique_no_faults u(3) scanRefreshToken_def)
  let ?pair = "\<lparr>tp_AccessToken = tok, tp_RefreshToken = ?raw, tp_ExpiresAt = clock d' + AccessTokenTTL\<rparr>"
  have iss: "issuePair S (us_ID user) ?tid ''owner'' (d', Some b # src'') = (Inr ?pair, d2, src'')"
    using tok cr by (simp add: issuePair_def GenerateToken_def on_db_unfold)
  have pw: "us_PasswordHash user = Some hash" "bc_compare (sv_bcrypt S) hash (ri_Password inp)"
    using hash assms(3) by (simp_all add: u(1) registered_user_def HashPassword_def)
  have "Auth_Login S (ri_Email inp) (ri_Password inp) (d', Some b # src'') = (Inr (?pair, user), d2, src'')"
    by (simp add: Auth_Login_def email(1) [symmetric] on_db_unfold get pw CheckPassword_def primaryTenant_def prim iss)
  moreover have "Validate (sv_jwt S) (sv_tm S) (clock d') tok =
      Inr (issued_claims (sv_jwt S) (clock d') (us_ID user) (tn_ID t) ''owner'' AccessTokenTTL)"
    using issued_token_valid [OF assms(1) tok] t(2) by simp
  moreover have "us_Email user = to_lower (trim_space (ri_Email inp))" using u(1) email(1) by (simp add: registered_user_def)
  ultimately show ?thesis using t u(2) members newt name
    by (intro exI [of _ ?pair] exI [of _ "(d2, src'')"] exI [of _ t]) auto
qed

section \<open>A service to run\<close>

text \<open>The reference signer and a \<open>bcrypt\<close> whose hash is the password itself.\<close>

definition ref_service :: Service where
  "ref_service = \<lparr>sv_jwt = ref_jwt, sv_bcrypt = \<lparr>bc_hash = (\<lambda>pw n. Inr pw), bc_compare = (\<lambda>h pw. h = pw)\<rparr>,
     sv_tm = NewTokenManager ''s''\<rparr>"

definition ann :: RegisterInput where
  "ann = \<lparr>ri_Email = ''Ann@x.io'', ri_Password = ''password'', ri_DisplayName = '''', ri_OrgName = ''Org''\<rparr>"

lemma no_users_ok: "accounts_ok no_users" "tokens_ok no_users" "faults no_users = []"
proof -
  have "inj (\<lambda>n. replicate (Suc n) CHR ''u'')" by (rule injI) (metis length_replicate nat.inject)
  then show "accounts_ok no_users" "tokens_ok no_users" "faults no_users = []"
    by (simp_all add: accounts_ok_def tokens_ok_def no_users_def)
qed

lemma ann_email: "to_lower (trim_space ''Ann@x.io'') = ''ann@x.io''"
  unfolding spaces_def trim_space_def by code_simp

lemma ann_registers: "\<exists>pair user d' src'. Auth_Register ref_service ann (no_users, [Some ''abc'']) = (Inr (pair, user), d', src') \<and>
    refresh_tokens d' = [\<lparr>rf_ID = ''uuu'', rf_UserID = ''u'', rf_TenantID = ''uu'', rf_TokenHash = b64_encode ''abc'',
      rf_ExpiresAt = 4 + RefreshTokenTTL, rf_CreatedAt = 4, rf_RevokedAt = None\<rparr>] \<and> clock d' = 4"
  by (simp add: Auth_Register_def ann_def ann_email on_db_unfold GetByEmail_def no_users_def scanUser_def select_one_def
      ref_service_def HashPassword_def User_Create_def insert_unique_no_faults register_org_def SetPasswordHash_def
      Tenant_Create_def scanTenant_def AddToTenant_def update_where_def issuePair_def ref_Generate GenerateToken_def
      refreshTokenLen_def Refresh_Create_def scanRefreshToken_def Let_def)

lemma ref_service_simps [simp]: "sv_jwt ref_service = ref_jwt" "sv_tm ref_service = NewTokenManager ''s''"
  "bc_compare (sv_bcrypt ref_service) = (\<lambda>h pw. h = pw)" "bc_hash (sv_bcrypt ref_service) = (\<lambda>pw n. Inr pw)"
  by (simp_all add: ref_service_def)

theorem register_then_login_witness:
  "\<exists>pair user d' src' pair' s' t. Auth_Register ref_service ann (no_users, [Some ''abc'']) = (Inr (pair, user), d', src') \<and>
     Auth_Login ref_service ''Ann@x.io'' ''password'' (d', [Some ''x'']) = (Inr (pair', user), s') \<and>
     tenants d' = [t] \<and> tn_Name t = ''Org''"
proof -
  obtain pair user d' src' where reg: "Auth_Register ref_service ann (no_users, [Some ''abc'']) = (Inr (pair, user), d', src')"
    "rf_TokenHash ` set (refresh_tokens d') = {b64_encode ''abc''}"
    using ann_registers by auto
  have "b64_encode (take refreshTokenLen ''x'') \<noteq> b64_encode ''abc''" by (simp add: refreshTokenLen_def Let_def)
  then have fresh: "b64_encode (take refreshTokenLen ''x'') \<notin> rf_TokenHash ` set (refresh_tokens d')"
    using reg(2) by simp
  have sign: "\<And>k c. is_ok (jl_sign (sv_jwt ref_service) k c)" by (simp add: ref_jwt_def)
  have "tn_ID ` set (tenants no_users) \<subseteq> uuids no_users ` {..<uuid_count no_users}" "tenants no_users = []" by (simp_all add: no_users_def)
  with register_then_login [OF _ sign _ no_users_ok(1,3) reg(1) _ fresh, of ref_signed] ref_jwt_spec reg(1)
  show ?thesis by (fastforce simp: ann_def)
qed

definition one_token :: user_db where
  "one_token = no_users\<lparr>uuid_count := 1,
     users := [\<lparr>us_ID = ''u'', us_Email = ''ann@x.io'', us_DisplayName = ''ann'', us_PasswordHash = Some ''password'',
       us_OIDCSubject = None, us_OIDCProvider = None, us_CreatedAt = 1, us_UpdatedAt = 1\<rparr>],
     org_members := [\<lparr>om_TenantID = ''s'', om_UserID = ''u'', om_Role = ''member'', om_JoinedAt = 3\<rparr>,
       \<lparr>om_TenantID = ''t'', om_UserID = ''u'', om_Role = ''owner'', om_JoinedAt = 1\<rparr>],
     refresh_tokens := [\<lparr>rf_ID = ''u'', rf_UserID = ''u'', rf_TenantID = ''t'', rf_TokenHash = ''old'',
       rf_ExpiresAt = 9, rf_CreatedAt = 1, rf_RevokedAt = None\<rparr>]\<rparr>"

lemma one_token_ok: "tokens_ok one_token"
  using no_users_ok(2) by (simp add: one_token_def tokens_ok_def no_users_def)

lemma one_token_refresh:
  "\<exists>pair d' src'. Service_RefreshToken ref_service ''old'' (one_token, [Some ''abc'']) = (Inr pair, d', src')"
proof -
  have "b64_encode ''abc'' \<noteq> ''old''" by (simp add: Let_def)
  then show ?thesis
    by (simp add: Service_RefreshToken_def on_db_unfold GetByHash_def one_token_def no_users_def select_one_def
        usable_token_def scanRefreshToken_def Revoke_def update_where_def issuePair_def ref_Generate GenerateToken_def
        refreshTokenLen_def Refresh_Create_def insert_unique_no_faults Let_def)
qed

theorem refresh_token_rotates_witness:
  "\<exists>pair d' src'. Service_RefreshToken ref_service ''old'' (one_token, [Some ''abc'']) = (Inr pair, d', src') \<and>
     (\<forall>t \<in> set (refresh_tokens d'). \<not> usable_token 5 ''old'' t)"
proof -
  obtain pair d' src' where r: "Service_RefreshToken ref_service ''old'' (one_token, [Some ''abc'']) = (Inr pair, d', src')"
    using one_token_refresh by blast
  with refresh_token_rotates [OF one_token_ok r] show ?thesis by blast
qed

theorem refresh_downgrades_to_member_witness:
  "\<exists>pair s' tok. Service_RefreshToken ref_service ''old'' (one_token, [Some ''abc'']) = (Inr pair, s') \<and>
     Validate ref_jwt (NewTokenManager ''s'') 4 (tp_AccessToken pair) = Inr tok \<and> cl_Role tok = ''member''"
proof -
  obtain pair d' src' where r: "Service_RefreshToken ref_service ''old'' (one_token, [Some ''abc'']) = (Inr pair, d', src')"
    using one_token_refresh by blast
  have c: "clock one_token = 4" by (simp add: one_token_def no_users_def)
  from refresh_downgrades_to_member [OF _ r, of ref_signed] ref_jwt_spec r show ?thesis
    unfolding c ref_service_simps by (auto simp: issued_claims_def)
qed

theorem login_is_authenticated_witness:
  "\<exists>pair user s' tok. Auth_Login ref_service ''Ann@x.io'' ''password'' (one_token, [Some ''abc'']) = (Inr (pair, user), s') \<and>
     us_Email user = ''ann@x.io'' \<and>
     Validate ref_jwt (NewTokenManager ''s'') 4 (tp_AccessToken pair) = Inr tok \<and> cl_TenantID tok = ''t'' \<and> cl_Role tok = ''owner''"
proof -
  have "b64_encode ''abc'' \<noteq> ''old''" by (simp add: Let_def)
  then obtain pair user d' src' where r: "Auth_Login ref_service ''Ann@x.io'' ''password'' (one_token, [Some ''abc'']) = (Inr (pair, user), d', src')"
    by (simp add: Auth_Login_def ann_email on_db_unfold GetByEmail_def one_token_def no_users_def select_one_def scanUser_def
        CheckPassword_def primaryTenant_def GetPrimaryMembership_def order_by_def issuePair_def ref_Generate GenerateToken_def
        refreshTokenLen_def Refresh_Create_def insert_unique_no_faults scanRefreshToken_def Let_def)
  have spec: "jwt_spec (sv_jwt ref_service) ref_signed" by (simp add: ref_jwt_spec)
  have c: "clock one_token = 4" by (simp add: one_token_def no_users_def)
  from login_is_authenticated [OF spec r] obtain tenant role where l: "user \<in> set (users one_token)" "us_Email user = ''ann@x.io''"
    "primary_of (us_ID user) one_token tenant role"
    "Validate ref_jwt (NewTokenManager ''s'') 4 (tp_AccessToken pair) =
       Inr (issued_claims ref_jwt 4 (us_ID user) tenant role AccessTokenTTL)"
    unfolding c ann_email ref_service_simps by blast
  then have "tenant = ''t''" "role = ''owner''" by (auto simp: primary_of_def one_token_def)
  then show ?thesis using r l(2,4) by (auto simp: issued_claims_def)
qed

end
