(* ===== verification/Credentials.thy ===== *)
theory Credentials
  imports Auth_Service
begin

text \<open>
  The credential broker: \<^verbatim>\<open>internal/credentials/broker.go\<close>, its types, and
  \<^verbatim>\<open>internal/db/credential_repo.go\<close> on the tables of migration 004. The authenticated cipher is a
  parameter (\<open>aead\<close>); \<open>aead_spec\<close> is what \<open>crypto/cipher\<close> documents of it.
\<close>

section \<open>The repository\<close>

text \<open>A slice of scopes may be nil, which \<open>pgx\<close> sends as \<open>NULL\<close>; the column is \<open>NOT NULL\<close>.\<close>

record UserCredential =
  uc_ID :: string
  uc_TenantID :: string
  uc_UserID :: string
  uc_Provider :: string
  uc_EncryptedToken :: string
  uc_Scopes :: "string list option"
  uc_TokenType :: string
  uc_ExpiresAt :: "time option"
  uc_RefreshToken :: "string option"
  uc_Metadata :: string
  uc_CreatedAt :: time
  uc_UpdatedAt :: time

record CredentialAuditEntry =
  ca_ID :: string
  ca_TenantID :: string
  ca_UserID :: string
  ca_Provider :: string
  ca_AgentInstanceID :: string
  ca_ConversationID :: "string option"
  ca_SkillName :: string
  ca_Action :: string
  ca_ScopesRequested :: "string list"
  ca_ScopesGranted :: "string list"
  ca_IPAddress :: string
  ca_CreatedAt :: time

record cred_db = user_db +
  user_credentials :: "UserCredential list"
  credential_audit_log :: "CredentialAuditEntry list"

definition not_null_violation :: go_err where
  "not_null_violation = Msg ''null value violates not-null constraint''"

definition cred_key :: "UserCredential \<Rightarrow> string \<times> string \<times> string" where
  "cred_key c = (uc_TenantID c, uc_UserID c, uc_Provider c)"

text \<open>\<open>INSERT ... ON CONFLICT (tenant_id, user_id, provider) DO UPDATE\<close>\<close>

definition Cred_Store :: "UserCredential \<Rightarrow> 'a cred_db_scheme \<Rightarrow> UserCredential result \<times> 'a cred_db_scheme" where
  "Cred_Store c d = wrapped ''store credential'' (statement (\<lambda>d.
     if uc_Scopes c = None then (Inl not_null_violation, d)
     else
       (case select_one (\<lambda>x. cred_key x = cred_key c) (user_credentials d) of
          Some old \<Rightarrow>
            (let row = old\<lparr>uc_EncryptedToken := uc_EncryptedToken c, uc_Scopes := uc_Scopes c,
                           uc_TokenType := uc_TokenType c, uc_ExpiresAt := uc_ExpiresAt c,
                           uc_RefreshToken := uc_RefreshToken c, uc_Metadata := uc_Metadata c,
                           uc_UpdatedAt := clock d\<rparr>
             in (Inr row, d\<lparr>user_credentials :=
                   update_where (\<lambda>x. cred_key x = cred_key c) (\<lambda>_. row) (user_credentials d)\<rparr>))
        | None \<Rightarrow>
            (case new_uuid d of
               (uid, d1) \<Rightarrow>
                 (let row = c\<lparr>uc_ID := uid, uc_CreatedAt := clock d, uc_UpdatedAt := clock d\<rparr>
                  in (Inr row, d1\<lparr>user_credentials := user_credentials d1 @ [row]\<rparr>))))) d)"

definition scanCredential :: "UserCredential result \<Rightarrow> UserCredential result" where
  "scanCredential row =
     (case row of
        Inl err \<Rightarrow> if err_text err = ''no rows in result set'' then Inl (Msg ''credential not found'')
                   else Inl (Wrap ''scan credential'' err)
      | Inr c \<Rightarrow> Inr c)"

definition Cred_Get ::
  "string \<Rightarrow> string \<Rightarrow> string \<Rightarrow> 'a cred_db_scheme \<Rightarrow> UserCredential result \<times> 'a cred_db_scheme" where
  "Cred_Get tenantID userID provider d =
     (case query (\<lambda>d. one_row (select_one (\<lambda>c. cred_key c = (tenantID, userID, provider)) (user_credentials d))) d of
        (row, d') \<Rightarrow> (scanCredential row, d'))"

text \<open>\<open>ORDER BY provider\<close> compares text; the order of equal keys does not occur.\<close>

definition char_leq :: "char \<Rightarrow> char \<Rightarrow> bool" where
  "char_leq a b \<longleftrightarrow> (of_char a :: nat) \<le> of_char b"

fun text_leq :: "string \<Rightarrow> string \<Rightarrow> bool" where
  "text_leq [] t = True"
| "text_leq (a # s) [] = False"
| "text_leq (a # s) (b # t) = (if a = b then text_leq s t else char_leq a b)"

fun insert_by_text :: "('r \<Rightarrow> string) \<Rightarrow> 'r \<Rightarrow> 'r list \<Rightarrow> 'r list" where
  "insert_by_text k x [] = [x]"
| "insert_by_text k x (y # ys) = (if text_leq (k x) (k y) then x # y # ys else y # insert_by_text k x ys)"

definition order_by_text :: "('r \<Rightarrow> string) \<Rightarrow> 'r list \<Rightarrow> 'r list" where
  "order_by_text k rows = foldr (insert_by_text k) rows []"

lemma mset_insert_by_text [simp]: "mset (insert_by_text k x ys) = add_mset x (mset ys)"
  by (induction ys) auto

lemma mset_order_by_text [simp]: "mset (order_by_text k rows) = mset rows"
  unfolding order_by_text_def by (induction rows) auto

lemma set_order_by_text [simp]: "set (order_by_text k rows) = set rows"
  by (metis mset_order_by_text set_mset_mset)

definition Cred_ListByUser ::
  "string \<Rightarrow> string \<Rightarrow> 'a cred_db_scheme \<Rightarrow> UserCredential list result \<times> 'a cred_db_scheme" where
  "Cred_ListByUser tenantID userID d = wrapped ''list credentials''
     (query (\<lambda>d. Inr (order_by_text uc_Provider
        (filter (\<lambda>c. uc_TenantID c = tenantID \<and> uc_UserID c = userID) (user_credentials d)))) d)"

definition Cred_Delete ::
  "string \<Rightarrow> string \<Rightarrow> string \<Rightarrow> 'a cred_db_scheme \<Rightarrow> unit result \<times> 'a cred_db_scheme" where
  "Cred_Delete tenantID userID provider d =
     and_then (wrapped ''delete credential'' (statement (\<lambda>d.
         (Inr (length (filter (\<lambda>c. cred_key c = (tenantID, userID, provider)) (user_credentials d))),
          d\<lparr>user_credentials := delete_where (\<lambda>c. cred_key c = (tenantID, userID, provider)) (user_credentials d)\<rparr>)) d))
       (\<lambda>affected d'. if affected = 0 then (Inl (Msg ''credential not found''), d') else (Inr (), d'))"

definition nilIfEmpty :: "string \<Rightarrow> string option" where
  "nilIfEmpty s = (if s = '''' then None else Some s)"

definition AuditLog :: "CredentialAuditEntry \<Rightarrow> 'a cred_db_scheme \<Rightarrow> unit result \<times> 'a cred_db_scheme" where
  "AuditLog e d =
     (case insert_new (\<lambda>d uid. e\<lparr>ca_ID := uid, ca_CreatedAt := clock d\<rparr>)
             (\<lambda>row d. d\<lparr>credential_audit_log := credential_audit_log d @ [row]\<rparr>) d of
        (Inl err, d') \<Rightarrow> (Inl (Wrap ''audit log'' err), d')
      | (Inr _, d') \<Rightarrow> (Inr (), d'))"

definition ListAuditLog ::
  "string \<Rightarrow> int \<Rightarrow> 'a cred_db_scheme \<Rightarrow> CredentialAuditEntry list result \<times> 'a cred_db_scheme" where
  "ListAuditLog tenantID limit0 d =
     (let limit = (if limit0 \<le> 0 then 50 else limit0) in
      wrapped ''list audit log'' (query (\<lambda>d. Inr (limit_rows limit (order_by (\<lambda>e. - ca_CreatedAt e)
         (filter (\<lambda>e. ca_TenantID e = tenantID) (credential_audit_log d))))) d))"

section \<open>The cipher\<close>

record aead =
  ae_nonce_size :: nat
  ae_seal :: "string \<Rightarrow> string \<Rightarrow> string"              \<comment> \<open>nonce, plaintext\<close>
  ae_open :: "string \<Rightarrow> string \<Rightarrow> string option"       \<comment> \<open>nonce, ciphertext\<close>

definition aead_spec :: "aead \<Rightarrow> bool" where
  "aead_spec A \<longleftrightarrow> (\<forall>nonce text. length nonce = ae_nonce_size A \<longrightarrow> ae_open A nonce (ae_seal A nonce text) = Some text)"

text \<open>\<open>io.ReadFull\<close> needs enough random bytes.\<close>

definition encrypt :: "aead \<Rightarrow> string \<Rightarrow> entropy \<Rightarrow> string result \<times> entropy" where
  "encrypt A plaintext src =
     (case src of
        [] \<Rightarrow> (Inl EOF, [])
      | None # src' \<Rightarrow> (Inl (Msg ''read''), src')
      | Some b # src' \<Rightarrow>
          if length b < ae_nonce_size A then (Inl EOF, src')
          else (let nonce = take (ae_nonce_size A) b in (Inr (nonce @ ae_seal A nonce plaintext), src')))"

definition decrypt :: "aead \<Rightarrow> string \<Rightarrow> string result" where
  "decrypt A ciphertext =
     (if length ciphertext < ae_nonce_size A then Inl (Msg ''ciphertext too short'')
      else (case ae_open A (take (ae_nonce_size A) ciphertext) (drop (ae_nonce_size A) ciphertext) of
              None \<Rightarrow> Inl (Msg ''cipher: message authentication failed'')
            | Some text \<Rightarrow> Inr text))"

text \<open>\<open>hex.DecodeString\<close>\<close>

definition hex_val :: "char \<Rightarrow> nat option" where
  "hex_val c =
     (let n = of_char c in
      if 48 \<le> n \<and> n \<le> 57 then Some (n - 48)
      else if 97 \<le> n \<and> n \<le> 102 then Some (n - 87)
      else if 65 \<le> n \<and> n \<le> 70 then Some (n - 55) else None)"

fun hex_decode :: "string \<Rightarrow> string result" where
  "hex_decode [] = Inr []"
| "hex_decode [c] = Inl (Msg ''encoding/hex: odd length hex string'')"
| "hex_decode (a # b # s) =
     (case (hex_val a, hex_val b) of
        (Some x, Some y) \<Rightarrow>
          (case hex_decode s of Inl e \<Rightarrow> Inl e | Inr t \<Rightarrow> Inr (char_of (16 * x + y) # t))
      | _ \<Rightarrow> Inl (Msg ''encoding/hex: invalid byte''))"

text \<open>\<open>aes.NewCipher\<close> and \<open>cipher.NewGCM\<close> accept every key of 32 bytes; \<open>gcm\<close> is the cipher of a key.\<close>

definition NewBroker :: "(string \<Rightarrow> aead) \<Rightarrow> string \<Rightarrow> aead result" where
  "NewBroker gcm encryptionKeyHex =
     (case hex_decode encryptionKeyHex of
        Inl err \<Rightarrow> Inl (Wrap ''decode encryption key'' err)
      | Inr keyBytes \<Rightarrow>
          if length keyBytes \<noteq> 32
          then Inl (Msg (''encryption key must be 32 bytes (got '' @ itoa (length keyBytes) @ '')''))
          else Inr (gcm keyBytes))"

section \<open>The broker\<close>

record StoreRequest =
  sr_TenantID :: string
  sr_UserID :: string
  sr_Provider :: string
  sr_Token :: string
  sr_RefreshToken :: string
  sr_Scopes :: "string list option"
  sr_TokenType :: string
  sr_ExpiresAt :: "time option"

record TokenRequest =
  tr_TenantID :: string
  tr_UserID :: string
  tr_Provider :: string
  tr_Scopes :: "string list"
  tr_AgentInstanceID :: string
  tr_ConversationID :: string
  tr_SkillName :: string

record TokenResponse =
  to_Token :: string
  to_ExpiresIn :: int
  to_Scopes :: "string list"

record ProviderInfo =
  pi_Provider :: string
  pi_TokenType :: string
  pi_Scopes :: "string list option"
  pi_ExpiresAt :: "time option"
  pi_CreatedAt :: time
  pi_UpdatedAt :: time

abbreviation DefaultTokenTTL :: duration where
  "DefaultTokenTTL \<equiv> 5 * Minute"

definition audit_entry :: "string \<Rightarrow> string \<Rightarrow> string \<Rightarrow> string \<Rightarrow> CredentialAuditEntry" where
  "audit_entry tenantID userID provider action =
     \<lparr>ca_ID = '''', ca_TenantID = tenantID, ca_UserID = userID, ca_Provider = provider, ca_AgentInstanceID = '''',
      ca_ConversationID = None, ca_SkillName = '''', ca_Action = action, ca_ScopesRequested = [],
      ca_ScopesGranted = [], ca_IPAddress = '''', ca_CreatedAt = 0\<rparr>"

text \<open>The refresh token is encrypted when there is one.\<close>

definition encrypt_optional :: "aead \<Rightarrow> string \<Rightarrow> entropy \<Rightarrow> string option result \<times> entropy" where
  "encrypt_optional A text src =
     (if text \<noteq> ''''
      then (case encrypt A text src of
              (Inl err, src') \<Rightarrow> (Inl err, src')
            | (Inr e, src') \<Rightarrow> (Inr (Some e), src'))
      else (Inr None, src))"

definition StoreCredential ::
  "aead \<Rightarrow> StoreRequest \<Rightarrow> 'a cred_db_scheme \<times> entropy \<Rightarrow> unit result \<times> 'a cred_db_scheme \<times> entropy" where
  "StoreCredential A req s =
     (case encrypt A (sr_Token req) (snd s) of
        (Inl err, src) \<Rightarrow> (Inl (Wrap ''encrypt token'' err), fst s, src)
      | (Inr encrypted, src) \<Rightarrow>
          (case encrypt_optional A (sr_RefreshToken req) src of
             (Inl err, src') \<Rightarrow> (Inl (Wrap ''encrypt refresh token'' err), fst s, src')
           | (Inr encRefresh, src') \<Rightarrow>
               (case Cred_Store
                   \<lparr>uc_ID = '''', uc_TenantID = sr_TenantID req, uc_UserID = sr_UserID req,
                    uc_Provider = sr_Provider req, uc_EncryptedToken = encrypted, uc_Scopes = sr_Scopes req,
                    uc_TokenType = sr_TokenType req, uc_ExpiresAt = sr_ExpiresAt req,
                    uc_RefreshToken = encRefresh, uc_Metadata = ''{}'', uc_CreatedAt = 0, uc_UpdatedAt = 0\<rparr> (fst s) of
                  (Inl err, d) \<Rightarrow> (Inl err, d, src')
                | (Inr _, d) \<Rightarrow>
                    (Inr (), snd (AuditLog (audit_entry (sr_TenantID req) (sr_UserID req) (sr_Provider req)
                                              ''credential_stored'') d), src'))))"

definition intersectScopes :: "string list \<Rightarrow> string list \<Rightarrow> string list" where
  "intersectScopes requested available =
     (if requested = [] then available else filter (\<lambda>s. s \<in> set available) requested)"

definition request_entry :: "TokenRequest \<Rightarrow> string \<Rightarrow> CredentialAuditEntry" where
  "request_entry req action =
     (audit_entry (tr_TenantID req) (tr_UserID req) (tr_Provider req) action)
       \<lparr>ca_AgentInstanceID := tr_AgentInstanceID req, ca_SkillName := tr_SkillName req,
        ca_ScopesRequested := tr_Scopes req\<rparr>"

definition scope_list :: "string list option \<Rightarrow> string list" where
  "scope_list s = (case s of None \<Rightarrow> [] | Some l \<Rightarrow> l)"

definition IssueToken :: "aead \<Rightarrow> TokenRequest \<Rightarrow> 'a cred_db_scheme \<Rightarrow> TokenResponse result \<times> 'a cred_db_scheme" where
  "IssueToken A req d =
     (case Cred_Get (tr_TenantID req) (tr_UserID req) (tr_Provider req) d of
        (Inl _, d1) \<Rightarrow>
          (Inl (Msg (''credential not found for provider '' @ quoted (tr_Provider req))),
           snd (AuditLog ((request_entry req ''token_denied'')\<lparr>ca_ConversationID := nilIfEmpty (tr_ConversationID req)\<rparr>) d1))
      | (Inr cred, d1) \<Rightarrow>
          (let granted = intersectScopes (tr_Scopes req) (scope_list (uc_Scopes cred)) in
           if tr_Scopes req \<noteq> [] \<and> granted = [] then
             (Inl (Msg (''no matching scopes for provider '' @ quoted (tr_Provider req))),
              snd (AuditLog (request_entry req ''token_denied'') d1))
           else
             (case decrypt A (uc_EncryptedToken cred) of
                Inl err \<Rightarrow> (Inl (Wrap ''decrypt token'' err), d1)
              | Inr plaintext \<Rightarrow>
                  if (case uc_ExpiresAt cred of None \<Rightarrow> False | Some t \<Rightarrow> t < clock d1)
                  then (Inl (Msg (''stored credential for '' @ quoted (tr_Provider req) @ '' has expired'')), d1)
                  else
                    (Inr \<lparr>to_Token = plaintext, to_ExpiresIn = DefaultTokenTTL div Second, to_Scopes = granted\<rparr>,
                     snd (AuditLog ((request_entry req ''token_issued'')
                            \<lparr>ca_ConversationID := nilIfEmpty (tr_ConversationID req), ca_ScopesGranted := granted\<rparr>) d1)))))"

definition DeleteCredential ::
  "string \<Rightarrow> string \<Rightarrow> string \<Rightarrow> 'a cred_db_scheme \<Rightarrow> unit result \<times> 'a cred_db_scheme" where
  "DeleteCredential tenantID userID provider d =
     and_then (Cred_Delete tenantID userID provider d) (\<lambda>_ d1.
       (Inr (), snd (AuditLog (audit_entry tenantID userID provider ''credential_deleted'') d1)))"

definition ListProviders ::
  "string \<Rightarrow> string \<Rightarrow> 'a cred_db_scheme \<Rightarrow> ProviderInfo list result \<times> 'a cred_db_scheme" where
  "ListProviders tenantID userID d =
     and_then (Cred_ListByUser tenantID userID d) (\<lambda>creds d1.
       (Inr (map (\<lambda>c. \<lparr>pi_Provider = uc_Provider c, pi_TokenType = uc_TokenType c, pi_Scopes = uc_Scopes c,
                       pi_ExpiresAt = uc_ExpiresAt c, pi_CreatedAt = uc_CreatedAt c, pi_UpdatedAt = uc_UpdatedAt c\<rparr>) creds), d1))"

section \<open>What an issued token is\<close>

lemma audit_tables [simp]:
  "user_credentials (snd (AuditLog e d)) = user_credentials d" "clock (snd (AuditLog e d)) = clock d"
proof -
  let ?ins = "insert_new (\<lambda>d uid. e\<lparr>ca_ID := uid, ca_CreatedAt := clock d\<rparr>)
             (\<lambda>row d. d\<lparr>credential_audit_log := credential_audit_log d @ [row]\<rparr>) d"
  have eq: "snd (AuditLog e d) = snd ?ins" by (auto simp: AuditLog_def split: prod.splits sum.splits)
  show "user_credentials (snd (AuditLog e d)) = user_credentials d" unfolding eq
    by (rule insert_new_preserves [where P = "\<lambda>x. user_credentials x = user_credentials d"]) simp_all
  show "clock (snd (AuditLog e d)) = clock d" unfolding eq
    by (rule insert_new_preserves [where P = "\<lambda>x. clock x = clock d"]) simp_all
qed

lemma Cred_Get_Inr:
  assumes "Cred_Get t u p d = (Inr c, d')"
  shows "c \<in> set (user_credentials d) \<and> cred_key c = (t, u, p)" "\<exists>fs. d' = d\<lparr>faults := fs\<rparr>"
proof -
  obtain r where q: "query (\<lambda>d. one_row (select_one (\<lambda>c. cred_key c = (t, u, p)) (user_credentials d))) d = (r, d')" "r = Inr c"
    using assms by (auto simp: Cred_Get_def scanCredential_def split: prod.splits sum.splits if_splits)
  then obtain fs where fs: "d' = d\<lparr>faults := fs\<rparr>" "one_row (select_one (\<lambda>c. cred_key c = (t, u, p)) (user_credentials d)) = Inr c"
    by (elim query_state) auto
  then show "\<exists>fs. d' = d\<lparr>faults := fs\<rparr>" by blast
  show "c \<in> set (user_credentials d) \<and> cred_key c = (t, u, p)"
    using fs(2) by (auto simp: one_row_def split: option.splits dest: select_one_Some)
qed

lemma intersectScopes_sound: "set (intersectScopes req avail) \<subseteq> set avail"
  by (auto simp: intersectScopes_def)

text \<open>C24: the broker hands out a token only from the credential of the tenant, user and provider that the
  request names, unexpired, with scopes that were stored with it; when the request names
  scopes, the granted ones are exactly those of them that were stored, and there is at
  least one. The stored credentials are not changed.\<close>

theorem issued_tokens_are_scoped:
  assumes "IssueToken A req d = (Inr resp, d')"
  shows "\<exists>c \<in> set (user_credentials d).
    cred_key c = (tr_TenantID req, tr_UserID req, tr_Provider req) \<and>
    decrypt A (uc_EncryptedToken c) = Inr (to_Token resp) \<and>
    set (to_Scopes resp) \<subseteq> set (scope_list (uc_Scopes c)) \<and>
    (tr_Scopes req \<noteq> [] \<longrightarrow> to_Scopes resp \<noteq> [] \<and> set (to_Scopes resp) = set (tr_Scopes req) \<inter> set (scope_list (uc_Scopes c))) \<and>
    (\<forall>t. uc_ExpiresAt c = Some t \<longrightarrow> clock d \<le> t) \<and>
    user_credentials d' = user_credentials d"
proof -
  obtain c d1 where g: "Cred_Get (tr_TenantID req) (tr_UserID req) (tr_Provider req) d = (Inr c, d1)"
    using assms by (auto simp: IssueToken_def split: prod.splits sum.splits)
  obtain fs where d1: "d1 = d\<lparr>faults := fs\<rparr>" using Cred_Get_Inr(2) [OF g] by blast
  have r: "decrypt A (uc_EncryptedToken c) = Inr (to_Token resp)"
    "to_Scopes resp = intersectScopes (tr_Scopes req) (scope_list (uc_Scopes c))"
    "tr_Scopes req \<noteq> [] \<longrightarrow> to_Scopes resp \<noteq> []"
    "\<forall>t. uc_ExpiresAt c = Some t \<longrightarrow> clock d \<le> t" "user_credentials d' = user_credentials d"
    using assms g d1 by (auto simp: IssueToken_def Let_def split: sum.splits if_splits option.splits)
  moreover have "tr_Scopes req \<noteq> [] \<longrightarrow> set (to_Scopes resp) = set (tr_Scopes req) \<inter> set (scope_list (uc_Scopes c))"
    unfolding r(2) by (auto simp: intersectScopes_def)
  ultimately show ?thesis
    using Cred_Get_Inr(1) [OF g] intersectScopes_sound [of "tr_Scopes req" "scope_list (uc_Scopes c)"] by auto
qed

lemma decrypt_encrypt:
  assumes "aead_spec A" "encrypt A text src = (Inr cipher, src')"
  shows "decrypt A cipher = Inr text"
proof -
  obtain b where b: "\<not> length b < ae_nonce_size A" "cipher = take (ae_nonce_size A) b @ ae_seal A (take (ae_nonce_size A) b) text"
    using assms(2) by (auto simp: encrypt_def Let_def split: list.splits option.splits if_splits)
  then show ?thesis using assms(1) by (auto simp: decrypt_def aead_spec_def min_def)
qed

lemma Cred_Store_lookup:
  assumes "Cred_Store c d = (Inr row, d')" "faults d = []"
  shows "\<exists>x. select_one (\<lambda>y. cred_key y = cred_key c) (user_credentials d') = Some x \<and>
     uc_EncryptedToken x = uc_EncryptedToken c \<and> uc_Scopes x = uc_Scopes c \<and> uc_ExpiresAt x = uc_ExpiresAt c"
    and "faults d' = []" "clock d' = clock d"
proof -
  have *: "find P (map (\<lambda>r. if P r then row else r) rows) = Some row" if "find P rows = Some y" "P row"
    for P :: "UserCredential \<Rightarrow> bool" and rows y row
    using that by (induction rows) (auto split: if_splits)
  have **: "find P (rows @ [row]) = Some row" if "find P rows = None" "P row"
    for P :: "UserCredential \<Rightarrow> bool" and rows row
    using that by (induction rows) (auto split: if_splits)
  show "\<exists>x. select_one (\<lambda>y. cred_key y = cred_key c) (user_credentials d') = Some x \<and>
     uc_EncryptedToken x = uc_EncryptedToken c \<and> uc_Scopes x = uc_Scopes c \<and> uc_ExpiresAt x = uc_ExpiresAt c"
  proof (cases "select_one (\<lambda>y. cred_key y = cred_key c) (user_credentials d)")
    case None
    have "cred_key row = cred_key c" "user_credentials d' = user_credentials d @ [row]"
      "uc_EncryptedToken row = uc_EncryptedToken c" "uc_Scopes row = uc_Scopes c" "uc_ExpiresAt row = uc_ExpiresAt c"
      using assms None by (auto simp: Cred_Store_def new_uuid_def Let_def cred_key_def split: if_splits)
    then show ?thesis using None ** [of "\<lambda>y. cred_key y = cred_key c"] by (simp add: select_one_def)
  next
    case (Some old)
    then have "cred_key old = cred_key c" using select_one_Some by fast
    then have "cred_key row = cred_key c"
      "user_credentials d' = update_where (\<lambda>y. cred_key y = cred_key c) (\<lambda>_. row) (user_credentials d)"
      "uc_EncryptedToken row = uc_EncryptedToken c" "uc_Scopes row = uc_Scopes c" "uc_ExpiresAt row = uc_ExpiresAt c"
      using assms Some by (auto simp: Cred_Store_def Let_def cred_key_def split: if_splits)
    then show ?thesis using Some * [of "\<lambda>y. cred_key y = cred_key c"] by (simp add: select_one_def update_where_def)
  qed
  show "faults d' = []" "clock d' = clock d"
    using assms by (auto simp: Cred_Store_def new_uuid_def Let_def split: if_splits option.splits)
qed

lemma stored_answers:
  assumes "aead_spec A" "faults d = []" "StoreCredential A req (d, src) = (Inr (), d', src')"
    and "sr_Scopes req = Some scopes" "\<forall>t. sr_ExpiresAt req = Some t \<longrightarrow> clock d \<le> t"
    and "(tr_TenantID treq, tr_UserID treq, tr_Provider treq) = (sr_TenantID req, sr_UserID req, sr_Provider req)"
    and "granted = (if tr_Scopes treq = [] then scopes else filter (\<lambda>s. s \<in> set scopes) (tr_Scopes treq))"
  shows "fst (IssueToken A treq d') =
    (if tr_Scopes treq \<noteq> [] \<and> granted = [] then Inl (Msg (''no matching scopes for provider '' @ quoted (sr_Provider req)))
     else Inr \<lparr>to_Token = sr_Token req, to_ExpiresIn = 300, to_Scopes = granted\<rparr>)"
proof -
  obtain cipher src1 where enc: "encrypt A (sr_Token req) src = (Inr cipher, src1)"
    using assms(3) by (auto simp: StoreCredential_def split: prod.splits sum.splits)
  obtain er src2 where opt: "encrypt_optional A (sr_RefreshToken req) src1 = (Inr er, src2)"
    using assms(3) enc by (auto simp: StoreCredential_def split: prod.splits sum.splits)
  let ?c = "\<lparr>uc_ID = '''', uc_TenantID = sr_TenantID req, uc_UserID = sr_UserID req,
                    uc_Provider = sr_Provider req, uc_EncryptedToken = cipher, uc_Scopes = sr_Scopes req,
                    uc_TokenType = sr_TokenType req, uc_ExpiresAt = sr_ExpiresAt req,
                    uc_RefreshToken = er, uc_Metadata = ''{}'', uc_CreatedAt = 0, uc_UpdatedAt = 0\<rparr>"
  obtain row d1 where store: "Cred_Store ?c d = (Inr row, d1)" and d': "\<exists>e. d' = snd (AuditLog e d1)"
    using assms(3) enc opt by (auto simp: StoreCredential_def split: prod.splits sum.splits)
  have c: "uc_EncryptedToken ?c = cipher" "uc_Scopes ?c = Some scopes" "uc_ExpiresAt ?c = sr_ExpiresAt req"
    "cred_key ?c = (sr_TenantID req, sr_UserID req, sr_Provider req)"
    using assms(4) by (simp_all add: cred_key_def)
  note lk = Cred_Store_lookup [OF store assms(2)]
  obtain x where x: "select_one (\<lambda>y. cred_key y = cred_key ?c) (user_credentials d1) = Some x"
    "uc_EncryptedToken x = cipher" "uc_Scopes x = Some scopes" "uc_ExpiresAt x = sr_ExpiresAt req"
    using lk(1) c by auto
  obtain e where e: "d' = snd (AuditLog e d1)" using d' by blast
  have nf: "faults d' = []" unfolding e using lk(2) by (simp add: AuditLog_def)
  have "Cred_Get (tr_TenantID treq) (tr_UserID treq) (tr_Provider treq) d' = (Inr x, d')"
    using x(1) c(4) assms(6) nf by (simp add: Cred_Get_def scanCredential_def e)
  moreover have "\<not> (case uc_ExpiresAt x of None \<Rightarrow> False | Some t \<Rightarrow> t < clock d')"
    using assms(5) x(4) lk(3) by (auto simp: e split: option.splits)
  ultimately show ?thesis
    using x decrypt_encrypt [OF assms(1) enc] assms(6,7)
    by (simp add: IssueToken_def intersectScopes_def scope_list_def Let_def)
qed

lemma stored_is_issued:
  assumes "aead_spec A" "faults d = []" "StoreCredential A req (d, src) = (Inr (), d', src')"
    and "sr_Scopes req = Some scopes" "\<forall>t. sr_ExpiresAt req = Some t \<longrightarrow> clock d \<le> t"
    and "(tr_TenantID treq, tr_UserID treq, tr_Provider treq) = (sr_TenantID req, sr_UserID req, sr_Provider req)"
    and "tr_Scopes treq = []"
  shows "fst (IssueToken A treq d') = Inr \<lparr>to_Token = sr_Token req, to_ExpiresIn = 300, to_Scopes = scopes\<rparr>"
  using stored_answers [OF assms(1-6) refl] assms(7) by simp

text \<open>What is stored is what is handed out. After a credential has been stored, a token request of the
  same tenant and user for the provider, without a restriction to scopes and before the
  credential expires, returns the stored token itself with all its scopes, for five
  minutes; storing again replaces the earlier credential.\<close>

theorem credential_roundtrip:
  assumes "aead_spec A" "faults d = []" "StoreCredential A req (d, src) = (Inr (), d', src')"
    and "sr_Scopes req = Some scopes" "\<forall>t. sr_ExpiresAt req = Some t \<longrightarrow> clock d \<le> t"
    and "(tr_TenantID treq, tr_UserID treq, tr_Provider treq) = (sr_TenantID req, sr_UserID req, sr_Provider req)"
    and "tr_Scopes treq = []"
  shows "fst (IssueToken A treq d') = Inr \<lparr>to_Token = sr_Token req, to_ExpiresIn = 300, to_Scopes = scopes\<rparr>"
  by (rule stored_is_issued [OF assms])

section \<open>A cipher to run\<close>

text \<open>A cipher that meets the contract, and nothing more: the ciphertext is the nonce and the text.\<close>

definition ref_aead :: aead where
  "ref_aead = \<lparr>ae_nonce_size = 2, ae_seal = (\<lambda>nonce text. nonce @ text),
     ae_open = (\<lambda>nonce c. if take 2 c = nonce then Some (drop 2 c) else None)\<rparr>"

lemma ref_aead_spec: "aead_spec ref_aead"
  by (simp add: aead_spec_def ref_aead_def)

definition no_creds :: cred_db where
  "no_creds = \<lparr>clock = 4, faults = [], uuids = (\<lambda>n. replicate (Suc n) CHR ''u''), uuid_count = 0,
     agent_profiles = [], agent_instances = [], tasks = [], conversations = [], messages = [],
     users = [], tenants = [], org_members = [], org_invites = [], refresh_tokens = [],
     user_credentials = [], credential_audit_log = []\<rparr>"

definition gh_store :: StoreRequest where
  "gh_store = \<lparr>sr_TenantID = ''t'', sr_UserID = ''u'', sr_Provider = ''github'', sr_Token = ''secret'', sr_RefreshToken = '''',
     sr_Scopes = Some [''repo'', ''gist''], sr_TokenType = ''pat'', sr_ExpiresAt = None\<rparr>"

definition gh_request :: TokenRequest where
  "gh_request = \<lparr>tr_TenantID = ''t'', tr_UserID = ''u'', tr_Provider = ''github'', tr_Scopes = [],
     tr_AgentInstanceID = '''', tr_ConversationID = '''', tr_SkillName = ''''\<rparr>"

definition one_cred :: cred_db where
  "one_cred = fst (snd (StoreCredential ref_aead gh_store (no_creds, [Some ''nonce''])))"

lemma one_cred_store: "StoreCredential ref_aead gh_store (no_creds, [Some ''nonce'']) = (Inr (), one_cred, [])"
  by (simp add: one_cred_def StoreCredential_def encrypt_optional_def gh_store_def encrypt_def ref_aead_def Cred_Store_def no_creds_def
      select_one_def new_uuid_def Let_def)

theorem credential_roundtrip_witness:
  "fst (IssueToken ref_aead gh_request one_cred) =
     Inr \<lparr>to_Token = ''secret'', to_ExpiresIn = 300, to_Scopes = [''repo'', ''gist'']\<rparr>"
  using credential_roundtrip [OF ref_aead_spec _ one_cred_store, of "[''repo'', ''gist'']" gh_request]
  by (simp add: no_creds_def gh_store_def gh_request_def)

theorem issued_tokens_are_scoped_witness:
  "\<exists>resp d' c. IssueToken ref_aead (gh_request\<lparr>tr_Scopes := [''admin'', ''repo'']\<rparr>) one_cred = (Inr resp, d') \<and>
     c \<in> set (user_credentials one_cred) \<and> set (to_Scopes resp) = {''admin'', ''repo''} \<inter> set (scope_list (uc_Scopes c))"
proof -
  obtain resp d' where r: "IssueToken ref_aead (gh_request\<lparr>tr_Scopes := [''admin'', ''repo'']\<rparr>) one_cred = (Inr resp, d')"
    by (simp add: IssueToken_def gh_request_def Cred_Get_def one_cred_def StoreCredential_def encrypt_optional_def gh_store_def encrypt_def
        ref_aead_def Cred_Store_def no_creds_def select_one_def new_uuid_def Let_def AuditLog_def cred_key_def
        scanCredential_def intersectScopes_def scope_list_def decrypt_def)
  from issued_tokens_are_scoped [OF r] r show ?thesis by auto
qed

end
