(* ===== verification/Skill_Repo.thy ===== *)
theory Skill_Repo
  imports Credentials
begin

text \<open>
  The skill registry and its activation per tenant and user: \<^verbatim>\<open>internal/db/skill_repo.go\<close> on the
  tables of migrations 003 and 014.
\<close>

section \<open>Rows\<close>

record RegistrySkill =
  sk_ID :: string
  sk_Name :: string
  sk_Version :: string
  sk_Description :: string
  sk_Author :: string
  sk_Type :: string
  sk_Tags :: "string list option"
  sk_Spec :: "string option"
  sk_Readme :: string
  sk_Downloads :: int
  sk_Published :: bool
  sk_CreatedAt :: time
  sk_UpdatedAt :: time

record skill_db = cred_db +
  skills :: "RegistrySkill list"
  tenant_skills :: "(string \<times> string) list"              \<comment> \<open>tenant, skill\<close>
  user_skills :: "(string \<times> string \<times> string) list"      \<comment> \<open>tenant, user, skill\<close>

section \<open>The registry\<close>

text \<open>\<open>tags\<close> and \<open>spec\<close> are \<open>NOT NULL\<close>, \<open>name\<close> is unique.\<close>

definition Skill_Create :: "RegistrySkill \<Rightarrow> 'a skill_db_scheme \<Rightarrow> RegistrySkill result \<times> 'a skill_db_scheme" where
  "Skill_Create s d = wrapped ''create skill'' (statement (\<lambda>d.
     if sk_Tags s = None \<or> sk_Spec s = None then (Inl not_null_violation, d)
     else if list_ex (\<lambda>x. sk_Name x = sk_Name s) (skills d) then (Inl unique_violation, d)
     else (case new_uuid d of
             (uid, d1) \<Rightarrow>
               (let row = s\<lparr>sk_ID := uid, sk_Downloads := 0, sk_CreatedAt := clock d, sk_UpdatedAt := clock d\<rparr>
                in (Inr (s\<lparr>sk_ID := uid, sk_CreatedAt := clock d, sk_UpdatedAt := clock d\<rparr>),
                    d1\<lparr>skills := skills d1 @ [row]\<rparr>)))) d)"

definition scanSkill :: "RegistrySkill result \<Rightarrow> RegistrySkill result" where
  "scanSkill row =
     (case row of
        Inl err \<Rightarrow> if err_text err = ''no rows in result set'' then Inl (Msg ''skill not found'')
                   else Inl (Wrap ''scan skill'' err)
      | Inr s \<Rightarrow> Inr s)"

definition Skill_Get :: "string \<Rightarrow> 'a skill_db_scheme \<Rightarrow> RegistrySkill result \<times> 'a skill_db_scheme" where
  "Skill_Get uid d =
     (case query (\<lambda>d. one_row (select_one (\<lambda>s. sk_ID s = uid) (skills d))) d of (row, d') \<Rightarrow> (scanSkill row, d'))"

definition Skill_GetByName :: "string \<Rightarrow> 'a skill_db_scheme \<Rightarrow> RegistrySkill result \<times> 'a skill_db_scheme" where
  "Skill_GetByName name d =
     (case query (\<lambda>d. one_row (select_one (\<lambda>s. sk_Name s = name) (skills d))) d of (row, d') \<Rightarrow> (scanSkill row, d'))"

record SkillFilter =
  sf_Type :: string
  sf_Author :: string
  sf_Tag :: string
  sf_Query :: string
  sf_Limit :: int
  sf_Offset :: int

text \<open>\<open>LIKE\<close> patterns: \<open>%\<close> any text, \<open>_\<close> any character, backslash escapes; \<open>ILIKE\<close> ignores case.\<close>

fun like :: "string \<Rightarrow> string \<Rightarrow> bool" where
  "like [] s = (s = [])"
| "like (c # p) [] = (c = CHR ''%'' \<and> like p [])"
| "like (c # p) (x # s) =
     (if c = CHR ''%'' then like p (x # s) \<or> like (c # p) s
      else if c = CHR ''_'' then like p s
      else if c = CHR 0x5C \<and> p \<noteq> [] then x = hd p \<and> like (tl p) s
      else x = c \<and> like p s)"

definition ilike :: "string \<Rightarrow> string \<Rightarrow> bool" where
  "ilike s pattern = like (to_lower pattern) (to_lower s)"

definition skill_matches :: "SkillFilter \<Rightarrow> RegistrySkill \<Rightarrow> bool" where
  "skill_matches f s \<longleftrightarrow>
     sk_Published s \<and>
     (sf_Type f = '''' \<or> sk_Type s = sf_Type f) \<and>
     (sf_Author f = '''' \<or> sk_Author s = sf_Author f) \<and>
     (sf_Tag f = '''' \<or> sf_Tag f \<in> set (scope_list (sk_Tags s))) \<and>
     (sf_Query f = '''' \<or>
        (let q = ''%'' @ sf_Query f @ ''%'' in ilike (sk_Name s) q \<or> ilike (sk_Description s) q))"

definition Skill_List :: "SkillFilter \<Rightarrow> 'a skill_db_scheme \<Rightarrow> RegistrySkill list result \<times> 'a skill_db_scheme" where
  "Skill_List f d = wrapped ''list skills'' (query (\<lambda>d.
     Inr (limit_rows (if 0 < sf_Limit f then sf_Limit f else 100)
       (drop (if 0 < sf_Offset f then nat (sf_Offset f) else 0)
         (order_by (\<lambda>s. - sk_Downloads s) (order_by_text sk_Name (filter (skill_matches f) (skills d))))))) d)"

definition Skill_Update :: "RegistrySkill \<Rightarrow> 'a skill_db_scheme \<Rightarrow> RegistrySkill result \<times> 'a skill_db_scheme" where
  "Skill_Update s d =
     (case statement (\<lambda>d.
        if list_ex (\<lambda>x. sk_ID x = sk_ID s) (skills d) \<and> (sk_Tags s = None \<or> sk_Spec s = None)
        then (Inl not_null_violation, d)
        else if \<not> list_ex (\<lambda>x. sk_ID x = sk_ID s) (skills d) then (Inl ErrNoRows, d)
        else (Inr (clock d), d\<lparr>skills := update_where (\<lambda>x. sk_ID x = sk_ID s)
                (\<lambda>x. x\<lparr>sk_Version := sk_Version s, sk_Description := sk_Description s, sk_Author := sk_Author s,
                       sk_Type := sk_Type s, sk_Tags := sk_Tags s, sk_Spec := sk_Spec s, sk_Readme := sk_Readme s,
                       sk_Published := sk_Published s, sk_UpdatedAt := clock d\<rparr>) (skills d)\<rparr>)) d of
        (Inl err, d') \<Rightarrow>
          (if err_text err = ''no rows in result set'' then (Inl (Msg ''skill not found''), d')
           else (Inl (Wrap ''update skill'' err), d'))
      | (Inr t, d') \<Rightarrow> (Inr (s\<lparr>sk_UpdatedAt := t\<rparr>), d'))"

text \<open>\<open>ON DELETE CASCADE\<close> removes the installations and activations.\<close>

definition Skill_Delete :: "string \<Rightarrow> 'a skill_db_scheme \<Rightarrow> unit result \<times> 'a skill_db_scheme" where
  "Skill_Delete uid d =
     and_then (wrapped ''delete skill'' (statement (\<lambda>d.
         (Inr (length (filter (\<lambda>s. sk_ID s = uid) (skills d))),
          d\<lparr>skills := delete_where (\<lambda>s. sk_ID s = uid) (skills d),
            tenant_skills := (if list_ex (\<lambda>s. sk_ID s = uid) (skills d)
                              then delete_where (\<lambda>(t, s). s = uid) (tenant_skills d) else tenant_skills d),
            user_skills := (if list_ex (\<lambda>s. sk_ID s = uid) (skills d)
                            then delete_where (\<lambda>(t, u, s). s = uid) (user_skills d) else user_skills d)\<rparr>)) d))
       (\<lambda>affected d'. if affected = 0 then (Inl (Msg ''skill not found''), d') else (Inr (), d'))"

definition IncrementDownloads :: "string \<Rightarrow> 'a skill_db_scheme \<Rightarrow> unit result \<times> 'a skill_db_scheme" where
  "IncrementDownloads uid = exec (\<lambda>d. d\<lparr>skills := update_where (\<lambda>s. sk_ID s = uid)
     (\<lambda>s. s\<lparr>sk_Downloads := sk_Downloads s + 1\<rparr>) (skills d)\<rparr>)"

section \<open>Installation and activation\<close>

text \<open>\<open>ON CONFLICT DO NOTHING\<close>\<close>

definition add_once :: "'r \<Rightarrow> 'r list \<Rightarrow> 'r list" where
  "add_once x rows = (if x \<in> set rows then rows else rows @ [x])"

definition InstallForTenant :: "string \<Rightarrow> string \<Rightarrow> 'a skill_db_scheme \<Rightarrow> unit result \<times> 'a skill_db_scheme" where
  "InstallForTenant tenantID skillID = exec (\<lambda>d. d\<lparr>tenant_skills := add_once (tenantID, skillID) (tenant_skills d)\<rparr>)"

definition UninstallForTenant :: "string \<Rightarrow> string \<Rightarrow> 'a skill_db_scheme \<Rightarrow> unit result \<times> 'a skill_db_scheme" where
  "UninstallForTenant tenantID skillID d =
     (case exec (\<lambda>d. d\<lparr>user_skills := delete_where (\<lambda>(t, u, s). t = tenantID \<and> s = skillID) (user_skills d)\<rparr>) d of
        (_, d1) \<Rightarrow>
          exec (\<lambda>d. d\<lparr>tenant_skills := delete_where (\<lambda>(t, s). t = tenantID \<and> s = skillID) (tenant_skills d)\<rparr>) d1)"

definition ListTenantSkills :: "string \<Rightarrow> 'a skill_db_scheme \<Rightarrow> RegistrySkill list result \<times> 'a skill_db_scheme" where
  "ListTenantSkills tenantID d = wrapped ''list tenant skills'' (query (\<lambda>d.
     Inr (order_by_text sk_Name (filter (\<lambda>s. (tenantID, sk_ID s) \<in> set (tenant_skills d)) (skills d)))) d)"

definition EnableForUser :: "string \<Rightarrow> string \<Rightarrow> string \<Rightarrow> 'a skill_db_scheme \<Rightarrow> unit result \<times> 'a skill_db_scheme" where
  "EnableForUser tenantID userID skillID d =
     and_then (wrapped ''check tenant install'' (query (\<lambda>d. Inr ((tenantID, skillID) \<in> set (tenant_skills d))) d))
       (\<lambda>exists d1.
          if \<not> exists then (Inl (Msg ''skill not installed for this tenant''), d1)
          else exec (\<lambda>d. d\<lparr>user_skills := add_once (tenantID, userID, skillID) (user_skills d)\<rparr>) d1)"

definition DisableForUser :: "string \<Rightarrow> string \<Rightarrow> string \<Rightarrow> 'a skill_db_scheme \<Rightarrow> unit result \<times> 'a skill_db_scheme" where
  "DisableForUser tenantID userID skillID = exec (\<lambda>d. d\<lparr>user_skills :=
     delete_where (\<lambda>x. x = (tenantID, userID, skillID)) (user_skills d)\<rparr>)"

text \<open>Both link tables have a primary key, so each join yields a skill at most once.\<close>

definition ListActiveSkills ::
  "string \<Rightarrow> string \<Rightarrow> 'a skill_db_scheme \<Rightarrow> RegistrySkill list result \<times> 'a skill_db_scheme" where
  "ListActiveSkills tenantID userID d = wrapped ''list active skills'' (query (\<lambda>d.
     Inr (order_by_text sk_Name (filter (\<lambda>s. (tenantID, sk_ID s) \<in> set (tenant_skills d) \<and>
                                              (tenantID, userID, sk_ID s) \<in> set (user_skills d)) (skills d)))) d)"

record AvailableSkill =
  av_skill :: RegistrySkill
  av_Enabled :: bool

definition ListAvailableSkills ::
  "string \<Rightarrow> string \<Rightarrow> 'a skill_db_scheme \<Rightarrow> AvailableSkill list result \<times> 'a skill_db_scheme" where
  "ListAvailableSkills tenantID userID d = wrapped ''list available skills'' (query (\<lambda>d.
     Inr (map (\<lambda>s. \<lparr>av_skill = s, av_Enabled = ((tenantID, userID, sk_ID s) \<in> set (user_skills d))\<rparr>)
        (order_by_text sk_Name (filter (\<lambda>s. (tenantID, sk_ID s) \<in> set (tenant_skills d)) (skills d))))) d)"

section \<open>Only installed skills are active\<close>

lemma active_skills_result:
  assumes "ListActiveSkills t u d = (Inr ss, d')"
  shows "set ss = {s \<in> set (skills d). (t, sk_ID s) \<in> set (tenant_skills d) \<and> (t, u, sk_ID s) \<in> set (user_skills d)}"
    and "\<exists>fs. d' = d\<lparr>faults := fs\<rparr>"
proof -
  have "query (\<lambda>d. Inr (order_by_text sk_Name (filter (\<lambda>s. (t, sk_ID s) \<in> set (tenant_skills d) \<and>
      (t, u, sk_ID s) \<in> set (user_skills d)) (skills d)))) d = (Inr ss, d')"
    using assms by (simp add: ListActiveSkills_def)
  then show "set ss = {s \<in> set (skills d). (t, sk_ID s) \<in> set (tenant_skills d) \<and> (t, u, sk_ID s) \<in> set (user_skills d)}"
    and "\<exists>fs. d' = d\<lparr>faults := fs\<rparr>"
    by (auto elim!: query_state)
qed

text \<open>A skill that an administrator uninstalls is active for no user of the tenant any more, even
  when the removal of the users' activations is refused by the database, and the skills of
  other tenants stay as they are.\<close>

theorem uninstall_deactivates:
  assumes "UninstallForTenant t sid d = (Inr (), d1)" "ListActiveSkills t' u d1 = (Inr ss, d2)"
  shows "(t' = t \<longrightarrow> (\<forall>s \<in> set ss. sk_ID s \<noteq> sid)) \<and>
    (t' \<noteq> t \<longrightarrow> set ss = {s \<in> set (skills d). (t', sk_ID s) \<in> set (tenant_skills d) \<and> (t', u, sk_ID s) \<in> set (user_skills d)})"
proof -
  let ?du = "\<lambda>d. d\<lparr>user_skills := delete_where (\<lambda>(x, y, s). x = t \<and> s = sid) (user_skills d)\<rparr>"
  let ?dt = "\<lambda>d. d\<lparr>tenant_skills := delete_where (\<lambda>(x, s). x = t \<and> s = sid) (tenant_skills d)\<rparr>"
  obtain r0 d0 where e1: "exec ?du d = (r0, d0)" by (meson surj_pair)
  have e2: "exec ?dt d0 = (Inr (), d1)"
    using assms(1) e1 by (simp add: UninstallForTenant_def)
  have d0: "skills d0 = skills d" "tenant_skills d0 = tenant_skills d"
    "\<forall>u s. t' \<noteq> t \<longrightarrow> (t', u, s) \<in> set (user_skills d0) \<longleftrightarrow> (t', u, s) \<in> set (user_skills d)"
    using e1 by (cases rule: exec_state; auto simp: delete_where_def)+
  have d1: "skills d1 = skills d0" "user_skills d1 = user_skills d0"
    "set (tenant_skills d1) = {(x, s) \<in> set (tenant_skills d0). \<not> (x = t \<and> s = sid)}"
    using e2 by (cases rule: exec_state; auto simp: delete_where_def)+
  show ?thesis
    using d0 d1 by (auto simp: active_skills_result(1) [OF assms(2)])
qed

definition one_skill :: skill_db where
  "one_skill = \<lparr>clock = 4, faults = [], uuids = (\<lambda>n. replicate (Suc n) CHR ''u''), uuid_count = 0,
     agent_profiles = [], agent_instances = [], tasks = [], conversations = [], messages = [],
     users = [], tenants = [], org_members = [], org_invites = [], refresh_tokens = [],
     user_credentials = [], credential_audit_log = [],
     skills = [\<lparr>sk_ID = ''s'', sk_Name = ''mail'', sk_Version = ''1'', sk_Description = '''', sk_Author = '''',
       sk_Type = ''prompt'', sk_Tags = Some [], sk_Spec = Some ''{}'', sk_Readme = '''', sk_Downloads = 0,
       sk_Published = True, sk_CreatedAt = 0, sk_UpdatedAt = 0\<rparr>],
     tenant_skills = [(''t'', ''s'')], user_skills = [(''t'', ''u'', ''s'')]\<rparr>"

theorem uninstall_deactivates_witness:
  "\<exists>d1 d2 ss. UninstallForTenant ''t'' ''s'' one_skill = (Inr (), d1) \<and> ListActiveSkills ''t'' ''u'' d1 = (Inr ss, d2) \<and>
     (\<forall>s \<in> set ss. sk_ID s \<noteq> ''s'')"
proof -
  obtain d1 where u: "UninstallForTenant ''t'' ''s'' one_skill = (Inr (), d1)" "faults d1 = []"
    by (simp add: UninstallForTenant_def one_skill_def)
  obtain ss d2 where l: "ListActiveSkills ''t'' ''u'' d1 = (Inr ss, d2)"
    using u(2) by (simp add: ListActiveSkills_def)
  from uninstall_deactivates [OF u(1) l] u(1) l show ?thesis by blast
qed

end
