(* ===== verification/Web.thy ===== *)
theory Web
  imports Auth_Token Pool
begin

text \<open>
  The HTTP layer that every API handler runs in: the helpers of
  \<^verbatim>\<open>internal/gateway/api/api.go\<close>, the authentication middleware of \<^verbatim>\<open>internal/auth/middleware.go\<close>
  and the middleware of \<^verbatim>\<open>internal/gateway/middleware.go\<close>. A handler maps a request and the state of
  the server to a response and a new state; a page, which the middleware wraps, may panic.
\<close>

section \<open>Requests, responses and JSON\<close>

text \<open>The values the handlers pass to \<open>json.Encoder\<close>; \<open>JTime\<close> is a time in RFC 3339 format and \<open>JRaw\<close> a
  \<open>json.RawMessage\<close>.\<close>

datatype json = JNull | JBool bool | JNum rat | JStr string | JTime time | JRaw string
  | JArr "json list" | JObj "(string \<times> json) list"

text \<open>The request line, the \<open>Authorization\<close> header (empty when absent), the query parameters, the body, the
  path values of the route that took the request and the claims that the context carries.\<close>

record request =
  rq_method :: string
  rq_path :: string
  rq_authorization :: string
  rq_query :: "string \<Rightarrow> string"
  rq_body :: string
  rq_values :: "(string \<times> string) list"
  rq_claims :: "Claims option"

record response =
  rs_status :: nat
  rs_headers :: "(string \<times> string) list"
  rs_body :: json

type_synonym 's handler = "request \<Rightarrow> 's \<Rightarrow> response \<times> 's"

text \<open>\<open>None\<close> is a panic; the state is the one at the panic.\<close>

type_synonym 's page = "request \<Rightarrow> 's \<Rightarrow> response option \<times> 's"

text \<open>\<open>r.PathValue\<close> is empty for a name that the pattern does not have.\<close>

definition PathValue :: "string \<Rightarrow> request \<Rightarrow> string" where
  "PathValue name rq = (case map_of (rq_values rq) name of None \<Rightarrow> '''' | Some v \<Rightarrow> v)"

definition writeJSON :: "nat \<Rightarrow> json \<Rightarrow> response" where
  "writeJSON code v = \<lparr>rs_status = code, rs_headers = [(''Content-Type'', ''application/json'')], rs_body = v\<rparr>"

definition writeError :: "nat \<Rightarrow> string \<Rightarrow> response" where
  "writeError code msg = writeJSON code (JObj [(''error'', JStr msg)])"

text \<open>\<open>decode\<close>: the body is decoded into the handler's input type, or the decoder's error text is
  reported.\<close>

definition decode_body :: "string + 'in \<Rightarrow> ('in \<Rightarrow> 's \<Rightarrow> response \<times> 's) \<Rightarrow> 's \<Rightarrow> response \<times> 's" where
  "decode_body body k s =
     (case body of
        Inl err \<Rightarrow> (writeError 400 (''invalid request body: '' @ err), s)
      | Inr inp \<Rightarrow> k inp s)"

definition RequireAuth :: "(Claims \<Rightarrow> 's page) \<Rightarrow> 's page" where
  "RequireAuth next rq s =
     (case rq_claims rq of
        None \<Rightarrow> (Some (writeError 401 ''unauthorized''), s)
      | Some claims \<Rightarrow> next claims rq s)"

lemma status_writeJSON [simp]: "rs_status (writeJSON code v) = code" "rs_status (writeError code msg) = code"
  by (simp_all add: writeJSON_def writeError_def)

section \<open>The text of an error\<close>

fun substring_at :: "string \<Rightarrow> string \<Rightarrow> bool" where
  "substring_at needle [] = (needle = [])"
| "substring_at needle (c # cs) = (has_prefix (c # cs) needle \<or> substring_at needle cs)"

definition stringContains :: "string \<Rightarrow> string \<Rightarrow> bool" where
  "stringContains haystack needle =
     (length needle \<le> length haystack \<and> (haystack = needle \<or> substring_at needle haystack))"

definition containsStr :: "go_err option \<Rightarrow> string \<Rightarrow> bool" where
  "containsStr err s =
     (case err of None \<Rightarrow> False
      | Some e \<Rightarrow> 0 < length (err_text e) \<and> stringContains (err_text e) s)"

text \<open>\<open>errors.Is\<close> with a freshly made error is never true.\<close>

definition isConflict :: "go_err option \<Rightarrow> bool" where
  "isConflict err \<longleftrightarrow> containsStr err ''duplicate key'' \<or> containsStr err ''unique constraint''"

lemma substring_at_iff: "substring_at needle s \<longleftrightarrow> (\<exists>a b. s = a @ needle @ b)"
proof (induction s)
  case (Cons c cs)
  have "substring_at needle (c # cs) \<longleftrightarrow> (\<exists>b. c # cs = needle @ b) \<or> (\<exists>a b. cs = a @ needle @ b)"
    using Cons by (simp add: has_prefix_iff)
  also have "\<dots> \<longleftrightarrow> (\<exists>a b. c # cs = a @ needle @ b)"
    by (metis append_Cons append_Nil list.exhaust list.inject)
  finally show ?case .
qed auto

text \<open>The search loop finds the needle exactly when it occurs.\<close>

lemma stringContains_iff: "stringContains s t \<longleftrightarrow> (\<exists>a b. s = a @ t @ b)"
  unfolding stringContains_def substring_at_iff by auto (metis append_Nil append_Nil2)

lemma isConflict_unique_violation [simp]: "isConflict (Some (Wrap p unique_violation))"
proof -
  have "err_text (Wrap p unique_violation) = (p @ '': '') @ ''duplicate key'' @ '' value violates unique constraint''"
    by (simp add: unique_violation_def)
  then have "stringContains (err_text (Wrap p unique_violation)) ''duplicate key''"
    unfolding stringContains_iff by blast
  moreover have "0 < length (err_text (Wrap p unique_violation))" by simp
  ultimately show ?thesis unfolding isConflict_def containsStr_def by (simp only: option.case simp_thms)
qed

section \<open>Middleware\<close>

text \<open>\<open>http.Error\<close> answers in plain text.\<close>

definition http_Error :: "string \<Rightarrow> nat \<Rightarrow> response" where
  "http_Error msg code =
     \<lparr>rs_status = code,
      rs_headers = [(''Content-Type'', ''text/plain; charset=utf-8''), (''X-Content-Type-Options'', ''nosniff'')],
      rs_body = JStr msg\<rparr>"

lemma status_http_Error [simp]: "rs_status (http_Error msg code) = code"
  by (simp add: http_Error_def)

definition token_of_request :: "request \<Rightarrow> string" where
  "token_of_request rq =
     (if rq_authorization rq \<noteq> '''' then trim_prefix (rq_authorization rq) ''Bearer ''
      else rq_query rq ''token'')"

definition HTTPMiddleware :: "jwt_lib \<Rightarrow> TokenManager \<Rightarrow> time \<Rightarrow> 's page \<Rightarrow> 's page" where
  "HTTPMiddleware J tm now next rq s =
     (if rq_path rq = ''/healthz'' then next rq s
      else if token_of_request rq = '''' then next rq s
      else (case Validate J tm now (token_of_request rq) of
              Inl err \<Rightarrow> (Some (http_Error ''unauthorized'' 401), s)
            | Inr claims \<Rightarrow> next (rq\<lparr>rq_claims := Some claims\<rparr>) s))"

definition cors_headers :: "(string \<times> string) list" where
  "cors_headers =
     [(''Access-Control-Allow-Origin'', ''*''),
      (''Access-Control-Allow-Methods'', ''GET, POST, PUT, DELETE, OPTIONS, PATCH''),
      (''Access-Control-Allow-Headers'', ''Content-Type, Authorization, X-Request-ID''),
      (''Access-Control-Max-Age'', ''86400'')]"

text \<open>What the middleware set on the writer stays there when the page behind it panics.\<close>

definition CORSMiddleware ::
  "'s page \<Rightarrow> request \<Rightarrow> 's \<Rightarrow> ((string \<times> string) list \<times> response option) \<times> 's" where
  "CORSMiddleware next rq s =
     (if rq_method rq = ''OPTIONS''
      then ((cors_headers, Some \<lparr>rs_status = 204, rs_headers = [], rs_body = JNull\<rparr>), s)
      else (case next rq s of (r, s') \<Rightarrow> ((cors_headers, r), s')))"

text \<open>The lines of the log: one per request that returns, without its duration and the address of the client, and
  one per panic that is recovered, without the value and the stack of the panic. The recovery is the outer of the
  two: a panic passes the access log by.\<close>

datatype log_line =
    HTTP_Request (lg_method: string) (lg_path: string) (lg_status: nat)
  | Panic_Recovered (lg_method: string) (lg_path: string)

definition RecoveryMiddleware ::
  "(request \<Rightarrow> 's \<times> log_line list \<Rightarrow> ((string \<times> string) list \<times> response option) \<times> 's \<times> log_line list) \<Rightarrow>
   ('s \<times> log_line list) handler" where
  "RecoveryMiddleware next rq st =
     (case next rq st of
        ((hs, None), (s', lines)) \<Rightarrow>
          (let r = http_Error ''internal server error'' 500 in
           (r\<lparr>rs_headers := hs @ rs_headers r\<rparr>, (s', lines @ [Panic_Recovered (rq_method rq) (rq_path rq)])))
      | ((hs, Some r), st') \<Rightarrow> (r\<lparr>rs_headers := hs @ rs_headers r\<rparr>, st'))"

definition LoggingMiddleware :: "'s page \<Rightarrow> ('s \<times> log_line list) page" where
  "LoggingMiddleware next rq st =
     (case next rq (fst st) of
        (None, s') \<Rightarrow> (None, (s', snd st))
      | (Some r, s') \<Rightarrow>
          (Some r, (s', snd st @ [HTTP_Request (rq_method rq) (rq_path rq) (rs_status r)])))"

text \<open>A protected handler runs only for the holder of a valid token. When a request passes the
  middleware to a handler wrapped in \<open>RequireAuth\<close>, either the answer is 401 and the state is as it
  was, or the request carries an unexpired token signed with HMAC and the server's secret and
  the handler ran with the claims that this token holds.\<close>

theorem protected_handlers_need_a_token:
  assumes "jwt_spec J signed_by" "rq_claims rq = None"
    and "HTTPMiddleware J tm now (RequireAuth h) rq s = (r, s')"
  shows "(\<exists>e. r = Some e \<and> rs_status e = 401) \<and> s' = s \<or>
    (\<exists>claims. signed_by HMAC (tm_secret tm) claims (token_of_request rq) \<and> unexpired now claims \<and>
       h claims (rq\<lparr>rq_claims := Some claims\<rparr>) s = (r, s'))"
proof (cases "rq_path rq = ''/healthz'' \<or> token_of_request rq = ''''")
  case True
  then have "HTTPMiddleware J tm now (RequireAuth h) rq s = RequireAuth h rq s" by (auto simp: HTTPMiddleware_def)
  then show ?thesis using assms(2,3) by (auto simp: RequireAuth_def)
next
  case False
  show ?thesis
  proof (cases "Validate J tm now (token_of_request rq)")
    case (Inl e)
    then show ?thesis using False assms(3) by (auto simp: HTTPMiddleware_def)
  next
    case (Inr claims)
    then show ?thesis
      using False assms(3) Validate_sound [OF assms(1) Inr] by (auto simp: HTTPMiddleware_def RequireAuth_def)
  qed
qed

definition plain_request :: "string \<Rightarrow> string \<Rightarrow> request" where
  "plain_request path header = \<lparr>rq_method = ''GET'', rq_path = path, rq_authorization = header,
     rq_query = (\<lambda>_. ''''), rq_body = '''', rq_values = [], rq_claims = None\<rparr>"

theorem protected_handlers_need_a_token_witness:
  "fst (HTTPMiddleware ref_jwt (NewTokenManager ''s'') 0
     (RequireAuth (\<lambda>claims rq s. (Some (writeJSON 200 JNull), s + 1))) (plain_request ''/v1/tasks'' '''') (0::nat)) =
   Some (writeError 401 ''unauthorized'')"
proof -
  let ?h = "\<lambda>claims rq (s::nat). (Some (writeJSON 200 JNull), s + 1)"
  let ?out = "HTTPMiddleware ref_jwt (NewTokenManager ''s'') 0 (RequireAuth ?h) (plain_request ''/v1/tasks'' '''') 0"
  have out: "?out = (Some (writeError 401 ''unauthorized''), 0)"
    by (simp add: HTTPMiddleware_def RequireAuth_def plain_request_def token_of_request_def)
  have "rq_claims (plain_request ''/v1/tasks'' '''') = None" by (simp add: plain_request_def)
  from protected_handlers_need_a_token [OF ref_jwt_spec this out] out show ?thesis by auto
qed

end
