(* ===== verification/API_Resources.thy ===== *)
theory API_Resources
  imports Web Conversation_Repo
begin

text \<open>
  The REST handlers for conversations, tasks and agent profiles:
  \<^verbatim>\<open>conversations.go\<close> (all but the dispatch to an agent, which \<open>Dispatch\<close> models),
  \<^verbatim>\<open>tasks.go\<close> and \<^verbatim>\<open>agents.go\<close> of \<^verbatim>\<open>internal/gateway/api\<close>. Every handler is registered behind
  \<open>RequireAuth\<close>, so it takes the caller's claims; \<open>uid\<close> is the path value \<open>id\<close>, and \<open>body\<close> the
  decoded request body or the decoder's error.
\<close>

section \<open>JSON of the rows\<close>

definition opt_field :: "string \<Rightarrow> ('v \<Rightarrow> json) \<Rightarrow> 'v option \<Rightarrow> (string \<times> json) list" where
  "opt_field k f v = (case v of None \<Rightarrow> [] | Some x \<Rightarrow> [(k, f x)])"

definition msgJSON :: "DB_Message \<Rightarrow> json" where
  "msgJSON m = JObj
     ([(''id'', JStr (dm_ID m)), (''conversation_id'', JStr (dm_ConversationID m)), (''role'', JStr (dm_Role m)),
       (''author_type'', JStr (dm_AuthorType m)), (''content'', JRaw (dm_Content m)),
       (''created_at'', JTime (dm_CreatedAt m))] @
      opt_field ''author_id'' JStr (dm_AuthorID m) @ opt_field ''agent_name'' JStr (dm_AgentName m))"

definition convoJSON :: "Conversation \<Rightarrow> DB_Message list option \<Rightarrow> json" where
  "convoJSON c msgs = JObj
     ([(''id'', JStr (cv_ID c)), (''tenant_id'', JStr (cv_TenantID c)), (''title'', JStr (cv_Title c)),
       (''status'', JStr (cv_Status c)), (''created_at'', JTime (cv_CreatedAt c)), (''updated_at'', JTime (cv_UpdatedAt c))] @
      opt_field ''user_id'' JStr (cv_UserID c) @ opt_field ''messages'' (\<lambda>ms. JArr (map msgJSON ms)) msgs)"

definition taskJSON :: "Task \<Rightarrow> json" where
  "taskJSON t = JObj
     ([(''id'', JStr (tk_ID t)), (''tenant_id'', JStr (tk_TenantID t)), (''title'', JStr (tk_Title t)),
       (''status'', JStr (tk_Status t)), (''created_at'', JTime (tk_CreatedAt t)), (''updated_at'', JTime (tk_UpdatedAt t))] @
      opt_field ''conversation_id'' JStr (tk_ConversationID t) @ opt_field ''agent_id'' JStr (tk_AgentID t) @
      opt_field ''result'' JRaw (tk_Result t) @ opt_field ''error'' JStr (tk_Error t) @
      opt_field ''completed_at'' JTime (tk_CompletedAt t))"

definition agentJSON :: "AgentProfile \<Rightarrow> json" where
  "agentJSON p = JObj
     ([(''id'', JStr (ap_ID p)), (''tenant_id'', JStr (ap_TenantID p)), (''name'', JStr (ap_Name p)),
       (''profile_type'', JStr (ap_ProfileType p)), (''visibility'', JStr (ap_Visibility p)),
       (''system_prompt'', JStr (ap_SystemPrompt p)), (''model_provider'', JStr (ap_ModelProvider p)),
       (''model_id'', JStr (ap_ModelID p)), (''temperature'', JNum (ap_Temperature p)),
       (''max_tokens'', JNum (of_int (ap_MaxTokens p))),
       (''skills'', JRaw (case ap_Skills p of None \<Rightarrow> ''[]'' | Some j \<Rightarrow> j)),
       (''created_at'', JTime (ap_CreatedAt p)), (''updated_at'', JTime (ap_UpdatedAt p))] @
      opt_field ''owner_id'' JStr (ap_OwnerID p))"

section \<open>Conversations\<close>

definition handleCreateConversation ::
  "Claims \<Rightarrow> string + string \<Rightarrow> 'a conv_db_scheme \<Rightarrow> response \<times> 'a conv_db_scheme" where
  "handleCreateConversation claims body = decode_body body (\<lambda>title0 d.
     (let title = (if title0 = '''' then ''New conversation'' else title0) in
      (case Conv_Create (cl_TenantID claims) (Some (cl_Subject claims)) title d of
         (Inl _, d') \<Rightarrow> (writeError 500 ''create conversation failed'', d')
       | (Inr convo, d') \<Rightarrow> (writeJSON 201 (convoJSON convo None), d'))))"

definition handleListConversations :: "Claims \<Rightarrow> 'a conv_db_scheme \<Rightarrow> response \<times> 'a conv_db_scheme" where
  "handleListConversations claims d =
     (case Conv_ListByUser (cl_TenantID claims) (cl_Subject claims) d of
        (Inl _, d') \<Rightarrow> (writeError 500 ''list failed'', d')
      | (Inr convos, d') \<Rightarrow>
          (writeJSON 200 (JObj [(''conversations'', JArr (map (\<lambda>c. convoJSON c None) convos))]), d'))"

text \<open>The lookup and tenant check that the handlers for one conversation share.\<close>

definition own_conversation ::
  "Claims \<Rightarrow> string \<Rightarrow> (Conversation \<Rightarrow> 'a conv_db_scheme \<Rightarrow> response \<times> 'a conv_db_scheme) \<Rightarrow>
   'a conv_db_scheme \<Rightarrow> response \<times> 'a conv_db_scheme" where
  "own_conversation claims uid k d =
     (case Conv_Get uid d of
        (Inl _, d1) \<Rightarrow> (writeError 404 ''conversation not found'', d1)
      | (Inr convo, d1) \<Rightarrow>
          if cv_TenantID convo \<noteq> cl_TenantID claims then (writeError 403 ''forbidden'', d1)
          else k convo d1)"

definition handleGetConversation :: "Claims \<Rightarrow> string \<Rightarrow> 'a conv_db_scheme \<Rightarrow> response \<times> 'a conv_db_scheme" where
  "handleGetConversation claims uid = own_conversation claims uid (\<lambda>convo d.
     (case ListMessages (cv_ID convo) 200 d of
        (Inl _, d') \<Rightarrow> (writeError 500 ''load messages failed'', d')
      | (Inr msgs, d') \<Rightarrow> (writeJSON 200 (convoJSON convo (Some msgs)), d')))"

definition handleUpdateConversation ::
  "Claims \<Rightarrow> string \<Rightarrow> string + string \<Rightarrow> 'a conv_db_scheme \<Rightarrow> response \<times> 'a conv_db_scheme" where
  "handleUpdateConversation claims uid body = own_conversation claims uid (\<lambda>convo.
     decode_body body (\<lambda>title d.
       (case UpdateTitle (cv_ID convo) title d of
          (Inl _, d') \<Rightarrow> (writeError 500 ''update conversation failed'', d')
        | (Inr _, d') \<Rightarrow> (writeJSON 200 (convoJSON (convo\<lparr>cv_Title := title\<rparr>) None), d'))))"

definition handleDeleteConversation :: "Claims \<Rightarrow> string \<Rightarrow> 'a conv_db_scheme \<Rightarrow> response \<times> 'a conv_db_scheme" where
  "handleDeleteConversation claims uid = own_conversation claims uid (\<lambda>convo d.
     (case Conv_Delete (cv_ID convo) d of
        (Inl _, d') \<Rightarrow> (writeError 500 ''delete failed'', d')
      | (Inr _, d') \<Rightarrow> (writeJSON 200 (JObj [(''status'', JStr ''deleted'')]), d')))"

text \<open>The body of a posted message; a missing \<open>content\<close> is nil.\<close>

record post_message =
  pm_Role :: string
  pm_Content :: "string option"
  pm_ProfileName :: string
  pm_ProfileType :: string

text \<open>The arguments of the \<open>dispatchToAgent\<close> goroutine that the handler starts.\<close>

record dispatch_job =
  dj_convo :: Conversation
  dj_profileName :: string
  dj_profileType :: string
  dj_tenantID :: string
  dj_userID :: string

text \<open>The state carries the goroutines started so far.\<close>

definition handlePostMessage ::
  "bool \<Rightarrow> Claims \<Rightarrow> string \<Rightarrow> string + post_message \<Rightarrow> 'a conv_db_scheme \<Rightarrow>
   response \<times> 'a conv_db_scheme \<times> dispatch_job option" where
  "handlePostMessage canDispatch claims uid body d0 =
     (case Conv_Get uid d0 of
        (Inl _, d) \<Rightarrow> (writeError 404 ''conversation not found'', d, None)
      | (Inr convo, d) \<Rightarrow>
          if cv_TenantID convo \<noteq> cl_TenantID claims then (writeError 403 ''forbidden'', d, None)
          else
            (case body of
               Inl err \<Rightarrow> (writeError 400 (''invalid request body: '' @ err), d, None)
             | Inr inp \<Rightarrow>
                 (case pm_Content inp of
                    None \<Rightarrow> (writeError 400 ''content is required'', d, None)
                  | Some content \<Rightarrow>
                      (case AddMessage
                          \<lparr>dm_ID = '''', dm_ConversationID = cv_ID convo,
                           dm_Role = (if pm_Role inp = '''' then ''user'' else pm_Role inp),
                           dm_AuthorType = ''user'', dm_AuthorID = Some (cl_Subject claims), dm_AgentName = None,
                           dm_Content = content, dm_ToolCallID = None, dm_InputTokens = 0, dm_OutputTokens = 0,
                           dm_CreatedAt = 0\<rparr> d of
                         (Inl _, d') \<Rightarrow> (writeError 500 ''add message failed'', d', None)
                       | (Inr msg, d') \<Rightarrow>
                           (writeJSON 201 (msgJSON msg), d',
                            if canDispatch then
                              Some \<lparr>dj_convo = convo, dj_profileName = pm_ProfileName inp,
                                    dj_profileType = pm_ProfileType inp, dj_tenantID = cl_TenantID claims,
                                    dj_userID = cl_Subject claims\<rparr>
                            else None)))))"

section \<open>Tasks\<close>

text \<open>\<open>strconv.Atoi\<close> with its error: a sign and digits within the range of an \<open>int\<close>.\<close>

definition Atoi :: "string \<Rightarrow> int option" where
  "Atoi s =
     (let ds = (case s of c # cs \<Rightarrow> if c = CHR ''-'' \<or> c = CHR ''+'' then cs else s | [] \<Rightarrow> []);
          n = (if s \<noteq> [] \<and> hd s = CHR ''-'' then - int (digits_val ds) else int (digits_val ds)) in
      if ds \<noteq> [] \<and> list_all is_digit ds \<and> - (2 ^ 63) \<le> n \<and> n < 2 ^ 63 then Some n else None)"

definition handleListTasks :: "Claims \<Rightarrow> request \<Rightarrow> 'a task_db_scheme \<Rightarrow> response \<times> 'a task_db_scheme" where
  "handleListTasks claims rq d =
     (let v = rq_query rq ''limit'';
          limit = (case (if v \<noteq> '''' then Atoi v else None) of Some n \<Rightarrow> if 0 < n then n else 50 | None \<Rightarrow> 50) in
      (case Task_ListByTenant (cl_TenantID claims) limit d of
         (Inl _, d') \<Rightarrow> (writeError 500 ''list tasks failed'', d')
       | (Inr ts, d') \<Rightarrow> (writeJSON 200 (JObj [(''tasks'', JArr (map taskJSON ts))]), d')))"

definition handleGetTask :: "Claims \<Rightarrow> string \<Rightarrow> 'a task_db_scheme \<Rightarrow> response \<times> 'a task_db_scheme" where
  "handleGetTask claims uid d =
     (case Task_Get uid d of
        (Inl _, d1) \<Rightarrow> (writeError 404 ''task not found'', d1)
      | (Inr task, d1) \<Rightarrow>
          if tk_TenantID task \<noteq> cl_TenantID claims \<and> cl_Role claims \<noteq> ''platform_admin''
          then (writeError 403 ''forbidden'', d1)
          else (writeJSON 200 (taskJSON task), d1))"

definition handleCancelTask :: "Claims \<Rightarrow> string \<Rightarrow> 'a task_db_scheme \<Rightarrow> response \<times> 'a task_db_scheme" where
  "handleCancelTask claims uid d =
     (case Task_Get uid d of
        (Inl _, d1) \<Rightarrow> (writeError 404 ''task not found'', d1)
      | (Inr task, d1) \<Rightarrow>
          if tk_TenantID task \<noteq> cl_TenantID claims \<and> cl_Role claims \<noteq> ''platform_admin''
          then (writeError 403 ''forbidden'', d1)
          else if tk_Status task \<noteq> ''pending'' \<and> tk_Status task \<noteq> ''running''
          then (writeError 409 (''task cannot be cancelled in status: '' @ tk_Status task), d1)
          else
            (case Cancel (tk_ID task) d1 of
               (Inl _, d2) \<Rightarrow> (writeError 500 ''cancel task failed'', d2)
             | (Inr _, d2) \<Rightarrow> (writeJSON 200 (taskJSON (task\<lparr>tk_Status := ''cancelled''\<rparr>)), d2)))"

section \<open>Agent profiles\<close>

record agent_input =
  in_Name :: string
  in_ProfileType :: string
  in_SystemPrompt :: string
  in_ModelProvider :: string
  in_ModelID :: string
  in_Temperature :: rat
  in_MaxTokens :: int
  in_Skills :: "string option"

definition agent_defaults :: "agent_input \<Rightarrow> agent_input" where
  "agent_defaults i =
     i\<lparr>in_ModelProvider := (if in_ModelProvider i = '''' then ''openai'' else in_ModelProvider i),
       in_ModelID := (if in_ModelID i = '''' then ''gpt-4o'' else in_ModelID i),
       in_Temperature := (if in_Temperature i = 0 then 7 / 10 else in_Temperature i),
       in_MaxTokens := (if in_MaxTokens i = 0 then 4096 else in_MaxTokens i),
       in_ProfileType := (if in_ProfileType i = '''' then ''specialist'' else in_ProfileType i)\<rparr>"

definition new_profile :: "Claims \<Rightarrow> string \<Rightarrow> string option \<Rightarrow> agent_input \<Rightarrow> AgentProfile" where
  "new_profile claims visibility owner i =
     \<lparr>ap_ID = '''', ap_TenantID = cl_TenantID claims, ap_Name = in_Name i, ap_ProfileType = in_ProfileType i,
      ap_Visibility = visibility, ap_OwnerID = owner, ap_SystemPrompt = in_SystemPrompt i,
      ap_ModelProvider = in_ModelProvider i, ap_ModelID = in_ModelID i, ap_Temperature = in_Temperature i,
      ap_MaxTokens = in_MaxTokens i, ap_Skills = in_Skills i, ap_CreatedAt = 0, ap_UpdatedAt = 0\<rparr>"

definition handleCreateAgent ::
  "Claims \<Rightarrow> string + agent_input \<Rightarrow> 'a agent_db_scheme \<Rightarrow> response \<times> 'a agent_db_scheme" where
  "handleCreateAgent claims body = decode_body body (\<lambda>inp d.
     (case CreateProfile (new_profile claims ''user'' (Some (cl_Subject claims)) (agent_defaults inp)) d of
        (Inl _, d') \<Rightarrow> (writeError 500 ''create agent failed'', d')
      | (Inr profile, d') \<Rightarrow> (writeJSON 201 (agentJSON profile), d')))"

definition is_admin :: "Claims \<Rightarrow> bool" where
  "is_admin claims \<longleftrightarrow> cl_Role claims = ''admin'' \<or> cl_Role claims = ''platform_admin''"

definition handleCreateSystemAgent ::
  "Claims \<Rightarrow> string + agent_input \<Rightarrow> 'a agent_db_scheme \<Rightarrow> response \<times> 'a agent_db_scheme" where
  "handleCreateSystemAgent claims body d =
     (if \<not> is_admin claims then (writeError 403 ''admin role required'', d)
      else decode_body body (\<lambda>inp d.
        (case CreateProfile (new_profile claims ''system'' None (agent_defaults inp)) d of
           (Inl _, d') \<Rightarrow> (writeError 500 ''create system agent failed'', d')
         | (Inr profile, d') \<Rightarrow> (writeJSON 201 (agentJSON profile), d'))) d)"

definition handleListAgents :: "Claims \<Rightarrow> 'a agent_db_scheme \<Rightarrow> response \<times> 'a agent_db_scheme" where
  "handleListAgents claims d =
     (case ListProfiles (cl_TenantID claims) (cl_Subject claims) d of
        (Inl _, d') \<Rightarrow> (writeError 500 ''list failed'', d')
      | (Inr profiles, d') \<Rightarrow> (writeJSON 200 (JObj [(''agents'', JArr (map agentJSON profiles))]), d'))"

definition not_owner :: "AgentProfile \<Rightarrow> Claims \<Rightarrow> bool" where
  "not_owner profile claims \<longleftrightarrow>
     ap_Visibility profile = ''user'' \<and> (ap_OwnerID profile = None \<or> ap_OwnerID profile \<noteq> Some (cl_Subject claims))"

definition handleGetAgent :: "Claims \<Rightarrow> string \<Rightarrow> 'a agent_db_scheme \<Rightarrow> response \<times> 'a agent_db_scheme" where
  "handleGetAgent claims uid d =
     (case GetProfile uid d of
        (Inl _, d1) \<Rightarrow> (writeError 404 ''agent not found'', d1)
      | (Inr profile, d1) \<Rightarrow>
          if ap_TenantID profile \<noteq> cl_TenantID claims \<and> cl_Role claims \<noteq> ''platform_admin''
          then (writeError 403 ''forbidden'', d1)
          else if not_owner profile claims then (writeError 403 ''forbidden'', d1)
          else (writeJSON 200 (agentJSON profile), d1))"

record agent_patch =
  pa_Name :: string
  pa_ProfileType :: string
  pa_SystemPrompt :: string
  pa_ModelProvider :: string
  pa_ModelID :: string
  pa_Temperature :: "rat option"
  pa_MaxTokens :: "int option"
  pa_Skills :: "string option"

definition or_old :: "string \<Rightarrow> string \<Rightarrow> string" where
  "or_old new old = (if new \<noteq> '''' then new else old)"

definition patch_profile :: "agent_patch \<Rightarrow> AgentProfile \<Rightarrow> AgentProfile" where
  "patch_profile i p =
     p\<lparr>ap_Name := or_old (pa_Name i) (ap_Name p),
       ap_ProfileType := or_old (pa_ProfileType i) (ap_ProfileType p),
       ap_SystemPrompt := or_old (pa_SystemPrompt i) (ap_SystemPrompt p),
       ap_ModelProvider := or_old (pa_ModelProvider i) (ap_ModelProvider p),
       ap_ModelID := or_old (pa_ModelID i) (ap_ModelID p),
       ap_Temperature := (case pa_Temperature i of None \<Rightarrow> ap_Temperature p | Some t \<Rightarrow> t),
       ap_MaxTokens := (case pa_MaxTokens i of None \<Rightarrow> ap_MaxTokens p | Some n \<Rightarrow> n),
       ap_Skills := (case pa_Skills i of None \<Rightarrow> ap_Skills p | Some j \<Rightarrow> Some j)\<rparr>"

text \<open>The checks before an edit or a removal; the last error text names the operation.\<close>

definition editable_agent ::
  "Claims \<Rightarrow> string \<Rightarrow> string \<Rightarrow> (AgentProfile \<Rightarrow> 'a agent_db_scheme \<Rightarrow> response \<times> 'a agent_db_scheme) \<Rightarrow>
   'a agent_db_scheme \<Rightarrow> response \<times> 'a agent_db_scheme" where
  "editable_agent claims uid what k d =
     (case GetProfile uid d of
        (Inl _, d1) \<Rightarrow> (writeError 404 ''agent not found'', d1)
      | (Inr profile, d1) \<Rightarrow>
          if ap_TenantID profile \<noteq> cl_TenantID claims then (writeError 403 ''forbidden'', d1)
          else if not_owner profile claims then (writeError 403 ''forbidden'', d1)
          else if ap_Visibility profile = ''system'' \<and> \<not> is_admin claims
          then (writeError 403 (''admin role required to '' @ what @ '' system agents''), d1)
          else k profile d1)"

definition handleUpdateAgent ::
  "Claims \<Rightarrow> string \<Rightarrow> string + agent_patch \<Rightarrow> 'a agent_db_scheme \<Rightarrow> response \<times> 'a agent_db_scheme" where
  "handleUpdateAgent claims uid body = editable_agent claims uid ''edit'' (\<lambda>profile.
     decode_body body (\<lambda>inp d.
       (case UpdateProfile (patch_profile inp profile) d of
          (Inl _, d') \<Rightarrow> (writeError 500 ''update failed'', d')
        | (Inr updated, d') \<Rightarrow> (writeJSON 200 (agentJSON updated), d'))))"

definition handleDeleteAgent :: "Claims \<Rightarrow> string \<Rightarrow> 'a agent_db_scheme \<Rightarrow> response \<times> 'a agent_db_scheme" where
  "handleDeleteAgent claims uid = editable_agent claims uid ''delete'' (\<lambda>profile d.
     (case DeleteProfile uid d of
        (Inl _, d') \<Rightarrow> (writeError 500 ''delete failed'', d')
      | (Inr _, d') \<Rightarrow> (writeJSON 200 (JObj [(''status'', JStr ''deleted'')]), d')))"

section \<open>Conversations\<close>

lemma Conv_Get_state:
  assumes "Conv_Get uid d = (r, d')"
  shows "(\<exists>fs. d' = d\<lparr>faults := fs\<rparr>) \<and> (\<forall>c. r = Inr c \<longrightarrow> c \<in> set (conversations d) \<and> cv_ID c = uid)"
proof -
  obtain r1 where q: "query (\<lambda>d. one_row (select_one (\<lambda>c. cv_ID c = uid) (conversations d))) d = (r1, d')" "r = scanConversation r1"
    using assms by (auto simp: Conv_Get_def split: prod.splits)
  then obtain fs where "d' = d\<lparr>faults := fs\<rparr>" "(\<exists>e. r1 = Inl e) \<or> r1 = one_row (select_one (\<lambda>c. cv_ID c = uid) (conversations d))"
    by (elim query_state) auto
  with q(2) show ?thesis
    by (auto simp: scanConversation_def one_row_def split: option.splits dest: select_one_Some)
qed

definition member_claims :: "string \<Rightarrow> Claims" where
  "member_claims tenant = \<lparr>cl_Subject = ''u'', cl_IssuedAt = 0, cl_ExpiresAt = Some 9, cl_Issuer = ''volund'',
     cl_TenantID = tenant, cl_Role = ''member''\<rparr>"

section \<open>Who may change an agent profile or cancel a task\<close>

lemma GetProfile_state:
  assumes "GetProfile uid d = (r, d')"
  shows "(\<exists>fs. d' = d\<lparr>faults := fs\<rparr>) \<and> (\<forall>p. r = Inr p \<longrightarrow> p \<in> set (agent_profiles d) \<and> ap_ID p = uid)"
proof -
  obtain r1 where q: "statement (\<lambda>d. (one_row (select_one (\<lambda>p. ap_ID p = uid) (agent_profiles d)), d)) d = (r1, d')"
      "r = scanProfile r1"
    using assms by (auto simp: GetProfile_def split: prod.splits)
  from q(1) show ?thesis
    by (cases rule: statement_cases)
      (use q(2) in \<open>auto simp: scanProfile_def one_row_def split: option.splits dest: select_one_Some\<close>)
qed

definition may_edit :: "Claims \<Rightarrow> AgentProfile \<Rightarrow> bool" where
  "may_edit claims p \<longleftrightarrow> ap_TenantID p = cl_TenantID claims \<and>
     (ap_Visibility p = ''user'' \<longrightarrow> ap_OwnerID p = Some (cl_Subject claims)) \<and>
     (ap_Visibility p = ''system'' \<longrightarrow> is_admin claims)"

lemma editable_agent_refuses:
  assumes "\<And>p. p \<in> set (agent_profiles d) \<Longrightarrow> ap_ID p = uid \<Longrightarrow> \<not> may_edit claims p"
  shows "\<exists>fs. snd (editable_agent claims uid what k d) = d\<lparr>faults := fs\<rparr> \<and>
     rs_status (fst (editable_agent claims uid what k d)) \<in> {403, 404}"
proof -
  obtain r d1 where g: "GetProfile uid d = (r, d1)" by (meson surj_pair)
  note st = GetProfile_state [OF g]
  show ?thesis
  proof (cases r)
    case (Inl e)
    with g st show ?thesis by (auto simp: editable_agent_def)
  next
    case (Inr p)
    with st assms have "\<not> may_edit claims p" by blast
    with g st Inr show ?thesis
      by (auto simp: editable_agent_def may_edit_def not_owner_def)
  qed
qed

text \<open>Agent profiles are changed only by those who may. An update or a removal of a profile by a
  caller who is outside its tenant, or is not its owner, or is no administrator when it is a
  system profile, answers 403 or 404 and leaves every table as it was.\<close>

theorem agent_edits_are_authorised:
  assumes "\<And>p. p \<in> set (agent_profiles d) \<Longrightarrow> ap_ID p = uid \<Longrightarrow> \<not> may_edit claims p"
  shows "(\<exists>fs r. handleUpdateAgent claims uid body d = (r, d\<lparr>faults := fs\<rparr>) \<and> rs_status r \<in> {403, 404}) \<and>
    (\<exists>fs r. handleDeleteAgent claims uid d = (r, d\<lparr>faults := fs\<rparr>) \<and> rs_status r \<in> {403, 404})"
proof -
  have "\<exists>fs r. editable_agent claims uid what k d = (r, d\<lparr>faults := fs\<rparr>) \<and> rs_status r \<in> {403, 404}" for what k
    using editable_agent_refuses [of d uid claims what k] assms
    by (cases "editable_agent claims uid what k d") auto
  then show ?thesis unfolding handleUpdateAgent_def handleDeleteAgent_def by blast
qed

definition ann_profile :: AgentProfile where
  "ann_profile = \<lparr>ap_ID = ''p'', ap_TenantID = ''t1'', ap_Name = ''helper'', ap_ProfileType = ''specialist'',
     ap_Visibility = ''user'', ap_OwnerID = Some ''ann'', ap_SystemPrompt = '''', ap_ModelProvider = ''openai'',
     ap_ModelID = ''gpt-4o'', ap_Temperature = 1, ap_MaxTokens = 10, ap_Skills = None, ap_CreatedAt = 0, ap_UpdatedAt = 0\<rparr>"

theorem agent_edits_are_authorised_witness:
  "\<exists>fs r. handleDeleteAgent (member_claims ''t1'') ''p'' (two_warm\<lparr>agent_profiles := [ann_profile]\<rparr>) =
     (r, two_warm\<lparr>agent_profiles := [ann_profile], faults := fs\<rparr>) \<and> rs_status r \<in> {403, 404}"
proof -
  have "\<not> may_edit (member_claims ''t1'') p" if "p \<in> set (agent_profiles (two_warm\<lparr>agent_profiles := [ann_profile]\<rparr>))" for p
    using that by (simp add: may_edit_def member_claims_def ann_profile_def)
  from agent_edits_are_authorised [of "two_warm\<lparr>agent_profiles := [ann_profile]\<rparr>" "''p''" "member_claims ''t1''", OF this]
  show ?thesis by simp
qed

lemma Task_Get_state:
  assumes "Task_Get uid d = (r, d')"
  shows "(\<exists>fs. d' = d\<lparr>faults := fs\<rparr>) \<and> (\<forall>t. r = Inr t \<longrightarrow> t \<in> set (tasks d) \<and> tk_ID t = uid)"
proof -
  obtain r1 where q: "query (\<lambda>d. one_row (select_one (\<lambda>t. tk_ID t = uid) (tasks d))) d = (r1, d')" "r = scanTask r1"
    using assms by (auto simp: Task_Get_def split: prod.splits)
  then obtain fs where "d' = d\<lparr>faults := fs\<rparr>" "(\<exists>e. r1 = Inl e) \<or> r1 = one_row (select_one (\<lambda>t. tk_ID t = uid) (tasks d))"
    by (elim query_state) auto
  with q(2) show ?thesis
    by (auto simp: scanTask_def one_row_def split: option.splits dest: select_one_Some)
qed

text \<open>A cancellation answers 200 only for a task of the caller's tenant (or for a platform
  administrator) that was pending or running; it then sets this task to cancelled and
  changes no other task, and every other answer leaves the task table as it was.\<close>

theorem cancel_only_live_tasks:
  assumes "handleCancelTask claims uid d = (r, d')"
  shows "rs_status r = 200 \<and>
      (\<exists>t \<in> set (tasks d). tk_ID t = uid \<and> tk_Status t \<in> {''pending'', ''running''} \<and>
         (tk_TenantID t = cl_TenantID claims \<or> cl_Role claims = ''platform_admin'') \<and>
         tasks d' = update_where (\<lambda>x. tk_ID x = uid)
           (\<lambda>x. x\<lparr>tk_Status := ''cancelled'', tk_UpdatedAt := clock d\<rparr>) (tasks d)) \<or>
    rs_status r \<in> {403, 404, 409, 500} \<and> tasks d' = tasks d"
proof -
  obtain g d1 where get: "Task_Get uid d = (g, d1)" by (meson surj_pair)
  note st = Task_Get_state [OF get]
  obtain fs where d1: "d1 = d\<lparr>faults := fs\<rparr>" using st by blast
  show ?thesis
  proof (cases g)
    case (Inl e)
    then show ?thesis using assms get d1 by (auto simp: handleCancelTask_def)
  next
    case (Inr t)
    then have t: "t \<in> set (tasks d)" "tk_ID t = uid" using st by auto
    obtain cr d2 where can: "Cancel uid d1 = (cr, d2)" by (meson surj_pair)
    have "cr = Inr () \<and> tasks d2 = update_where (\<lambda>x. tk_ID x = uid)
           (\<lambda>x. x\<lparr>tk_Status := ''cancelled'', tk_UpdatedAt := clock d\<rparr>) (tasks d) \<or> (\<exists>e. cr = Inl e) \<and> tasks d2 = tasks d"
      using can unfolding Cancel_def d1 by (cases rule: exec_state) (auto simp: update_task_def)
    with assms get Inr t d1 can show ?thesis
      by (auto simp: handleCancelTask_def split: if_splits)
  qed
qed

theorem cancel_only_live_tasks_witness:
  "rs_status (fst (handleCancelTask (member_claims ''t'') ''u'' one_task)) = 200 \<or>
   tasks (snd (handleCancelTask (member_claims ''t'') ''u'' one_task)) = tasks one_task"
  using cancel_only_live_tasks [OF prod.collapse [symmetric], of "member_claims ''t''" "''u''" one_task] by auto

end
