(* ===== verification/Usage.thy ===== *)
theory Usage
  imports Skill_Repo API_Resources
begin

text \<open>
  Metering and quotas: \<^verbatim>\<open>internal/usage/cost.go\<close>, \<^verbatim>\<open>tracker.go\<close> and \<^verbatim>\<open>quota.go\<close>, the repositories
  \<^verbatim>\<open>internal/db/usage_repo.go\<close> and \<^verbatim>\<open>quota_repo.go\<close> on migrations 007 and 009, and the handlers of
  \<^verbatim>\<open>internal/gateway/api/usage.go\<close>. Amounts of money, \<open>float64\<close> in the code, are rational numbers;
  the columns keep their widths: token counts are 32-bit integers, a cost is a \<open>NUMERIC(10,6)\<close>.
\<close>

section \<open>Costs\<close>

record modelCost =
  InputPerMillion :: rat
  OutputPerMillion :: rat

definition costs :: "string \<rightharpoonup> modelCost" where
  "costs = map_of
     [(''gpt-4o'', \<lparr>InputPerMillion = 5/2, OutputPerMillion = 10\<rparr>),
      (''gpt-4o-mini'', \<lparr>InputPerMillion = 15/100, OutputPerMillion = 60/100\<rparr>),
      (''gpt-4-turbo'', \<lparr>InputPerMillion = 10, OutputPerMillion = 30\<rparr>),
      (''gpt-3.5-turbo'', \<lparr>InputPerMillion = 1/2, OutputPerMillion = 3/2\<rparr>),
      (''claude-opus-4-5'', \<lparr>InputPerMillion = 15, OutputPerMillion = 75\<rparr>),
      (''claude-sonnet-4-5'', \<lparr>InputPerMillion = 3, OutputPerMillion = 15\<rparr>),
      (''claude-haiku-3-5'', \<lparr>InputPerMillion = 80/100, OutputPerMillion = 4\<rparr>),
      (''text-embedding-3-small'', \<lparr>InputPerMillion = 2/100, OutputPerMillion = 0\<rparr>)]"

definition CalculateCost :: "string \<Rightarrow> int \<Rightarrow> int \<Rightarrow> rat option" where
  "CalculateCost model inputTokens outputTokens =
     (case costs model of
        None \<Rightarrow> None
      | Some c \<Rightarrow> Some (of_int inputTokens / 1000000 * InputPerMillion c + of_int outputTokens / 1000000 * OutputPerMillion c))"

section \<open>Usage events\<close>

record UsageEvent =
  ue_ID :: string
  ue_TenantID :: string
  ue_ConversationID :: "string option"
  ue_TaskID :: string
  ue_InstanceID :: string
  ue_Provider :: string
  ue_Model :: string
  ue_InputTokens :: int
  ue_OutputTokens :: int
  ue_TotalTokens :: int
  ue_CostUSD :: "rat option"
  ue_CreatedAt :: time

record UsageSummary =
  um_TenantID :: string
  um_TotalInput :: int
  um_TotalOutput :: int
  um_TotalTokens :: int
  um_TotalCostUSD :: rat
  um_EventCount :: int

record TenantQuota =
  tq_ID :: string
  tq_TenantID :: string
  tq_MaxTokens :: "int option"
  tq_MaxCostUSD :: "rat option"
  tq_PeriodStart :: time
  tq_PeriodEnd :: time
  tq_OnLimitAction :: string
  tq_AlertWebhook :: string
  tq_Alerted80 :: bool
  tq_Alerted90 :: bool
  tq_Alerted100 :: bool

record usage_db = skill_db +
  usage_events :: "UsageEvent list"
  tenant_quotas :: "TenantQuota list"

text \<open>The columns: \<open>INTEGER\<close>, with the generated total, and \<open>NUMERIC(10,6)\<close>, which rounds half away
  from zero to six places and refuses ten thousand and more.\<close>

definition is_int4 :: "int \<Rightarrow> bool" where
  "is_int4 n \<longleftrightarrow> - (2 ^ 31) \<le> n \<and> n < 2 ^ 31"

definition round_half_away :: "rat \<Rightarrow> rat" where
  "round_half_away q = (if q < 0 then - of_int \<lfloor>- q + 1/2\<rfloor> else of_int \<lfloor>q + 1/2\<rfloor>)"

definition to_numeric :: "nat \<Rightarrow> rat \<Rightarrow> rat" where
  "to_numeric places q = round_half_away (q * 10 ^ places) / 10 ^ places"

definition integer_out_of_range :: go_err where
  "integer_out_of_range = Msg ''integer out of range''"

definition numeric_overflow :: go_err where
  "numeric_overflow = Msg ''numeric field overflow''"

definition record_stmt :: "UsageEvent \<Rightarrow> 'a usage_db_scheme \<Rightarrow> unit result \<times> 'a usage_db_scheme" where
  "record_stmt e d =
     (if \<not> is_int4 (ue_InputTokens e) \<or> \<not> is_int4 (ue_OutputTokens e) \<or> \<not> is_int4 (ue_InputTokens e + ue_OutputTokens e)
      then (Inl integer_out_of_range, d)
      else if (case ue_CostUSD e of None \<Rightarrow> False | Some q \<Rightarrow> \<bar>to_numeric 6 q\<bar> \<ge> 10 ^ 4)
      then (Inl numeric_overflow, d)
      else (case new_uuid d of
              (uid, d1) \<Rightarrow>
                (Inr (), d1\<lparr>usage_events := usage_events d @
                   [e\<lparr>ue_ID := uid, ue_TotalTokens := ue_InputTokens e + ue_OutputTokens e,
                      ue_CostUSD := map_option (to_numeric 6) (ue_CostUSD e), ue_CreatedAt := clock d\<rparr>]\<rparr>)))"

definition Record :: "UsageEvent \<Rightarrow> 'a usage_db_scheme \<Rightarrow> unit result \<times> 'a usage_db_scheme" where
  "Record e d = wrapped ''record usage event'' (statement (record_stmt e) d)"

definition event_cost :: "UsageEvent \<Rightarrow> rat" where
  "event_cost e = (case ue_CostUSD e of None \<Rightarrow> 0 | Some q \<Rightarrow> q)"

text \<open>The aggregates of a \<open>SELECT\<close>; \<open>SUM\<close> skips the nulls of \<open>cost_usd\<close>.\<close>

definition summarize :: "string \<Rightarrow> UsageEvent list \<Rightarrow> UsageSummary" where
  "summarize tenantID rows =
     \<lparr>um_TenantID = tenantID, um_TotalInput = sum_list (map ue_InputTokens rows),
      um_TotalOutput = sum_list (map ue_OutputTokens rows), um_TotalTokens = sum_list (map ue_TotalTokens rows),
      um_TotalCostUSD = sum_list (map event_cost rows), um_EventCount = int (length rows)\<rparr>"

definition in_period :: "string \<Rightarrow> time \<Rightarrow> time \<Rightarrow> UsageEvent \<Rightarrow> bool" where
  "in_period tenantID from to e \<longleftrightarrow> ue_TenantID e = tenantID \<and> from \<le> ue_CreatedAt e \<and> ue_CreatedAt e < to"

definition SummaryByTenant ::
  "string \<Rightarrow> time \<Rightarrow> time \<Rightarrow> 'a usage_db_scheme \<Rightarrow> UsageSummary result \<times> 'a usage_db_scheme" where
  "SummaryByTenant tenantID from to d = wrapped ''usage summary''
     (query (\<lambda>d. Inr (summarize tenantID (filter (in_period tenantID from to) (usage_events d)))) d)"

definition SummaryByConversation :: "string \<Rightarrow> 'a usage_db_scheme \<Rightarrow> UsageSummary result \<times> 'a usage_db_scheme" where
  "SummaryByConversation convID d = wrapped ''usage summary by conv''
     (query (\<lambda>d. Inr (summarize '''' (filter (\<lambda>e. ue_ConversationID e = Some convID) (usage_events d)))) d)"

record ModelBreakdown =
  mb_Provider :: string
  mb_Model :: string
  mb_InputTokens :: int
  mb_OutputTokens :: int
  mb_TotalTokens :: int
  mb_CostUSD :: rat
  mb_EventCount :: int

definition breakdown_row :: "UsageEvent list \<Rightarrow> string \<times> string \<Rightarrow> ModelBreakdown" where
  "breakdown_row rows k =
     (let s = summarize '''' (filter (\<lambda>e. (ue_Provider e, ue_Model e) = k) rows) in
      \<lparr>mb_Provider = fst k, mb_Model = snd k, mb_InputTokens = um_TotalInput s, mb_OutputTokens = um_TotalOutput s,
       mb_TotalTokens = um_TotalTokens s, mb_CostUSD = um_TotalCostUSD s, mb_EventCount = um_EventCount s\<rparr>)"

definition BreakdownByModel ::
  "string \<Rightarrow> time \<Rightarrow> time \<Rightarrow> 'a usage_db_scheme \<Rightarrow> ModelBreakdown list result \<times> 'a usage_db_scheme" where
  "BreakdownByModel tenantID from to d = wrapped ''usage breakdown''
     (query (\<lambda>d. let rows = filter (in_period tenantID from to) (usage_events d) in
        Inr (order_by (\<lambda>b. - mb_TotalTokens b)
               (map (breakdown_row rows) (remdups (map (\<lambda>e. (ue_Provider e, ue_Model e)) rows))))) d)"

section \<open>The tracker\<close>

record UsageEventData =
  ud_TenantID :: string
  ud_ConversationID :: string
  ud_TaskID :: string
  ud_InstanceID :: string
  ud_Provider :: string
  ud_Model :: string
  ud_InputTokens :: int
  ud_OutputTokens :: int

text \<open>The event of a message that names a tenant and a model\<close>

definition tracked_event :: "UsageEventData \<Rightarrow> UsageEvent" where
  "tracked_event data =
     \<lparr>ue_ID = '''', ue_TenantID = ud_TenantID data,
      ue_ConversationID = (if ud_ConversationID data \<noteq> '''' then Some (ud_ConversationID data) else None),
      ue_TaskID = ud_TaskID data, ue_InstanceID = ud_InstanceID data, ue_Provider = ud_Provider data,
      ue_Model = ud_Model data, ue_InputTokens = ud_InputTokens data, ue_OutputTokens = ud_OutputTokens data,
      ue_TotalTokens = 0, ue_CostUSD = CalculateCost (ud_Model data) (ud_InputTokens data) (ud_OutputTokens data),
      ue_CreatedAt = 0\<rparr>"

text \<open>The handler after both \<open>json.Unmarshal\<close> calls; \<open>None\<close> when one of them fails.\<close>

definition handleEvent :: "UsageEventData option \<Rightarrow> 'a usage_db_scheme \<Rightarrow> 'a usage_db_scheme" where
  "handleEvent msg d =
     (case msg of
        None \<Rightarrow> d
      | Some data \<Rightarrow>
          if ud_TenantID data = '''' \<or> ud_Model data = '''' then d else snd (Record (tracked_event data) d))"

section \<open>Quotas\<close>

record QuotaStatus =
  qs_TenantID :: string
  qs_MaxTokens :: "int option"
  qs_MaxCostUSD :: "rat option"
  qs_UsedTokens :: int
  qs_UsedCostUSD :: rat
  qs_PctTokens :: rat
  qs_PctCost :: rat
  qs_Action :: string
  qs_Exceeded :: bool

text \<open>The error is compared before it is wrapped, so a missing quota is recognised.\<close>

definition Quota_Get :: "string \<Rightarrow> 'a usage_db_scheme \<Rightarrow> TenantQuota option result \<times> 'a usage_db_scheme" where
  "Quota_Get tenantID d =
     (case query (\<lambda>d. one_row (select_one (\<lambda>q. tq_TenantID q = tenantID) (tenant_quotas d))) d of
        (Inl e, d') \<Rightarrow> (if err_text e = ''no rows in result set'' then Inr None else Inl (Wrap ''get quota'' e), d')
      | (Inr q, d') \<Rightarrow> (Inr (Some q), d'))"

text \<open>\<open>max_cost_usd\<close> is a \<open>NUMERIC(10,2)\<close>. On conflict the row keeps its id and its alert flags.\<close>

definition Upsert :: "TenantQuota \<Rightarrow> 'a usage_db_scheme \<Rightarrow> unit result \<times> 'a usage_db_scheme" where
  "Upsert q d = wrapped ''upsert quota'' (statement (\<lambda>d.
     (let cost = map_option (to_numeric 2) (tq_MaxCostUSD q) in
      if (case cost of None \<Rightarrow> False | Some c \<Rightarrow> \<bar>c\<bar> \<ge> 10 ^ 8) then (Inl numeric_overflow, d)
      else if list_ex (\<lambda>r. tq_TenantID r = tq_TenantID q) (tenant_quotas d)
      then (Inr (), d\<lparr>tenant_quotas := update_where (\<lambda>r. tq_TenantID r = tq_TenantID q)
              (\<lambda>r. r\<lparr>tq_MaxTokens := tq_MaxTokens q, tq_MaxCostUSD := cost, tq_PeriodStart := tq_PeriodStart q,
                     tq_PeriodEnd := tq_PeriodEnd q, tq_OnLimitAction := tq_OnLimitAction q,
                     tq_AlertWebhook := tq_AlertWebhook q\<rparr>) (tenant_quotas d)\<rparr>)
      else (case new_uuid d of
              (uid, d1) \<Rightarrow> (Inr (), d1\<lparr>tenant_quotas := tenant_quotas d @
                 [q\<lparr>tq_ID := uid, tq_MaxCostUSD := cost, tq_Alerted80 := False, tq_Alerted90 := False,
                    tq_Alerted100 := False\<rparr>]\<rparr>)))) d)"

definition mark_flag :: "int \<Rightarrow> TenantQuota \<Rightarrow> TenantQuota" where
  "mark_flag threshold q =
     (if threshold = 80 then q\<lparr>tq_Alerted80 := True\<rparr>
      else if threshold = 90 then q\<lparr>tq_Alerted90 := True\<rparr>
      else q\<lparr>tq_Alerted100 := True\<rparr>)"

definition MarkAlerted :: "string \<Rightarrow> int \<Rightarrow> 'a usage_db_scheme \<Rightarrow> unit result \<times> 'a usage_db_scheme" where
  "MarkAlerted tenantID threshold d =
     (if threshold \<notin> {80, 90, 100} then (Inl (Msg (''invalid threshold: '' @ itoa_int threshold)), d)
      else exec (\<lambda>d. d\<lparr>tenant_quotas := update_where (\<lambda>q. tq_TenantID q = tenantID) (mark_flag threshold) (tenant_quotas d)\<rparr>) d)"

definition quota_status :: "string \<Rightarrow> TenantQuota \<Rightarrow> UsageSummary \<Rightarrow> QuotaStatus" where
  "quota_status tenantID q summary =
     (let pctTokens = (case tq_MaxTokens q of
            Some m \<Rightarrow> if m > 0 then of_int (um_TotalTokens summary) / of_int m * 100 else 0 | None \<Rightarrow> 0);
          pctCost = (case tq_MaxCostUSD q of
            Some m \<Rightarrow> if m > 0 then um_TotalCostUSD summary / m * 100 else 0 | None \<Rightarrow> 0) in
      \<lparr>qs_TenantID = tenantID, qs_MaxTokens = tq_MaxTokens q, qs_MaxCostUSD = tq_MaxCostUSD q,
       qs_UsedTokens = um_TotalTokens summary, qs_UsedCostUSD = um_TotalCostUSD summary,
       qs_PctTokens = pctTokens, qs_PctCost = pctCost, qs_Action = tq_OnLimitAction q,
       qs_Exceeded = (pctTokens \<ge> 100 \<or> pctCost \<ge> 100)\<rparr>)"

definition CheckQuota :: "string \<Rightarrow> 'a usage_db_scheme \<Rightarrow> QuotaStatus option result \<times> 'a usage_db_scheme" where
  "CheckQuota tenantID d =
     and_then (Quota_Get tenantID d) (\<lambda>found d1.
       (case found of
          None \<Rightarrow> (Inr None, d1)
        | Some q \<Rightarrow>
            and_then (wrapped ''check quota usage'' (SummaryByTenant tenantID (tq_PeriodStart q) (tq_PeriodEnd q) d1))
              (\<lambda>summary d2. (Inr (Some (quota_status tenantID q summary)), d2))))"

section \<open>Enforcement\<close>

record WebhookPayload =
  wp_TenantID :: string
  wp_Threshold :: int
  wp_PctTokens :: rat
  wp_PctCost :: rat
  wp_UsedTokens :: int
  wp_UsedCostUSD :: rat
  wp_Timestamp :: time

text \<open>\<open>fireWebhook\<close> runs in a goroutine of its own and reports nothing back: what remains is the request it
  sends.\<close>

definition fireWebhook :: "time \<Rightarrow> string \<Rightarrow> string \<Rightarrow> int \<Rightarrow> QuotaStatus \<Rightarrow> string \<times> WebhookPayload" where
  "fireWebhook now url tenantID threshold status =
     (url, \<lparr>wp_TenantID = tenantID, wp_Threshold = threshold, wp_PctTokens = qs_PctTokens status,
            wp_PctCost = qs_PctCost status, wp_UsedTokens = qs_UsedTokens status,
            wp_UsedCostUSD = qs_UsedCostUSD status, wp_Timestamp = now\<rparr>)"

text \<open>The loop over the thresholds: the flags are those of the row that was read before it.\<close>

fun alert_loop ::
  "TenantQuota \<Rightarrow> string \<Rightarrow> QuotaStatus \<Rightarrow> rat \<Rightarrow> (int \<times> bool) list \<Rightarrow> 'a usage_db_scheme \<Rightarrow>
   (string \<times> WebhookPayload) list \<times> 'a usage_db_scheme" where
  "alert_loop quota tenantID status pct [] d = ([], d)"
| "alert_loop quota tenantID status pct ((level, alerted) # ts) d =
     (if pct \<ge> of_int level \<and> \<not> alerted then
        (let d1 = snd (MarkAlerted tenantID level d) in
         (case alert_loop quota tenantID status pct ts d1 of
            (fired, d2) \<Rightarrow>
              ((if tq_AlertWebhook quota \<noteq> '''' then [fireWebhook (clock d) (tq_AlertWebhook quota) tenantID level status] else [])
                 @ fired, d2)))
      else alert_loop quota tenantID status pct ts d)"

definition CheckAndAlert ::
  "string \<Rightarrow> 'a usage_db_scheme \<Rightarrow>
   QuotaStatus option result \<times> (string \<times> WebhookPayload) list \<times> 'a usage_db_scheme" where
  "CheckAndAlert tenantID d =
     (case CheckQuota tenantID d of
        (Inl err, d1) \<Rightarrow> (Inl (Wrap ''check quota'' err), [], d1)
      | (Inr None, d1) \<Rightarrow> (Inr None, [], d1)
      | (Inr (Some status), d1) \<Rightarrow>
          (let pct = (if qs_PctCost status > qs_PctTokens status then qs_PctCost status else qs_PctTokens status) in
           (case Quota_Get tenantID d1 of
              (Inl _, d2) \<Rightarrow> (Inr (Some status), [], d2)
            | (Inr None, d2) \<Rightarrow> (Inr (Some status), [], d2)
            | (Inr (Some quota), d2) \<Rightarrow>
                (case alert_loop quota tenantID status pct
                        [(80, tq_Alerted80 quota), (90, tq_Alerted90 quota), (100, tq_Alerted100 quota)] d2 of
                   (fired, d3) \<Rightarrow> (Inr (Some status), fired, d3)))))"

definition IsBlocked :: "string \<Rightarrow> 'a usage_db_scheme \<Rightarrow> bool result \<times> 'a usage_db_scheme" where
  "IsBlocked tenantID d =
     and_then (CheckQuota tenantID d) (\<lambda>found d1.
       (Inr (case found of None \<Rightarrow> False | Some status \<Rightarrow> qs_Exceeded status \<and> qs_Action status = ''block''), d1))"

section \<open>The handlers\<close>

text \<open>\<open>parse_time\<close> stands for \<open>time.Parse(time.RFC3339, v)\<close>; a value that does not parse is ignored. Thirty days
  are counted in UTC.\<close>

definition usage_period :: "(string \<Rightarrow> time option) \<Rightarrow> time \<Rightarrow> (string \<Rightarrow> string) \<Rightarrow> time \<times> time" where
  "usage_period parse_time now query_param =
     (let pick = (\<lambda>v deflt. if v \<noteq> '''' then (case parse_time v of None \<Rightarrow> deflt | Some t \<Rightarrow> t) else deflt) in
      (pick (query_param ''from'') (now - 30 * 24 * Hour), pick (query_param ''to'') now))"

definition summaryJSON :: "UsageSummary \<Rightarrow> json" where
  "summaryJSON s = JObj
     [(''tenant_id'', JStr (um_TenantID s)), (''total_input_tokens'', JNum (of_int (um_TotalInput s))),
      (''total_output_tokens'', JNum (of_int (um_TotalOutput s))), (''total_tokens'', JNum (of_int (um_TotalTokens s))),
      (''total_cost_usd'', JNum (um_TotalCostUSD s)), (''event_count'', JNum (of_int (um_EventCount s)))]"

definition breakdownJSON :: "ModelBreakdown list \<Rightarrow> json" where
  "breakdownJSON bs = (if bs = [] then JNull else JArr (map (\<lambda>b. JObj
     [(''provider'', JStr (mb_Provider b)), (''model'', JStr (mb_Model b)),
      (''input_tokens'', JNum (of_int (mb_InputTokens b))), (''output_tokens'', JNum (of_int (mb_OutputTokens b))),
      (''total_tokens'', JNum (of_int (mb_TotalTokens b))), (''cost_usd'', JNum (mb_CostUSD b)),
      (''event_count'', JNum (of_int (mb_EventCount b)))]) bs))"

definition quotaJSON :: "QuotaStatus \<Rightarrow> json" where
  "quotaJSON q = JObj
     [(''tenant_id'', JStr (qs_TenantID q)),
      (''max_tokens'', case qs_MaxTokens q of None \<Rightarrow> JNull | Some n \<Rightarrow> JNum (of_int n)),
      (''max_cost_usd'', case qs_MaxCostUSD q of None \<Rightarrow> JNull | Some c \<Rightarrow> JNum c),
      (''used_tokens'', JNum (of_int (qs_UsedTokens q))), (''used_cost_usd'', JNum (qs_UsedCostUSD q)),
      (''pct_tokens'', JNum (qs_PctTokens q)), (''pct_cost'', JNum (qs_PctCost q)),
      (''on_limit_action'', JStr (qs_Action q)), (''exceeded'', JBool (qs_Exceeded q))]"

text \<open>The first argument of a handler says whether its repository is set.\<close>

definition handleUsageSummary ::
  "bool \<Rightarrow> (string \<Rightarrow> time option) \<Rightarrow> Claims \<Rightarrow> request \<Rightarrow> 'a usage_db_scheme \<Rightarrow> response \<times> 'a usage_db_scheme" where
  "handleUsageSummary available parse_time claims rq d =
     (case usage_period parse_time (clock d) (rq_query rq) of (from, to) \<Rightarrow>
        if \<not> available then (writeError 503 ''usage tracking not available'', d)
        else (case SummaryByTenant (cl_TenantID claims) from to d of
           (Inl _, d') \<Rightarrow> (writeError 500 ''usage query failed'', d')
         | (Inr s, d') \<Rightarrow> (writeJSON 200 (summaryJSON s), d')))"

definition handleUsageBreakdown ::
  "bool \<Rightarrow> (string \<Rightarrow> time option) \<Rightarrow> Claims \<Rightarrow> request \<Rightarrow> 'a usage_db_scheme \<Rightarrow> response \<times> 'a usage_db_scheme" where
  "handleUsageBreakdown available parse_time claims rq d =
     (case usage_period parse_time (clock d) (rq_query rq) of (from, to) \<Rightarrow>
        if \<not> available then (writeError 503 ''usage tracking not available'', d)
        else (case BreakdownByModel (cl_TenantID claims) from to d of
           (Inl _, d') \<Rightarrow> (writeError 500 ''usage breakdown failed'', d')
         | (Inr bs, d') \<Rightarrow> (writeJSON 200 (breakdownJSON bs), d')))"

definition handleQuotaStatus :: "bool \<Rightarrow> Claims \<Rightarrow> 'a usage_db_scheme \<Rightarrow> response \<times> 'a usage_db_scheme" where
  "handleQuotaStatus available claims d =
     (if \<not> available then (writeError 503 ''quota tracking not available'', d) else case CheckQuota (cl_TenantID claims) d of
        (Inl _, d') \<Rightarrow> (writeError 500 ''quota check failed'', d')
      | (Inr None, d') \<Rightarrow> (writeJSON 200 (JObj [(''status'', JStr ''unlimited'')]), d')
      | (Inr (Some s), d') \<Rightarrow> (writeJSON 200 (quotaJSON s), d'))"

definition handleUsageByConversation ::
  "bool \<Rightarrow> Claims \<Rightarrow> string \<Rightarrow> 'a usage_db_scheme \<Rightarrow> response \<times> 'a usage_db_scheme" where
  "handleUsageByConversation available claims convID =
     own_conversation claims convID (\<lambda>convo d.
       (if \<not> available then (writeError 503 ''usage tracking not available'', d) else case SummaryByConversation convID d of
          (Inl _, d') \<Rightarrow> (writeError 500 ''usage query failed'', d')
        | (Inr s, d') \<Rightarrow> (writeJSON 200 (summaryJSON s), d')))"

section \<open>What is recorded\<close>

text \<open>Every row fits its columns.\<close>

definition usage_row_ok :: "UsageEvent \<Rightarrow> bool" where
  "usage_row_ok e \<longleftrightarrow> is_int4 (ue_InputTokens e) \<and> is_int4 (ue_OutputTokens e) \<and> is_int4 (ue_TotalTokens e) \<and>
     ue_TotalTokens e = ue_InputTokens e + ue_OutputTokens e \<and> \<bar>event_cost e\<bar> < 10 ^ 4"

lemma record_stmt_state:
  assumes "record_stmt e d = (r, d')"
  obtains (recorded) row k where "r = Inr ()" "d' = d\<lparr>uuid_count := k, usage_events := usage_events d @ [row]\<rparr>"
      "usage_row_ok row" "ue_TenantID row = ue_TenantID e" "ue_InputTokens row = ue_InputTokens e"
      "ue_OutputTokens row = ue_OutputTokens e" "ue_CreatedAt row = clock d"
      "ue_CostUSD row = map_option (to_numeric 6) (ue_CostUSD e)"
    | (refused) err where "r = Inl err" "d' = d"
proof (cases "is_int4 (ue_InputTokens e) \<and> is_int4 (ue_OutputTokens e) \<and> is_int4 (ue_InputTokens e + ue_OutputTokens e) \<and>
    (case ue_CostUSD e of None \<Rightarrow> True | Some q \<Rightarrow> \<bar>to_numeric 6 q\<bar> < 10 ^ 4)")
  case True
  let ?row = "e\<lparr>ue_ID := uuids d (uuid_count d), ue_TotalTokens := ue_InputTokens e + ue_OutputTokens e,
                  ue_CostUSD := map_option (to_numeric 6) (ue_CostUSD e), ue_CreatedAt := clock d\<rparr>"
  have "r = Inr ()" "d' = d\<lparr>uuid_count := Suc (uuid_count d), usage_events := usage_events d @ [?row]\<rparr>"
    using assms True by (auto simp: record_stmt_def new_uuid_def split: option.splits if_splits)
  moreover have "usage_row_ok ?row" using True by (auto simp: usage_row_ok_def event_cost_def split: option.splits)
  ultimately show thesis using recorded [of ?row "Suc (uuid_count d)"] by simp
next
  case False
  then show thesis
    using assms refused by (auto simp: record_stmt_def split: option.splits if_splits)
qed

lemma Record_no_faults: "faults d = [] \<Longrightarrow> Record e d = wrapped ''record usage event'' (record_stmt e d)"
  by (simp add: Record_def)

text \<open>What a message costs at the list prices (nothing when the model has none), and whether it fits the columns of the table.\<close>

definition exact_cost :: "UsageEventData \<Rightarrow> rat" where
  "exact_cost data =
     (case costs (ud_Model data) of
        None \<Rightarrow> 0
      | Some c \<Rightarrow> (of_int (ud_InputTokens data) * InputPerMillion c + of_int (ud_OutputTokens data) * OutputPerMillion c) / 10 ^ 6)"

definition fits_columns :: "UsageEventData \<Rightarrow> bool" where
  "fits_columns data \<longleftrightarrow> is_int4 (ud_InputTokens data) \<and> is_int4 (ud_OutputTokens data) \<and>
     is_int4 (ud_InputTokens data + ud_OutputTokens data) \<and> \<bar>to_numeric 6 (exact_cost data)\<bar> < 10 ^ 4"

text \<open>The messages that count for a tenant\<close>

definition billed :: "string \<Rightarrow> UsageEventData option list \<Rightarrow> UsageEventData list" where
  "billed t msgs =
     filter (\<lambda>data. ud_TenantID data = t \<and> ud_TenantID data \<noteq> '''' \<and> ud_Model data \<noteq> '''' \<and> fits_columns data) (List.map_filter id msgs)"

lemma billed_Nil [simp]: "billed t [] = []"
  by (simp add: billed_def List.map_filter_simps)

lemma billed_Cons: "billed t (msg # msgs) = billed t [msg] @ billed t msgs"
  by (cases msg) (simp_all add: billed_def List.map_filter_simps)

lemma round_half_away_error: "\<bar>round_half_away q - q\<bar> \<le> 1 / 2"
proof -
  have "of_int \<lfloor>x + 1 / 2\<rfloor> \<le> x + 1 / 2" "x + 1 / 2 < of_int \<lfloor>x + 1 / 2\<rfloor> + 1" for x :: rat by linarith+
  note floor = this [of q] this [of "- q"]
  show ?thesis
  proof (cases "q < 0")
    case True
    then have "round_half_away q = - of_int \<lfloor>- q + 1 / 2\<rfloor>" by (simp only: round_half_away_def if_True)
    then show ?thesis using floor by linarith
  next
    case False
    then have "round_half_away q = of_int \<lfloor>q + 1 / 2\<rfloor>" by (simp only: round_half_away_def if_False)
    then show ?thesis using floor by linarith
  qed
qed

lemma to_numeric_error: "\<bar>to_numeric 6 q - q\<bar> \<le> 1 / 2 / 10 ^ 6"
proof -
  have "to_numeric 6 q - q = (round_half_away (q * 10 ^ 6) - q * 10 ^ 6) / 10 ^ 6"
    by (simp add: to_numeric_def diff_divide_distrib)
  then have "\<bar>to_numeric 6 q - q\<bar> = \<bar>round_half_away (q * 10 ^ 6) - q * 10 ^ 6\<bar> / 10 ^ 6" by (simp only: abs_divide) simp
  also have "\<dots> \<le> 1 / 2 / 10 ^ 6" by (intro divide_right_mono round_half_away_error) simp
  finally show ?thesis .
qed

definition usage_row :: "string \<Rightarrow> time \<Rightarrow> UsageEventData \<Rightarrow> UsageEvent" where
  "usage_row uid now data =
     \<lparr>ue_ID = uid, ue_TenantID = ud_TenantID data,
      ue_ConversationID = (if ud_ConversationID data \<noteq> '''' then Some (ud_ConversationID data) else None),
      ue_TaskID = ud_TaskID data, ue_InstanceID = ud_InstanceID data, ue_Provider = ud_Provider data, ue_Model = ud_Model data,
      ue_InputTokens = ud_InputTokens data, ue_OutputTokens = ud_OutputTokens data,
      ue_TotalTokens = ud_InputTokens data + ud_OutputTokens data,
      ue_CostUSD = (if costs (ud_Model data) = None then None else Some (to_numeric 6 (exact_cost data))), ue_CreatedAt = now\<rparr>"

lemma handleEvent_effect:
  assumes "faults d = []"
  shows "handleEvent msg d =
    (case msg of
       Some data \<Rightarrow>
         if ud_TenantID data \<noteq> '''' \<and> ud_Model data \<noteq> '''' \<and> fits_columns data
         then d\<lparr>uuid_count := Suc (uuid_count d), usage_events := usage_events d @ [usage_row (uuids d (uuid_count d)) (clock d) data]\<rparr>
         else d
     | None \<Rightarrow> d)"
proof (cases msg)
  case (Some data)
  have cost: "CalculateCost (ud_Model data) (ud_InputTokens data) (ud_OutputTokens data) =
      (if costs (ud_Model data) = None then None else Some (exact_cost data))"
    by (auto simp: CalculateCost_def exact_cost_def add_divide_distrib)
  have zero: "\<bar>to_numeric 6 0\<bar> < 10 ^ 4" by (simp add: to_numeric_def round_half_away_def)
  have "exact_cost data = 0" if "costs (ud_Model data) = None" using that by (simp add: exact_cost_def)
  then have "snd (Record (tracked_event data) d) =
      (if fits_columns data
       then d\<lparr>uuid_count := Suc (uuid_count d), usage_events := usage_events d @ [usage_row (uuids d (uuid_count d)) (clock d) data]\<rparr>
       else d)"
    using zero assms
    by (auto simp: Record_no_faults tracked_event_def record_stmt_def cost fits_columns_def usage_row_def new_uuid_def)
  then show ?thesis using Some by (simp add: handleEvent_def)
qed (simp add: handleEvent_def)

definition handle_all :: "UsageEventData option list \<Rightarrow> 'a usage_db_scheme \<Rightarrow> 'a usage_db_scheme" where
  "handle_all msgs d = foldl (\<lambda>d msg. handleEvent msg d) d msgs"

text \<open>The rows of a tenant in a period that the present lies in: each message that counts adds its row.\<close>

lemma handle_all_rows:
  assumes "faults d = []" "from \<le> clock d" "clock d < to"
  shows "faults (handle_all msgs d) = [] \<and> clock (handle_all msgs d) = clock d \<and>
    (\<exists>uids. length uids = length (billed t msgs) \<and>
       filter (in_period t from to) (usage_events (handle_all msgs d)) =
         filter (in_period t from to) (usage_events d) @ map (\<lambda>(uid, data). usage_row uid (clock d) data) (zip uids (billed t msgs)))"
  using assms
proof (induction msgs arbitrary: d)
  case Nil
  then show ?case by (simp add: handle_all_def)
next
  case (Cons msg msgs)
  let ?d = "handleEvent msg d"
  have d: "faults ?d = []" "clock ?d = clock d"
    using Cons.prems by (auto simp: handleEvent_effect [OF Cons.prems(1)] split: option.splits)
  obtain uids where uids: "length uids = length (billed t msgs)"
    "filter (in_period t from to) (usage_events (handle_all msgs ?d)) =
       filter (in_period t from to) (usage_events ?d) @ map (\<lambda>(uid, data). usage_row uid (clock d) data) (zip uids (billed t msgs))"
    "faults (handle_all msgs ?d) = []" "clock (handle_all msgs ?d) = clock d"
    using Cons.IH [of ?d] d Cons.prems by auto
  have all: "handle_all (msg # msgs) d = handle_all msgs ?d" by (simp add: handle_all_def)
  have row: "in_period t from to (usage_row uid (clock d) data) \<longleftrightarrow> ud_TenantID data = t" for uid data
    using Cons.prems by (simp add: in_period_def usage_row_def)
  show ?case
  proof (cases "billed t [msg]")
    case Nil
    then have "filter (in_period t from to) (usage_events ?d) = filter (in_period t from to) (usage_events d)"
      by (auto simp: handleEvent_effect [OF Cons.prems(1)] billed_def List.map_filter_simps row split: option.splits if_splits)
    then show ?thesis using uids Nil billed_Cons [of t msg msgs] unfolding all by auto
  next
    case (Cons data rest)
    then have "billed t (msg # msgs) = data # billed t msgs"
      "filter (in_period t from to) (usage_events ?d) =
         filter (in_period t from to) (usage_events d) @ [usage_row (uuids d (uuid_count d)) (clock d) data]"
      using billed_Cons [of t msg msgs]
      by (auto simp: handleEvent_effect [OF Cons.prems(1)] billed_def List.map_filter_simps row split: option.splits if_splits)
    then show ?thesis using uids unfolding all by (intro conjI exI [of _ "uuids d (uuid_count d) # uids"]) simp_all
  qed
qed

lemma sum_usage_rows:
  assumes "length uids = length ds"
  shows "sum_list (map ue_InputTokens (map (\<lambda>(uid, data). usage_row uid now data) (zip uids ds))) = sum_list (map ud_InputTokens ds)"
    "sum_list (map ue_OutputTokens (map (\<lambda>(uid, data). usage_row uid now data) (zip uids ds))) = sum_list (map ud_OutputTokens ds)"
    "sum_list (map ue_TotalTokens (map (\<lambda>(uid, data). usage_row uid now data) (zip uids ds))) =
       sum_list (map ud_InputTokens ds) + sum_list (map ud_OutputTokens ds)"
    "\<bar>sum_list (map event_cost (map (\<lambda>(uid, data). usage_row uid now data) (zip uids ds))) - sum_list (map exact_cost ds)\<bar> \<le>
       of_nat (length ds) * (1 / 2 / 10 ^ 6)"
  using assms
proof (induction uids ds rule: list_induct2)
  case (Cons uid uids data ds)
  case 1 from Cons show ?case by (simp add: usage_row_def)
  case 2 from Cons show ?case by (simp add: usage_row_def)
  case 3 from Cons show ?case by (simp add: usage_row_def)
  case 4
  have err: "\<bar>event_cost (usage_row uid now data) - exact_cost data\<bar> \<le> 1 / 2 / 10 ^ 6"
    using to_numeric_error [of "exact_cost data"] by (auto simp: event_cost_def usage_row_def exact_cost_def)
  have sum: "\<bar>(a + x) - (b + y)\<bar> \<le> (1 + n) * e" if "\<bar>a - b\<bar> \<le> e" "\<bar>x - y\<bar> \<le> n * e" for a b x y n e :: rat
    using that by (simp only: distrib_right mult_1)
  from sum [OF err Cons.IH(4)] show ?case by simp
qed simp_all


section \<open>When a tenant is blocked\<close>

definition quota_of :: "string \<Rightarrow> 'a usage_db_scheme \<Rightarrow> TenantQuota option" where
  "quota_of tenantID d = select_one (\<lambda>q. tq_TenantID q = tenantID) (tenant_quotas d)"

definition period_rows :: "string \<Rightarrow> TenantQuota \<Rightarrow> 'a usage_db_scheme \<Rightarrow> UsageEvent list" where
  "period_rows tenantID q d = filter (in_period tenantID (tq_PeriodStart q) (tq_PeriodEnd q)) (usage_events d)"

lemma Quota_Get_no_faults: "faults d = [] \<Longrightarrow> Quota_Get tenantID d = (Inr (quota_of tenantID d), d)"
  by (cases "quota_of tenantID d") (simp_all add: Quota_Get_def quota_of_def)

lemma CheckQuota_no_faults:
  "faults d = [] \<Longrightarrow> CheckQuota tenantID d =
     (Inr (map_option (\<lambda>q. quota_status tenantID q (summarize tenantID (period_rows tenantID q d))) (quota_of tenantID d)), d)"
  by (cases "quota_of tenantID d") (simp_all add: CheckQuota_def Quota_Get_no_faults SummaryByTenant_def period_rows_def)

text \<open>A limit is reached at the limit itself, not only beyond it, and a limit of zero is none.\<close>

definition over_limit :: "TenantQuota \<Rightarrow> UsageEvent list \<Rightarrow> bool" where
  "over_limit q rows \<longleftrightarrow>
     (\<exists>m. tq_MaxTokens q = Some m \<and> 0 < m \<and> m \<le> sum_list (map ue_TotalTokens rows)) \<or>
     (\<exists>c. tq_MaxCostUSD q = Some c \<and> 0 < c \<and> c \<le> sum_list (map event_cost rows))"

lemma percent_ge_100: "0 < m \<Longrightarrow> 100 \<le> (x::rat) * 100 / m \<longleftrightarrow> m \<le> x"
  by (simp add: field_simps)

lemma percent_ge_100_int: "0 < m \<Longrightarrow> 100 \<le> (rat_of_int x) * 100 / rat_of_int m \<longleftrightarrow> m \<le> x"
  by (simp add: percent_ge_100)

lemma quota_status_exceeded: "qs_Exceeded (quota_status t q (summarize t rows)) \<longleftrightarrow> over_limit q rows"
  by (auto simp: quota_status_def Let_def over_limit_def summarize_def percent_ge_100 percent_ge_100_int split: option.splits if_splits)

text \<open>Exactly the tenants that used up a blocking quota are blocked. While the database answers,
  \<open>IsBlocked\<close> says yes exactly when the tenant has a quota with the action \<open>block\<close> and the events of the
  quota's period have reached its token limit or its cost limit, where only positive limits count.\<close>

theorem blocked_exactly_at_the_limit:
  assumes "faults d = []"
  shows "IsBlocked t d = (Inr (\<exists>q. quota_of t d = Some q \<and> tq_OnLimitAction q = ''block'' \<and> over_limit q (period_rows t q d)), d)"
proof (cases "quota_of t d")
  case (Some q)
  have "qs_Action (quota_status t q x) = tq_OnLimitAction q" for x by (simp add: quota_status_def Let_def)
  with Some assms show ?thesis by (auto simp: IsBlocked_def CheckQuota_no_faults quota_status_exceeded)
qed (use assms in \<open>simp add: IsBlocked_def CheckQuota_no_faults\<close>)

section \<open>Alerts\<close>

definition alert_pct :: "QuotaStatus \<Rightarrow> rat" where
  "alert_pct st = (if qs_PctCost st > qs_PctTokens st then qs_PctCost st else qs_PctTokens st)"

lemma find_update_where:
  "(\<And>x. P (f x) = P x) \<Longrightarrow> select_one P (update_where P f rows) = map_option f (select_one P rows)"
  by (induction rows) (auto simp: select_one_def update_where_Cons)

lemma MarkAlerted_no_faults:
  assumes "faults d = []" "l \<in> {80, 90, 100}"
  shows "snd (MarkAlerted t l d) = d\<lparr>tenant_quotas := update_where (\<lambda>q. tq_TenantID q = t) (mark_flag l) (tenant_quotas d)\<rparr>"
  using assms by (simp add: MarkAlerted_def)

definition marks :: "rat \<Rightarrow> (int \<times> bool) list \<Rightarrow> TenantQuota \<Rightarrow> TenantQuota" where
  "marks pct ts q = fold (\<lambda>(l, a) q. if pct \<ge> of_int l \<and> \<not> a then mark_flag l q else q) ts q"

lemma marks_tenant [simp]: "tq_TenantID (marks pct ts q) = tq_TenantID q"
  unfolding marks_def by (induction ts arbitrary: q) (auto simp: mark_flag_def)

text \<open>The loop fires one webhook per threshold that was crossed and not yet reported, and marks them.\<close>

lemma alert_loop_effect:
  assumes "faults d = []" "fst ` set ts \<subseteq> {80, 90, 100}"
  shows "alert_loop q t st pct ts d =
    (if tq_AlertWebhook q \<noteq> ''''
     then map (\<lambda>(l, a). fireWebhook (clock d) (tq_AlertWebhook q) t l st) (filter (\<lambda>(l, a). pct \<ge> of_int l \<and> \<not> a) ts) else [],
     d\<lparr>tenant_quotas := update_where (\<lambda>q. tq_TenantID q = t) (marks pct ts) (tenant_quotas d)\<rparr>)"
  using assms
proof (induction ts arbitrary: d)
  case Nil
  then show ?case by (simp add: marks_def update_where_def cong: if_cong)
next
  case (Cons la ts)
  obtain l a where la: "la = (l, a)" by (cases la)
  let ?d = "d\<lparr>tenant_quotas := update_where (\<lambda>q. tq_TenantID q = t) (mark_flag l) (tenant_quotas d)\<rparr>"
  have l: "l \<in> {80, 90, 100}" using Cons.prems la by simp
  have two: "update_where (\<lambda>q. tq_TenantID q = t) g (update_where (\<lambda>q. tq_TenantID q = t) (mark_flag l) rows) =
      update_where (\<lambda>q. tq_TenantID q = t) (\<lambda>q. g (mark_flag l q)) rows" for g rows
    by (simp add: update_where_def mark_flag_def)
  have fs: "faults ?d = []" "fst ` set ts \<subseteq> {80, 90, 100}" "clock ?d = clock d" using Cons.prems la by simp_all
  show ?case
  proof (cases "pct \<ge> of_int l \<and> \<not> a")
    case True
    then have m: "marks pct ((l, False) # ts) = (\<lambda>q. marks pct ts (mark_flag l q))" by (auto simp: marks_def)
    show ?thesis
      using True Cons.IH [OF fs(1,2)] MarkAlerted_no_faults [OF Cons.prems(1) l, of t]
      by (simp add: la m two fs(3) Let_def)
  next
    case False
    then have m: "marks pct ((l, a) # ts) = marks pct ts" by (auto simp: marks_def)
    show ?thesis using False Cons.IH [OF Cons.prems(1) fs(2)] by (auto simp: la m)
  qed
qed

definition quota_thresholds :: "TenantQuota \<Rightarrow> (int \<times> bool) list" where
  "quota_thresholds q = [(80, tq_Alerted80 q), (90, tq_Alerted90 q), (100, tq_Alerted100 q)]"

definition current_status :: "string \<Rightarrow> TenantQuota \<Rightarrow> 'a usage_db_scheme \<Rightarrow> QuotaStatus" where
  "current_status t q d = quota_status t q (summarize t (period_rows t q d))"

lemma CheckAndAlert_effect:
  assumes "faults d = []" "quota_of t d = Some q"
  shows "CheckAndAlert t d =
    (let st = current_status t q d in
     (Inr (Some st),
      if tq_AlertWebhook q \<noteq> '''' then map (\<lambda>(l, a). fireWebhook (clock d) (tq_AlertWebhook q) t l st)
        (filter (\<lambda>(l, a). alert_pct st \<ge> of_int l \<and> \<not> a) (quota_thresholds q)) else [],
      d\<lparr>tenant_quotas := update_where (\<lambda>q. tq_TenantID q = t) (marks (alert_pct st) (quota_thresholds q)) (tenant_quotas d)\<rparr>))"
proof -
  let ?st = "current_status t q d"
  have ts: "fst ` set (quota_thresholds q) \<subseteq> {80, 90, 100}" by (simp add: quota_thresholds_def)
  have "CheckAndAlert t d = (case alert_loop q t ?st (alert_pct ?st) (quota_thresholds q) d of
      (fired, d3) \<Rightarrow> (Inr (Some ?st), fired, d3))"
    using assms by (simp add: CheckAndAlert_def CheckQuota_no_faults Quota_Get_no_faults current_status_def alert_pct_def
        quota_thresholds_def Let_def)
  then show ?thesis unfolding alert_loop_effect [OF assms(1) ts] by (simp add: Let_def)
qed

lemma marks_alerted:
  "filter (\<lambda>(l, a). pct \<ge> of_int l \<and> \<not> a) (quota_thresholds (marks pct (quota_thresholds q) q)) = []"
  by (auto simp: quota_thresholds_def marks_def mark_flag_def)

lemma marks_config:
  "tq_PeriodStart (marks pct ts q) = tq_PeriodStart q" "tq_PeriodEnd (marks pct ts q) = tq_PeriodEnd q"
  "tq_MaxTokens (marks pct ts q) = tq_MaxTokens q" "tq_MaxCostUSD (marks pct ts q) = tq_MaxCostUSD q"
  "tq_OnLimitAction (marks pct ts q) = tq_OnLimitAction q" "tq_AlertWebhook (marks pct ts q) = tq_AlertWebhook q"
  unfolding marks_def by (induction ts arbitrary: q; simp; force simp: mark_flag_def)+

lemma marks_nothing: "filter (\<lambda>(l, a). pct \<ge> of_int l \<and> \<not> a) ts = [] \<Longrightarrow> marks pct ts q = q"
  unfolding marks_def by (induction ts arbitrary: q) (auto split: if_splits)

text \<open>Every threshold is reported once. While the database answers, one check fires one webhook, to the
  tenant's own address, for each of the thresholds 80, 90 and 100 that the usage has reached and that was
  not reported before, in this order; and a second check with no new usage fires nothing and changes
  nothing.\<close>

theorem thresholds_alert_once:
  assumes "faults d = []" "quota_of t d = Some q" "CheckAndAlert t d = (r, fired, d')"
  shows "(\<exists>st. r = Inr (Some st) \<and>
      map (\<lambda>(u, p). (u, wp_TenantID p, wp_Threshold p)) fired =
        map (\<lambda>(l, a). (tq_AlertWebhook q, t, l))
          (filter (\<lambda>(l, a). alert_pct st \<ge> of_int l \<and> \<not> a \<and> tq_AlertWebhook q \<noteq> '''') (quota_thresholds q))) \<and>
    CheckAndAlert t d' = (r, [], d')"
proof -
  let ?st = "current_status t q d"
  let ?q = "marks (alert_pct ?st) (quota_thresholds q) q"
  note eff = CheckAndAlert_effect [OF assms(1,2), unfolded assms(3) Let_def]
  have r: "r = Inr (Some ?st)"
    and fired: "fired = (if tq_AlertWebhook q \<noteq> '''' then map (\<lambda>(l, a). fireWebhook (clock d) (tq_AlertWebhook q) t l ?st)
        (filter (\<lambda>(l, a). alert_pct ?st \<ge> of_int l \<and> \<not> a) (quota_thresholds q)) else [])"
    and d': "d' = d\<lparr>tenant_quotas := update_where (\<lambda>q. tq_TenantID q = t) (marks (alert_pct ?st) (quota_thresholds q)) (tenant_quotas d)\<rparr>"
    using eff by simp_all
  have q': "quota_of t d' = Some ?q"
    using assms(2) by (simp add: d' quota_of_def find_update_where)
  have st': "current_status t ?q d' = ?st"
    by (simp add: current_status_def quota_status_def period_rows_def marks_config d')
  have keep: "marks (alert_pct ?st) (quota_thresholds ?q) x = x" for x
    by (rule marks_nothing) (rule marks_alerted)
  have "faults d' = []" using assms(1) d' by simp
  from CheckAndAlert_effect [OF this q', unfolded st'] have "CheckAndAlert t d' = (r, [], d')"
    unfolding Let_def marks_alerted r by (simp add: keep update_where_def cong: if_cong)
  moreover have "map (\<lambda>(u, p). (u, wp_TenantID p, wp_Threshold p)) fired =
      map (\<lambda>(l, a). (tq_AlertWebhook q, t, l))
        (filter (\<lambda>(l, a). alert_pct ?st \<ge> of_int l \<and> \<not> a \<and> tq_AlertWebhook q \<noteq> '''') (quota_thresholds q))"
    unfolding fired by (simp add: fireWebhook_def case_prod_beta comp_def)
  ultimately show ?thesis using r by blast
qed

section \<open>A metered tenant\<close>

definition metered_quota :: TenantQuota where
  "metered_quota = \<lparr>tq_ID = ''q'', tq_TenantID = ''t'', tq_MaxTokens = Some 1000, tq_MaxCostUSD = None, tq_PeriodStart = 0,
     tq_PeriodEnd = 100, tq_OnLimitAction = ''block'', tq_AlertWebhook = ''http://hook'', tq_Alerted80 = False,
     tq_Alerted90 = False, tq_Alerted100 = False\<rparr>"

definition metered_db :: usage_db where
  "metered_db = \<lparr>clock = 4, faults = [], uuids = (\<lambda>n. replicate (Suc n) CHR ''u''), uuid_count = 0,
     agent_profiles = [], agent_instances = [], tasks = [], conversations = [], messages = [],
     users = [], tenants = [], org_members = [], org_invites = [], refresh_tokens = [],
     user_credentials = [], credential_audit_log = [], skills = [], tenant_skills = [], user_skills = [],
     usage_events = [], tenant_quotas = [metered_quota]\<rparr>"

definition metered_event :: UsageEventData where
  "metered_event = \<lparr>ud_TenantID = ''t'', ud_ConversationID = '''', ud_TaskID = '''', ud_InstanceID = '''',
     ud_Provider = ''openai'', ud_Model = ''local'', ud_InputTokens = 900, ud_OutputTokens = 50\<rparr>"

definition used_db :: usage_db where
  "used_db = handleEvent (Some metered_event) metered_db"

lemma costs_local: "costs ''local'' = None"
  by (simp add: costs_def)

lemma used_db_eq:
  "used_db = metered_db\<lparr>uuid_count := 1, usage_events :=
     [\<lparr>ue_ID = ''u'', ue_TenantID = ''t'', ue_ConversationID = None, ue_TaskID = '''', ue_InstanceID = '''',
       ue_Provider = ''openai'', ue_Model = ''local'', ue_InputTokens = 900, ue_OutputTokens = 50,
       ue_TotalTokens = 950, ue_CostUSD = None, ue_CreatedAt = 4\<rparr>]\<rparr>"
  by (simp add: used_db_def handleEvent_def tracked_event_def metered_event_def metered_db_def Record_def record_stmt_def is_int4_def
      CalculateCost_def costs_local new_uuid_def)

lemma used_quota: "quota_of ''t'' used_db = Some metered_quota" "faults used_db = []"
  by (simp_all add: used_db_eq quota_of_def metered_db_def metered_quota_def select_one_def)

lemma used_pct: "alert_pct (current_status ''t'' metered_quota used_db) = 95"
  by (simp add: used_db_eq current_status_def quota_status_def summarize_def period_rows_def in_period_def metered_db_def
      metered_quota_def alert_pct_def Let_def)


theorem blocked_exactly_at_the_limit_witness: "IsBlocked ''t'' used_db = (Inr False, used_db)"
proof -
  have "\<not> over_limit metered_quota (period_rows ''t'' metered_quota used_db)"
    by (simp add: over_limit_def used_db_eq period_rows_def in_period_def metered_quota_def metered_db_def)
  then show ?thesis using blocked_exactly_at_the_limit [OF used_quota(2), of "''t''"] by (simp add: used_quota(1))
qed

theorem thresholds_alert_once_witness:
  "\<exists>r fired d'. CheckAndAlert ''t'' used_db = (r, fired, d') \<and> map (wp_Threshold \<circ> snd) fired = [80, 90] \<and>
     CheckAndAlert ''t'' d' = (r, [], d')"
proof -
  obtain r fired d' where run: "CheckAndAlert ''t'' used_db = (r, fired, d')" using prod_cases3 by blast
  have "r = Inr (Some (current_status ''t'' metered_quota used_db))"
    using CheckAndAlert_effect [OF used_quota(2,1)] run by (simp add: Let_def)
  with thresholds_alert_once [OF used_quota(2,1) run]
  have f: "map (\<lambda>(u, p). (u, wp_TenantID p, wp_Threshold p)) fired = [(''http://hook'', ''t'', 80), (''http://hook'', ''t'', 90)]"
    and again: "CheckAndAlert ''t'' d' = (r, [], d')"
    using used_pct by (auto simp: quota_thresholds_def metered_quota_def)
  have "map (wp_Threshold \<circ> snd) fired = map (\<lambda>(u, t, l). l) (map (\<lambda>(u, p). (u, wp_TenantID p, wp_Threshold p)) fired)"
    by (simp add: case_prod_beta comp_def)
  with f again run show ?thesis by simp
qed

end
