(* ===== verification/Memory_Repo.thy ===== *)
theory Memory_Repo
  imports Usage
begin

text \<open>
  Long-term memory: \<^verbatim>\<open>internal/db/memory_repo.go\<close> on the table \<open>memories\<close> (migrations 005 and 008) and
  the handlers of \<^verbatim>\<open>internal/gateway/api/memory.go\<close>. Floating-point numbers are rational numbers. The
  vector type belongs to an extension of PostgreSQL: its input function and its cosine distance
  are parameters, as are \<open>ln\<close> and the formatting of a float with \<open>%g\<close>.
\<close>

record MemoryEntry =
  me_ID :: string
  me_TenantID :: string
  me_UserID :: string
  me_Content :: string
  me_Type :: string
  me_Importance :: rat
  me_Embedding :: "rat list option"      \<comment> \<open>\<open>None\<close> is \<open>NULL\<close>\<close>
  me_AccessCount :: int
  me_LastAccessed :: "time option"
  me_CreatedAt :: time
  me_UpdatedAt :: time

record memory_db = usage_db +
  memories :: "MemoryEntry list"

record vector_ext =
  ve_in :: "string \<Rightarrow> rat list option"
  ve_distance :: "rat list \<Rightarrow> rat list \<Rightarrow> rat"
  ve_ln :: "rat \<Rightarrow> rat"
  ve_format :: "rat \<Rightarrow> string"

section \<open>The repository\<close>

definition pgvecString :: "vector_ext \<Rightarrow> rat list \<Rightarrow> string" where
  "pgvecString E v =
     (if v = [] then ''''
      else ''['' @ concat (map (\<lambda>(i, f). (if i > 0 then '','' else '''') @ ve_format E f) (enumerate 0 v)) @ '']'')"

definition invalid_vector :: go_err where
  "invalid_vector = Msg ''invalid input syntax for type vector''"

text \<open>A parameter of type \<open>vector\<close> is parsed before the statement runs.\<close>

definition with_vector ::
  "vector_ext \<Rightarrow> string \<Rightarrow> (rat list \<Rightarrow> 's \<Rightarrow> 'r result \<times> 's) \<Rightarrow> 's \<Rightarrow> 'r result \<times> 's" where
  "with_vector E literal f d = (case ve_in E literal of None \<Rightarrow> (Inl invalid_vector, d) | Some v \<Rightarrow> f v d)"

definition similarity :: "vector_ext \<Rightarrow> rat list \<Rightarrow> MemoryEntry \<Rightarrow> rat" where
  "similarity E v m = (case me_Embedding m of None \<Rightarrow> 0 | Some w \<Rightarrow> 1 - ve_distance E w v)"

definition near_duplicates :: "vector_ext \<Rightarrow> string \<Rightarrow> string \<Rightarrow> rat list \<Rightarrow> MemoryEntry list \<Rightarrow> MemoryEntry list" where
  "near_duplicates E tenantID userID v rows =
     order_by (\<lambda>m. 1 - similarity E v m)
       (filter (\<lambda>m. me_TenantID m = tenantID \<and> me_UserID m = userID \<and> me_Embedding m \<noteq> None \<and>
                    similarity E v m > 95/100) rows)"

definition find_duplicate ::
  "vector_ext \<Rightarrow> MemoryEntry \<Rightarrow> rat list \<Rightarrow> 'a memory_db_scheme \<Rightarrow> string result \<times> 'a memory_db_scheme" where
  "find_duplicate E m emb = statement (with_vector E (pgvecString E emb) (\<lambda>v d.
     (case near_duplicates E (me_TenantID m) (me_UserID m) v (memories d) of
        [] \<Rightarrow> (Inl ErrNoRows, d)
      | x # _ \<Rightarrow> (Inr (me_ID x), d))))"

definition refresh_memory :: "time \<Rightarrow> MemoryEntry \<Rightarrow> rat list \<Rightarrow> MemoryEntry \<Rightarrow> MemoryEntry" where
  "refresh_memory now m v x =
     x\<lparr>me_Content := me_Content m, me_Type := me_Type m, me_Importance := me_Importance m, me_Embedding := Some v,
       me_UpdatedAt := now, me_AccessCount := me_AccessCount x + 1, me_LastAccessed := Some now\<rparr>"

text \<open>\<open>RETURNING id, created_at, updated_at\<close> into the entry that was given.\<close>

definition returned_into :: "MemoryEntry \<Rightarrow> MemoryEntry \<Rightarrow> MemoryEntry" where
  "returned_into m x = m\<lparr>me_ID := me_ID x, me_CreatedAt := me_CreatedAt x, me_UpdatedAt := me_UpdatedAt x\<rparr>"

definition update_duplicate ::
  "vector_ext \<Rightarrow> MemoryEntry \<Rightarrow> rat list \<Rightarrow> string \<Rightarrow> 'a memory_db_scheme \<Rightarrow> MemoryEntry result \<times> 'a memory_db_scheme" where
  "update_duplicate E m emb dupID = statement (with_vector E (pgvecString E emb) (\<lambda>v d.
     (case select_one (\<lambda>x. me_ID x = dupID) (memories d) of
        None \<Rightarrow> (Inl ErrNoRows, d)
      | Some x \<Rightarrow>
          (Inr (returned_into m (refresh_memory (clock d) m v x)),
           d\<lparr>memories := update_where (\<lambda>x. me_ID x = dupID) (refresh_memory (clock d) m v) (memories d)\<rparr>))))"

definition insert_memory ::
  "vector_ext \<Rightarrow> MemoryEntry \<Rightarrow> rat list \<Rightarrow> 'a memory_db_scheme \<Rightarrow> MemoryEntry result \<times> 'a memory_db_scheme" where
  "insert_memory E m emb = statement (with_vector E (pgvecString E emb) (\<lambda>v d.
     (case new_uuid d of
        (uid, d1) \<Rightarrow>
          (let row = \<lparr>me_ID = uid, me_TenantID = me_TenantID m, me_UserID = me_UserID m, me_Content = me_Content m,
                      me_Type = me_Type m, me_Importance = me_Importance m, me_Embedding = Some v, me_AccessCount = 0,
                      me_LastAccessed = None, me_CreatedAt = clock d, me_UpdatedAt = clock d\<rparr> in
           (Inr (returned_into m row), d1\<lparr>memories := memories d @ [row]\<rparr>)))))"

definition Memory_Store ::
  "vector_ext \<Rightarrow> MemoryEntry \<Rightarrow> rat list \<Rightarrow> 'a memory_db_scheme \<Rightarrow> MemoryEntry result \<times> 'a memory_db_scheme" where
  "Memory_Store E m emb d =
     (case (if emb \<noteq> [] then find_duplicate E m emb d else (Inl ErrNoRows, d)) of
        (Inr dupID, d1) \<Rightarrow>
          if dupID \<noteq> '''' then wrapped ''update duplicate memory'' (update_duplicate E m emb dupID d1)
          else wrapped ''store memory'' (insert_memory E m emb d1)
      | (Inl _, d1) \<Rightarrow> wrapped ''store memory'' (insert_memory E m emb d1))"

definition decayed_score :: "vector_ext \<Rightarrow> time \<Rightarrow> rat list \<Rightarrow> MemoryEntry \<Rightarrow> rat" where
  "decayed_score E now v m =
     similarity E v m * (1 / (1 + of_int (now - me_CreatedAt m) / of_int Second / 2592000)) *
       (1 + ve_ln E (1 + of_int (me_AccessCount m)) / 5)"

text \<open>The rows that the update returns come in no particular order; here it is the order of the table. They
  carry the access count from before the update.\<close>

definition SearchSimilar ::
  "vector_ext \<Rightarrow> string \<Rightarrow> string \<Rightarrow> rat list \<Rightarrow> int \<Rightarrow> 'a memory_db_scheme \<Rightarrow>
   (MemoryEntry \<times> rat) list result \<times> 'a memory_db_scheme" where
  "SearchSimilar E tenantID userID emb limit0 d = wrapped ''search memories'' (statement
     (with_vector E (pgvecString E emb) (\<lambda>v d.
        (let limit = (if limit0 \<le> 0 then 5 else limit0);
             ranked = limit_rows limit (order_by (\<lambda>m. - decayed_score E (clock d) v m)
               (filter (\<lambda>m. me_TenantID m = tenantID \<and> me_UserID m = userID \<and> me_Embedding m \<noteq> None) (memories d)));
             hit = (\<lambda>m. me_ID m \<in> set (map me_ID ranked)) in
         (Inr (map (\<lambda>m. (m, similarity E v m)) (filter hit (memories d))),
          d\<lparr>memories := update_where hit
             (\<lambda>m. m\<lparr>me_AccessCount := me_AccessCount m + 1, me_LastAccessed := Some (clock d)\<rparr>) (memories d)\<rparr>)))) d)"

definition Memory_ListByUser ::
  "string \<Rightarrow> string \<Rightarrow> int \<Rightarrow> 'a memory_db_scheme \<Rightarrow> MemoryEntry list result \<times> 'a memory_db_scheme" where
  "Memory_ListByUser tenantID userID limit0 d = wrapped ''list memories''
     (query (\<lambda>d. Inr (limit_rows (if limit0 \<le> 0 then 50 else limit0)
        (order_by (\<lambda>m. (- me_Importance m, - me_CreatedAt m))
           (filter (\<lambda>m. me_TenantID m = tenantID \<and> me_UserID m = userID) (memories d))))) d)"

definition Memory_Delete_row :: "string \<Rightarrow> string \<Rightarrow> 'a memory_db_scheme \<Rightarrow> unit result \<times> 'a memory_db_scheme" where
  "Memory_Delete_row uid tenantID d =
     (let match = (\<lambda>m. me_ID m = uid \<and> me_TenantID m = tenantID) in
      and_then (wrapped ''delete memory'' (statement (\<lambda>d.
          (Inr (length (filter match (memories d))), d\<lparr>memories := delete_where match (memories d)\<rparr>)) d))
        (\<lambda>n d1. (if n = 0 then Inl (Msg ''memory not found'') else Inr (), d1)))"

section \<open>The handlers\<close>

record store_memory =
  sm_Content :: string
  sm_Type :: string
  sm_Importance :: rat
  sm_TenantID :: string
  sm_UserID :: string

record search_memory =
  se_Query :: string
  se_Limit :: int
  sq_TenantID :: string
  sq_UserID :: string

definition memoryJSON :: "MemoryEntry \<Rightarrow> (string \<times> json) list \<Rightarrow> json" where
  "memoryJSON m extra = JObj
     ([(''id'', JStr (me_ID m)), (''content'', JStr (me_Content m)), (''type'', JStr (me_Type m)),
       (''importance'', JNum (me_Importance m))] @ extra @ [(''created_at'', JTime (me_CreatedAt m))])"

text \<open>\<open>vecs\<close> is the outcome of \<open>EmbedFn\<close> on the one text, \<open>None\<close> when there is no such function. \<open>available\<close>
  says whether the repository is set.\<close>

definition handleStoreMemory ::
  "bool \<Rightarrow> vector_ext \<Rightarrow> (rat list list result) option \<Rightarrow> Claims \<Rightarrow> string + store_memory \<Rightarrow> 'a memory_db_scheme \<Rightarrow>
   response \<times> 'a memory_db_scheme" where
  "handleStoreMemory available E vecs claims body d0 =
     (if \<not> available then (writeError 503 ''memory service not available'', d0)
      else decode_body body (\<lambda>inp d.
        if sm_Content inp = '''' then (writeError 400 ''content is required'', d)
        else
          (let emb = (case vecs of Some (Inr (v # _)) \<Rightarrow> v | _ \<Rightarrow> []);
               mem = \<lparr>me_ID = '''', me_TenantID = (if sm_TenantID inp = '''' then cl_TenantID claims else sm_TenantID inp),
                      me_UserID = (if sm_UserID inp = '''' then cl_Subject claims else sm_UserID inp),
                      me_Content = sm_Content inp, me_Type = (if sm_Type inp = '''' then ''fact'' else sm_Type inp),
                      me_Importance = (if sm_Importance inp \<le> 0 then 1/2 else sm_Importance inp),
                      me_Embedding = None, me_AccessCount = 0, me_LastAccessed = None, me_CreatedAt = 0, me_UpdatedAt = 0\<rparr> in
           (case Memory_Store E mem emb d of
              (Inl err, d') \<Rightarrow> (writeError 500 (''store memory: '' @ err_text err), d')
            | (Inr m, d') \<Rightarrow> (writeJSON 201 (memoryJSON m []), d')))) d0)"

text \<open>The handler panics on the nil error when the embedding function returns no vector.\<close>

definition handleSearchMemory ::
  "bool \<Rightarrow> vector_ext \<Rightarrow> (rat list list result) option \<Rightarrow> Claims \<Rightarrow> string + search_memory \<Rightarrow> 'a memory_db_scheme \<Rightarrow>
   response option \<times> 'a memory_db_scheme" where
  "handleSearchMemory available E vecs claims body d =
     (if \<not> available then (Some (writeError 503 ''memory service not available''), d)
      else (case body of
        Inl err \<Rightarrow> (Some (writeError 400 (''invalid request body: '' @ err)), d)
      | Inr inp \<Rightarrow>
          if se_Query inp = '''' then (Some (writeError 400 ''query is required''), d)
          else
            (let tenantID = (if sq_TenantID inp = '''' then cl_TenantID claims else sq_TenantID inp);
                 userID = (if sq_UserID inp = '''' then cl_Subject claims else sq_UserID inp) in
             (case vecs of
                None \<Rightarrow> (Some (writeError 503 ''embedding service not available''), d)
              | Some (Inl err) \<Rightarrow> (Some (writeError 500 (''generate query embedding: '' @ err_text err)), d)
              | Some (Inr []) \<Rightarrow> (None, d)
              | Some (Inr (v # _)) \<Rightarrow>
                  (case SearchSimilar E tenantID userID v (se_Limit inp) d of
                     (Inl err, d') \<Rightarrow> (Some (writeError 500 (''search memories: '' @ err_text err)), d')
                   | (Inr rs, d') \<Rightarrow>
                       (Some (writeJSON 200 (JArr (map (\<lambda>(m, sim). memoryJSON m [(''similarity'', JNum sim)]) rs))), d'))))))"

definition handleListMemories :: "bool \<Rightarrow> Claims \<Rightarrow> 'a memory_db_scheme \<Rightarrow> response \<times> 'a memory_db_scheme" where
  "handleListMemories available claims d =
     (if \<not> available then (writeError 503 ''memory service not available'', d)
      else (case Memory_ListByUser (cl_TenantID claims) (cl_Subject claims) 100 d of
              (Inl err, d') \<Rightarrow> (writeError 500 (''list memories: '' @ err_text err), d')
            | (Inr ms, d') \<Rightarrow> (writeJSON 200 (JArr (map (\<lambda>m. memoryJSON m []) ms)), d')))"

definition handleDeleteMemory :: "bool \<Rightarrow> Claims \<Rightarrow> string \<Rightarrow> 'a memory_db_scheme \<Rightarrow> response \<times> 'a memory_db_scheme" where
  "handleDeleteMemory available claims uid d =
     (if \<not> available then (writeError 503 ''memory service not available'', d)
      else (case Memory_Delete_row uid (cl_TenantID claims) d of
              (Inl _, d') \<Rightarrow> (writeError 404 ''memory not found'', d')
            | (Inr _, d') \<Rightarrow> (writeJSON 200 (JObj [(''status'', JStr ''deleted'')]), d')))"

section \<open>Who reads whose memories\<close>

text \<open>The memories that a search looks at, and the ones it returns: the best of them, each once, as many as asked for.\<close>

definition memories_of :: "string \<Rightarrow> string \<Rightarrow> MemoryEntry list \<Rightarrow> MemoryEntry list" where
  "memories_of t u rows = filter (\<lambda>m. me_TenantID m = t \<and> me_UserID m = u \<and> me_Embedding m \<noteq> None) rows"

definition best_of :: "(MemoryEntry \<Rightarrow> rat) \<Rightarrow> int \<Rightarrow> MemoryEntry list \<Rightarrow> MemoryEntry list \<Rightarrow> bool" where
  "best_of score limit rows hits \<longleftrightarrow> distinct hits \<and> set hits \<subseteq> set rows \<and>
     length hits = min (nat (if limit \<le> 0 then 5 else limit)) (length rows) \<and>
     (\<forall>m \<in> set hits. \<forall>x \<in> set rows - set hits. score x \<le> score m)"

lemma best_of_order_by:
  assumes "distinct rows"
  shows "best_of score limit rows (limit_rows (if limit \<le> 0 then 5 else limit) (order_by (\<lambda>m. - score m) rows))"
proof -
  let ?n = "nat (if limit \<le> 0 then 5 else limit)" and ?o = "order_by (\<lambda>m. - score m) rows"
  have o: "set ?o = set rows" "distinct ?o" "length ?o = length rows" using assms by (simp_all add: order_by_def)
  have split: "?o = take ?n ?o @ drop ?n ?o" by simp
  have "score x \<le> score m" if "m \<in> set (take ?n ?o)" "x \<in> set (drop ?n ?o)" for m x
  proof -
    have "sorted (map (\<lambda>m. - score m) (take ?n ?o @ drop ?n ?o))" using sorted_order_by [of "\<lambda>m. - score m" rows] by simp
    then have "- score m \<le> - score x" using that by (simp only: map_append sorted_append set_map) blast
    then show ?thesis by simp
  qed
  moreover have "set rows - set (take ?n ?o) \<subseteq> set (drop ?n ?o)" using o(1) split by (metis Diff_subset_conv set_append subset_refl)
  ultimately show ?thesis
    using o set_take_subset [of ?n ?o] unfolding best_of_def limit_rows_def by (auto simp: min.commute)
qed

lemma SearchSimilar_result:
  assumes "distinct (map me_ID (memories d))" "faults d = []" "ve_in E (pgvecString E emb) = Some v"
  obtains hits where "best_of (decayed_score E (clock d) v) limit (memories_of t u (memories d)) hits"
    "SearchSimilar E t u emb limit d = (Inr (map (\<lambda>m. (m, similarity E v m)) hits),
       d\<lparr>memories := map (\<lambda>m. if m \<in> set hits then m\<lparr>me_AccessCount := me_AccessCount m + 1, me_LastAccessed := Some (clock d)\<rparr> else m)
          (memories d)\<rparr>)"
proof -
  let ?rows = "memories_of t u (memories d)"
  define ranked where "ranked = limit_rows (if limit \<le> 0 then 5 else limit) (order_by (\<lambda>m. - decayed_score E (clock d) v m) ?rows)"
  let ?ranked = ranked
  let ?hits = "filter (\<lambda>m. me_ID m \<in> set (map me_ID ?ranked)) (memories d)"
  have dist: "distinct (memories d)" using assms(1) by (simp add: distinct_map)
  have best: "best_of (decayed_score E (clock d) v) limit ?rows ?ranked"
    unfolding ranked_def by (rule best_of_order_by) (simp add: memories_of_def dist)
  then have sub: "set ?ranked \<subseteq> set (memories d)" by (auto simp: best_of_def memories_of_def)
  have hit: "me_ID m \<in> set (map me_ID ?ranked) \<longleftrightarrow> m \<in> set ?ranked" if "m \<in> set (memories d)" for m
  proof
    assume "me_ID m \<in> set (map me_ID ?ranked)"
    then obtain x where x: "x \<in> set ?ranked" "me_ID x = me_ID m" by auto
    with sub that assms(1) have "x = m" by (intro distinct_keyD [of me_ID "memories d"]) auto
    with x(1) show "m \<in> set ?ranked" by simp
  qed simp
  have set_hits: "set ?hits = set ?ranked" using hit sub by auto
  have "length ?hits = length ?ranked"
    using best dist set_hits by (metis best_of_def distinct_card distinct_filter)
  with best set_hits dist have "best_of (decayed_score E (clock d) v) limit ?rows ?hits" by (simp add: best_of_def)
  moreover have "update_where (\<lambda>m. me_ID m \<in> set (map me_ID ?ranked)) f (memories d) =
      map (\<lambda>m. if m \<in> set ?hits then f m else m) (memories d)" for f
    unfolding update_where_def set_hits by (rule map_cong) (auto simp only: hit)
  ultimately show thesis
    using that [of ?hits] assms(2,3) by (simp add: SearchSimilar_def with_vector_def Let_def memories_of_def ranked_def)
qed

text \<open>C17: the caller does not matter. A search that names a tenant and a user in its body, sent by any caller, is answered with
  memories of that user in that tenant, whichever tenant and user the caller's token names: the ones that score best against
  the query, each once, as many as asked for (5 if none is) or all of them if there are fewer, with their contents; and
  exactly these are marked as accessed. This holds when the query can be embedded, the vector type accepts
  the embedding, no statement is refused and ids are unique.\<close>

theorem memory_search_ignores_the_caller:
  assumes "sq_TenantID inp \<noteq> ''''" "sq_UserID inp \<noteq> ''''" "se_Query inp \<noteq> ''''"
    and "distinct (map me_ID (memories d))" "faults d = []" "ve_in E (pgvecString E emb) = Some v"
  shows "\<exists>hits. best_of (decayed_score E (clock d) v) (se_Limit inp)
       (memories_of (sq_TenantID inp) (sq_UserID inp) (memories d)) hits \<and>
    handleSearchMemory True E (Some (Inr (emb # vecs))) claims (Inr inp) d =
      (Some (writeJSON 200 (JArr (map (\<lambda>m. memoryJSON m [(''similarity'', JNum (similarity E v m))]) hits))),
       d\<lparr>memories := map (\<lambda>m. if m \<in> set hits then m\<lparr>me_AccessCount := me_AccessCount m + 1, me_LastAccessed := Some (clock d)\<rparr> else m)
          (memories d)\<rparr>)"
proof -
  obtain hits where h: "best_of (decayed_score E (clock d) v) (se_Limit inp) (memories_of (sq_TenantID inp) (sq_UserID inp) (memories d)) hits"
    "SearchSimilar E (sq_TenantID inp) (sq_UserID inp) emb (se_Limit inp) d = (Inr (map (\<lambda>m. (m, similarity E v m)) hits),
       d\<lparr>memories := map (\<lambda>m. if m \<in> set hits then m\<lparr>me_AccessCount := me_AccessCount m + 1, me_LastAccessed := Some (clock d)\<rparr> else m)
          (memories d)\<rparr>)"
    by (rule SearchSimilar_result [OF assms(4-6)])
  then show ?thesis using assms(1-3) by (intro exI [of _ hits]) (simp add: handleSearchMemory_def comp_def)
qed

section \<open>Storing\<close>

text \<open>What cannot be embedded cannot be stored. If the vector type refuses the empty literal, as a type of
  fixed dimension does, then a memory without an embedding is refused by the database and the
  handler answers 500, whatever the request holds.\<close>

theorem store_needs_an_embedding:
  assumes "ve_in E '''' = None" "\<And>v vs. vecs \<noteq> Some (Inr (v # vs))" "sm_Content inp \<noteq> ''''"
  shows "\<exists>msg. fst (handleStoreMemory True E vecs claims (Inr inp) d) = writeError 500 msg \<and>
    memories (snd (handleStoreMemory True E vecs claims (Inr inp) d)) = memories d"
proof -
  have emb: "(case vecs of Some (Inr (v # _)) \<Rightarrow> v | _ \<Rightarrow> []) = []"
    using assms(2) by (auto split: option.splits sum.splits list.splits)
  have ins: "\<exists>e fs. insert_memory E m [] d = (Inl e, d\<lparr>faults := fs\<rparr>)" for m and d :: "'a memory_db_scheme"
  proof -
    obtain r d' where s: "insert_memory E m [] d = (r, d')" by (meson surj_pair)
    from s [unfolded insert_memory_def] have "\<exists>e fs. r = Inl e \<and> d' = d\<lparr>faults := fs\<rparr>"
      by (cases rule: statement_cases) (use assms(1) in \<open>auto simp: with_vector_def pgvecString_def\<close>)
    with s show ?thesis by simp
  qed
  have st: "\<exists>e fs. Memory_Store E m [] d = (Inl e, d\<lparr>faults := fs\<rparr>)" for m
  proof -
    obtain e fs where "insert_memory E m [] d = (Inl e, d\<lparr>faults := fs\<rparr>)" using ins by blast
    then have "Memory_Store E m [] d = (Inl (Wrap ''store memory'' e), d\<lparr>faults := fs\<rparr>)" by (simp add: Memory_Store_def)
    then show ?thesis by blast
  qed
  show ?thesis
  proof -
    define m where "m = \<lparr>me_ID = '''', me_TenantID = (if sm_TenantID inp = '''' then cl_TenantID claims else sm_TenantID inp),
                      me_UserID = (if sm_UserID inp = '''' then cl_Subject claims else sm_UserID inp),
                      me_Content = sm_Content inp, me_Type = (if sm_Type inp = '''' then ''fact'' else sm_Type inp),
                      me_Importance = (if sm_Importance inp \<le> 0 then 1/2 else sm_Importance inp),
                      me_Embedding = None, me_AccessCount = 0, me_LastAccessed = None, me_CreatedAt = 0, me_UpdatedAt = 0\<rparr>"
    obtain e fs where "Memory_Store E m [] d = (Inl e, d\<lparr>faults := fs\<rparr>)" using st by blast
    then have "handleStoreMemory True E vecs claims (Inr inp) d =
        (writeError 500 (''store memory: '' @ err_text e), d\<lparr>faults := fs\<rparr>)"
      using assms(3) unfolding handleStoreMemory_def decode_body_def emb Let_def m_def by simp
    then show ?thesis by (intro exI [of _ "''store memory: '' @ err_text e"]) simp
  qed
qed

section \<open>Two tenants\<close>

definition ref_vectors :: vector_ext where
  "ref_vectors = \<lparr>ve_in = (\<lambda>s. if s = '''' then None else Some [of_nat (length s)]), ve_distance = (\<lambda>v w. \<bar>hd v - hd w\<bar>),
     ve_ln = (\<lambda>x. x - 1), ve_format = (\<lambda>x. ''1'')\<rparr>"

definition their_memory :: MemoryEntry where
  "their_memory = \<lparr>me_ID = ''m'', me_TenantID = ''t1'', me_UserID = ''u1'', me_Content = ''secret'', me_Type = ''fact'',
     me_Importance = 1/2, me_Embedding = Some [3], me_AccessCount = 0, me_LastAccessed = None, me_CreatedAt = 0, me_UpdatedAt = 0\<rparr>"

definition memories_db :: memory_db where
  "memories_db = \<lparr>clock = 4, faults = [], uuids = (\<lambda>n. replicate (Suc n) CHR ''u''), uuid_count = 0,
     agent_profiles = [], agent_instances = [], tasks = [], conversations = [], messages = [],
     users = [], tenants = [], org_members = [], org_invites = [], refresh_tokens = [],
     user_credentials = [], credential_audit_log = [], skills = [], tenant_skills = [], user_skills = [],
     usage_events = [], tenant_quotas = [], memories = [their_memory]\<rparr>"

definition their_search :: search_memory where
  "their_search = \<lparr>se_Query = ''x'', se_Limit = 1, sq_TenantID = ''t1'', sq_UserID = ''u1''\<rparr>"

theorem memory_search_ignores_the_caller_witness:
  "\<exists>d'. handleSearchMemory True ref_vectors (Some (Inr [[3]])) (member_claims ''t2'') (Inr their_search) memories_db =
     (Some (writeJSON 200 (JArr [memoryJSON their_memory [(''similarity'', JNum 1)]])), d')"
proof -
  have v: "ve_in ref_vectors (pgvecString ref_vectors [3]) = Some [3]" by (simp add: ref_vectors_def pgvecString_def)
  have db: "memories memories_db = [their_memory]" "distinct (map me_ID (memories memories_db))" "faults memories_db = []"
    by (simp_all add: memories_db_def)
  have q: "sq_TenantID their_search \<noteq> ''''" "sq_UserID their_search \<noteq> ''''" "se_Query their_search \<noteq> ''''" by (simp_all add: their_search_def)
  from memory_search_ignores_the_caller [OF q db(2,3) v, of "[]" "member_claims ''t2''"] obtain hits d' where
    h: "best_of (decayed_score ref_vectors (clock memories_db) [3]) (se_Limit their_search)
          (memories_of (sq_TenantID their_search) (sq_UserID their_search) (memories memories_db)) hits"
    "handleSearchMemory True ref_vectors (Some (Inr [[3]])) (member_claims ''t2'') (Inr their_search) memories_db =
       (Some (writeJSON 200 (JArr (map (\<lambda>m. memoryJSON m [(''similarity'', JNum (similarity ref_vectors [3] m))]) hits))), d')"
    by blast
  have "memories_of (sq_TenantID their_search) (sq_UserID their_search) (memories memories_db) = [their_memory]"
    by (simp add: memories_of_def db(1) their_search_def their_memory_def)
  with h(1) have "set hits \<subseteq> {their_memory}" "length hits = 1" by (simp_all add: best_of_def their_search_def)
  then have "hits = [their_memory]" by (cases hits) auto
  with h(2) show ?thesis by (simp add: similarity_def ref_vectors_def their_memory_def)
qed

theorem store_needs_an_embedding_witness:
  "\<exists>msg. fst (handleStoreMemory True ref_vectors None (member_claims ''t2'')
      (Inr \<lparr>sm_Content = ''x'', sm_Type = '''', sm_Importance = 0, sm_TenantID = '''', sm_UserID = ''''\<rparr>) memories_db) = writeError 500 msg"
proof -
  have "ve_in ref_vectors '''' = None" by (simp add: ref_vectors_def)
  from store_needs_an_embedding [OF this, of None "\<lparr>sm_Content = ''x'', sm_Type = '''', sm_Importance = 0, sm_TenantID = '''', sm_UserID = ''''\<rparr>"
      "member_claims ''t2''" memories_db] show ?thesis by auto
qed

end
