(* ===== verification/Storage.thy ===== *)
theory Storage
  imports Prelude
begin

text \<open>
  Object storage for attachments: \<^verbatim>\<open>internal/storage/storage.go\<close>. The local backend runs on a file
  system that maps the components of an absolute path to a directory or a file; any operation on it may
  fail. The S3 backend of the sources refuses every operation.
\<close>

section \<open>Paths\<close>

text \<open>\<open>filepath.Base\<close>, and \<open>filepath.Clean\<close> on an absolute path, whose result is the list of its components.\<close>

definition slash :: char where
  "slash = CHR 0x2F"

definition filepath_Base :: "string \<Rightarrow> string" where
  "filepath_Base path =
     (if path = '''' then ''.''
      else (let name = last (split_on slash (trim_right {slash} path)) in if name = '''' then [slash] else name))"

fun clean_parts :: "string list \<Rightarrow> string list \<Rightarrow> string list" where
  "clean_parts acc [] = rev acc"
| "clean_parts acc (p # ps) =
     (if p = '''' \<or> p = ''.'' then clean_parts acc ps
      else if p = ''..'' then clean_parts (tl acc) ps
      else clean_parts (p # acc) ps)"

definition filepath_Join :: "string \<Rightarrow> string \<Rightarrow> string list" where
  "filepath_Join base key = clean_parts [] (split_on slash base @ split_on slash key)"

section \<open>Files\<close>

datatype node = FDir | FFile string

text \<open>\<open>disk_faults\<close> lists the outcomes of the operations to come, with the number of bytes that a failing write
  leaves behind; past its end every operation succeeds if it can.\<close>

record disk =
  nodes :: "string list \<rightharpoonup> node"
  disk_faults :: "(go_err \<times> nat) option list"

definition disk_op :: "(disk \<Rightarrow> 'a result \<times> disk) \<Rightarrow> (go_err \<Rightarrow> nat \<Rightarrow> disk \<Rightarrow> 'a result \<times> disk) \<Rightarrow> disk \<Rightarrow> 'a result \<times> disk" where
  "disk_op f failing d =
     (case disk_faults d of
        [] \<Rightarrow> f d
      | None # fs \<Rightarrow> f (d\<lparr>disk_faults := fs\<rparr>)
      | Some (e, n) # fs \<Rightarrow> failing e n (d\<lparr>disk_faults := fs\<rparr>))"

definition refused :: "go_err \<Rightarrow> nat \<Rightarrow> disk \<Rightarrow> 'a result \<times> disk" where
  "refused e n d = (Inl e, d)"

definition is_file :: "node option \<Rightarrow> bool" where
  "is_file x = (case x of Some (FFile _) \<Rightarrow> True | _ \<Rightarrow> False)"

definition MkdirAll :: "string list \<Rightarrow> disk \<Rightarrow> unit result \<times> disk" where
  "MkdirAll dir = disk_op (\<lambda>d.
     if list_ex (\<lambda>p. is_file (nodes d p)) (prefixes dir)
     then (Inl (Msg ''not a directory''), d)
     else (Inr (), d\<lparr>nodes := (\<lambda>p. if prefix p dir then Some FDir else nodes d p)\<rparr>)) refused"

definition os_Create :: "string list \<Rightarrow> disk \<Rightarrow> unit result \<times> disk" where
  "os_Create path = disk_op (\<lambda>d.
     if nodes d path = Some FDir then (Inl (Msg ''is a directory''), d)
     else if path = [] \<or> nodes d (butlast path) \<noteq> Some FDir then (Inl (Msg ''no such file or directory''), d)
     else (Inr (), d\<lparr>nodes := (nodes d)(path \<mapsto> FFile '''')\<rparr>)) refused"

definition io_Copy :: "string list \<Rightarrow> string \<Rightarrow> disk \<Rightarrow> unit result \<times> disk" where
  "io_Copy path data = disk_op (\<lambda>d. (Inr (), d\<lparr>nodes := (nodes d)(path \<mapsto> FFile data)\<rparr>))
     (\<lambda>e n d. (Inl e, d\<lparr>nodes := (nodes d)(path \<mapsto> FFile (take n data))\<rparr>))"

definition os_Open :: "string list \<Rightarrow> disk \<Rightarrow> node result \<times> disk" where
  "os_Open path = disk_op (\<lambda>d.
     (case nodes d path of None \<Rightarrow> Inl (Msg ''no such file or directory'') | Some x \<Rightarrow> Inr x, d)) refused"

text \<open>\<open>os.Remove\<close> with the error that \<open>os.IsNotExist\<close> recognises told apart from the others.\<close>

definition os_Remove :: "string list \<Rightarrow> disk \<Rightarrow> unit option result \<times> disk" where
  "os_Remove path = disk_op (\<lambda>d.
     (case nodes d path of
        None \<Rightarrow> (Inr None, d)
      | Some FDir \<Rightarrow>
          if path = [] \<or> (\<exists>p. strict_prefix path p \<and> nodes d p \<noteq> None) then (Inl (Msg ''directory not empty''), d)
          else (Inr (Some ()), d\<lparr>nodes := (nodes d)(path := None)\<rparr>)
      | Some (FFile _) \<Rightarrow> (Inr (Some ()), d\<lparr>nodes := (nodes d)(path := None)\<rparr>))) refused"

section \<open>The backends\<close>

text \<open>The interface \<open>Store\<close>; the reader that \<open>Get\<close> returns is the node that was opened.\<close>

record Store =
  st_Put :: "string \<Rightarrow> string \<Rightarrow> disk \<Rightarrow> string result \<times> disk"
  st_Get :: "string \<Rightarrow> disk \<Rightarrow> node result \<times> disk"
  st_Delete :: "string \<Rightarrow> disk \<Rightarrow> unit result \<times> disk"
  st_URL :: "string \<Rightarrow> string"

record LocalStore =
  BasePath :: string
  BaseURL :: string

definition NewLocalStore :: "string \<Rightarrow> string \<Rightarrow> disk \<Rightarrow> LocalStore result \<times> disk" where
  "NewLocalStore basePath baseURL d =
     (case MkdirAll (filepath_Join basePath '''') d of
        (Inl err, d1) \<Rightarrow> (Inl (Wrap ''create storage directory'' err), d1)
      | (Inr _, d1) \<Rightarrow> (Inr \<lparr>BasePath = basePath, BaseURL = baseURL\<rparr>, d1))"

definition Local_URL :: "LocalStore \<Rightarrow> string \<Rightarrow> string" where
  "Local_URL s key = BaseURL s @ ''/'' @ key"

definition Local_Put :: "LocalStore \<Rightarrow> string \<Rightarrow> string \<Rightarrow> disk \<Rightarrow> string result \<times> disk" where
  "Local_Put s key data d =
     (let path = filepath_Join (BasePath s) key in
      (case MkdirAll (butlast path) d of
         (Inl err, d1) \<Rightarrow> (Inl (Wrap ''create directory'' err), d1)
       | (Inr _, d1) \<Rightarrow>
           (case os_Create path d1 of
              (Inl err, d2) \<Rightarrow> (Inl (Wrap ''create file'' err), d2)
            | (Inr _, d2) \<Rightarrow>
                (case io_Copy path data d2 of
                   (Inl err, d3) \<Rightarrow> (Inl (Wrap ''write file'' err), d3)
                 | (Inr _, d3) \<Rightarrow> (Inr (Local_URL s key), d3)))))"

definition Local_Get :: "LocalStore \<Rightarrow> string \<Rightarrow> disk \<Rightarrow> node result \<times> disk" where
  "Local_Get s key d =
     (case os_Open (filepath_Join (BasePath s) key) d of (r, d1) \<Rightarrow> (wrap_err ''open file'' r, d1))"

definition Local_Delete :: "LocalStore \<Rightarrow> string \<Rightarrow> disk \<Rightarrow> unit result \<times> disk" where
  "Local_Delete s key d =
     (case os_Remove (filepath_Join (BasePath s) key) d of
        (Inl err, d1) \<Rightarrow> (Inl (Wrap ''delete file'' err), d1)
      | (Inr _, d1) \<Rightarrow> (Inr (), d1))"

definition local_store :: "LocalStore \<Rightarrow> Store" where
  "local_store s = \<lparr>st_Put = Local_Put s, st_Get = Local_Get s, st_Delete = Local_Delete s, st_URL = Local_URL s\<rparr>"

record S3Config =
  Endpoint :: string
  Bucket :: string
  AccessKey :: string
  SecretKey :: string
  Region :: string
  UsePathStyle :: bool
  UseSSL :: bool

record S3Store =
  s3_cfg :: S3Config
  s3_baseURL :: string

definition NewS3Store :: "S3Config \<Rightarrow> S3Store" where
  "NewS3Store cfg =
     (let scheme = (if UseSSL cfg then ''https'' else ''http'') in
      \<lparr>s3_cfg = cfg,
       s3_baseURL = (if UsePathStyle cfg then scheme @ ''://'' @ Endpoint cfg @ ''/'' @ Bucket cfg
                     else scheme @ ''://'' @ Bucket cfg @ ''.'' @ Endpoint cfg)\<rparr>)"

definition s3_unimplemented :: go_err where
  "s3_unimplemented = Msg ''S3 storage not yet implemented''"

definition s3_store :: "S3Store \<Rightarrow> Store" where
  "s3_store s =
     \<lparr>st_Put = (\<lambda>key data d. (Inl s3_unimplemented, d)), st_Get = (\<lambda>key d. (Inl s3_unimplemented, d)),
      st_Delete = (\<lambda>key d. (Inl s3_unimplemented, d)), st_URL = (\<lambda>key. s3_baseURL s @ ''/'' @ key)\<rparr>"

section \<open>Keys\<close>

text \<open>\<open>strings.NewReplacer\<close>: at each position the first pair that matches.\<close>

fun replace_unsafe :: "string \<Rightarrow> string" where
  "replace_unsafe [] = []"
| "replace_unsafe [c] = (if c = slash \<or> c = CHR 0x5C then ''_'' else if c = CHR 0x00 then '''' else [c])"
| "replace_unsafe (c # c' # s) =
     (if c = CHR ''.'' \<and> c' = CHR ''.'' then CHR ''_'' # replace_unsafe s
      else if c = slash \<or> c = CHR 0x5C then CHR ''_'' # replace_unsafe (c' # s)
      else if c = CHR 0x00 then replace_unsafe (c' # s)
      else c # replace_unsafe (c' # s))"

definition sanitizeFileName :: "string \<Rightarrow> string" where
  "sanitizeFileName name = replace_unsafe (filepath_Base name)"

definition AttachmentKey :: "string \<Rightarrow> string \<Rightarrow> string \<Rightarrow> string \<Rightarrow> string" where
  "AttachmentKey tenantID conversationID attachmentID fileName =
     tenantID @ ''/'' @ conversationID @ ''/'' @ attachmentID @ ''/'' @ sanitizeFileName fileName"

section \<open>What is stored comes back\<close>

lemma disk_op_no_faults [simp]: "disk_faults d = [] \<Longrightarrow> disk_op f failing d = f d"
  by (simp add: disk_op_def)

text \<open>A successful upload leaves the data at the path of its key, and other files as they were.\<close>

lemma Local_Put_nodes:
  assumes "Local_Put s key data d = (Inr url, d')" "path = filepath_Join (BasePath s) key"
  shows "url = Local_URL s key" "nodes d' path = Some (FFile data)"
    "\<And>p x. p \<noteq> path \<Longrightarrow> nodes d p = Some (FFile x) \<Longrightarrow> nodes d' p = Some (FFile x)"
    "\<And>p x. p \<noteq> path \<Longrightarrow> nodes d' p = Some (FFile x) \<Longrightarrow> nodes d p = Some (FFile x)"
    "\<And>p. nodes d p = Some FDir \<Longrightarrow> nodes d' p = Some FDir"
proof -
  obtain d1 d2 where s: "MkdirAll (butlast path) d = (Inr (), d1)" "os_Create path d1 = (Inr (), d2)"
    "io_Copy path data d2 = (Inr (), d')" "url = Local_URL s key"
    using assms by (auto simp: Local_Put_def Let_def split: prod.splits sum.splits)
  have 1: "nodes d1 = (\<lambda>p. if prefix p (butlast path) then Some FDir else nodes d p)"
    "\<forall>p \<in> set (prefixes (butlast path)). \<not> is_file (nodes d p)"
    using s(1) by (auto simp: MkdirAll_def disk_op_def refused_def list_ex_iff split: list.splits option.splits if_splits prod.splits)
  then have "\<And>p x. prefix p (butlast path) \<Longrightarrow> nodes d p \<noteq> Some (FFile x)"
    by (force simp: is_file_def)
  note 1 = 1(1) this
  have 2: "nodes d2 = (nodes d1)(path \<mapsto> FFile '''')" "nodes d1 path \<noteq> Some FDir"
    using s(2) by (auto simp: os_Create_def disk_op_def refused_def split: list.splits option.splits if_splits prod.splits)
  have 3: "nodes d' = (nodes d2)(path \<mapsto> FFile data)"
    using s(3) by (auto simp: io_Copy_def disk_op_def split: list.splits option.splits prod.splits)
  show "url = Local_URL s key" by (rule s(4))
  show "nodes d' path = Some (FFile data)" using 3 by simp
  show "nodes d' p = Some (FFile x)" if "p \<noteq> path" "nodes d p = Some (FFile x)" for p x
    using that 1(2) by (auto simp: 3 2(1) 1(1))
  show "nodes d p = Some (FFile x)" if "p \<noteq> path" "nodes d' p = Some (FFile x)" for p x
    using that by (auto simp: 3 2(1) 1(1) split: if_splits)
  show "nodes d' p = Some FDir" if "nodes d p = Some FDir" for p
    using that 2(2) by (auto simp: 3 2(1) 1(1) split: if_splits)
qed

section \<open>Keys stay inside\<close>

lemma replace_unsafe_chars: "set (replace_unsafe s) \<inter> {slash, CHR 0x5C, CHR 0x00} = {}"
  by (induction s rule: replace_unsafe.induct) (auto simp: slash_def)

lemma replace_unsafe_not_Nil: "CHR 0x00 \<notin> set s \<Longrightarrow> s \<noteq> [] \<Longrightarrow> replace_unsafe s \<noteq> []"
  by (induction s rule: replace_unsafe.induct) auto

lemma replace_unsafe_hd:
  "CHR 0x00 \<notin> set (c # s) \<Longrightarrow> replace_unsafe (c # s) = CHR ''.'' # t \<Longrightarrow> c = CHR ''.''"
  by (cases s) (auto simp: slash_def split: if_splits)

text \<open>Without a NUL byte the result is not the parent directory.\<close>

lemma replace_unsafe_not_parent:
  assumes "CHR 0x00 \<notin> set s"
  shows "replace_unsafe s \<noteq> ''..''"
proof
  assume eq: "replace_unsafe s = ''..''"
  then obtain c c' s' where s: "s = c # c' # s'"
    by (cases s rule: replace_unsafe.cases) (auto split: if_splits)
  then have "c = CHR ''.''" using eq replace_unsafe_hd [of c "c' # s'"] assms by auto
  moreover from this eq s have "c' \<noteq> CHR ''.''" "replace_unsafe (c' # s') = ''.''"
    by (auto simp: slash_def split: if_splits)
  ultimately show False using replace_unsafe_hd [of c' s'] assms s by auto
qed

lemma split_on_chars: "p \<in> set (split_on c s) \<Longrightarrow> set p \<subseteq> set s"
  by (induction s arbitrary: p) (fastforce split: list.splits if_splits)+

lemma clean_parts_append: "clean_parts acc (ps @ qs) = clean_parts (rev (clean_parts acc ps)) qs"
  by (induction acc ps rule: clean_parts.induct) auto

text \<open>A name that is a path component of its own.\<close>

definition plain_name :: "string \<Rightarrow> bool" where
  "plain_name s \<longleftrightarrow> s \<noteq> '''' \<and> s \<noteq> ''.'' \<and> s \<noteq> ''..'' \<and> slash \<notin> set s"

lemma clean_parts_plain: "plain_name p \<Longrightarrow> clean_parts acc (p # ps) = clean_parts (p # acc) ps"
  by (simp add: plain_name_def)

lemma filepath_Base_NUL: "CHR 0x00 \<notin> set name \<Longrightarrow> CHR 0x00 \<notin> set (filepath_Base name)"
proof -
  have "set (last (split_on slash (trim_right {slash} name))) \<subseteq> set (trim_right {slash} name)"
    by (rule split_on_chars [of _ slash]) simp
  moreover have "set (trim_right {slash} name) \<subseteq> set name"
    unfolding trim_right_def using set_dropWhileD by fastforce
  ultimately show "CHR 0x00 \<notin> set name \<Longrightarrow> CHR 0x00 \<notin> set (filepath_Base name)"
    by (auto simp: filepath_Base_def Let_def slash_def split: if_splits)
qed

lemma filepath_Base_not_Nil: "filepath_Base name \<noteq> ''''"
  by (simp add: filepath_Base_def Let_def)

lemma Join_AttachmentKey:
  assumes "plain_name t" "plain_name c" "plain_name a"
  shows "filepath_Join base (AttachmentKey t c a name) =
    clean_parts ([a, c, t] @ rev (clean_parts [] (split_on slash base))) [sanitizeFileName name]"
proof -
  have sep: "''/'' = [slash]" by (simp add: slash_def)
  have n: "slash \<notin> set (sanitizeFileName name)" using replace_unsafe_chars [of "filepath_Base name"] by (auto simp: sanitizeFileName_def)
  have "split_on slash (AttachmentKey t c a name) = [t, c, a, sanitizeFileName name]"
    using assms n by (simp add: AttachmentKey_def sep plain_name_def split_on_append split_on_field)
  then show ?thesis
    using assms by (simp add: filepath_Join_def clean_parts_append clean_parts_plain del: clean_parts.simps(2))
qed

text \<open>C39: an uploaded file stays in the directory of its attachment. For identifiers that are plain path
  components and a file name without NUL bytes, however many separators and dots it has, the path of the
  key lies at or directly below the directory of the attachment.\<close>

theorem attachment_paths_are_confined:
  assumes "plain_name t" "plain_name c" "plain_name a" "CHR 0x00 \<notin> set name"
  shows "filepath_Join base (AttachmentKey t c a name) \<in>
    {filepath_Join base '''' @ [t, c, a], filepath_Join base '''' @ [t, c, a, sanitizeFileName name]}"
proof -
  have base: "filepath_Join base '''' = clean_parts [] (split_on slash base)"
    by (simp add: filepath_Join_def clean_parts_append)
  have "sanitizeFileName name \<noteq> ''..''" "sanitizeFileName name \<noteq> ''''"
    unfolding sanitizeFileName_def
    using filepath_Base_NUL [OF assms(4)] replace_unsafe_not_parent replace_unsafe_not_Nil filepath_Base_not_Nil by blast+
  then show ?thesis
    unfolding Join_AttachmentKey [OF assms(1-3)] base by auto
qed

text \<open>A NUL byte between two dots survives the check for the parent directory and is then dropped: the path
  is that of the conversation's directory.\<close>

lemma NUL_byte_escapes:
  "filepath_Join ''/data'' (AttachmentKey ''t'' ''c'' ''a'' [CHR ''.'', CHR 0x00, CHR ''.'']) = [''data'', ''t'', ''c'']"
  by (simp add: filepath_Join_def AttachmentKey_def sanitizeFileName_def filepath_Base_def trim_right_def slash_def Let_def)

theorem attachment_paths_are_confined_witness:
  "filepath_Join ''/data'' (AttachmentKey ''t'' ''c'' ''a'' ''../../etc/passwd'') \<in>
    {filepath_Join ''/data'' '''' @ [''t'', ''c'', ''a''],
     filepath_Join ''/data'' '''' @ [''t'', ''c'', ''a'', sanitizeFileName ''../../etc/passwd'']}"
  by (rule attachment_paths_are_confined) (simp_all add: plain_name_def slash_def)

end
