(* ===== verification/Attachments.thy ===== *)
theory Attachments
  imports Memory_Repo Storage
begin

text \<open>
  Files in conversations: \<^verbatim>\<open>internal/db/attachment_repo.go\<close> on migration 010 and the handlers of
  \<^verbatim>\<open>internal/gateway/api/attachments.go\<close>. The state is the database and the disk of the storage backend.
\<close>

section \<open>The repository\<close>

record Attachment =
  at_ID :: string
  at_ConversationID :: string
  at_TenantID :: string
  at_UserID :: "string option"
  at_FileName :: string
  at_MimeType :: string
  at_Size :: int
  at_StorageKey :: string
  at_Metadata :: string               \<comment> \<open>raw JSON\<close>
  at_CreatedAt :: time

record attachment_db = memory_db +
  attachments :: "Attachment list"

definition scanAttachment :: "Attachment result \<Rightarrow> Attachment result" where
  "scanAttachment row = wrap_err ''scan attachment'' row"

definition Attachment_Create ::
  "Attachment \<Rightarrow> 'a attachment_db_scheme \<Rightarrow> Attachment result \<times> 'a attachment_db_scheme" where
  "Attachment_Create a d =
     (case insert_new (\<lambda>d uid. a\<lparr>at_ID := uid, at_CreatedAt := clock d\<rparr>)
             (\<lambda>row d. d\<lparr>attachments := attachments d @ [row]\<rparr>) d of
        (row, d') \<Rightarrow> (scanAttachment row, d'))"

definition Attachment_Get :: "string \<Rightarrow> 'a attachment_db_scheme \<Rightarrow> Attachment result \<times> 'a attachment_db_scheme" where
  "Attachment_Get uid d =
     (case query (\<lambda>d. one_row (select_one (\<lambda>a. at_ID a = uid) (attachments d))) d of
        (row, d') \<Rightarrow> (scanAttachment row, d'))"

definition ListByConversation ::
  "string \<Rightarrow> 'a attachment_db_scheme \<Rightarrow> Attachment list result \<times> 'a attachment_db_scheme" where
  "ListByConversation conversationID d = wrapped ''list attachments''
     (query (\<lambda>d. Inr (order_by at_CreatedAt (filter (\<lambda>a. at_ConversationID a = conversationID) (attachments d)))) d)"

definition Attachment_Delete :: "string \<Rightarrow> 'a attachment_db_scheme \<Rightarrow> unit result \<times> 'a attachment_db_scheme" where
  "Attachment_Delete uid = exec (\<lambda>d. d\<lparr>attachments := delete_where (\<lambda>a. at_ID a = uid) (attachments d)\<rparr>)"

section \<open>The handlers\<close>

definition blocked_types :: "string list" where
  "blocked_types = [''application/x-executable'', ''application/x-msdos-program'', ''application/x-msdownload'',
     ''application/x-sharedlib'', ''application/x-shellscript'']"

definition isAllowedMimeType :: "string \<Rightarrow> bool" where
  "isAllowedMimeType mimeType = list_all (\<lambda>b. mimeType \<noteq> b) blocked_types"

definition attachmentJSON :: "Attachment \<Rightarrow> string \<Rightarrow> json" where
  "attachmentJSON a url = JObj
     ([(''id'', JStr (at_ID a)), (''conversation_id'', JStr (at_ConversationID a)), (''file_name'', JStr (at_FileName a)),
       (''mime_type'', JStr (at_MimeType a)), (''size'', JNum (of_int (at_Size a))), (''created_at'', JTime (at_CreatedAt a))] @
      (if url \<noteq> '''' then [(''url'', JStr url)] else []) @ opt_field ''user_id'' JStr (at_UserID a))"

text \<open>The multipart form: the size of the body, and the outcome of parsing it and of looking up the field \<open>file\<close>
  (\<open>None\<close> when the field is missing).\<close>

record file_part =
  fp_Filename :: string
  fp_Size :: int
  fp_ContentType :: string
  fp_data :: string

record upload_form =
  uf_body_size :: int
  uf_form :: "file_part option result"

text \<open>The dependencies of the handlers: the repository is set or not, the backend, the size limit.\<close>

record attachment_services =
  as_available :: bool
  as_Store :: "Store option"
  as_MaxUploadSize :: int

text \<open>The record is created first, for its id; the key is set in the copy that is returned.\<close>

definition store_upload ::
  "Store \<Rightarrow> Claims \<Rightarrow> Conversation \<Rightarrow> file_part \<Rightarrow> string \<Rightarrow> 'a attachment_db_scheme \<times> disk \<Rightarrow>
   response \<times> 'a attachment_db_scheme \<times> disk" where
  "store_upload store claims convo part mimeType s =
     (case Attachment_Create
        \<lparr>at_ID = '''', at_ConversationID = cv_ID convo, at_TenantID = cv_TenantID convo,
         at_UserID = Some (cl_Subject claims), at_FileName = fp_Filename part, at_MimeType = mimeType,
         at_Size = fp_Size part, at_StorageKey = '''', at_Metadata = ''{}'', at_CreatedAt = 0\<rparr> (fst s) of
        (Inl _, d1) \<Rightarrow> (writeError 500 ''create attachment record failed'', d1, snd s)
      | (Inr att, d1) \<Rightarrow>
          (let key = AttachmentKey (cv_TenantID convo) (cv_ID convo) (at_ID att) (fp_Filename part) in
           (case st_Put store key (fp_data part) (snd s) of
              (Inl _, k) \<Rightarrow> (writeError 500 ''file upload failed'', d1, k)
            | (Inr url, k) \<Rightarrow> (writeJSON 201 (attachmentJSON (att\<lparr>at_StorageKey := key\<rparr>) url), d1, k))))"

definition handleUploadAttachment ::
  "attachment_services \<Rightarrow> Claims \<Rightarrow> string \<Rightarrow> upload_form \<Rightarrow> 'a attachment_db_scheme \<times> disk \<Rightarrow>
   response \<times> 'a attachment_db_scheme \<times> disk" where
  "handleUploadAttachment S claims convID form s =
     (case Conv_Get convID (fst s) of
        (Inl _, d) \<Rightarrow> (writeError 404 ''conversation not found'', d, snd s)
      | (Inr convo, d) \<Rightarrow>
          if cv_TenantID convo \<noteq> cl_TenantID claims then (writeError 403 ''forbidden'', d, snd s)
          else (case (if as_available S then as_Store S else None) of
            None \<Rightarrow> (writeError 501 ''file upload not configured'', d, snd s)
          | Some store \<Rightarrow>
              (let maxSize = (if as_MaxUploadSize S \<le> 0 then 100 * 1024 * 1024 else as_MaxUploadSize S) in
               if maxSize < uf_body_size form then (writeError 400 ''file too large or invalid multipart form'', d, snd s)
               else (case uf_form form of
                 Inl _ \<Rightarrow> (writeError 400 ''file too large or invalid multipart form'', d, snd s)
               | Inr None \<Rightarrow> (writeError 400 ''missing 'file' field in multipart form'', d, snd s)
               | Inr (Some file) \<Rightarrow>
                   (let mimeType = (if fp_ContentType file = '''' then ''application/octet-stream'' else fp_ContentType file) in
                    if \<not> isAllowedMimeType mimeType
                    then (writeError 400 (''file type '' @ quoted mimeType @ '' is not allowed''), d, snd s)
                    else store_upload store claims convo file mimeType (d, snd s))))))"

text \<open>\<open>io.Copy\<close> of an opened file to the client; an opened directory cannot be read, and the error is dropped.\<close>

definition read_node :: "node \<Rightarrow> string" where
  "read_node x = (case x of FDir \<Rightarrow> '''' | FFile data \<Rightarrow> data)"

definition handleGetAttachment ::
  "attachment_services \<Rightarrow> Claims \<Rightarrow> string \<Rightarrow> request \<Rightarrow> 'a attachment_db_scheme \<times> disk \<Rightarrow>
   response \<times> 'a attachment_db_scheme \<times> disk" where
  "handleGetAttachment S claims uid rq s =
     (if \<not> as_available S then (writeError 501 ''file upload not configured'', s)
      else (case Attachment_Get uid (fst s) of
        (Inl _, d) \<Rightarrow> (writeError 404 ''attachment not found'', d, snd s)
      | (Inr att, d) \<Rightarrow>
          if at_TenantID att \<noteq> cl_TenantID claims then (writeError 403 ''forbidden'', d, snd s)
          else (case as_Store S of
            None \<Rightarrow> (writeJSON 200 (attachmentJSON att ''''), d, snd s)
          | Some store \<Rightarrow>
              if rq_query rq ''download'' = ''true'' then
                (case st_Get store (at_StorageKey att) (snd s) of
                   (Inl _, k) \<Rightarrow> (writeError 500 ''file retrieval failed'', d, k)
                 | (Inr x, k) \<Rightarrow>
                     (\<lparr>rs_status = 200,
                       rs_headers = [(''Content-Type'', at_MimeType att),
                                     (''Content-Disposition'', ''attachment; filename='' @ quoted (at_FileName att))],
                       rs_body = JStr (read_node x)\<rparr>, d, k))
              else (writeJSON 200 (attachmentJSON att (st_URL store (at_StorageKey att))), d, snd s))))"

definition handleListAttachments ::
  "attachment_services \<Rightarrow> Claims \<Rightarrow> string \<Rightarrow> 'a attachment_db_scheme \<Rightarrow> response \<times> 'a attachment_db_scheme" where
  "handleListAttachments S claims convID =
     own_conversation claims convID (\<lambda>convo d.
       (if \<not> as_available S then (writeJSON 200 (JObj [(''attachments'', JArr [])]), d)
        else (case ListByConversation (cv_ID convo) d of
          (Inl _, d') \<Rightarrow> (writeError 500 ''list attachments failed'', d')
        | (Inr atts, d') \<Rightarrow>
            (writeJSON 200 (JObj [(''attachments'', JArr (map (\<lambda>a.
               attachmentJSON a (case as_Store S of None \<Rightarrow> '''' | Some store \<Rightarrow> st_URL store (at_StorageKey a))) atts))]), d'))))"

section \<open>Uploads and downloads\<close>

lemma select_one_append_fresh: "P x \<Longrightarrow> \<forall>r \<in> set rows. \<not> P r \<Longrightarrow> select_one P (rows @ [x]) = Some x"
  by (induction rows) (auto simp: select_one_def)

lemma Attachment_Create_state:
  assumes "Attachment_Create a d = (Inr att, d')"
  shows "\<exists>fs. att = a\<lparr>at_ID := uuids d (uuid_count d), at_CreatedAt := clock d\<rparr> \<and>
    d' = d\<lparr>faults := fs, uuid_count := Suc (uuid_count d), attachments := attachments d @ [att]\<rparr>"
proof -
  obtain r where i: "insert_new (\<lambda>d uid. a\<lparr>at_ID := uid, at_CreatedAt := clock d\<rparr>)
             (\<lambda>row d. d\<lparr>attachments := attachments d @ [row]\<rparr>) d = (r, d')" "scanAttachment r = Inr att"
    using assms by (auto simp: Attachment_Create_def split: prod.splits)
  from i(1) show ?thesis
  proof (cases rule: insert_new_state)
    case (executed fs)
    then show ?thesis using i(2) by (intro exI [of _ fs]) (simp add: scanAttachment_def)
  next
    case (refused fs e)
    then show ?thesis using i(2) by (simp add: scanAttachment_def)
  qed
qed

lemma store_upload_201:
  assumes "store_upload store claims convo part mime (d, k) = (r, d', k')" "rs_status r = 201"
  obtains att fs url where "at_ID att = uuids d (uuid_count d)" "at_TenantID att = cv_TenantID convo" "at_StorageKey att = ''''"
    "d' = d\<lparr>faults := fs, uuid_count := Suc (uuid_count d), attachments := attachments d @ [att]\<rparr>"
    "st_Put store (AttachmentKey (cv_TenantID convo) (cv_ID convo) (at_ID att) (fp_Filename part)) (fp_data part) k = (Inr url, k')"
proof -
  note P = that
  let ?a = "\<lparr>at_ID = '''', at_ConversationID = cv_ID convo, at_TenantID = cv_TenantID convo,
     at_UserID = Some (cl_Subject claims), at_FileName = fp_Filename part, at_MimeType = mime,
     at_Size = fp_Size part, at_StorageKey = '''', at_Metadata = ''{}'', at_CreatedAt = 0\<rparr>"
  obtain att d1 where a: "Attachment_Create ?a d = (Inr att, d1)"
    using assms by (cases "Attachment_Create ?a d"; cases "fst (Attachment_Create ?a d)") (auto simp: store_upload_def)
  obtain url where "st_Put store (AttachmentKey (cv_TenantID convo) (cv_ID convo) (at_ID att) (fp_Filename part)) (fp_data part) k = (Inr url, k')"
    "d' = d1" using assms a by (auto simp: store_upload_def Let_def split: prod.splits sum.splits)
  moreover obtain fs where "att = ?a\<lparr>at_ID := uuids d (uuid_count d), at_CreatedAt := clock d\<rparr>"
    "d1 = d\<lparr>faults := fs, uuid_count := Suc (uuid_count d), attachments := attachments d @ [att]\<rparr>"
    using Attachment_Create_state [OF a] by blast
  ultimately show thesis by (intro P [of att fs url]) simp_all
qed

text \<open>What a successful upload did.\<close>

lemma upload_201:
  assumes "handleUploadAttachment S claims convID form (d, k) = (r, d', k')" "rs_status r = 201"
  obtains store part att fs url and convo :: Conversation where "as_available S" "as_Store S = Some store" "uf_form form = Inr (Some part)"
    "cv_TenantID convo = cl_TenantID claims" "at_ID att = uuids d (uuid_count d)" "at_TenantID att = cl_TenantID claims"
    "at_StorageKey att = ''''" "d' = d\<lparr>faults := fs, uuid_count := Suc (uuid_count d), attachments := attachments d @ [att]\<rparr>"
    "st_Put store (AttachmentKey (cl_TenantID claims) (cv_ID convo) (at_ID att) (fp_Filename part)) (fp_data part) k = (Inr url, k')"
proof -
  note P = that
  obtain rc dc where g: "Conv_Get convID d = (rc, dc)" by (meson surj_pair)
  obtain fs0 where dc: "dc = d\<lparr>faults := fs0\<rparr>" using Conv_Get_state [OF g] by blast
  obtain convo where c: "rc = Inr convo" "cv_TenantID convo = cl_TenantID claims"
    using assms g by (cases rc) (auto simp: handleUploadAttachment_def split: if_splits)
  obtain store where st: "as_available S" "as_Store S = Some store"
    using assms g c by (auto simp: handleUploadAttachment_def split: if_splits option.splits)
  obtain part where f: "uf_form form = Inr (Some part)"
    using assms g c st by (auto simp: handleUploadAttachment_def Let_def split: if_splits option.splits sum.splits)
  obtain mime where "store_upload store claims convo part mime (dc, k) = (r, d', k')"
    using assms g c st f by (auto simp: handleUploadAttachment_def Let_def split: if_splits)
  then show thesis
    using assms(2)
  proof (rule store_upload_201)
    fix att fs url
    assume "at_ID att = uuids dc (uuid_count dc)" "at_TenantID att = cv_TenantID convo" "at_StorageKey att = ''''"
      "d' = dc\<lparr>faults := fs, uuid_count := Suc (uuid_count dc), attachments := attachments dc @ [att]\<rparr>"
      "st_Put store (AttachmentKey (cv_TenantID convo) (cv_ID convo) (at_ID att) (fp_Filename part)) (fp_data part) k = (Inr url, k')"
    then show thesis using st f c dc by (intro P [of store part convo att fs url]) simp_all
  qed
qed

text \<open>C22: what was uploaded cannot be downloaded. After an upload to the local store that was answered
  201, the file is on the disk under its key, but a download of the new attachment by the same caller
  is answered 200 with an empty body: the key is never written to the database, so the
  handler opens the base directory of the store.\<close>

theorem downloads_are_empty:
  assumes "handleUploadAttachment S claims convID form (d, k) = (r, d', k')" "rs_status r = 201"
    and "as_Store S = Some (local_store L)" "nodes k (filepath_Join (BasePath L) '''') = Some FDir"
    and "uuids d (uuid_count d) \<notin> at_ID ` set (attachments d)" "faults d' = []" "disk_faults k' = []"
    and "rq_query rq ''download'' = ''true''"
  shows "rs_status (fst (handleGetAttachment S claims (uuids d (uuid_count d)) rq (d', k'))) = 200 \<and>
    rs_body (fst (handleGetAttachment S claims (uuids d (uuid_count d)) rq (d', k'))) = JStr '''' \<and>
    (\<exists>key part. uf_form form = Inr (Some part) \<and> nodes k' (filepath_Join (BasePath L) key) = Some (FFile (fp_data part)))"
  using assms(1,2)
proof (rule upload_201)
  fix store fs url and part :: file_part and att :: Attachment and convo :: Conversation
  let ?key = "AttachmentKey (cl_TenantID claims) (cv_ID convo) (at_ID att) (fp_Filename part)"
  assume st: "as_available S" "as_Store S = Some store" and f: "uf_form form = Inr (Some part)"
    and att: "at_ID att = uuids d (uuid_count d)" "at_TenantID att = cl_TenantID claims" "at_StorageKey att = ''''"
    and d': "d' = d\<lparr>faults := fs, uuid_count := Suc (uuid_count d), attachments := attachments d @ [att]\<rparr>"
    and put: "st_Put store ?key (fp_data part) k = (Inr url, k')"
  have "Local_Put L ?key (fp_data part) k = (Inr url, k')" using put st(2) assms(3) by (auto simp: local_store_def)
  note k' = Local_Put_nodes [OF this refl]
  have "select_one (\<lambda>a. at_ID a = uuids d (uuid_count d)) (attachments d') = Some att"
    unfolding d' using assms(5) att(1) by (simp, intro select_one_append_fresh) force+
  then have get: "Attachment_Get (uuids d (uuid_count d)) d' = (Inr att, d')"
    using assms(6) by (simp add: Attachment_Get_def scanAttachment_def)
  have base: "nodes k' (filepath_Join (BasePath L) '''') = Some FDir" using assms(4) by (rule k'(5))
  have "Local_Get L '''' k' = (Inr FDir, k')"
    using assms(7) base by (simp add: Local_Get_def os_Open_def)
  then have h: "fst (handleGetAttachment S claims (uuids d (uuid_count d)) rq (d', k')) =
      \<lparr>rs_status = 200, rs_headers = [(''Content-Type'', at_MimeType att),
         (''Content-Disposition'', ''attachment; filename='' @ quoted (at_FileName att))], rs_body = JStr ''''\<rparr>"
    using get st(1) att(2,3) assms(3,8) by (simp add: handleGetAttachment_def local_store_def read_node_def)
  from k'(2) f show ?thesis unfolding h by (intro conjI exI [of _ ?key] exI [of _ part]) simp_all
qed

section \<open>An upload\<close>

definition ref_local :: LocalStore where
  "ref_local = \<lparr>BasePath = ''/data'', BaseURL = ''http://h''\<rparr>"

definition ref_uploads :: attachment_services where
  "ref_uploads = \<lparr>as_available = True, as_Store = Some (local_store ref_local), as_MaxUploadSize = 0\<rparr>"

definition ref_disk :: disk where
  "ref_disk = \<lparr>nodes = [[] \<mapsto> FDir, [''data''] \<mapsto> FDir], disk_faults = []\<rparr>"

definition ref_form :: upload_form where
  "ref_form = \<lparr>uf_body_size = 9, uf_form = Inr (Some \<lparr>fp_Filename = ''a.txt'', fp_Size = 2, fp_ContentType = ''text/plain'', fp_data = ''hi''\<rparr>)\<rparr>"

definition files_db :: attachment_db where
  "files_db = \<lparr>clock = 4, faults = [], uuids = (\<lambda>n. replicate (Suc n) CHR ''u''), uuid_count = 0,
     agent_profiles = [], agent_instances = [], tasks = [], conversations = [\<lparr>cv_ID = ''c'', cv_TenantID = ''t'', cv_UserID = None,
       cv_Title = '''', cv_Status = ''active'', cv_CreatedAt = 0, cv_UpdatedAt = 0\<rparr>], messages = [],
     users = [], tenants = [], org_members = [], org_invites = [], refresh_tokens = [],
     user_credentials = [], credential_audit_log = [], skills = [], tenant_skills = [], user_skills = [],
     usage_events = [], tenant_quotas = [], memories = [], attachments = []\<rparr>"

definition download_rq :: request where
  "download_rq = \<lparr>rq_method = ''GET'', rq_path = '''', rq_authorization = '''', rq_query = (\<lambda>_. ''true''), rq_body = '''', rq_values = [], rq_claims = None\<rparr>"

lemma ref_put:
  "\<exists>k'. Local_Put ref_local (AttachmentKey ''t'' ''c'' ''u'' ''a.txt'') ''hi'' ref_disk = (Inr (Local_URL ref_local (AttachmentKey ''t'' ''c'' ''u'' ''a.txt'')), k') \<and>
     disk_faults k' = []"
proof -
  have p: "filepath_Join ''/data'' (AttachmentKey ''t'' ''c'' ''u'' ''a.txt'') = [''data'', ''t'', ''c'', ''u'', ''a.txt'']"
    by (simp add: filepath_Join_def AttachmentKey_def sanitizeFileName_def filepath_Base_def trim_right_def slash_def Let_def)
  show ?thesis
    by (simp add: Local_Put_def p ref_local_def Let_def MkdirAll_def os_Create_def io_Copy_def ref_disk_def is_file_def)
qed

theorem downloads_are_empty_witness:
  "\<exists>r d' k'. handleUploadAttachment ref_uploads (member_claims ''t'') ''c'' ref_form (files_db, ref_disk) = (r, d', k') \<and>
     rs_status r = 201 \<and> rs_body (fst (handleGetAttachment ref_uploads (member_claims ''t'') ''u'' download_rq (d', k'))) = JStr ''''"
proof -
  obtain k' where k: "Local_Put ref_local (AttachmentKey ''t'' ''c'' ''u'' ''a.txt'') ''hi'' ref_disk =
      (Inr (Local_URL ref_local (AttachmentKey ''t'' ''c'' ''u'' ''a.txt'')), k')" "disk_faults k' = []" using ref_put by blast
  have "\<exists>r d'. handleUploadAttachment ref_uploads (member_claims ''t'') ''c'' ref_form (files_db, ref_disk) = (r, d', k') \<and>
      rs_status r = 201 \<and> faults d' = []"
    by (simp add: handleUploadAttachment_def ref_uploads_def ref_form_def files_db_def Conv_Get_def scanConversation_def select_one_def
        member_claims_def isAllowedMimeType_def blocked_types_def store_upload_def Attachment_Create_def scanAttachment_def
        local_store_def k Let_def)
  then obtain r d' where run: "handleUploadAttachment ref_uploads (member_claims ''t'') ''c'' ref_form (files_db, ref_disk) = (r, d', k')"
    "rs_status r = 201" "faults d' = []" by blast
  have u: "uuids files_db (uuid_count files_db) = ''u''" "attachments files_db = []" by (simp_all add: files_db_def)
  have "nodes ref_disk (filepath_Join (BasePath ref_local) '''') = Some FDir"
    by (simp add: ref_disk_def ref_local_def filepath_Join_def slash_def)
  from downloads_are_empty [OF run(1,2) _ this, of download_rq] run k(2) u show ?thesis
    by (auto simp: ref_uploads_def download_rq_def)
qed

end
