(* ===== verification/One_Time_Flow.thy ===== *)
theory One_Time_Flow
  imports Prelude
begin

text \<open>
  Browser flows that leave the server with a random state and come back with it: the sign-on of
  \<^verbatim>\<open>internal/auth/oidc.go\<close> and the connect flow of \<^verbatim>\<open>internal/providers/oauth2.go\<close>. The locale states what
  both promise about the table of pending flows; agreement between the end of a flow and its start is
  proved here once and holds for both.
\<close>

section \<open>Runs\<close>

text \<open>\<open>Began b k v\<close>: a flow began by a call with arguments \<open>b\<close>, and \<open>v\<close> is pending under the state \<open>k\<close>.
  \<open>Ended f k r\<close>: a callback \<open>f\<close> with the state \<open>k\<close> was accepted with result \<open>r\<close>.\<close>

datatype ('b, 'k, 'v, 'f, 'r) flow_event = Began 'b 'k 'v | Ended 'f 'k 'r

inductive flow_run ::
  "('b \<Rightarrow> 's \<Rightarrow> ('k \<times> 'v) option \<times> 's) \<Rightarrow> ('f \<Rightarrow> 'k \<Rightarrow> 's \<Rightarrow> 'r option \<times> 's) \<Rightarrow> ('s \<Rightarrow> 'k \<rightharpoonup> 'v) \<Rightarrow>
   ('b, 'k, 'v, 'f, 'r) flow_event list \<Rightarrow> 's \<Rightarrow> bool"
  for begin_op finish_op pending where
  no_flow: "pending s = Map.empty \<Longrightarrow> flow_run begin_op finish_op pending [] s"
| began: "flow_run begin_op finish_op pending evs s \<Longrightarrow> begin_op b s = (Some (k, v), s') \<Longrightarrow>
    flow_run begin_op finish_op pending (evs @ [Began b k v]) s'"
| not_begun: "flow_run begin_op finish_op pending evs s \<Longrightarrow> begin_op b s = (None, s') \<Longrightarrow>
    flow_run begin_op finish_op pending evs s'"
| ended: "flow_run begin_op finish_op pending evs s \<Longrightarrow> finish_op f k s = (Some r, s') \<Longrightarrow>
    flow_run begin_op finish_op pending (evs @ [Ended f k r]) s'"
| refused: "flow_run begin_op finish_op pending evs s \<Longrightarrow> finish_op f k s = (None, s') \<Longrightarrow>
    flow_run begin_op finish_op pending evs s'"
| elsewhere: "flow_run begin_op finish_op pending evs s \<Longrightarrow> pending s' = pending s \<Longrightarrow>
    flow_run begin_op finish_op pending evs s'"

fun begins :: "'k \<Rightarrow> ('b, 'k, 'v, 'f, 'r) flow_event \<Rightarrow> bool" where
  "begins k (Began b k' v) = (k' = k)"
| "begins k (Ended f k' r) = False"

fun ends :: "'k \<Rightarrow> ('b, 'k, 'v, 'f, 'r) flow_event \<Rightarrow> bool" where
  "ends k (Began b k' v) = False"
| "ends k (Ended f k' r) = (k' = k)"

section \<open>The contract\<close>

locale one_time_flow =
  fixes begin_op :: "'b \<Rightarrow> 's \<Rightarrow> ('k \<times> 'v) option \<times> 's"
    and finish_op :: "'f \<Rightarrow> 'k \<Rightarrow> 's \<Rightarrow> 'r option \<times> 's"
    and pending :: "'s \<Rightarrow> 'k \<rightharpoonup> 'v"
    and made :: "'b \<Rightarrow> 'v \<Rightarrow> bool"
    and fits :: "'f \<Rightarrow> 'v \<Rightarrow> 'r \<Rightarrow> bool"
  assumes begin_pending: "begin_op b s = (Some (k, v), s') \<Longrightarrow> pending s' = (pending s)(k \<mapsto> v) \<and> made b v"
    and begin_failed: "begin_op b s = (None, s') \<Longrightarrow> pending s' = pending s"
    and finish_consumes: "finish_op f k s = (x, s') \<Longrightarrow> pending s' = (pending s)(k := None)"
    and finish_fits: "finish_op f k s = (Some r, s') \<Longrightarrow> \<exists>v. pending s k = Some v \<and> fits f v r"
begin

lemma pending_began:
  assumes "flow_run begin_op finish_op pending evs s" "pending s k = Some v"
  shows "\<exists>b. Began b k v \<in> set evs \<and> made b v"
  using assms
proof (induction arbitrary: k v rule: flow_run.induct)
  case (began evs s b k0 v0 s')
  then show ?case using begin_pending [OF began.hyps(2)] by (cases "k = k0") fastforce+
next
  case (ended evs s f k0 r s')
  then show ?case using finish_consumes [OF ended.hyps(2)] by (cases "k = k0") fastforce+
next
  case (refused evs s f k0 s')
  then show ?case using finish_consumes [OF refused.hyps(2)] by (cases "k = k0") fastforce+
qed (use begin_failed in fastforce)+

lemma ended_began:
  assumes "flow_run begin_op finish_op pending evs s" "evs = xs @ Ended f k r # ys"
  shows "\<exists>b v. Began b k v \<in> set xs \<and> made b v \<and> fits f v r"
  using assms
proof (induction arbitrary: ys rule: flow_run.induct)
  case (began evs s b k0 v0 s')
  then show ?case by (cases ys rule: rev_cases) auto
next
  case (ended evs s f0 k0 r0 s')
  show ?case
  proof (cases ys rule: rev_cases)
    case Nil
    then have "evs = xs" "f0 = f" "k0 = k" "r0 = r" using ended.prems by auto
    then show ?thesis using finish_fits [OF ended.hyps(2)] pending_began [OF ended.hyps(1)] by blast
  next
    case (snoc zs z)
    then show ?thesis using ended.IH ended.prems by auto
  qed
qed auto

lemma ends_at_most_begins:
  assumes "flow_run begin_op finish_op pending evs s"
  shows "length (filter (ends k) evs) + (if pending s k = None then 0 else 1) \<le> length (filter (begins k) evs)"
  using assms
proof (induction rule: flow_run.induct)
  case (began evs s b k0 v0 s')
  then show ?case using begin_pending [OF began.hyps(2)] by (auto split: if_splits)
next
  case (not_begun evs s b s')
  then show ?case using begin_failed [OF not_begun.hyps(2)] by simp
next
  case (ended evs s f k0 r s')
  then show ?case using finish_fits [OF ended.hyps(2)] finish_consumes [OF ended.hyps(2)] by (auto split: if_splits)
next
  case (refused evs s f k0 s')
  then show ?case using finish_consumes [OF refused.hyps(2)] by (auto split: if_splits)
qed auto

text \<open>Agreement: the end of a flow has its own start, earlier in the run.\<close>

lemma agreement:
  assumes "flow_run begin_op finish_op pending evs s" "evs = xs @ Ended f k r # ys"
  shows "(\<exists>b v. Began b k v \<in> set xs \<and> made b v \<and> fits f v r) \<and>
    length (filter (ends k) evs) \<le> length (filter (begins k) evs)"
proof
  show "\<exists>b v. Began b k v \<in> set xs \<and> made b v \<and> fits f v r" by (rule ended_began [OF assms])
  show "length (filter (ends k) evs) \<le> length (filter (begins k) evs)"
    using ends_at_most_begins [OF assms(1), of k] by linarith
qed

lemma used_state_is_refused: "finish_op f k s = (x, s') \<Longrightarrow> fst (finish_op g k s') = None"
  by (cases "finish_op g k s'"; cases "fst (finish_op g k s')")
    (use finish_consumes finish_fits in fastforce)+

end

end
