(* ===== verification/API_Auth.thy ===== *)
theory API_Auth
  imports Auth_Service API_Resources One_Time_Flow
begin

text \<open>
  Single sign-on and the account handlers: \<^verbatim>\<open>internal/auth/oidc.go\<close>, and \<^verbatim>\<open>auth.go\<close> and
  \<^verbatim>\<open>tenants.go\<close> of \<^verbatim>\<open>internal/gateway/api\<close>. The OAuth2 and OIDC packages are parameters: \<open>discover\<close>
  is the discovery of an issuer, \<open>redeem\<close> the exchange of a code for an ID token and \<open>verify\<close> its
  verification, which gives the subject and, if they decode, the email and the name.
\<close>

section \<open>OIDC providers\<close>

record OIDCProviderConfig =
  oi_Name :: string
  oi_ClientID :: string
  oi_ClientSecret :: string
  oi_Issuer :: string
  oi_RedirectURL :: string
  oi_Scopes :: "string list"

record 'ep oidcProvider =
  pv_name :: string
  pv_ClientID :: string
  pv_ClientSecret :: string
  pv_Endpoint :: 'ep
  pv_RedirectURL :: string
  pv_Scopes :: "string list"

text \<open>\<open>om_states\<close> holds the states of the flows under way, each with its provider.\<close>

record 'ep OIDCManager =
  om_providers :: "(string \<times> 'ep oidcProvider) list"
  om_states :: "string \<rightharpoonup> string"

fun add_providers ::
  "(string \<Rightarrow> 'ep result) \<Rightarrow> OIDCProviderConfig list \<Rightarrow> (string \<times> 'ep oidcProvider) list \<Rightarrow> (string \<times> 'ep oidcProvider) list result" where
  "add_providers discover [] ps = Inr ps"
| "add_providers discover (cfg # cfgs) ps =
     (case discover (oi_Issuer cfg) of
        Inl err \<Rightarrow> Inl (Wrap (''oidc: discover '' @ oi_Name cfg @ '' ('' @ oi_Issuer cfg @ '')'') err)
      | Inr ep \<Rightarrow>
          (let scopes = (if oi_Scopes cfg = [] then [''openid'', ''profile'', ''email''] else oi_Scopes cfg) in
           add_providers discover cfgs
             (filter (\<lambda>(n, _). n \<noteq> oi_Name cfg) ps @
              [(oi_Name cfg, \<lparr>pv_name = oi_Name cfg, pv_ClientID = oi_ClientID cfg, pv_ClientSecret = oi_ClientSecret cfg,
                 pv_Endpoint = ep, pv_RedirectURL = oi_RedirectURL cfg, pv_Scopes = scopes\<rparr>)])))"

definition NewOIDCManager :: "(string \<Rightarrow> 'ep result) \<Rightarrow> OIDCProviderConfig list \<Rightarrow> 'ep OIDCManager result" where
  "NewOIDCManager discover cfgs =
     map_sum id (\<lambda>ps. \<lparr>om_providers = ps, om_states = Map.empty\<rparr>) (add_providers discover cfgs [])"

definition HasProvider :: "'ep OIDCManager \<Rightarrow> string \<Rightarrow> bool" where
  "HasProvider m name \<longleftrightarrow> map_of (om_providers m) name \<noteq> None"

text \<open>The names in the order in which the loop over the Go map visits them\<close>

definition Providers :: "(string list \<Rightarrow> string list) \<Rightarrow> 'ep OIDCManager \<Rightarrow> string list" where
  "Providers visit m = visit (map fst (om_providers m))"

text \<open>\<open>hex.EncodeToString\<close>\<close>

definition hex_char :: "nat \<Rightarrow> char" where
  "hex_char n = (if n < 10 then char_of (48 + n) else char_of (87 + n))"

definition hex_encode :: "string \<Rightarrow> string" where
  "hex_encode s = concat (map (\<lambda>c. let n = of_char c in [hex_char (n div 16), hex_char (n mod 16)]) s)"

definition generateState :: "entropy \<Rightarrow> string result \<times> entropy" where
  "generateState src =
     (case src of
        [] \<Rightarrow> (Inl EOF, [])
      | None # src' \<Rightarrow> (Inl (Msg ''read''), src')
      | Some b # src' \<Rightarrow> (Inr (hex_encode (take 16 b)), src'))"

definition AuthURL ::
  "('ep oidcProvider \<Rightarrow> string \<Rightarrow> string) \<Rightarrow> string \<Rightarrow> 'ep OIDCManager \<times> entropy \<Rightarrow> (string \<times> string) result \<times> 'ep OIDCManager \<times> entropy" where
  "AuthURL authCodeURL provider ms =
     (case map_of (om_providers (fst ms)) provider of
        None \<Rightarrow> (Inl (Msg (''oidc: unknown provider '' @ quoted provider)), ms)
      | Some p \<Rightarrow>
          (case generateState (snd ms) of
             (Inl err, src) \<Rightarrow> (Inl err, fst ms, src)
           | (Inr state, src) \<Rightarrow>
               (Inr (authCodeURL p state, state), (fst ms)\<lparr>om_states := (om_states (fst ms))(state \<mapsto> provider)\<rparr>, src)))"

definition Exchange ::
  "('ep oidcProvider \<Rightarrow> string \<Rightarrow> string option result) \<Rightarrow> ('ep oidcProvider \<Rightarrow> string \<Rightarrow> (string \<times> (string \<times> string) result) result) \<Rightarrow>
   string \<Rightarrow> string \<Rightarrow> string \<Rightarrow> 'ep OIDCManager \<Rightarrow> OIDCClaims result \<times> 'ep OIDCManager" where
  "Exchange redeem verify provider code state m0 =
     (let m = m0\<lparr>om_states := (om_states m0)(state := None)\<rparr> in
      if om_states m0 state \<noteq> Some provider then (Inl (Msg ''oidc: invalid state parameter''), m)
      else
        (case map_of (om_providers m) provider of
           None \<Rightarrow> (Inl (Msg (''oidc: unknown provider '' @ quoted provider)), m)
         | Some p \<Rightarrow>
             (case redeem p code of
                Inl err \<Rightarrow> (Inl (Wrap (''oidc: token exchange for '' @ provider) err), m)
              | Inr None \<Rightarrow> (Inl (Msg (''oidc: no id_token in response from '' @ provider)), m)
              | Inr (Some rawIDToken) \<Rightarrow>
                  (case verify p rawIDToken of
                     Inl err \<Rightarrow> (Inl (Wrap (''oidc: verify id_token from '' @ provider) err), m)
                   | Inr (subject, claims) \<Rightarrow>
                       (case claims of
                          Inl err \<Rightarrow> (Inl (Wrap (''oidc: extract claims from '' @ provider) err), m)
                        | Inr (email, name) \<Rightarrow>
                            (Inr \<lparr>oc_Subject = subject, oc_Email = email, oc_Name = name, oc_Provider = provider\<rparr>, m))))))"

section \<open>Account handlers\<close>

definition tokenResponse :: "TokenPair \<Rightarrow> User \<Rightarrow> json" where
  "tokenResponse pair user = JObj
     [(''access_token'', JStr (tp_AccessToken pair)), (''refresh_token'', JStr (tp_RefreshToken pair)),
      (''expires_at'', JTime (tp_ExpiresAt pair)),
      (''user'', JObj [(''id'', JStr (us_ID user)), (''email'', JStr (us_Email user)), (''display_name'', JStr (us_DisplayName user))])]"

definition handleRegister ::
  "Service \<Rightarrow> string + RegisterInput \<Rightarrow> 'a auth_state \<Rightarrow> response \<times> 'a auth_state" where
  "handleRegister S body = decode_body body (\<lambda>inp s.
     (case Auth_Register S inp s of
        (Inl err, s') \<Rightarrow> (writeError 400 (err_text err), s')
      | (Inr (pair, user), s') \<Rightarrow> (writeJSON 201 (tokenResponse pair user), s')))"

definition handleLogin ::
  "Service \<Rightarrow> string + (string \<times> string) \<Rightarrow> 'a auth_state \<Rightarrow> response \<times> 'a auth_state" where
  "handleLogin S body = decode_body body (\<lambda>(email, password) s.
     (case Auth_Login S email password s of
        (Inl err, s') \<Rightarrow>
          if err = ErrInvalidCredentials then (writeError 401 (err_text err), s') else (writeError 500 ''internal error'', s')
      | (Inr (pair, user), s') \<Rightarrow> (writeJSON 200 (tokenResponse pair user), s')))"

definition handleRefresh :: "Service \<Rightarrow> string + string \<Rightarrow> 'a auth_state \<Rightarrow> response \<times> 'a auth_state" where
  "handleRefresh S body = decode_body body (\<lambda>refreshToken s.
     (case Service_RefreshToken S refreshToken s of
        (Inl err, s') \<Rightarrow> (writeError 401 ''invalid or expired refresh token'', s')
      | (Inr pair, s') \<Rightarrow>
          (writeJSON 200 (JObj [(''access_token'', JStr (tp_AccessToken pair)), (''refresh_token'', JStr (tp_RefreshToken pair)),
             (''expires_at'', JTime (tp_ExpiresAt pair))]), s')))"

definition handleLogout :: "string + string \<Rightarrow> 'a auth_state \<Rightarrow> response \<times> 'a auth_state" where
  "handleLogout body = decode_body body (\<lambda>refreshToken s.
     (writeJSON 200 (JObj [(''status'', JStr ''ok'')]), snd (Auth_Logout refreshToken s)))"

definition handleMe :: "Claims \<Rightarrow> 'a user_db_scheme \<Rightarrow> response \<times> 'a user_db_scheme" where
  "handleMe claims d =
     (case User_GetByID (cl_Subject claims) d of
        (Inl _, d') \<Rightarrow> (writeError 404 ''user not found'', d')
      | (Inr user, d') \<Rightarrow>
          (writeJSON 200 (JObj [(''id'', JStr (us_ID user)), (''email'', JStr (us_Email user)),
             (''display_name'', JStr (us_DisplayName user)), (''tenant_id'', JStr (cl_TenantID claims)),
             (''role'', JStr (cl_Role claims))]), d'))"

text \<open>A redirect, without the page for people that comes with it\<close>

definition http_Redirect :: "string \<Rightarrow> nat \<Rightarrow> response" where
  "http_Redirect url code = \<lparr>rs_status = code, rs_headers = [(''Location'', url)], rs_body = JNull\<rparr>"

definition handleOIDCProviders :: "(string list \<Rightarrow> string list) \<Rightarrow> 'ep OIDCManager option \<Rightarrow> response" where
  "handleOIDCProviders visit mgr =
     writeJSON 200 (JObj [(''providers'', JArr (case mgr of None \<Rightarrow> [] | Some m \<Rightarrow> map JStr (Providers visit m)))])"

definition handleOIDCRedirect ::
  "('ep oidcProvider \<Rightarrow> string \<Rightarrow> string) \<Rightarrow> string \<Rightarrow> 'ep OIDCManager option \<times> entropy \<Rightarrow> response \<times> 'ep OIDCManager option \<times> entropy" where
  "handleOIDCRedirect authCodeURL provider s =
     (case fst s of
        None \<Rightarrow> (writeError 404 ''unknown OIDC provider'', s)
      | Some m \<Rightarrow>
          if \<not> HasProvider m provider then (writeError 404 ''unknown OIDC provider'', s)
          else
            (case AuthURL authCodeURL provider (m, snd s) of
               (Inl _, m', src) \<Rightarrow> (writeError 500 ''failed to generate auth URL'', Some m', src)
             | (Inr (authURL, _), m', src) \<Rightarrow> (http_Redirect authURL 302, Some m', src)))"

definition handleOIDCCallback ::
  "Service \<Rightarrow> ('ep oidcProvider \<Rightarrow> string \<Rightarrow> string option result) \<Rightarrow>
   ('ep oidcProvider \<Rightarrow> string \<Rightarrow> (string \<times> (string \<times> string) result) result) \<Rightarrow> string \<Rightarrow> request \<Rightarrow>
   'ep OIDCManager option \<times> 'a auth_state \<Rightarrow> response \<times> 'ep OIDCManager option \<times> 'a auth_state" where
  "handleOIDCCallback S redeem verify provider rq s =
     (case fst s of
        None \<Rightarrow> (writeError 404 ''unknown OIDC provider'', s)
      | Some m \<Rightarrow>
          (let code = rq_query rq ''code''; state = rq_query rq ''state'' in
           if \<not> HasProvider m provider then (writeError 404 ''unknown OIDC provider'', s)
           else if code = '''' \<or> state = '''' then (writeError 400 ''missing code or state parameter'', s)
           else
             (case Exchange redeem verify provider code state m of
                (Inl err, m') \<Rightarrow> (writeError 401 (''OIDC authentication failed: '' @ err_text err), Some m', snd s)
              | (Inr claims, m') \<Rightarrow>
                  (case LoginOIDC S claims (snd s) of
                     (Inl err, s') \<Rightarrow> (writeError 500 (''login failed: '' @ err_text err), Some m', s')
                   | (Inr (pair, user), s') \<Rightarrow> (writeJSON 200 (tokenResponse pair user), Some m', s')))))"

section \<open>Tenants and invites\<close>

definition tenantJSON :: "Tenant \<Rightarrow> json" where
  "tenantJSON t = JObj
     [(''id'', JStr (tn_ID t)), (''name'', JStr (tn_Name t)), (''slug'', JStr (tn_Slug t)), (''plan'', JStr (tn_Plan t)),
      (''created_at'', JTime (tn_CreatedAt t))]"

record create_tenant =
  ct_Name :: string
  ct_Slug :: string
  ct_Plan :: string

definition handleCreateTenant ::
  "Claims \<Rightarrow> string + create_tenant \<Rightarrow> 'a user_db_scheme \<Rightarrow> response \<times> 'a user_db_scheme" where
  "handleCreateTenant claims body d =
     (if cl_Role claims \<noteq> ''owner'' \<and> cl_Role claims \<noteq> ''platform_admin''
      then (writeError 403 ''only owners can create tenants'', d)
      else decode_body body (\<lambda>inp d.
        (let slug = (if ct_Slug inp = '''' then slugify (ct_Name inp) else ct_Slug inp);
             plan = (if ct_Plan inp = '''' then ''free'' else ct_Plan inp) in
         (case Tenant_Create (ct_Name inp) slug plan d of
            (Inl err, d') \<Rightarrow>
              if isConflict (Some err) then (writeError 409 ''slug already taken'', d')
              else (writeError 500 ''create tenant failed'', d')
          | (Inr tenant, d') \<Rightarrow> (writeJSON 201 (tenantJSON tenant), d')))) d)"

definition handleListTenants :: "Claims \<Rightarrow> 'a user_db_scheme \<Rightarrow> response \<times> 'a user_db_scheme" where
  "handleListTenants claims d =
     (if cl_Role claims \<noteq> ''platform_admin'' then
        (case Tenant_GetByID (cl_TenantID claims) d of
           (Inl _, d') \<Rightarrow> (writeError 404 ''tenant not found'', d')
         | (Inr tenant, d') \<Rightarrow> (writeJSON 200 (JObj [(''tenants'', JArr [tenantJSON tenant])]), d'))
      else
        (case Tenant_List d of
           (Inl _, d') \<Rightarrow> (writeError 500 ''list failed'', d')
         | (Inr ts, d') \<Rightarrow> (writeJSON 200 (JObj [(''tenants'', JArr (map tenantJSON ts))]), d')))"

definition handleGetTenant :: "Claims \<Rightarrow> string \<Rightarrow> 'a user_db_scheme \<Rightarrow> response \<times> 'a user_db_scheme" where
  "handleGetTenant claims uid d =
     (if cl_Role claims \<noteq> ''platform_admin'' \<and> cl_TenantID claims \<noteq> uid then (writeError 403 ''forbidden'', d)
      else
        (case Tenant_GetByID uid d of
           (Inl _, d') \<Rightarrow> (writeError 404 ''tenant not found'', d')
         | (Inr tenant, d') \<Rightarrow> (writeJSON 200 (tenantJSON tenant), d')))"

definition handleUpdateTenant ::
  "Claims \<Rightarrow> string \<Rightarrow> string + (string \<times> string) \<Rightarrow> 'a user_db_scheme \<Rightarrow> response \<times> 'a user_db_scheme" where
  "handleUpdateTenant claims uid body d =
     (if cl_Role claims \<noteq> ''platform_admin'' \<and> (cl_TenantID claims \<noteq> uid \<or> cl_Role claims \<noteq> ''owner'')
      then (writeError 403 ''forbidden'', d)
      else decode_body body (\<lambda>(name, plan) d.
        (case Tenant_GetByID uid d of
           (Inl _, d1) \<Rightarrow> (writeError 404 ''tenant not found'', d1)
         | (Inr tenant, d1) \<Rightarrow>
             (case Tenant_Update (tenant\<lparr>tn_Name := (if name \<noteq> '''' then name else tn_Name tenant),
                                         tn_Plan := (if plan \<noteq> '''' then plan else tn_Plan tenant)\<rparr>) d1 of
                (Inl _, d2) \<Rightarrow> (writeError 500 ''update failed'', d2)
              | (Inr updated, d2) \<Rightarrow> (writeJSON 200 (tenantJSON updated), d2)))) d)"

definition handleDeleteTenant ::
  "(string \<Rightarrow> 'a user_db_scheme \<Rightarrow> 'a user_db_scheme) \<Rightarrow> Claims \<Rightarrow> string \<Rightarrow> 'a user_db_scheme \<Rightarrow> response \<times> 'a user_db_scheme" where
  "handleDeleteTenant further claims uid d =
     (if cl_Role claims \<noteq> ''platform_admin'' then (writeError 403 ''only platform admins can delete tenants'', d)
      else
        (case Tenant_Delete further uid d of
           (Inl _, d') \<Rightarrow> (writeError 500 ''delete failed'', d')
         | (Inr _, d') \<Rightarrow> (writeJSON 200 (JObj [(''status'', JStr ''deleted'')]), d')))"

definition handleListMembers :: "Claims \<Rightarrow> string \<Rightarrow> 'a user_db_scheme \<Rightarrow> response \<times> 'a user_db_scheme" where
  "handleListMembers claims uid d =
     (if cl_TenantID claims \<noteq> uid \<and> cl_Role claims \<noteq> ''platform_admin'' then (writeError 403 ''forbidden'', d)
      else
        (case User_ListByTenant uid d of
           (Inl _, d') \<Rightarrow> (writeError 500 ''list failed'', d')
         | (Inr us, d') \<Rightarrow>
             (writeJSON 200 (JObj [(''members'', JArr (map (\<lambda>u. JObj [(''id'', JStr (us_ID u)), (''email'', JStr (us_Email u)),
                (''display_name'', JStr (us_DisplayName u))]) us))]), d')))"

definition handleCreateInvite ::
  "Claims \<Rightarrow> string \<Rightarrow> string + (string \<times> string) \<Rightarrow> 'a auth_state \<Rightarrow> response \<times> 'a auth_state" where
  "handleCreateInvite claims tenantID body s =
     (if cl_TenantID claims \<noteq> tenantID then (writeError 403 ''forbidden'', s)
      else if cl_Role claims \<noteq> ''owner'' \<and> cl_Role claims \<noteq> ''admin'' then (writeError 403 ''only admins can send invites'', s)
      else decode_body body (\<lambda>(email, role0) s.
        (let role = (if role0 = '''' then ''member'' else role0) in
         (case GenerateToken 24 (snd s) of
            (Inl _, src) \<Rightarrow> (writeError 500 ''generate token failed'', fst s, src)
          | (Inr token, src) \<Rightarrow>
              (case on_db (Invite_Create tenantID email role token (7 * 24 * Hour) (Some (cl_Subject claims))) (fst s, src) of
                 (Inl _, s') \<Rightarrow> (writeError 500 ''create invite failed'', s')
               | (Inr invite, s') \<Rightarrow>
                   (writeJSON 201 (JObj [(''id'', JStr (iv_ID invite)), (''email'', JStr (iv_Email invite)),
                      (''role'', JStr (iv_Role invite)), (''token'', JStr (iv_Token invite)),
                      (''expires_at'', JTime (iv_ExpiresAt invite))]), s'))))) s)"

text \<open>The two ways to accept an invite: registering a new account, or being logged in.\<close>

record accept_account =
  ac_Email :: string
  ac_Password :: string
  ac_Name :: string

definition accept_as_new ::
  "Service \<Rightarrow> string \<Rightarrow> accept_account \<Rightarrow> 'a auth_state \<Rightarrow> response \<times> 'a auth_state" where
  "accept_as_new S token inp s =
     (case on_db (GetByToken token) s of
        (Inl _, s1) \<Rightarrow> (writeError 404 ''invite not found or expired'', s1)
      | (Inr None, s1) \<Rightarrow> (writeError 404 ''invite not found or expired'', s1)
      | (Inr (Some invite), s1) \<Rightarrow>
          (case Auth_Register S \<lparr>ri_Email = ac_Email inp, ri_Password = ac_Password inp, ri_DisplayName = '''', ri_OrgName = ''''\<rparr> s1 of
             (Inl err, s2) \<Rightarrow> (writeError 400 (err_text err), s2)
           | (Inr (pair, user), s2) \<Rightarrow>
               (case on_db (AddToTenant (iv_TenantID invite) (us_ID user) (iv_Role invite)) s2 of
                  (Inl _, s3) \<Rightarrow> (writeError 500 ''join tenant failed'', s3)
                | (Inr _, s3) \<Rightarrow> (writeJSON 200 (tokenResponse pair user), snd (on_db (Accept (iv_ID invite)) s3)))))"

definition accept_as_user :: "Claims \<Rightarrow> string \<Rightarrow> 'a auth_state \<Rightarrow> response \<times> 'a auth_state" where
  "accept_as_user claims token s =
     (case on_db (GetByToken token) s of
        (Inl _, s1) \<Rightarrow> (writeError 404 ''invite not found or expired'', s1)
      | (Inr None, s1) \<Rightarrow> (writeError 404 ''invite not found or expired'', s1)
      | (Inr (Some invite), s1) \<Rightarrow>
          (case on_db (AddToTenant (iv_TenantID invite) (cl_Subject claims) (iv_Role invite)) s1 of
             (Inl _, s2) \<Rightarrow> (writeError 500 ''join tenant failed'', s2)
           | (Inr _, s2) \<Rightarrow>
               (writeJSON 200 (JObj [(''status'', JStr ''accepted''), (''tenant_id'', JStr (iv_TenantID invite))]),
                snd (on_db (Accept (iv_ID invite)) s2))))"

definition handleAcceptInvite ::
  "Service \<Rightarrow> Claims option \<Rightarrow> string \<Rightarrow> string + accept_account \<Rightarrow> 'a auth_state \<Rightarrow> response \<times> 'a auth_state" where
  "handleAcceptInvite S claims token body =
     (case claims of
        None \<Rightarrow> decode_body body (accept_as_new S token)
      | Some c \<Rightarrow> accept_as_user c token)"

section \<open>Sign-on flows\<close>

type_synonym 'ep redeemer = "'ep oidcProvider \<Rightarrow> string \<Rightarrow> string option result"
type_synonym 'ep verifier = "'ep oidcProvider \<Rightarrow> string \<Rightarrow> (string \<times> (string \<times> string) result) result"

text \<open>\<open>AuthURL\<close> and \<open>Exchange\<close> as the start and the end of a flow\<close>

definition begin_sign_on ::
  "('ep oidcProvider \<Rightarrow> string \<Rightarrow> string) \<times> string \<Rightarrow> 'ep OIDCManager \<times> entropy \<Rightarrow> (string \<times> string) option \<times> 'ep OIDCManager \<times> entropy" where
  "begin_sign_on b ms =
     (case AuthURL (fst b) (snd b) ms of
        (Inl _, ms') \<Rightarrow> (None, ms')
      | (Inr (_, state), ms') \<Rightarrow> (Some (state, snd b), ms'))"

definition end_sign_on ::
  "'ep redeemer \<times> 'ep verifier \<times> string \<times> string \<Rightarrow> string \<Rightarrow> 'ep OIDCManager \<times> entropy \<Rightarrow> OIDCClaims option \<times> 'ep OIDCManager \<times> entropy" where
  "end_sign_on f state ms =
     (case f of (redeem, verify, provider, code) \<Rightarrow>
        (case Exchange redeem verify provider code state (fst ms) of
           (Inl _, m) \<Rightarrow> (None, m, snd ms)
         | (Inr claims, m) \<Rightarrow> (Some claims, m, snd ms)))"

definition vouched :: "'ep redeemer \<times> 'ep verifier \<times> string \<times> string \<Rightarrow> string \<Rightarrow> OIDCClaims \<Rightarrow> bool" where
  "vouched f provider claims \<longleftrightarrow>
     (case f of (redeem, verify, prov, code) \<Rightarrow>
        prov = provider \<and> oc_Provider claims = provider \<and>
        (\<exists>p raw. redeem p code = Inr (Some raw) \<and>
           verify p raw = Inr (oc_Subject claims, Inr (oc_Email claims, oc_Name claims))))"

lemma AuthURL_pending:
  "AuthURL authCodeURL provider ms = (Inr (url, state), ms') \<Longrightarrow>
     om_states (fst ms') = (om_states (fst ms))(state \<mapsto> provider)"
  "AuthURL authCodeURL provider ms = (Inl err, ms') \<Longrightarrow> om_states (fst ms') = om_states (fst ms)"
  by (auto simp: AuthURL_def split: option.splits prod.splits sum.splits)

lemma Exchange_consumes:
  "Exchange redeem verify provider code state m = (r, m') \<Longrightarrow> om_states m' = (om_states m)(state := None)"
  by (auto simp: Exchange_def Let_def split: if_splits option.splits sum.splits prod.splits)

lemma Exchange_vouched:
  "Exchange redeem verify provider code state m = (Inr claims, m') \<Longrightarrow>
     om_states m state = Some provider \<and> vouched (redeem, verify, provider, code) provider claims"
  by (fastforce simp: Exchange_def Let_def vouched_def split: if_splits option.splits sum.splits prod.splits)

interpretation sign_on: one_time_flow begin_sign_on end_sign_on "om_states \<circ> fst" "\<lambda>b v. v = snd b" vouched
proof
  fix b :: "('ep oidcProvider \<Rightarrow> string \<Rightarrow> string) \<times> string" and s s' :: "'ep OIDCManager \<times> entropy" and k v
  show "begin_sign_on b s = (Some (k, v), s') \<Longrightarrow> (om_states \<circ> fst) s' = ((om_states \<circ> fst) s)(k \<mapsto> v) \<and> v = snd b"
    by (auto simp: begin_sign_on_def AuthURL_pending split: prod.splits sum.splits)
  show "begin_sign_on b s = (None, s') \<Longrightarrow> (om_states \<circ> fst) s' = (om_states \<circ> fst) s"
    by (auto simp: begin_sign_on_def AuthURL_pending split: prod.splits sum.splits)
next
  fix f :: "'ep redeemer \<times> 'ep verifier \<times> string \<times> string" and s s' :: "'ep OIDCManager \<times> entropy" and k x r
  show "end_sign_on f k s = (x, s') \<Longrightarrow> (om_states \<circ> fst) s' = ((om_states \<circ> fst) s)(k := None)"
    by (auto simp: end_sign_on_def dest: Exchange_consumes split: prod.splits sum.splits)
  show "end_sign_on f k s = (Some r, s') \<Longrightarrow> \<exists>v. (om_states \<circ> fst) s k = Some v \<and> vouched f v r"
    by (auto simp: end_sign_on_def dest: Exchange_vouched split: prod.splits sum.splits)
qed

text \<open>C10: sign-on flows agree. In every run of the manager from an empty table of states, identity claims are
  accepted only in a callback whose state was handed out earlier in the run by a redirect to this very
  provider, and only from an ID token that the provider's verifier accepted; and no state is accepted
  more often than it was handed out, so a callback cannot be replayed.\<close>

theorem sign_on_flows_agree:
  assumes "flow_run begin_sign_on end_sign_on (om_states \<circ> fst) evs ms"
    and "evs = xs @ Ended (redeem, verify, provider, code) state claims # ys"
  shows "(\<exists>authCodeURL. Began (authCodeURL, provider) state provider \<in> set xs) \<and> oc_Provider claims = provider \<and>
    (\<exists>p raw. redeem p code = Inr (Some raw) \<and> verify p raw = Inr (oc_Subject claims, Inr (oc_Email claims, oc_Name claims))) \<and>
    length (filter (ends state) evs) \<le> length (filter (begins state) evs)"
  using sign_on.agreement [OF assms] by (auto simp: vouched_def)

section \<open>Tokens that are issued\<close>

lemma issuePair_succeeds:
  assumes "jwt_spec (sv_jwt S) signed_by" "\<And>k c. is_ok (jl_sign (sv_jwt S) k c)" "faults d = []"
    and "b64_encode (take refreshTokenLen b) \<notin> rf_TokenHash ` set (refresh_tokens d)" "u \<noteq> ''''" "t \<noteq> ''''"
  obtains pair d' where "issuePair S u t role (d, Some b # src) = (Inr pair, d', src)"
    "Validate (sv_jwt S) (sv_tm S) (clock d) (tp_AccessToken pair) =
       Inr (issued_claims (sv_jwt S) (clock d) u t role AccessTokenTTL)"
proof -
  let ?raw = "b64_encode (take refreshTokenLen b)"
  obtain tok where tok: "Generate (sv_jwt S) (sv_tm S) (clock d) u t role AccessTokenTTL = Inr tok"
    unfolding Generate_def using assms(2) by (metis is_ok_simps(2) sumE)
  have "\<not> list_ex (\<lambda>t. rf_TokenHash t = ?raw) (refresh_tokens d)"
    unfolding list_ex_iff using assms(4) by (metis imageI)
  then obtain row d2 where cr: "Refresh_Create u t ?raw RefreshTokenTTL d = (Inr row, d2)"
    using assms(5,6) by (simp add: Refresh_Create_def insert_unique_no_faults assms(3) scanRefreshToken_def)
  show thesis
    using that [of "\<lparr>tp_AccessToken = tok, tp_RefreshToken = ?raw, tp_ExpiresAt = clock d + AccessTokenTTL\<rparr>" d2]
      tok cr issued_token_valid [OF assms(1) tok] by (simp add: issuePair_def GenerateToken_def on_db_unfold)
qed

text \<open>An email address is enough to sign on as its user. When a provider vouches for an address, verified
  or not, that belongs to an existing user with a membership, a sign-on with a subject not seen before links the provider to
  that user and issues tokens for the user's account, whether or not the account has a password.\<close>

theorem oidc_email_opens_the_account:
  assumes jwt: "jwt_spec (sv_jwt S) signed_by" "\<And>k c. is_ok (jl_sign (sv_jwt S) k c)" and nf: "faults d = []"
    and none: "\<forall>u \<in> set (users d). \<not> (us_OIDCProvider u = Some (oc_Provider claims) \<and> us_OIDCSubject u = Some (oc_Subject claims))"
    and user: "select_one (\<lambda>u. us_Email u = oc_Email claims) (users d) = Some user" "oc_Email claims \<noteq> ''''" "us_ID user \<noteq> ''''"
    and member: "fst (GetPrimaryMembership (us_ID user) d) = Inr (t, role)" "t \<noteq> ''''"
    and fresh: "b64_encode (take refreshTokenLen b) \<notin> rf_TokenHash ` set (refresh_tokens d)"
  shows "\<exists>pair s' c. LoginOIDC S claims (d, Some b # src) =
      (Inr (pair, user\<lparr>us_OIDCProvider := Some (oc_Provider claims), us_OIDCSubject := Some (oc_Subject claims)\<rparr>), s') \<and>
    Validate (sv_jwt S) (sv_tm S) (clock d) (tp_AccessToken pair) = Inr c \<and> cl_Subject c = us_ID user"
proof -
  let ?user = "user\<lparr>us_OIDCProvider := Some (oc_Provider claims), us_OIDCSubject := Some (oc_Subject claims)\<rparr>"
  let ?d = "d\<lparr>users := update_where (\<lambda>u. us_ID u = us_ID user)
     (\<lambda>u. u\<lparr>us_OIDCProvider := Some (oc_Provider claims), us_OIDCSubject := Some (oc_Subject claims), us_UpdatedAt := clock d\<rparr>) (users d)\<rparr>"
  have "select_one (\<lambda>u. us_OIDCProvider u = Some (oc_Provider claims) \<and> us_OIDCSubject u = Some (oc_Subject claims)) (users d) = None"
    using none by (simp add: select_one_None)
  then have find: "FindOrCreateByOIDC (oc_Provider claims) (oc_Subject claims) (oc_Email claims) (oc_Name claims) d = (Inr (?user, False), ?d)"
    using nf user(1) by (simp add: FindOrCreateByOIDC_def GetByEmail_def scanUser_def link_stmt_def)
  have prim: "GetPrimaryMembership (us_ID user) ?d = (Inr (t, role), ?d)"
    using nf member(1) by (cases "order_by om_JoinedAt (filter (\<lambda>m. om_UserID m = us_ID user) (org_members d))")
      (auto simp: GetPrimaryMembership_def)
  obtain pair d' where pair: "issuePair S (us_ID user) t role (?d, Some b # src) = (Inr pair, d', src)"
    "Validate (sv_jwt S) (sv_tm S) (clock ?d) (tp_AccessToken pair) =
       Inr (issued_claims (sv_jwt S) (clock ?d) (us_ID user) t role AccessTokenTTL)"
    using issuePair_succeeds [OF jwt, of ?d b "us_ID user" t role src] nf fresh user(3) member(2) by auto
  have "LoginOIDC S claims (d, Some b # src) = (Inr (pair, ?user), d', src)"
    using find prim pair(1) user(2) by (simp add: LoginOIDC_def on_db_unfold primaryTenant_def)
  with pair(2) show ?thesis by (intro exI conjI) (auto simp: issued_claims_def)
qed

section \<open>Roles from invites\<close>

lemma order_by_map: "(\<And>x. k (f x) = k x) \<Longrightarrow> order_by k (map f xs) = map f (order_by k xs)"
proof -
  assume k: "\<And>x. k (f x) = k x"
  have ins: "insort_key k (f x) (map f ys) = map f (insort_key k x ys)" for x ys
    by (induction ys) (simp_all add: k)
  show ?thesis unfolding order_by_def by (induction xs) (simp_all add: ins)
qed

lemma primary_after_role_change:
  assumes "faults d = []" "faults d' = []" "fst (GetPrimaryMembership u d) = Inr (t, r0)" "t \<noteq> ''''"
    and members: "org_members d' = update_where (\<lambda>m. om_TenantID m = t \<and> om_UserID m = u) (\<lambda>m. m\<lparr>om_Role := r\<rparr>) (org_members d)"
  shows "fst (GetPrimaryMembership u d') = Inr (t, r)"
proof -
  let ?f = "\<lambda>m. if om_TenantID m = t \<and> om_UserID m = u then m\<lparr>om_Role := r\<rparr> else m"
  let ?ms = "filter (\<lambda>m. om_UserID m = u) (org_members d)"
  obtain m ms where m: "order_by om_JoinedAt ?ms = m # ms" "om_TenantID m = t"
    using assms(1,3,4) by (cases "order_by om_JoinedAt ?ms") (auto simp: GetPrimaryMembership_def)
  have "m \<in> set ?ms" using m(1) set_order_by [of om_JoinedAt ?ms] by (metis list.set_intros(1))
  then have u: "om_UserID m = u" by simp
  have keeps: "(\<lambda>m. om_UserID m = u) \<circ> ?f = (\<lambda>m. om_UserID m = u)" by (rule ext) simp
  have "filter (\<lambda>m. om_UserID m = u) (org_members d') = map ?f ?ms"
    unfolding members update_where_def filter_map keeps ..
  moreover have "order_by om_JoinedAt (map ?f ?ms) = map ?f (order_by om_JoinedAt ?ms)"
    by (rule order_by_map) simp
  ultimately have "order_by om_JoinedAt (filter (\<lambda>m. om_UserID m = u) (org_members d')) = ?f m # map ?f ms"
    using m(1) by simp
  then show ?thesis using assms(2) m(2) u by (simp add: GetPrimaryMembership_def)
qed

lemma accept_as_user_effect:
  assumes "faults d = []" "select_one (open_invite (clock d) token) (org_invites d) = Some i"
    and "list_ex (\<lambda>m. om_TenantID m = iv_TenantID i \<and> om_UserID m = cl_Subject c) (org_members d)"
    and "accept_as_user c token (d, src) = (resp, d', src')"
  shows "rs_status resp = 200 \<and> faults d' = [] \<and>
    org_members d' = update_where (\<lambda>m. om_TenantID m = iv_TenantID i \<and> om_UserID m = cl_Subject c)
      (\<lambda>m. m\<lparr>om_Role := iv_Role i\<rparr>) (org_members d)"
  using assms by (auto simp: accept_as_user_def on_db_unfold GetByToken_def scanInvite_def AddToTenant_def Accept_def)

lemma primary_is_member:
  assumes "faults d = []" "fst (GetPrimaryMembership u d) = Inr (t, r0)" "t \<noteq> ''''"
  shows "list_ex (\<lambda>m. om_TenantID m = t \<and> om_UserID m = u) (org_members d)"
proof -
  let ?ms = "filter (\<lambda>m. om_UserID m = u) (org_members d)"
  obtain m ms where m: "order_by om_JoinedAt ?ms = m # ms" "om_TenantID m = t"
    using assms by (cases "order_by om_JoinedAt ?ms") (auto simp: GetPrimaryMembership_def)
  have "m \<in> set ?ms" using m(1) set_order_by [of om_JoinedAt ?ms] by (metis list.set_intros(1))
  with m(2) show ?thesis by (auto simp: list_ex_iff)
qed

text \<open>C20: an owner can take any role, platform administrator included. When the database answers, an owner or
  admin of a tenant who invites to it with an arbitrary role and accepts the invite with the own session
  holds that role in the tenant afterwards, and the next login of the user reads it. Every registered user
  is the owner of an organisation.\<close>

theorem owners_can_take_any_role:
  assumes nf: "faults d = []" and c: "cl_TenantID c = t" "cl_Role c \<in> {''owner'', ''admin''}"
    and prim: "fst (GetPrimaryMembership (cl_Subject c) d) = Inr (t, r0)" "t \<noteq> ''''" and role: "role \<noteq> ''''"
    and fresh: "\<forall>i \<in> set (org_invites d). iv_Token i \<noteq> b64_encode (take 24 b)"
    and inv: "handleCreateInvite c t (Inr (email, role)) (d, Some b # src) = (resp, st)"
    and acc: "handleAcceptInvite S (Some c) (b64_encode (take 24 b)) body st = (resp', d', src')"
  shows "rs_status resp = 201 \<and> rs_status resp' = 200 \<and> fst (GetPrimaryMembership (cl_Subject c) d') = Inr (t, role)"
proof -
  let ?tok = "b64_encode (take 24 b)"
  let ?i = "\<lparr>iv_ID = uuids d (uuid_count d), iv_TenantID = t, iv_Email = email, iv_Role = role, iv_Token = ?tok,
           iv_ExpiresAt = clock d + 7 * 24 * Hour, iv_AcceptedAt = None, iv_InvitedBy = Some (cl_Subject c), iv_CreatedAt = clock d\<rparr>"
  let ?d1 = "d\<lparr>uuid_count := Suc (uuid_count d), org_invites := org_invites d @ [?i]\<rparr>"
  have "\<not> list_ex (\<lambda>i. iv_Token i = ?tok) (org_invites d)" using fresh by (auto simp: list_ex_iff)
  then have mk: "Invite_Create t email role ?tok (7 * 24 * Hour) (Some (cl_Subject c)) d = (Inr ?i, ?d1)"
    using nf by (simp add: Invite_Create_def insert_unique_no_faults scanInvite_def)
  have one: "rs_status resp = 201" "st = (?d1, src)"
    using inv c role mk by (auto simp: handleCreateInvite_def decode_body_def GenerateToken_def on_db_unfold Let_def)
  have sel: "select_one (open_invite (clock ?d1) ?tok) (org_invites ?d1) = Some ?i"
    by (rule select_one_append_new [where rows = "org_invites d"]) (use fresh in \<open>auto simp: open_invite_def\<close>)
  have mem: "list_ex (\<lambda>m. om_TenantID m = iv_TenantID ?i \<and> om_UserID m = cl_Subject c) (org_members ?d1)"
    using primary_is_member [OF nf prim] by simp
  have "accept_as_user c ?tok (?d1, src) = (resp', d', src')" using acc one(2) by (simp add: handleAcceptInvite_def)
  from accept_as_user_effect [OF _ sel mem this] nf
  have two: "rs_status resp' = 200" "faults d' = []"
    "org_members d' = update_where (\<lambda>m. om_TenantID m = t \<and> om_UserID m = cl_Subject c) (\<lambda>m. m\<lparr>om_Role := role\<rparr>) (org_members d)"
    by simp_all
  from primary_after_role_change [OF nf two(2) prim two(3)] show ?thesis using one(1) two(1) by simp
qed

section \<open>Ann and her organisation\<close>

definition one_provider :: "unit OIDCManager" where
  "one_provider = \<lparr>om_providers = [(''google'', \<lparr>pv_name = ''google'', pv_ClientID = ''id'', pv_ClientSecret = ''secret'',
     pv_Endpoint = (), pv_RedirectURL = ''http://x'', pv_Scopes = [''openid'']\<rparr>)], om_states = Map.empty\<rparr>"

definition ann_sign_on :: "(unit oidcProvider \<Rightarrow> string \<Rightarrow> string) \<times> string" where
  "ann_sign_on = (\<lambda>p state. state, ''google'')"

definition ann_callback :: "unit redeemer \<times> unit verifier \<times> string \<times> string" where
  "ann_callback = (\<lambda>_ _. Inr (Some ''token''), \<lambda>_ _. Inr (''sub'', Inr (''ann@x.io'', ''Ann'')), ''google'', ''code'')"

definition ann_identity :: OIDCClaims where
  "ann_identity = \<lparr>oc_Subject = ''sub'', oc_Email = ''ann@x.io'', oc_Name = ''Ann'', oc_Provider = ''google''\<rparr>"

lemma hex_of_a: "hex_encode ''a'' = ''61''"
  by code_simp

lemma ann_flow:
  "begin_sign_on ann_sign_on (one_provider, [Some ''a'']) =
     (Some (''61'', ''google''), one_provider\<lparr>om_states := [''61'' \<mapsto> ''google'']\<rparr>, [])"
  "end_sign_on ann_callback ''61'' (one_provider\<lparr>om_states := [''61'' \<mapsto> ''google'']\<rparr>, []) =
     (Some ann_identity, one_provider\<lparr>om_states := Map.empty\<rparr>, [])"
  by (simp_all add: begin_sign_on_def end_sign_on_def ann_sign_on_def ann_callback_def ann_identity_def AuthURL_def
      Exchange_def generateState_def one_provider_def hex_of_a)

theorem sign_on_flows_agree_witness:
  "\<exists>ms evs. flow_run begin_sign_on end_sign_on (om_states \<circ> fst) evs ms \<and> Ended ann_callback ''61'' ann_identity \<in> set evs \<and>
     (\<exists>authCodeURL. Began (authCodeURL, ''google'') ''61'' ''google'' \<in> set evs)"
proof -
  have "flow_run begin_sign_on end_sign_on (om_states \<circ> fst) [] (one_provider, [Some ''a''])"
    by (rule flow_run.no_flow) (simp add: one_provider_def)
  from flow_run.ended [where finish_op = end_sign_on, OF flow_run.began [where begin_op = begin_sign_on, OF this ann_flow(1)] ann_flow(2)]
  have run: "flow_run begin_sign_on end_sign_on (om_states \<circ> fst)
      ([Began ann_sign_on ''61'' ''google''] @ Ended ann_callback ''61'' ann_identity # []) (one_provider\<lparr>om_states := Map.empty\<rparr>, [])" by simp
  note ag = conjunct1 [OF sign_on_flows_agree [OF run [unfolded ann_callback_def] refl]]
  show ?thesis by (rule exI, rule exI, intro conjI, rule run, simp, use ag in simp)
qed

definition ann_user :: User where
  "ann_user = \<lparr>us_ID = ''u'', us_Email = ''ann@x.io'', us_DisplayName = ''Ann'', us_PasswordHash = Some ''pw'',
     us_OIDCSubject = None, us_OIDCProvider = None, us_CreatedAt = 0, us_UpdatedAt = 0\<rparr>"

definition ann_db :: user_db where
  "ann_db = no_users\<lparr>users := [ann_user],
     org_members := [\<lparr>om_TenantID = ''t'', om_UserID = ''u'', om_Role = ''owner'', om_JoinedAt = 0\<rparr>]\<rparr>"

definition ann_claims :: Claims where
  "ann_claims = issued_claims ref_jwt 4 ''u'' ''t'' ''owner'' 60"

theorem oidc_email_opens_the_account_witness:
  "\<exists>pair s' c. LoginOIDC ref_service \<lparr>oc_Subject = ''evil'', oc_Email = ''ann@x.io'', oc_Name = '''', oc_Provider = ''p''\<rparr> (ann_db, [Some ''r'']) =
      (Inr (pair, ann_user\<lparr>us_OIDCProvider := Some ''p'', us_OIDCSubject := Some ''evil''\<rparr>), s') \<and>
    Validate (sv_jwt ref_service) (sv_tm ref_service) 4 (tp_AccessToken pair) = Inr c \<and> cl_Subject c = ''u''"
proof -
  let ?c = "\<lparr>oc_Subject = ''evil'', oc_Email = ''ann@x.io'', oc_Name = '''', oc_Provider = ''p''\<rparr>"
  have "\<exists>pair s' c. LoginOIDC ref_service ?c (ann_db, Some ''r'' # []) =
      (Inr (pair, ann_user\<lparr>us_OIDCProvider := Some (oc_Provider ?c), us_OIDCSubject := Some (oc_Subject ?c)\<rparr>), s') \<and>
    Validate (sv_jwt ref_service) (sv_tm ref_service) (clock ann_db) (tp_AccessToken pair) = Inr c \<and> cl_Subject c = us_ID ann_user"
  proof (rule oidc_email_opens_the_account)
    show "jwt_spec (sv_jwt ref_service) ref_signed" by (simp add: ref_jwt_spec)
    show "fst (GetPrimaryMembership (us_ID ann_user) ann_db) = Inr (''t'', ''owner'')"
      by (simp add: ann_db_def no_users_def ann_user_def GetPrimaryMembership_def order_by_def)
  qed (simp_all add: ref_jwt_def ann_db_def no_users_def ann_user_def select_one_def)
  then show ?thesis by (simp add: ann_db_def no_users_def ann_user_def)
qed

lemma ann_facts:
  "faults ann_db = []" "cl_TenantID ann_claims = ''t''" "cl_Role ann_claims \<in> {''owner'', ''admin''}" "cl_Subject ann_claims = ''u''"
  "fst (GetPrimaryMembership (cl_Subject ann_claims) ann_db) = Inr (''t'', ''owner'')" "org_invites ann_db = []"
  by (simp_all add: ann_db_def no_users_def ann_claims_def issued_claims_def GetPrimaryMembership_def order_by_def)

theorem owners_can_take_any_role_witness:
  "\<exists>resp st resp' d' src'. handleCreateInvite ann_claims ''t'' (Inr (''ann@x.io'', ''platform_admin'')) (ann_db, [Some ''abc'']) = (resp, st) \<and>
     handleAcceptInvite ref_service (Some ann_claims) (b64_encode (take 24 ''abc'')) (Inl '''') st = (resp', d', src') \<and>
     rs_status resp' = 200 \<and> fst (GetPrimaryMembership ''u'' d') = Inr (''t'', ''platform_admin'')"
proof -
  obtain resp st where inv: "handleCreateInvite ann_claims ''t'' (Inr (''ann@x.io'', ''platform_admin'')) (ann_db, [Some ''abc'']) = (resp, st)"
    by (meson surj_pair)
  obtain resp' d' src' where acc:
    "handleAcceptInvite ref_service (Some ann_claims) (b64_encode (take 24 ''abc'')) (Inl '''') st = (resp', d', src')"
    by (metis prod.collapse)
  have "rs_status resp = 201 \<and> rs_status resp' = 200 \<and>
      fst (GetPrimaryMembership (cl_Subject ann_claims) d') = Inr (''t'', ''platform_admin'')"
    by (rule owners_can_take_any_role [OF ann_facts(1-3,5) _ _ _ inv acc]) (simp_all add: ann_facts(6))
  with inv acc show ?thesis unfolding ann_facts(4) by blast
qed

end
