(* ===== verification/OAuth.thy ===== *)
theory OAuth
  imports Attachments API_Auth
begin

text \<open>
  Connections to external services: the provider registry and the generic OAuth2 engine of
  \<^verbatim>\<open>internal/providers\<close> (\<^verbatim>\<open>types.go\<close>, \<^verbatim>\<open>registry.go\<close>, \<^verbatim>\<open>oauth2.go\<close>). The engine's requests to a token
  endpoint are recorded in the state; \<open>post\<close> says what comes of them.
\<close>

section \<open>The registry\<close>

record ProviderConfig =
  pc_ID :: string
  pc_DisplayName :: string
  pc_AuthURL :: string
  pc_TokenURL :: string
  pc_ClientID :: string
  pc_ClientSecret :: string
  pc_Scopes :: "string list option"
  pc_RedirectPath :: string
  pc_ExtraAuthParams :: "(string \<times> string) list"
  pc_ExtraHeaders :: "(string \<times> string) list"
  pc_IconURL :: string
  pc_Category :: string
  pc_SkillID :: string
  pc_Configured :: bool
  pc_CreatedAt :: time
  pc_UpdatedAt :: time

record oauth_db = attachment_db +
  oauth_providers :: "ProviderConfig list"

text \<open>\<open>INSERT ... ON CONFLICT (id) DO UPDATE\<close>: a nil slice of scopes is \<open>NULL\<close>, which the column refuses.\<close>

definition upsert_provider ::
  "ProviderConfig \<Rightarrow> (ProviderConfig \<Rightarrow> ProviderConfig) \<Rightarrow> 'a oauth_db_scheme \<Rightarrow> unit result \<times> 'a oauth_db_scheme" where
  "upsert_provider row upd = statement (\<lambda>d.
     if pc_Scopes row = None then (Inl not_null_violation, d)
     else if list_ex (\<lambda>p. pc_ID p = pc_ID row) (oauth_providers d)
     then (Inr (), d\<lparr>oauth_providers := update_where (\<lambda>p. pc_ID p = pc_ID row) (\<lambda>p. (upd p)\<lparr>pc_UpdatedAt := clock d\<rparr>) (oauth_providers d)\<rparr>)
     else (Inr (), d\<lparr>oauth_providers := oauth_providers d @ [row\<lparr>pc_CreatedAt := clock d, pc_UpdatedAt := clock d\<rparr>]\<rparr>))"

definition RegisterFromSkill :: "ProviderConfig \<Rightarrow> 'a oauth_db_scheme \<Rightarrow> unit result \<times> 'a oauth_db_scheme" where
  "RegisterFromSkill cfg =
     upsert_provider (cfg\<lparr>pc_ClientID := '''', pc_ClientSecret := '''', pc_Configured := False\<rparr>)
       (\<lambda>p. p\<lparr>pc_DisplayName := pc_DisplayName cfg, pc_AuthURL := pc_AuthURL cfg, pc_TokenURL := pc_TokenURL cfg,
              pc_Scopes := pc_Scopes cfg, pc_RedirectPath := pc_RedirectPath cfg,
              pc_ExtraAuthParams := pc_ExtraAuthParams cfg, pc_ExtraHeaders := pc_ExtraHeaders cfg,
              pc_IconURL := pc_IconURL cfg, pc_Category := pc_Category cfg, pc_SkillID := pc_SkillID cfg\<rparr>)"

definition SetCredentials :: "string \<Rightarrow> string \<Rightarrow> string \<Rightarrow> 'a oauth_db_scheme \<Rightarrow> unit result \<times> 'a oauth_db_scheme" where
  "SetCredentials uid clientID clientSecret d =
     and_then (wrapped ''set credentials'' (statement (\<lambda>d.
         (Inr (length (filter (\<lambda>p. pc_ID p = uid) (oauth_providers d))),
          d\<lparr>oauth_providers := update_where (\<lambda>p. pc_ID p = uid)
             (\<lambda>p. p\<lparr>pc_ClientID := clientID, pc_ClientSecret := clientSecret, pc_Configured := True, pc_UpdatedAt := clock d\<rparr>)
             (oauth_providers d)\<rparr>)) d))
       (\<lambda>affected d'. if affected = 0 then (Inl (Msg (''provider '' @ quoted uid @ '' not found'')), d') else (Inr (), d'))"

definition Registry_Register :: "ProviderConfig \<Rightarrow> 'a oauth_db_scheme \<Rightarrow> unit result \<times> 'a oauth_db_scheme" where
  "Registry_Register cfg =
     (let configured = (pc_ClientID cfg \<noteq> '''' \<and> pc_ClientSecret cfg \<noteq> '''') in
      upsert_provider (cfg\<lparr>pc_Configured := configured\<rparr>)
        (\<lambda>p. cfg\<lparr>pc_Configured := configured, pc_CreatedAt := pc_CreatedAt p\<rparr>))"

definition scanProvider :: "ProviderConfig result \<Rightarrow> ProviderConfig result" where
  "scanProvider row = wrap_err ''scan provider'' row"

definition Registry_Get :: "string \<Rightarrow> 'a oauth_db_scheme \<Rightarrow> ProviderConfig result \<times> 'a oauth_db_scheme" where
  "Registry_Get uid d =
     (case query (\<lambda>d. one_row (select_one (\<lambda>p. pc_ID p = uid) (oauth_providers d))) d of
        (row, d') \<Rightarrow> (scanProvider row, d'))"

text \<open>The lists leave out the secret.\<close>

definition Registry_List :: "'a oauth_db_scheme \<Rightarrow> ProviderConfig list result \<times> 'a oauth_db_scheme" where
  "Registry_List d = wrapped ''list providers''
     (query (\<lambda>d. Inr (map (\<lambda>p. p\<lparr>pc_ClientSecret := ''''\<rparr>) (order_by_text pc_DisplayName (oauth_providers d)))) d)"

definition ListConfigured :: "'a oauth_db_scheme \<Rightarrow> ProviderConfig list result \<times> 'a oauth_db_scheme" where
  "ListConfigured d = wrapped ''list configured providers''
     (query (\<lambda>d. Inr (map (\<lambda>p. p\<lparr>pc_ClientSecret := ''''\<rparr>)
        (order_by_text pc_DisplayName (filter pc_Configured (oauth_providers d))))) d)"

definition Registry_Delete :: "string \<Rightarrow> 'a oauth_db_scheme \<Rightarrow> unit result \<times> 'a oauth_db_scheme" where
  "Registry_Delete uid = exec (\<lambda>d. d\<lparr>oauth_providers := delete_where (\<lambda>p. pc_ID p = uid) (oauth_providers d)\<rparr>)"

section \<open>Pending flows\<close>

record AuthState =
  as_State :: string
  as_ProviderID :: string
  as_TenantID :: string
  as_UserID :: string
  as_Scopes :: "string list"
  as_CreatedAt :: time

definition State_Save :: "AuthState \<Rightarrow> (string \<rightharpoonup> AuthState) \<Rightarrow> (string \<rightharpoonup> AuthState)" where
  "State_Save st states = states(as_State st \<mapsto> st)"

definition State_Pop :: "time \<Rightarrow> string \<Rightarrow> (string \<rightharpoonup> AuthState) \<Rightarrow> AuthState option \<times> (string \<rightharpoonup> AuthState)" where
  "State_Pop now stateKey states =
     (case states stateKey of
        None \<Rightarrow> (None, states)
      | Some st \<Rightarrow>
          (if now - as_CreatedAt st > 10 * Minute then None else Some st, states(stateKey := None)))"

section \<open>The engine\<close>

text \<open>\<open>url.Values\<close>: \<open>Set\<close> replaces, \<open>Encode\<close> sorts by key and escapes.\<close>

definition is_unreserved :: "char \<Rightarrow> bool" where
  "is_unreserved c \<longleftrightarrow> is_digit c \<or> is_lower (lower_char c) \<or> c \<in> set ''-_.~''"

definition upper_hex :: "nat \<Rightarrow> char" where
  "upper_hex n = (if n < 10 then char_of (48 + n) else char_of (55 + n))"

definition escape_char :: "char \<Rightarrow> string" where
  "escape_char c =
     (if is_unreserved c then [c] else if c = CHR '' '' then ''+''
      else (let n = of_char c in [CHR ''%'', upper_hex (n div 16), upper_hex (n mod 16)]))"

definition query_escape :: "string \<Rightarrow> string" where
  "query_escape s = concat (map escape_char s)"

definition values_set :: "string \<Rightarrow> string \<Rightarrow> (string \<times> string) list \<Rightarrow> (string \<times> string) list" where
  "values_set k v vs = filter (\<lambda>(k', _). k' \<noteq> k) vs @ [(k, v)]"

definition values_encode :: "(string \<times> string) list \<Rightarrow> string" where
  "values_encode vs = join_with ''&'' (map (\<lambda>(k, v). query_escape k @ ''='' @ query_escape v) (order_by_text fst vs))"

record OAuthTokens =
  ot_AccessToken :: string
  ot_TokenType :: string
  ot_ExpiresIn :: int
  ot_RefreshToken :: string
  ot_Scope :: string

text \<open>A request to a token endpoint and what becomes of it: it cannot be built, it cannot be delivered, or
  there is an answer with a status, a body and what the body decodes to.\<close>

record http_post =
  hp_URL :: string
  hp_form :: "(string \<times> string) list"
  hp_headers :: "(string \<times> string) list"

datatype http_outcome = Unbuilt go_err | Undelivered go_err | Answered nat string "OAuthTokens result"

text \<open>The database, the random source, the pending flows and the requests sent so far\<close>

record 'd oauth =
  oa_db :: 'd
  oa_src :: entropy
  oa_states :: "string \<rightharpoonup> AuthState"
  oa_sent :: "http_post list"

definition NewEngine :: "string \<Rightarrow> string" where
  "NewEngine baseURL = trim_right {CHR ''/''} baseURL"

definition randomState :: "entropy \<Rightarrow> string result \<times> entropy" where
  "randomState src = generateState src"

definition truncate_text :: "string \<Rightarrow> nat \<Rightarrow> string" where
  "truncate_text s n = (if length s \<le> n then s else take n s @ ''...'')"

definition redirect_uri :: "string \<Rightarrow> ProviderConfig \<Rightarrow> string \<Rightarrow> string" where
  "redirect_uri baseURL cfg providerID =
     baseURL @ (if pc_RedirectPath cfg = '''' then ''/v1/connect/'' @ providerID @ ''/callback'' else pc_RedirectPath cfg)"

definition merged_scopes :: "ProviderConfig \<Rightarrow> string list \<Rightarrow> string list" where
  "merged_scopes cfg extraScopes =
     scope_list (pc_Scopes cfg) @ filter (\<lambda>s. s \<notin> set (scope_list (pc_Scopes cfg))) extraScopes"

definition auth_url :: "string \<Rightarrow> ProviderConfig \<Rightarrow> string \<Rightarrow> string \<Rightarrow> string list \<Rightarrow> string" where
  "auth_url baseURL cfg providerID state scopes =
     pc_AuthURL cfg @ ''?'' @
     values_encode (fold (\<lambda>(k, v). values_set k v) (pc_ExtraAuthParams cfg)
       [(''client_id'', pc_ClientID cfg), (''redirect_uri'', redirect_uri baseURL cfg providerID),
        (''response_type'', ''code''), (''state'', state), (''scope'', join_with '' '' scopes)])"

definition StartAuth ::
  "string \<Rightarrow> string \<Rightarrow> string \<Rightarrow> string \<Rightarrow> string list \<Rightarrow> ('a oauth_db_scheme) oauth \<Rightarrow> string result \<times> ('a oauth_db_scheme) oauth" where
  "StartAuth baseURL providerID tenantID userID extraScopes s =
     (case Registry_Get providerID (oa_db s) of
        (Inl err, d) \<Rightarrow> (Inl (Wrap (''provider '' @ quoted providerID @ '' not found'') err), s\<lparr>oa_db := d\<rparr>)
      | (Inr cfg, d) \<Rightarrow>
          (case randomState (oa_src s) of
             (Inl err, src) \<Rightarrow> (Inl (Wrap ''generate state'' err), s\<lparr>oa_db := d, oa_src := src\<rparr>)
           | (Inr state, src) \<Rightarrow>
               (let scopes = merged_scopes cfg extraScopes in
                (Inr (auth_url baseURL cfg providerID state scopes),
                 s\<lparr>oa_db := d, oa_src := src,
                   oa_states := State_Save \<lparr>as_State = state, as_ProviderID = providerID, as_TenantID = tenantID,
                     as_UserID = userID, as_Scopes = scopes, as_CreatedAt = clock d\<rparr> (oa_states s)\<rparr>))))"

text \<open>The form both token requests send: a header may be overridden by one of the provider's own, whose names
  are given in canonical form.\<close>

definition token_post :: "ProviderConfig \<Rightarrow> (string \<times> string) list \<Rightarrow> http_post" where
  "token_post cfg form =
     \<lparr>hp_URL = pc_TokenURL cfg, hp_form = form @ [(''client_id'', pc_ClientID cfg), (''client_secret'', pc_ClientSecret cfg)],
      hp_headers = fold (\<lambda>(k, v). values_set k v) (pc_ExtraHeaders cfg) [(''Content-Type'', ''application/x-www-form-urlencoded'')]\<rparr>"

definition token_reply :: "string \<Rightarrow> string \<Rightarrow> string \<Rightarrow> http_outcome \<Rightarrow> OAuthTokens result" where
  "token_reply undelivered failed unparsed outcome =
     (case outcome of
        Unbuilt err \<Rightarrow> Inl err
      | Undelivered err \<Rightarrow> Inl (Wrap undelivered err)
      | Answered status body tokens \<Rightarrow>
          if status \<noteq> 200 then Inl (Msg (failed @ '' (HTTP '' @ itoa status @ ''): '' @ truncate_text body 300))
          else wrap_err unparsed tokens)"

definition sent_after :: "http_post \<Rightarrow> http_outcome \<Rightarrow> http_post list" where
  "sent_after req outcome = (case outcome of Unbuilt _ \<Rightarrow> [] | _ \<Rightarrow> [req])"

definition exchangeCode ::
  "(http_post \<Rightarrow> http_outcome) \<Rightarrow> ProviderConfig \<Rightarrow> string \<Rightarrow> string \<Rightarrow> 'd oauth \<Rightarrow> OAuthTokens result \<times> 'd oauth" where
  "exchangeCode post cfg code redirectURI s =
     (let req = token_post cfg [(''grant_type'', ''authorization_code''), (''code'', code), (''redirect_uri'', redirectURI)] in
      (token_reply ''token request'' ''token exchange failed'' ''parse token response'' (post req),
       s\<lparr>oa_sent := oa_sent s @ sent_after req (post req)\<rparr>))"

record CallbackResult =
  cr_ProviderID :: string
  cr_TenantID :: string
  cr_UserID :: string
  cr_AccessToken :: string
  cr_RefreshToken :: string
  cr_ExpiresIn :: int
  cr_Scopes :: "string list"

definition HandleCallback ::
  "(http_post \<Rightarrow> http_outcome) \<Rightarrow> string \<Rightarrow> string \<Rightarrow> string \<Rightarrow> ('a oauth_db_scheme) oauth \<Rightarrow> CallbackResult result \<times> ('a oauth_db_scheme) oauth" where
  "HandleCallback post baseURL stateKey code s =
     (case State_Pop (clock (oa_db s)) stateKey (oa_states s) of
        (None, states) \<Rightarrow> (Inl (Msg ''invalid or expired state parameter''), s\<lparr>oa_states := states\<rparr>)
      | (Some st, states) \<Rightarrow>
          (case Registry_Get (as_ProviderID st) (oa_db s) of
             (Inl err, d) \<Rightarrow>
               (Inl (Wrap (''provider '' @ quoted (as_ProviderID st) @ '' not found'') err), s\<lparr>oa_states := states, oa_db := d\<rparr>)
           | (Inr cfg, d) \<Rightarrow>
               (case exchangeCode post cfg code (redirect_uri baseURL cfg (as_ProviderID st)) (s\<lparr>oa_states := states, oa_db := d\<rparr>) of
                  (Inl err, s') \<Rightarrow> (Inl (Wrap ''token exchange'' err), s')
                | (Inr tokens, s') \<Rightarrow>
                    (Inr \<lparr>cr_ProviderID = as_ProviderID st, cr_TenantID = as_TenantID st, cr_UserID = as_UserID st,
                          cr_AccessToken = ot_AccessToken tokens, cr_RefreshToken = ot_RefreshToken tokens,
                          cr_ExpiresIn = ot_ExpiresIn tokens,
                          cr_Scopes = (if ot_Scope tokens \<noteq> '''' then split_on CHR '' '' (ot_Scope tokens) else as_Scopes st)\<rparr>, s'))))"

definition Engine_RefreshToken ::
  "(http_post \<Rightarrow> http_outcome) \<Rightarrow> string \<Rightarrow> string \<Rightarrow> ('a oauth_db_scheme) oauth \<Rightarrow> OAuthTokens result \<times> ('a oauth_db_scheme) oauth" where
  "Engine_RefreshToken post providerID refreshToken s =
     (case Registry_Get providerID (oa_db s) of
        (Inl err, d) \<Rightarrow> (Inl (Wrap (''provider '' @ quoted providerID @ '' not found'') err), s\<lparr>oa_db := d\<rparr>)
      | (Inr cfg, d) \<Rightarrow>
          (let req = token_post cfg [(''grant_type'', ''refresh_token''), (''refresh_token'', refreshToken)] in
           (token_reply ''refresh request'' ''refresh failed'' ''parse refresh response'' (post req),
            s\<lparr>oa_db := d, oa_sent := oa_sent s @ sent_after req (post req)\<rparr>)))"

section \<open>Connect flows\<close>

text \<open>\<open>StartAuth\<close> and \<open>HandleCallback\<close> as the start and the end of a flow; an accepted callback is recorded
  with its time.\<close>

definition begin_connect ::
  "string \<times> string \<times> string \<times> string \<times> string list \<Rightarrow> ('a oauth_db_scheme) oauth \<Rightarrow> (string \<times> AuthState) option \<times> ('a oauth_db_scheme) oauth" where
  "begin_connect b s =
     (case b of (baseURL, providerID, tenantID, userID, extraScopes) \<Rightarrow>
        (case StartAuth baseURL providerID tenantID userID extraScopes s of
           (Inl _, s') \<Rightarrow> (None, s')
         | (Inr _, s') \<Rightarrow>
             (case randomState (oa_src s) of
                (Inl _, _) \<Rightarrow> (None, s')
              | (Inr state, _) \<Rightarrow> (map_option (Pair state) (oa_states s' state), s'))))"

definition end_connect ::
  "(http_post \<Rightarrow> http_outcome) \<times> string \<times> string \<Rightarrow> string \<Rightarrow> ('a oauth_db_scheme) oauth \<Rightarrow>
   (time \<times> CallbackResult) option \<times> ('a oauth_db_scheme) oauth" where
  "end_connect f state s =
     (case f of (post, baseURL, code) \<Rightarrow>
        (case HandleCallback post baseURL state code s of
           (Inl _, s') \<Rightarrow> (None, s')
         | (Inr res, s') \<Rightarrow> (Some (clock (oa_db s), res), s')))"

definition begun_by :: "string \<times> string \<times> string \<times> string \<times> string list \<Rightarrow> AuthState \<Rightarrow> bool" where
  "begun_by b st \<longleftrightarrow>
     (case b of (baseURL, providerID, tenantID, userID, extraScopes) \<Rightarrow>
        as_ProviderID st = providerID \<and> as_TenantID st = tenantID \<and> as_UserID st = userID)"

definition completes :: "AuthState \<Rightarrow> time \<times> CallbackResult \<Rightarrow> bool" where
  "completes st r \<longleftrightarrow>
     (case r of (now, res) \<Rightarrow>
        now - as_CreatedAt st \<le> 10 * Minute \<and> cr_ProviderID res = as_ProviderID st \<and>
        cr_TenantID res = as_TenantID st \<and> cr_UserID res = as_UserID st)"

lemma StartAuth_pending:
  "StartAuth baseURL providerID tenantID userID extraScopes s = (Inr url, s') \<Longrightarrow>
     \<exists>state src st. randomState (oa_src s) = (Inr state, src) \<and> oa_states s' = (oa_states s)(state \<mapsto> st) \<and>
       as_ProviderID st = providerID \<and> as_TenantID st = tenantID \<and> as_UserID st = userID"
  "StartAuth baseURL providerID tenantID userID extraScopes s = (Inl err, s') \<Longrightarrow> oa_states s' = oa_states s"
  by (auto simp: StartAuth_def State_Save_def Let_def split: prod.splits sum.splits)

lemma exchangeCode_states: "exchangeCode post cfg code uri s = (r, s') \<Longrightarrow> oa_states s' = oa_states s"
  by (auto simp: exchangeCode_def Let_def)

lemma State_Pop_pending:
  "snd (State_Pop now state states) = states(state := None)"
  "fst (State_Pop now state states) = Some st \<Longrightarrow> states state = Some st \<and> now - as_CreatedAt st \<le> 10 * Minute"
  by (auto simp: State_Pop_def split: option.splits if_splits)

lemma HandleCallback_consumes:
  assumes "HandleCallback post baseURL state code s = (r, s')"
  shows "oa_states s' = (oa_states s)(state := None)"
proof -
  obtain found states where pop: "State_Pop (clock (oa_db s)) state (oa_states s) = (found, states)" by (meson surj_pair)
  then have "states = (oa_states s)(state := None)" using State_Pop_pending(1) [of _ state "oa_states s"] by (metis snd_conv)
  then show ?thesis using assms pop
    by (auto simp: HandleCallback_def dest: exchangeCode_states split: option.splits prod.splits sum.splits)
qed

lemma HandleCallback_completes:
  assumes "HandleCallback post baseURL state code s = (Inr res, s')"
  shows "\<exists>st. oa_states s state = Some st \<and> completes st (clock (oa_db s), res)"
proof -
  obtain found states where pop: "State_Pop (clock (oa_db s)) state (oa_states s) = (found, states)" by (meson surj_pair)
  with assms obtain st where st: "found = Some st" by (cases found) (auto simp: HandleCallback_def)
  then have "oa_states s state = Some st \<and> clock (oa_db s) - as_CreatedAt st \<le> 10 * Minute"
    using State_Pop_pending(2) [of _ state "oa_states s"] pop by (metis fst_conv)
  then show ?thesis using assms pop st
    by (auto simp: HandleCallback_def completes_def split: prod.splits sum.splits)
qed

interpretation connect: one_time_flow begin_connect end_connect oa_states begun_by "\<lambda>f. completes"
proof
  fix b :: "string \<times> string \<times> string \<times> string \<times> string list" and s s' :: "('a oauth_db_scheme) oauth" and k v
  show "begin_connect b s = (Some (k, v), s') \<Longrightarrow> oa_states s' = (oa_states s)(k \<mapsto> v) \<and> begun_by b v"
    by (auto simp: begin_connect_def begun_by_def dest!: StartAuth_pending(1) split: prod.splits sum.splits)
  show "begin_connect b s = (None, s') \<Longrightarrow> oa_states s' = oa_states s"
    by (auto simp: begin_connect_def dest!: StartAuth_pending split: prod.splits sum.splits)
next
  fix f :: "(http_post \<Rightarrow> http_outcome) \<times> string \<times> string" and s s' :: "('a oauth_db_scheme) oauth" and k x r
  show "end_connect f k s = (x, s') \<Longrightarrow> oa_states s' = (oa_states s)(k := None)"
    by (auto simp: end_connect_def dest: HandleCallback_consumes split: prod.splits sum.splits)
  show "end_connect f k s = (Some r, s') \<Longrightarrow> \<exists>v. oa_states s k = Some v \<and> completes v r"
    by (auto simp: end_connect_def dest: HandleCallback_completes split: prod.splits sum.splits)
qed


definition gmail :: ProviderConfig where
  "gmail = \<lparr>pc_ID = ''gmail'', pc_DisplayName = ''Gmail'', pc_AuthURL = ''https://a'', pc_TokenURL = ''https://t'', pc_ClientID = ''c'',
     pc_ClientSecret = ''s'', pc_Scopes = Some [''mail''], pc_RedirectPath = '''', pc_ExtraAuthParams = [], pc_ExtraHeaders = [],
     pc_IconURL = '''', pc_Category = '''', pc_SkillID = '''', pc_Configured = True, pc_CreatedAt = 0, pc_UpdatedAt = 0\<rparr>"

definition gmail_db :: oauth_db where
  "gmail_db = \<lparr>clock = 4, faults = [], uuids = (\<lambda>n. replicate (Suc n) CHR ''u''), uuid_count = 0,
     agent_profiles = [], agent_instances = [], tasks = [], conversations = [], messages = [],
     users = [], tenants = [], org_members = [], org_invites = [], refresh_tokens = [],
     user_credentials = [], credential_audit_log = [], skills = [], tenant_skills = [], user_skills = [],
     usage_events = [], tenant_quotas = [], memories = [], attachments = [], oauth_providers = [gmail]\<rparr>"

definition idle_engine :: "oauth_db oauth" where
  "idle_engine = \<lparr>oa_db = gmail_db, oa_src = [Some ''a''], oa_states = Map.empty, oa_sent = []\<rparr>"

definition gmail_pending :: AuthState where
  "gmail_pending = \<lparr>as_State = ''61'', as_ProviderID = ''gmail'', as_TenantID = ''t'', as_UserID = ''u'', as_Scopes = [''mail''], as_CreatedAt = 4\<rparr>"

definition gmail_start :: "string \<times> string \<times> string \<times> string \<times> string list" where
  "gmail_start = (''https://v'', ''gmail'', ''t'', ''u'', [])"

definition gmail_reply :: "http_post \<Rightarrow> http_outcome" where
  "gmail_reply req = Answered 200 '''' (Inr \<lparr>ot_AccessToken = ''at'', ot_TokenType = ''bearer'', ot_ExpiresIn = 0, ot_RefreshToken = '''', ot_Scope = ''''\<rparr>)"

definition gmail_result :: CallbackResult where
  "gmail_result = \<lparr>cr_ProviderID = ''gmail'', cr_TenantID = ''t'', cr_UserID = ''u'', cr_AccessToken = ''at'', cr_RefreshToken = '''',
     cr_ExpiresIn = 0, cr_Scopes = [''mail'']\<rparr>"

lemma find_gmail [simp]: "Registry_Get ''gmail'' gmail_db = (Inr gmail, gmail_db)"
  by (simp add: Registry_Get_def gmail_db_def gmail_def select_one_def scanProvider_def)

lemma gmail_facts [simp]: "clock gmail_db = 4" "faults gmail_db = []" "scope_list (pc_Scopes gmail) = [''mail'']"
  by (simp_all add: gmail_db_def gmail_def scope_list_def)

lemma gmail_begins:
  "begin_connect gmail_start idle_engine =
     (Some (''61'', gmail_pending), idle_engine\<lparr>oa_src := [], oa_states := [''61'' \<mapsto> gmail_pending]\<rparr>)"
  by (simp add: begin_connect_def gmail_start_def StartAuth_def idle_engine_def randomState_def generateState_def hex_of_a
      State_Save_def merged_scopes_def gmail_pending_def Let_def)

lemma gmail_ends:
  "\<exists>s'. end_connect (gmail_reply, ''https://v'', ''code'') ''61'' (idle_engine\<lparr>oa_src := [], oa_states := [''61'' \<mapsto> gmail_pending]\<rparr>) =
     (Some (4, gmail_result), s')"
  by (simp add: end_connect_def HandleCallback_def State_Pop_def idle_engine_def gmail_pending_def exchangeCode_def Let_def
      token_reply_def gmail_reply_def gmail_result_def)


end
