(* ===== verification/API_Connect.thy ===== *)
theory API_Connect
  imports OAuth Config
begin

text \<open>
  The handlers around connections and credentials: \<^verbatim>\<open>connect.go\<close> and \<^verbatim>\<open>credentials.go\<close> of
  \<^verbatim>\<open>internal/gateway/api\<close>. The engine or the broker may be absent: a handler takes the base URL of the engine
  and the cipher of the broker as options. Two handlers of connections use the broker without asking
  whether there is one and panic when there is none. Parsing an RFC 3339 time is an argument, and so is the page
  that ends a connect flow.
\<close>

section \<open>Connections\<close>

definition strs :: "string list \<Rightarrow> json" where
  "strs xs = JArr (map JStr xs)"

text \<open>A nil slice is encoded as \<open>null\<close>.\<close>

definition opt_strs :: "string list option \<Rightarrow> json" where
  "opt_strs xs = (case xs of None \<Rightarrow> JNull | Some l \<Rightarrow> strs l)"

definition engine_missing :: response where
  "engine_missing = writeError 503 ''OAuth engine not available''"

definition handleConnectStart ::
  "string option \<Rightarrow> Claims \<Rightarrow> string \<Rightarrow> request \<Rightarrow> ('a oauth_db_scheme) oauth \<Rightarrow> response \<times> ('a oauth_db_scheme) oauth" where
  "handleConnectStart engine claims providerID rq s =
     (case engine of
        None \<Rightarrow> (engine_missing, s)
      | Some baseURL \<Rightarrow>
          (case StartAuth baseURL providerID (cl_TenantID claims) (cl_Subject claims) [] s of
             (Inl err, s') \<Rightarrow> (writeError 400 (''provider '' @ quoted providerID @ '': '' @ err_text err), s')
           | (Inr authURL, s') \<Rightarrow>
               (if rq_query rq ''format'' = ''json'' then writeJSON 200 (JObj [(''auth_url'', JStr authURL)])
                else http_Redirect authURL 307, s')))"

text \<open>\<open>time.Duration(n) * time.Second\<close> is a 64-bit product.\<close>

definition expires_at :: "time \<Rightarrow> int \<Rightarrow> time option" where
  "expires_at now expiresIn = (if expiresIn > 0 then Some (now + wrap64 (expiresIn * Second)) else None)"

definition handleConnectCallback ::
  "(http_post \<Rightarrow> http_outcome) \<Rightarrow> aead option \<Rightarrow> (string \<Rightarrow> string) \<Rightarrow> string option \<Rightarrow> request \<Rightarrow>
   ('a oauth_db_scheme) oauth \<Rightarrow> response option \<times> ('a oauth_db_scheme) oauth" where
  "handleConnectCallback post broker page engine rq s =
     (case engine of
        None \<Rightarrow> (Some engine_missing, s)
      | Some baseURL \<Rightarrow>
          if rq_query rq ''error'' \<noteq> ''''
          then (Some (writeError 400 (''OAuth error: '' @ rq_query rq ''error'' @ [CHR '' '', CHR 0xE2, CHR 0x80, CHR 0x94, CHR '' ''] @
                  rq_query rq ''error_description'')), s)
          else if rq_query rq ''state'' = '''' \<or> rq_query rq ''code'' = ''''
          then (Some (writeError 400 ''missing state or code parameter''), s)
          else
            (case HandleCallback post baseURL (rq_query rq ''state'') (rq_query rq ''code'') s of
               (Inl err, s1) \<Rightarrow> (Some (writeError 400 (err_text err)), s1)
             | (Inr result, s1) \<Rightarrow>
                 (case broker of
                    None \<Rightarrow> (None, s1)
                  | Some A \<Rightarrow>
                      (case StoreCredential A
                          \<lparr>sr_TenantID = cr_TenantID result, sr_UserID = cr_UserID result, sr_Provider = cr_ProviderID result,
                           sr_Token = cr_AccessToken result, sr_RefreshToken = cr_RefreshToken result,
                           sr_Scopes = Some (cr_Scopes result), sr_TokenType = ''oauth2'',
                           sr_ExpiresAt = expires_at (clock (oa_db s1)) (cr_ExpiresIn result)\<rparr> (oa_db s1, oa_src s1) of
                         (Inl err, d, src) \<Rightarrow>
                           (Some (writeError 500 (''failed to store credential: '' @ err_text err)), s1\<lparr>oa_db := d, oa_src := src\<rparr>)
                       | (Inr _, d, src) \<Rightarrow>
                           (Some \<lparr>rs_status = 200, rs_headers = [(''Content-Type'', ''text/html'')], rs_body = JRaw (page (cr_ProviderID result))\<rparr>,
                            s1\<lparr>oa_db := d, oa_src := src\<rparr>)))))"

definition handleConnectList ::
  "aead option \<Rightarrow> string option \<Rightarrow> Claims \<Rightarrow> 'a oauth_db_scheme \<Rightarrow> response option \<times> 'a oauth_db_scheme" where
  "handleConnectList broker engine claims d =
     (if engine = None then (Some engine_missing, d)
      else
        (case ListConfigured d of
           (Inl err, d1) \<Rightarrow> (Some (writeError 500 (''list providers: '' @ err_text err)), d1)
         | (Inr cfgs, d1) \<Rightarrow>
             if broker = None then (None, d1)
             else
               (case ListProviders (cl_TenantID claims) (cl_Subject claims) d1 of
                  (Inl err, d2) \<Rightarrow> (Some (writeError 500 (''list connections: '' @ err_text err)), d2)
                | (Inr conns, d2) \<Rightarrow>
                    (let out = map (\<lambda>p. JObj [(''id'', JStr (pc_ID p)), (''display_name'', JStr (pc_DisplayName p)),
                          (''category'', JStr (pc_Category p)), (''icon_url'', JStr (pc_IconURL p)), (''scopes'', opt_strs (pc_Scopes p)),
                          (''connected'', JBool (pc_ID p \<in> set (map pi_Provider conns))),
                          (''connect_url'', JStr (''/v1/connect/'' @ pc_ID p))]) cfgs in
                     (Some (writeJSON 200 (JObj [(''providers'', if out = [] then JNull else JArr out)])), d2)))))"

definition isAdmin :: "Claims \<Rightarrow> bool" where
  "isAdmin claims \<longleftrightarrow> cl_Role claims = ''admin'' \<or> cl_Role claims = ''platform_admin'' \<or> cl_Role claims = ''owner''"

definition handleSetProviderCredentials ::
  "string option \<Rightarrow> Claims \<Rightarrow> string \<Rightarrow> string + (string \<times> string) \<Rightarrow> 'a oauth_db_scheme \<Rightarrow> response \<times> 'a oauth_db_scheme" where
  "handleSetProviderCredentials engine claims uid body d =
     (if engine = None then (engine_missing, d)
      else if \<not> isAdmin claims then (writeError 403 ''admin role required'', d)
      else decode_body body (\<lambda>(clientID, clientSecret) d.
        if clientID = '''' \<or> clientSecret = '''' then (writeError 400 ''client_id and client_secret are required'', d)
        else
          (case SetCredentials uid clientID clientSecret d of
             (Inl err, d') \<Rightarrow> (writeError 404 (err_text err), d')
           | (Inr _, d') \<Rightarrow> (writeJSON 200 (JObj [(''status'', JStr ''configured''), (''provider'', JStr uid)]), d'))) d)"

text \<open>The JSON tags of a \<open>ProviderConfig\<close>: the secret is never written, empty optional fields are left out.\<close>

definition opt_text :: "string \<Rightarrow> string \<Rightarrow> (string \<times> json) list" where
  "opt_text k v = (if v = '''' then [] else [(k, JStr v)])"

definition opt_map :: "string \<Rightarrow> (string \<times> string) list \<Rightarrow> (string \<times> json) list" where
  "opt_map k m = (if m = [] then [] else [(k, JObj (map (\<lambda>(a, b). (a, JStr b)) m))])"

definition providerJSON :: "ProviderConfig \<Rightarrow> json" where
  "providerJSON p = JObj
     ([(''id'', JStr (pc_ID p)), (''display_name'', JStr (pc_DisplayName p)), (''auth_url'', JStr (pc_AuthURL p)),
       (''token_url'', JStr (pc_TokenURL p)), (''client_id'', JStr (pc_ClientID p)), (''scopes'', opt_strs (pc_Scopes p)),
       (''redirect_path'', JStr (pc_RedirectPath p))] @
      opt_map ''extra_auth_params'' (pc_ExtraAuthParams p) @ opt_map ''extra_headers'' (pc_ExtraHeaders p) @
      opt_text ''icon_url'' (pc_IconURL p) @ opt_text ''category'' (pc_Category p) @ opt_text ''skill_id'' (pc_SkillID p) @
      [(''configured'', JBool (pc_Configured p)), (''created_at'', JTime (pc_CreatedAt p)), (''updated_at'', JTime (pc_UpdatedAt p))])"

definition handleListProviders :: "string option \<Rightarrow> Claims \<Rightarrow> 'a oauth_db_scheme \<Rightarrow> response \<times> 'a oauth_db_scheme" where
  "handleListProviders engine claims d =
     (if engine = None then (engine_missing, d)
      else if \<not> isAdmin claims then (writeError 403 ''admin role required'', d)
      else
        (case Registry_List d of
           (Inl err, d') \<Rightarrow> (writeError 500 (''list providers: '' @ err_text err), d')
         | (Inr cfgs, d') \<Rightarrow> (writeJSON 200 (JObj [(''providers'', JArr (map providerJSON cfgs))]), d')))"

definition handleDeleteProvider :: "string option \<Rightarrow> Claims \<Rightarrow> string \<Rightarrow> 'a oauth_db_scheme \<Rightarrow> response \<times> 'a oauth_db_scheme" where
  "handleDeleteProvider engine claims uid d =
     (if engine = None then (engine_missing, d)
      else if \<not> isAdmin claims then (writeError 403 ''admin role required'', d)
      else
        (case Registry_Delete uid d of
           (Inl _, d') \<Rightarrow> (writeError 404 ''provider not found'', d')
         | (Inr _, d') \<Rightarrow> (writeJSON 200 (JObj [(''status'', JStr ''deleted'')]), d')))"

section \<open>Credentials\<close>

definition broker_missing :: response where
  "broker_missing = writeError 503 ''credential broker not available''"

record store_credential =
  sc_Provider :: string
  sc_Token :: string
  sc_RefreshToken :: string
  sc_Scopes :: "string list option"
  sc_TokenType :: string
  sc_ExpiresAt :: "string option"

definition handleStoreCredential ::
  "(string \<Rightarrow> time option) \<Rightarrow> aead option \<Rightarrow> Claims \<Rightarrow> string + store_credential \<Rightarrow>
   'a cred_db_scheme \<times> entropy \<Rightarrow> response \<times> 'a cred_db_scheme \<times> entropy" where
  "handleStoreCredential parse_time broker claims body s =
     (case broker of
        None \<Rightarrow> (broker_missing, s)
      | Some A \<Rightarrow> decode_body body (\<lambda>inp s.
          if sc_Provider inp = '''' \<or> sc_Token inp = '''' then (writeError 400 ''provider and token are required'', s)
          else
            (case (case sc_ExpiresAt inp of None \<Rightarrow> Some None | Some t \<Rightarrow> map_option Some (parse_time t)) of
               None \<Rightarrow> (writeError 400 ''invalid expires_at: use RFC3339 format'', s)
             | Some expiresAt \<Rightarrow>
                 (case StoreCredential A
                     \<lparr>sr_TenantID = cl_TenantID claims, sr_UserID = cl_Subject claims, sr_Provider = sc_Provider inp,
                      sr_Token = sc_Token inp, sr_RefreshToken = sc_RefreshToken inp,
                      sr_Scopes = Some (scope_list (sc_Scopes inp)),
                      sr_TokenType = (if sc_TokenType inp = '''' then ''oauth2'' else sc_TokenType inp),
                      sr_ExpiresAt = expiresAt\<rparr> s of
                    (Inl err, s') \<Rightarrow> (writeError 500 (''store credential: '' @ err_text err), s')
                  | (Inr _, s') \<Rightarrow>
                      (writeJSON 201 (JObj [(''status'', JStr ''stored''), (''provider'', JStr (sc_Provider inp))]), s')))) s)"

definition providerInfoJSON :: "ProviderInfo \<Rightarrow> json" where
  "providerInfoJSON p = JObj
     ([(''provider'', JStr (pi_Provider p)), (''token_type'', JStr (pi_TokenType p)), (''scopes'', opt_strs (pi_Scopes p))] @
      opt_field ''expires_at'' JTime (pi_ExpiresAt p) @
      [(''created_at'', JTime (pi_CreatedAt p)), (''updated_at'', JTime (pi_UpdatedAt p))])"

definition handleListCredentials :: "aead option \<Rightarrow> Claims \<Rightarrow> 'a cred_db_scheme \<Rightarrow> response \<times> 'a cred_db_scheme" where
  "handleListCredentials broker claims d =
     (if broker = None then (broker_missing, d)
      else
        (case ListProviders (cl_TenantID claims) (cl_Subject claims) d of
           (Inl err, d') \<Rightarrow> (writeError 500 (''list credentials: '' @ err_text err), d')
         | (Inr ps, d') \<Rightarrow> (writeJSON 200 (JArr (map providerInfoJSON ps)), d')))"

definition handleDeleteCredential :: "aead option \<Rightarrow> Claims \<Rightarrow> string \<Rightarrow> 'a cred_db_scheme \<Rightarrow> response \<times> 'a cred_db_scheme" where
  "handleDeleteCredential broker claims provider d =
     (if broker = None then (broker_missing, d)
      else
        (case DeleteCredential (cl_TenantID claims) (cl_Subject claims) provider d of
           (Inl _, d') \<Rightarrow> (writeError 404 ''credential not found'', d')
         | (Inr _, d') \<Rightarrow> (writeJSON 200 (JObj [(''status'', JStr ''deleted'')]), d')))"

record issue_token =
  ik_Provider :: string
  ik_UserID :: string
  ik_Scopes :: "string list"
  ik_AgentInstanceID :: string
  ik_ConversationID :: string
  ik_SkillName :: string

definition handleIssueToken ::
  "aead option \<Rightarrow> Claims \<Rightarrow> string + issue_token \<Rightarrow> 'a cred_db_scheme \<Rightarrow> response \<times> 'a cred_db_scheme" where
  "handleIssueToken broker claims body d =
     (case broker of
        None \<Rightarrow> (broker_missing, d)
      | Some A \<Rightarrow> decode_body body (\<lambda>inp d.
          if ik_Provider inp = '''' then (writeError 400 ''provider is required'', d)
          else if ik_UserID inp = '''' then (writeError 400 ''user_id is required'', d)
          else
            (case IssueToken A
                \<lparr>tr_TenantID = cl_TenantID claims, tr_UserID = ik_UserID inp, tr_Provider = ik_Provider inp,
                 tr_Scopes = ik_Scopes inp, tr_AgentInstanceID = ik_AgentInstanceID inp,
                 tr_ConversationID = ik_ConversationID inp, tr_SkillName = ik_SkillName inp\<rparr> d of
               (Inl err, d') \<Rightarrow> (writeError 403 (err_text err), d')
             | (Inr resp, d') \<Rightarrow>
                 (writeJSON 200 (JObj [(''token'', JStr (to_Token resp)), (''expires_in'', JNum (of_int (to_ExpiresIn resp))),
                    (''scopes'', strs (to_Scopes resp))]), d'))) d)"

definition opt_list :: "string \<Rightarrow> string list \<Rightarrow> (string \<times> json) list" where
  "opt_list k xs = (if xs = [] then [] else [(k, strs xs)])"

definition auditJSON :: "CredentialAuditEntry \<Rightarrow> json" where
  "auditJSON e = JObj
     ([(''id'', JStr (ca_ID e)), (''tenant_id'', JStr (ca_TenantID e)), (''user_id'', JStr (ca_UserID e)),
       (''provider'', JStr (ca_Provider e))] @
      opt_text ''agent_instance_id'' (ca_AgentInstanceID e) @ opt_field ''conversation_id'' JStr (ca_ConversationID e) @
      opt_text ''skill_name'' (ca_SkillName e) @ [(''action'', JStr (ca_Action e))] @
      opt_list ''scopes_requested'' (ca_ScopesRequested e) @ opt_list ''scopes_granted'' (ca_ScopesGranted e) @
      opt_text ''ip_address'' (ca_IPAddress e) @ [(''created_at'', JTime (ca_CreatedAt e))])"

definition handleCredentialAudit :: "bool \<Rightarrow> Claims \<Rightarrow> 'a cred_db_scheme \<Rightarrow> response \<times> 'a cred_db_scheme" where
  "handleCredentialAudit configured claims d =
     (if \<not> configured then (broker_missing, d)
      else
        (case ListAuditLog (cl_TenantID claims) 100 d of
           (Inl err, d') \<Rightarrow> (writeError 500 (''audit log: '' @ err_text err), d')
         | (Inr entries, d') \<Rightarrow> (writeJSON 200 (JArr (map auditJSON entries)), d')))"

section \<open>From the callback to the agent\<close>

lemma expires_at_future: "n \<le> 9223372036 \<Longrightarrow> expires_at now n = Some t \<Longrightarrow> now \<le> t"
  by (auto simp: expires_at_def wrap64_def split: if_splits)

lemma HandleCallback_result:
  assumes "faults (oa_db s) = []" "\<And>req. post req = Answered 200 body (Inr tokens)"
    and "HandleCallback post baseURL state code s = (Inr res, s1)"
  shows "oa_db s1 = oa_db s \<and> oa_src s1 = oa_src s \<and> cr_AccessToken res = ot_AccessToken tokens \<and> cr_ExpiresIn res = ot_ExpiresIn tokens \<and>
    (\<exists>st. oa_states s state = Some st \<and> cr_TenantID res = as_TenantID st \<and> cr_UserID res = as_UserID st \<and> cr_ProviderID res = as_ProviderID st \<and>
       cr_Scopes res = (if ot_Scope tokens \<noteq> '''' then split_on CHR '' '' (ot_Scope tokens) else as_Scopes st))"
proof -
  obtain st where st: "oa_states s state = Some st" "completes st (clock (oa_db s), res)"
    using HandleCallback_completes [OF assms(3)] by blast
  then show ?thesis using assms
    by (auto simp: HandleCallback_def State_Pop_def completes_def Registry_Get_def exchangeCode_def token_reply_def Let_def
        split: option.splits prod.splits sum.splits if_splits)
qed

lemma callback_stores:
  assumes "handleConnectCallback post (Some A) page (Some baseURL) rq s = (Some resp, s')" "rs_status resp = 200"
  shows "\<exists>res s1. HandleCallback post baseURL (rq_query rq ''state'') (rq_query rq ''code'') s = (Inr res, s1) \<and>
    StoreCredential A
      \<lparr>sr_TenantID = cr_TenantID res, sr_UserID = cr_UserID res, sr_Provider = cr_ProviderID res,
       sr_Token = cr_AccessToken res, sr_RefreshToken = cr_RefreshToken res, sr_Scopes = Some (cr_Scopes res), sr_TokenType = ''oauth2'',
       sr_ExpiresAt = expires_at (clock (oa_db s1)) (cr_ExpiresIn res)\<rparr> (oa_db s1, oa_src s1) = (Inr (), oa_db s', oa_src s')"
  using assms by (auto simp: handleConnectCallback_def split: if_splits prod.splits sum.splits)

text \<open>C26: from the consent page to the agent. When a callback ends with the success page, an agent of the
  tenant that asks for a token of the user who started the flow, for the provider it was started for,
  is handed the access token that the provider's token endpoint returned, for five minutes. The scopes are those that the
  endpoint named, or those of the start if it named none; a request that names scopes gets the ones of them that are
  among these, and is refused if there are none. The database answers, and the life time that the endpoint states, in
  seconds, is at most 9223372036, so that it does not overflow a \<open>time.Duration\<close>.\<close>

theorem connected_tokens_are_issued:
  assumes "aead_spec A" "faults (oa_db s) = []" "oa_states s (rq_query rq ''state'') = Some st"
    and reply: "\<And>req. post req = Answered 200 body (Inr tokens)" "ot_ExpiresIn tokens \<le> 9223372036"
    and run: "handleConnectCallback post (Some A) page (Some baseURL) rq s = (Some resp, s')" "rs_status resp = 200"
    and treq: "(tr_TenantID treq, tr_UserID treq, tr_Provider treq) = (as_TenantID st, as_UserID st, as_ProviderID st)"
    and scopes: "scopes = (if ot_Scope tokens \<noteq> '''' then split_on CHR '' '' (ot_Scope tokens) else as_Scopes st)"
      "granted = (if tr_Scopes treq = [] then scopes else filter (\<lambda>s. s \<in> set scopes) (tr_Scopes treq))"
  shows "fst (IssueToken A treq (oa_db s')) =
    (if tr_Scopes treq \<noteq> [] \<and> granted = [] then Inl (Msg (''no matching scopes for provider '' @ quoted (as_ProviderID st)))
     else Inr \<lparr>to_Token = ot_AccessToken tokens, to_ExpiresIn = 300, to_Scopes = granted\<rparr>)"
proof -
  obtain res s1 where cb: "HandleCallback post baseURL (rq_query rq ''state'') (rq_query rq ''code'') s = (Inr res, s1)"
    and store: "StoreCredential A
      \<lparr>sr_TenantID = cr_TenantID res, sr_UserID = cr_UserID res, sr_Provider = cr_ProviderID res,
       sr_Token = cr_AccessToken res, sr_RefreshToken = cr_RefreshToken res, sr_Scopes = Some (cr_Scopes res), sr_TokenType = ''oauth2'',
       sr_ExpiresAt = expires_at (clock (oa_db s1)) (cr_ExpiresIn res)\<rparr> (oa_db s1, oa_src s1) = (Inr (), oa_db s', oa_src s')"
    using callback_stores [OF run] by blast
  note res = HandleCallback_result [OF assms(2) reply(1) cb]
  have nf: "faults (oa_db s1) = []" using res assms(2) by simp
  have res': "cr_TenantID res = as_TenantID st" "cr_UserID res = as_UserID st" "cr_ProviderID res = as_ProviderID st" "cr_Scopes res = scopes"
    "cr_AccessToken res = ot_AccessToken tokens" "cr_ExpiresIn res = ot_ExpiresIn tokens"
    using res assms(3) scopes(1) by auto
  have "\<forall>t. expires_at (clock (oa_db s1)) (cr_ExpiresIn res) = Some t \<longrightarrow> clock (oa_db s1) \<le> t"
    using reply(2) unfolding res'(6) by (auto dest: expires_at_future)
  then show ?thesis
    using stored_answers [OF assms(1) nf store, of scopes treq granted] res' treq scopes(2) by simp
qed

text \<open>C29: every member of a tenant can draw on the credentials of every other member. The user named in the
  body of a token request is not compared with the caller: after a user has stored a token, a request by
  any other member of the tenant that names this user returns the token.\<close>

theorem members_draw_on_each_others_credentials:
  assumes "aead_spec A" "faults d = []" "sc_ExpiresAt inp = None" "cl_Subject owner \<noteq> ''''"
    and store: "handleStoreCredential parse_time (Some A) owner (Inr inp) (d, src) = (resp, d', src')" "rs_status resp = 201"
    and other: "cl_TenantID other = cl_TenantID owner"
  shows "fst (handleIssueToken (Some A) other (Inr \<lparr>ik_Provider = sc_Provider inp, ik_UserID = cl_Subject owner, ik_Scopes = [],
      ik_AgentInstanceID = agent, ik_ConversationID = conv, ik_SkillName = skill\<rparr>) d') =
    writeJSON 200 (JObj [(''token'', JStr (sc_Token inp)), (''expires_in'', JNum 300), (''scopes'', strs (scope_list (sc_Scopes inp)))])"
proof -
  let ?req = "\<lparr>sr_TenantID = cl_TenantID owner, sr_UserID = cl_Subject owner, sr_Provider = sc_Provider inp, sr_Token = sc_Token inp,
     sr_RefreshToken = sc_RefreshToken inp, sr_Scopes = Some (scope_list (sc_Scopes inp)),
     sr_TokenType = (if sc_TokenType inp = '''' then ''oauth2'' else sc_TokenType inp), sr_ExpiresAt = None\<rparr>"
  let ?treq = "\<lparr>tr_TenantID = cl_TenantID other, tr_UserID = cl_Subject owner, tr_Provider = sc_Provider inp, tr_Scopes = [],
     tr_AgentInstanceID = agent, tr_ConversationID = conv, tr_SkillName = skill\<rparr>"
  have st: "StoreCredential A ?req (d, src) = (Inr (), d', src')" and p: "sc_Provider inp \<noteq> ''''"
    using store assms(3) by (auto simp: handleStoreCredential_def decode_body_def split: if_splits prod.splits sum.splits)
  have "fst (IssueToken A ?treq d') = Inr \<lparr>to_Token = sc_Token inp, to_ExpiresIn = 300, to_Scopes = scope_list (sc_Scopes inp)\<rparr>"
    using stored_is_issued [OF assms(1,2) st, of "scope_list (sc_Scopes inp)" ?treq] other by simp
  then show ?thesis using p assms(4)
    by (auto simp: handleIssueToken_def decode_body_def split: prod.splits sum.splits)
qed

section \<open>A connection to run\<close>

definition callback_rq :: request where
  "callback_rq = \<lparr>rq_method = ''GET'', rq_path = ''/v1/connect/gmail/callback'', rq_authorization = '''',
     rq_query = (\<lambda>k. if k = ''state'' then ''61'' else if k = ''code'' then ''code'' else ''''), rq_body = '''', rq_values = [], rq_claims = None\<rparr>"

definition waiting_engine :: "oauth_db oauth" where
  "waiting_engine = idle_engine\<lparr>oa_src := [Some ''no''], oa_states := [''61'' \<mapsto> gmail_pending]\<rparr>"

lemma waiting_facts: "oa_db waiting_engine = gmail_db" "oa_src waiting_engine = [Some ''no'']" "oa_states waiting_engine = [''61'' \<mapsto> gmail_pending]"
  "rq_query callback_rq ''state'' = ''61''" "rq_query callback_rq ''code'' = ''code''" "rq_query callback_rq ''error'' = ''''"
  by (simp_all add: waiting_engine_def idle_engine_def callback_rq_def)

lemma gmail_callback:
  "\<exists>s1. HandleCallback gmail_reply ''https://v'' ''61'' ''code'' waiting_engine = (Inr gmail_result, s1) \<and>
     oa_db s1 = gmail_db \<and> oa_src s1 = [Some ''no'']"
  by (simp add: HandleCallback_def State_Pop_def waiting_facts gmail_pending_def exchangeCode_def Let_def token_reply_def
      gmail_reply_def gmail_result_def)

lemma gmail_stored:
  "\<exists>d'. StoreCredential ref_aead
      \<lparr>sr_TenantID = ''t'', sr_UserID = ''u'', sr_Provider = ''gmail'', sr_Token = ''at'', sr_RefreshToken = '''',
       sr_Scopes = Some [''mail''], sr_TokenType = ''oauth2'', sr_ExpiresAt = None\<rparr> (gmail_db, [Some ''no'']) = (Inr (), d', [])"
  by (simp add: StoreCredential_def encrypt_optional_def encrypt_def ref_aead_def Cred_Store_def gmail_db_def
      select_one_def new_uuid_def Let_def)

lemma gmail_callback_stores:
  "\<exists>resp s'. handleConnectCallback gmail_reply (Some ref_aead) (\<lambda>_. '''') (Some ''https://v'') callback_rq waiting_engine = (Some resp, s') \<and>
     rs_status resp = 200"
proof -
  obtain s1 where s1: "HandleCallback gmail_reply ''https://v'' ''61'' ''code'' waiting_engine = (Inr gmail_result, s1)"
    "oa_db s1 = gmail_db" "oa_src s1 = [Some ''no'']" using gmail_callback by blast
  obtain d' where "StoreCredential ref_aead
      \<lparr>sr_TenantID = ''t'', sr_UserID = ''u'', sr_Provider = ''gmail'', sr_Token = ''at'', sr_RefreshToken = '''',
       sr_Scopes = Some [''mail''], sr_TokenType = ''oauth2'', sr_ExpiresAt = None\<rparr> (gmail_db, [Some ''no'']) = (Inr (), d', [])"
    using gmail_stored by blast
  then show ?thesis by (simp add: handleConnectCallback_def waiting_facts s1 gmail_result_def expires_at_def)
qed

definition gmail_request :: TokenRequest where
  "gmail_request = \<lparr>tr_TenantID = ''t'', tr_UserID = ''u'', tr_Provider = ''gmail'', tr_Scopes = [''drive'', ''mail''], tr_AgentInstanceID = '''',
     tr_ConversationID = '''', tr_SkillName = ''''\<rparr>"

theorem connected_tokens_are_issued_witness:
  "\<exists>resp s'. handleConnectCallback gmail_reply (Some ref_aead) (\<lambda>_. '''') (Some ''https://v'') callback_rq waiting_engine = (Some resp, s') \<and>
     fst (IssueToken ref_aead gmail_request (oa_db s')) = Inr \<lparr>to_Token = ''at'', to_ExpiresIn = 300, to_Scopes = [''mail'']\<rparr>"
proof -
  obtain resp s' where run: "handleConnectCallback gmail_reply (Some ref_aead) (\<lambda>_. '''') (Some ''https://v'') callback_rq waiting_engine = (Some resp, s')"
    "rs_status resp = 200" using gmail_callback_stores by blast
  have pend: "oa_states waiting_engine (rq_query callback_rq ''state'') = Some gmail_pending" by (simp add: waiting_facts)
  have nf: "faults (oa_db waiting_engine) = []" by (simp add: waiting_facts)
  have key: "(tr_TenantID gmail_request, tr_UserID gmail_request, tr_Provider gmail_request) =
      (as_TenantID gmail_pending, as_UserID gmail_pending, as_ProviderID gmail_pending)"
    by (simp_all add: gmail_request_def gmail_pending_def)
  have "fst (IssueToken ref_aead gmail_request (oa_db s')) = Inr \<lparr>to_Token = ''at'', to_ExpiresIn = 300, to_Scopes = [''mail'']\<rparr>"
    using connected_tokens_are_issued [OF ref_aead_spec nf pend gmail_reply_def _ run key refl refl]
    by (simp add: gmail_request_def gmail_pending_def)
  then show ?thesis using run(1) by auto
qed

definition member_claims :: "string \<Rightarrow> Claims" where
  "member_claims user = issued_claims ref_jwt 4 user ''t'' ''member'' 60"

definition gh_credential :: store_credential where
  "gh_credential = \<lparr>sc_Provider = ''github'', sc_Token = ''secret'', sc_RefreshToken = '''', sc_Scopes = Some [''repo''],
     sc_TokenType = ''pat'', sc_ExpiresAt = None\<rparr>"

lemma member_facts: "cl_TenantID (member_claims user) = ''t''" "cl_Subject (member_claims user) = user"
  by (simp_all add: member_claims_def issued_claims_def)

lemma gh_credential_stored:
  "\<exists>resp d' src'. handleStoreCredential (\<lambda>_. None) (Some ref_aead) (member_claims ''ann'') (Inr gh_credential) (gmail_db, [Some ''no'']) = (resp, d', src') \<and>
     rs_status resp = 201"
  by (simp add: handleStoreCredential_def decode_body_def gh_credential_def member_facts StoreCredential_def encrypt_optional_def encrypt_def
      ref_aead_def Cred_Store_def gmail_db_def select_one_def new_uuid_def Let_def scope_list_def)

theorem members_draw_on_each_others_credentials_witness:
  "\<exists>d'. fst (handleIssueToken (Some ref_aead) (member_claims ''bob'') (Inr \<lparr>ik_Provider = ''github'', ik_UserID = ''ann'', ik_Scopes = [],
      ik_AgentInstanceID = '''', ik_ConversationID = '''', ik_SkillName = ''''\<rparr>) (d' :: oauth_db)) =
    writeJSON 200 (JObj [(''token'', JStr ''secret''), (''expires_in'', JNum 300), (''scopes'', strs [''repo''])])"
proof -
  obtain resp d' src' where st: "handleStoreCredential (\<lambda>_. None) (Some ref_aead) (member_claims ''ann'') (Inr gh_credential) (gmail_db, [Some ''no'']) = (resp, d', src')"
    "rs_status resp = 201" using gh_credential_stored by blast
  from members_draw_on_each_others_credentials [OF ref_aead_spec gmail_facts(2) _ _ st, of "member_claims ''bob''" "''''" "''''" "''''"]
  show ?thesis by (simp add: member_facts gh_credential_def scope_list_def) blast
qed

end
