(* ===== verification/Claims.thy ===== *)
theory Claims
  imports Routing Agent_Repo
begin

text \<open>
  Claiming agent instances for conversations: \<^verbatim>\<open>internal/gateway/claim.go\<close>, the adapter around
  the agent repository in \<^verbatim>\<open>internal/gateway/server.go\<close>, and the heartbeat handler of
  \<^verbatim>\<open>internal/gateway/instance_syncer.go\<close>. The claim manager is written against two Go
  interfaces; they are records of functions here, and the contracts it relies on are the
  locales \<open>routing_table\<close> and \<open>instance_repo\<close>. The methods are also taken apart into threads whose
  steps interleave, one call of the routing table or of the repository each.
\<close>

section \<open>The interfaces\<close>

record 'rt RoutingTable =
  rtab_Get :: "string \<Rightarrow> 'rt \<Rightarrow> string \<times> 'rt"
  rtab_Set :: "string \<Rightarrow> string \<Rightarrow> duration \<Rightarrow> 'rt \<Rightarrow> 'rt"
  rtab_Delete :: "string \<Rightarrow> 'rt \<Rightarrow> 'rt"

record AgentInstanceInfo =
  aii_ID :: string
  aii_PodName :: string
  aii_ProfileID :: string
  aii_State :: string

record 'db AgentInstanceRepo =
  air_ClaimInstance :: "string \<Rightarrow> string \<Rightarrow> 'db \<Rightarrow> AgentInstanceInfo option result \<times> 'db"
  air_ReleaseInstance :: "string \<Rightarrow> 'db \<Rightarrow> unit result \<times> 'db"

record ClaimResult =
  cr_InstanceID :: string
  cr_PodName :: string

section \<open>The claim manager\<close>

definition EnsureInstance ::
  "'rt RoutingTable \<Rightarrow> 'db AgentInstanceRepo \<Rightarrow> string \<Rightarrow> string \<Rightarrow> string \<Rightarrow> 'rt \<times> 'db \<Rightarrow>
   ClaimResult option result \<times> 'rt \<times> 'db" where
  "EnsureInstance T R convID tenantID profileID s =
     (case s of (rt, d) \<Rightarrow>
        (case rtab_Get T convID rt of
           (uid, rt1) \<Rightarrow>
             if uid \<noteq> '''' then (Inr (Some \<lparr>cr_InstanceID = uid, cr_PodName = ''''\<rparr>), rt1, d)
             else
               (case air_ClaimInstance R tenantID profileID d of
                  (Inl err, d1) \<Rightarrow> (Inl (Wrap (''claim instance for conv '' @ convID) err), rt1, d1)
                | (Inr None, d1) \<Rightarrow> (Inr None, rt1, d1)
                | (Inr (Some inst), d1) \<Rightarrow>
                    (Inr (Some \<lparr>cr_InstanceID = aii_ID inst, cr_PodName = aii_PodName inst\<rparr>),
                     rtab_Set T convID (aii_ID inst) 0 rt1, d1))))"

definition Release ::
  "'rt RoutingTable \<Rightarrow> 'db AgentInstanceRepo \<Rightarrow> string \<Rightarrow> 'rt \<times> 'db \<Rightarrow> unit result \<times> 'rt \<times> 'db" where
  "Release T R convID s =
     (case s of (rt, d) \<Rightarrow>
        (case rtab_Get T convID rt of
           (instanceID, rt1) \<Rightarrow>
             if instanceID = '''' then (Inr (), rt1, d)
             else
               (case air_ReleaseInstance R instanceID d of
                  (r, d1) \<Rightarrow>
                    (wrap_err (''release instance '' @ instanceID @ '' for conv '' @ convID) r,
                     rtab_Delete T convID rt1, d1))))"

definition ActiveInstance :: "'rt RoutingTable \<Rightarrow> string \<Rightarrow> 'rt \<Rightarrow> string \<times> 'rt" where
  "ActiveInstance T convID rt = rtab_Get T convID rt"

definition SetActiveInstance :: "'rt RoutingTable \<Rightarrow> string \<Rightarrow> string \<Rightarrow> 'rt \<Rightarrow> 'rt" where
  "SetActiveInstance T convID instanceID rt = rtab_Set T convID instanceID 0 rt"

definition ClearActiveInstance :: "'rt RoutingTable \<Rightarrow> string \<Rightarrow> 'rt \<Rightarrow> 'rt" where
  "ClearActiveInstance T convID rt = rtab_Delete T convID rt"

section \<open>The adapter of the server\<close>

definition adapter_info :: "AgentInstance \<Rightarrow> AgentInstanceInfo" where
  "adapter_info inst =
     \<lparr>aii_ID = ai_ID inst,
      aii_PodName = (case ai_PodName inst of None \<Rightarrow> '''' | Some p \<Rightarrow> p),
      aii_ProfileID = (case ai_ProfileID inst of None \<Rightarrow> '''' | Some p \<Rightarrow> p),
      aii_State = ai_State inst\<rparr>"

definition adapter_ClaimInstance ::
  "string \<Rightarrow> string \<Rightarrow> 'a agent_db_scheme \<Rightarrow> AgentInstanceInfo option result \<times> 'a agent_db_scheme" where
  "adapter_ClaimInstance tenantID profileID d =
     (case ClaimInstance tenantID profileID d of
        (Inl err, d') \<Rightarrow> (Inl err, d')
      | (Inr None, d') \<Rightarrow> (Inr None, d')
      | (Inr (Some inst), d') \<Rightarrow> (Inr (Some (adapter_info inst)), d'))"

definition agentRepoAdapter :: "'a agent_db_scheme AgentInstanceRepo" where
  "agentRepoAdapter = \<lparr>air_ClaimInstance = adapter_ClaimInstance, air_ReleaseInstance = ReleaseInstance\<rparr>"

definition memory_table :: "MemoryRoutingTable RoutingTable" where
  "memory_table = \<lparr>rtab_Get = (\<lambda>c m. (Memory_Get c m, m)), rtab_Set = Memory_Set, rtab_Delete = Memory_Delete\<rparr>"

definition redis_table ::
  "(time \<Rightarrow> string \<Rightarrow> 'srv \<Rightarrow> string \<times> 'srv) \<Rightarrow> time \<Rightarrow> 'srv RedisRoutingTable RoutingTable" where
  "redis_table serve now =
     \<lparr>rtab_Get = Redis_Get serve now, rtab_Set = Redis_Set serve now, rtab_Delete = Redis_Delete serve now\<rparr>"

section \<open>Heartbeats\<close>

record heartbeatData =
  hb_AgentID :: string
  hb_InstanceID :: string
  hb_TenantID :: string
  hb_Profile :: string
  hb_ProfileType :: string
  hb_Status :: string

text \<open>The handler after both \<open>json.Unmarshal\<close> calls; \<open>None\<close> when one of them fails.\<close>

definition handleHeartbeat :: "heartbeatData option \<Rightarrow> 'a agent_db_scheme \<Rightarrow> 'a agent_db_scheme" where
  "handleHeartbeat msg d =
     (case msg of
        None \<Rightarrow> d
      | Some hb \<Rightarrow>
          if hb_InstanceID hb = '''' \<or> hb_TenantID hb = '''' then d
          else
            (case (if hb_Profile hb \<noteq> ''''
                   then (case GetProfileByName (hb_TenantID hb) (hb_Profile hb) d of
                           (Inr p, d1) \<Rightarrow> (Some (ap_ID p), d1)
                         | (Inl _, d1) \<Rightarrow> (None, d1))
                   else (None, d)) of
               (profileID, d1) \<Rightarrow>
                 snd (UpsertInstanceByPodName (hb_TenantID hb) profileID (hb_InstanceID hb)
                        ''default'' ''warm'' d1)))"

section \<open>What the claim manager relies on\<close>

text \<open>
  \<open>active d\<close> is the set of instances that are claimed. A claim that succeeds adds an instance that
  was not claimed; a release that succeeds removes it; an operation that reports no claimed
  instance leaves the set alone.
\<close>

locale instance_repo =
  fixes R :: "'db AgentInstanceRepo"
    and active :: "'db \<Rightarrow> string set"
    and dinv :: "'db \<Rightarrow> bool"
  assumes claim_some: "dinv d \<Longrightarrow> air_ClaimInstance R t p d = (Inr (Some inst), d') \<Longrightarrow>
      aii_ID inst \<notin> active d \<and> aii_ID inst \<noteq> '''' \<and> active d' = insert (aii_ID inst) (active d)"
    and claim_none: "dinv d \<Longrightarrow> air_ClaimInstance R t p d = (r, d') \<Longrightarrow> \<forall>inst. r \<noteq> Inr (Some inst) \<Longrightarrow>
      active d' = active d"
    and claim_dinv: "dinv d \<Longrightarrow> dinv (snd (air_ClaimInstance R t p d))"
    and release_ok: "dinv d \<Longrightarrow> air_ReleaseInstance R i d = (Inr (), d') \<Longrightarrow> active d' = active d - {i}"
    and release_err: "dinv d \<Longrightarrow> air_ReleaseInstance R i d = (Inl e, d') \<Longrightarrow> active d' = active d"
    and release_dinv: "dinv d \<Longrightarrow> dinv (snd (air_ReleaseInstance R i d))"

text \<open>Every routed instance is claimed, and no two conversations share one.\<close>

definition routes_ok :: "('k \<Rightarrow> string) \<Rightarrow> string set \<Rightarrow> bool" where
  "routes_ok v A \<longleftrightarrow> (\<forall>c. v c \<noteq> '''' \<longrightarrow> v c \<in> A) \<and> (\<forall>c c'. v c = v c' \<and> v c \<noteq> '''' \<longrightarrow> c = c')"

lemma routes_ok_claim: "routes_ok v A \<Longrightarrow> i \<notin> A \<Longrightarrow> routes_ok (v(c := i)) (insert i A)"
  unfolding routes_ok_def by (metis fun_upd_apply insert_iff)

lemma routes_ok_release: "routes_ok v A \<Longrightarrow> A - {v c} \<subseteq> B \<Longrightarrow> routes_ok (v(c := '''')) B"
  unfolding routes_ok_def by (metis Diff_iff fun_upd_apply singletonD subsetD)

lemma routes_ok_clear: "routes_ok v A \<Longrightarrow> routes_ok (v(c := '''')) A"
  by (erule routes_ok_release) blast

locale claim_backend =
  routing_table "rtab_Get T" "\<lambda>c i. rtab_Set T c i 0" "rtab_Delete T" view rinv + instance_repo R active dinv
  for T :: "'rt RoutingTable" and view :: "'rt \<Rightarrow> string \<Rightarrow> string" and rinv :: "'rt \<Rightarrow> bool"
    and R :: "'db AgentInstanceRepo" and active :: "'db \<Rightarrow> string set" and dinv :: "'db \<Rightarrow> bool"
begin

definition exclusive :: "'rt \<times> 'db \<Rightarrow> bool" where
  "exclusive s \<longleftrightarrow> rinv (fst s) \<and> dinv (snd s) \<and> routes_ok (view (fst s)) (active (snd s))"

lemma exclusiveD: "exclusive (rt, d) \<Longrightarrow> rinv rt" "exclusive (rt, d) \<Longrightarrow> dinv d"
  by (simp_all add: exclusive_def)

lemma get_facts:
  assumes "rinv rt" "rtab_Get T c rt = (uid, rt1)"
  shows "rinv rt1" "view rt1 = view rt" "uid = view rt c"
  using get_pure [of rt c] rinv_get [of rt c] get_view [of rt c] assms by simp_all

lemma exclusive_Ensure:
  assumes "exclusive s"
  shows "exclusive (snd (EnsureInstance T R c t p s))"
proof -
  obtain rt d where s: "s = (rt, d)" by (cases s)
  obtain uid rt1 where g: "rtab_Get T c rt = (uid, rt1)" by (cases "rtab_Get T c rt")
  have ex: "rinv rt" "dinv d" using assms s exclusiveD by auto
  note rt = ex(1) get_facts [OF ex(1) g]
  obtain r d1 where cl: "air_ClaimInstance R t p d = (r, d1)" by (cases "air_ClaimInstance R t p d")
  have d: "dinv d" "dinv d1" using ex cl claim_dinv [of d t p] by auto
  consider (hit) "uid \<noteq> ''''" | (claimed) inst where "uid = ''''" "r = Inr (Some inst)"
    | (none) "uid = ''''" "\<forall>inst. r \<noteq> Inr (Some inst)" by blast
  then show ?thesis
  proof cases
    case hit
    then show ?thesis using assms rt s g by (simp add: EnsureInstance_def exclusive_def)
  next
    case (claimed inst)
    then have "aii_ID inst \<notin> active d" "aii_ID inst \<noteq> ''''" "active d1 = insert (aii_ID inst) (active d)"
      using claim_some [OF d(1)] cl by auto
    moreover have "snd (EnsureInstance T R c t p s) = (rtab_Set T c (aii_ID inst) 0 rt1, d1)"
      using claimed s g cl by (simp add: EnsureInstance_def)
    ultimately show ?thesis
      using assms rt s d by (simp add: exclusive_def rinv_set set_view routes_ok_claim)
  next
    case none
    then have "active d1 = active d" using claim_none [OF d(1) cl] by blast
    moreover have "snd (EnsureInstance T R c t p s) = (rt1, d1)"
      using none s g cl by (cases r rule: sum.exhaust) (auto simp: EnsureInstance_def split: option.splits)
    ultimately show ?thesis using assms rt s d by (simp add: exclusive_def)
  qed
qed

lemma exclusive_Release:
  assumes "exclusive s"
  shows "exclusive (snd (Release T R c s))"
proof -
  obtain rt d where s: "s = (rt, d)" by (cases s)
  obtain uid rt1 where g: "rtab_Get T c rt = (uid, rt1)" by (cases "rtab_Get T c rt")
  have ex: "rinv rt" "dinv d" using assms s exclusiveD by auto
  note rt = ex(1) get_facts [OF ex(1) g]
  obtain r d1 where rel: "air_ReleaseInstance R uid d = (r, d1)" by (cases "air_ReleaseInstance R uid d")
  have d: "dinv d" "dinv d1" using ex rel release_dinv [of d uid] by auto
  have act: "active d - {uid} \<subseteq> active d1"
    using release_ok [OF d(1)] release_err [OF d(1)] rel by (cases r) auto
  show ?thesis
  proof (cases "uid = ''''")
    case True
    then show ?thesis using assms rt s g by (simp add: Release_def exclusive_def)
  next
    case False
    then have "snd (Release T R c s) = (rtab_Delete T c rt1, d1)"
      using s g rel by (simp add: Release_def)
    then show ?thesis
      using assms rt s d act by (simp add: exclusive_def rinv_del del_view routes_ok_release)
  qed
qed

lemma exclusive_Clear: "exclusive (rt, d) \<Longrightarrow> exclusive (ClearActiveInstance T c rt, d)"
  by (simp add: exclusive_def ClearActiveInstance_def rinv_del del_view routes_ok_clear)

text \<open>A conversation that has an instance keeps it: the second request is answered from the table.\<close>

lemma Ensure_sticky:
  assumes "exclusive s" "EnsureInstance T R c t p s = (Inr (Some r), s')"
  shows "view (fst s') c = cr_InstanceID r \<and>
    EnsureInstance T R c t' p' s' = (Inr (Some \<lparr>cr_InstanceID = cr_InstanceID r, cr_PodName = ''''\<rparr>),
      snd (rtab_Get T c (fst s')), snd s')"
proof -
  obtain rt d where s: "s = (rt, d)" by (cases s)
  obtain uid rt1 where g: "rtab_Get T c rt = (uid, rt1)" by (cases "rtab_Get T c rt")
  have ex: "rinv rt" "dinv d" using assms(1) s exclusiveD by auto
  note rt = ex get_facts [OF ex(1) g]
  have "view (fst s') c = cr_InstanceID r \<and> cr_InstanceID r \<noteq> '''' \<and> rinv (fst s')"
  proof (cases "uid = ''''")
    case False
    then show ?thesis using assms(2) s g rt by (auto simp: EnsureInstance_def)
  next
    case True
    then obtain inst d1 where "air_ClaimInstance R t p d = (Inr (Some inst), d1)"
      "r = \<lparr>cr_InstanceID = aii_ID inst, cr_PodName = aii_PodName inst\<rparr>"
      "s' = (rtab_Set T c (aii_ID inst) 0 rt1, d1)"
      using assms(2) s g by (auto simp: EnsureInstance_def split: prod.splits sum.splits option.splits)
    then show ?thesis using claim_some [OF rt(2)] rt by (auto simp: set_view rinv_set)
  qed
  moreover obtain rt' d' where "s' = (rt', d')" by (cases s')
  ultimately show ?thesis
    using get_view [of "fst s'" c] by (auto simp: EnsureInstance_def split: prod.splits)
qed

end

section \<open>The code's own tables satisfy the contracts\<close>

definition active_ids :: "'a agent_db_scheme \<Rightarrow> string set" where
  "active_ids d = ai_ID ` {i \<in> set (agent_instances d). ai_State i = ''active''}"

definition agents_ok :: "'a agent_db_scheme \<Rightarrow> bool" where
  "agents_ok d \<longleftrightarrow> instances_inv d \<and> (\<forall>n. uuids d n \<noteq> '''')"

lemma active_ids_faults [simp]: "active_ids (d\<lparr>faults := fs\<rparr>) = active_ids d"
  by (simp add: active_ids_def)

lemma agents_ok_faults [simp]: "agents_ok (d\<lparr>faults := fs\<rparr>) = agents_ok d"
  by (simp add: agents_ok_def)

lemma agents_ok_id: "agents_ok d \<Longrightarrow> i \<in> set (agent_instances d) \<Longrightarrow> ai_ID i \<noteq> ''''"
  by (auto simp: agents_ok_def instances_inv_def dest!: subsetD)

lemma in_active_ids: "x \<in> active_ids d \<longleftrightarrow> (\<exists>j \<in> set (agent_instances d). ai_ID j = x \<and> ai_State j = ''active'')"
  by (auto simp: active_ids_def)

lemma in_active_ids_update:
  assumes "\<And>j. ai_ID (f j) = ai_ID j"
  shows "x \<in> active_ids (d\<lparr>agent_instances := update_where P f (agent_instances d)\<rparr>) \<longleftrightarrow>
    (\<exists>j \<in> set (agent_instances d). ai_ID j = x \<and>
       (P j \<and> ai_State (f j) = ''active'' \<or> \<not> P j \<and> ai_State j = ''active''))"
  by (auto simp: in_active_ids set_update_where assms bex_Un)

lemma active_ids_set_active:
  assumes "i \<in> set (agent_instances d)" "\<And>j. ai_ID (f j) = ai_ID j" "\<And>j. ai_State (f j) = ''active''"
  shows "active_ids (d\<lparr>agent_instances := update_where (\<lambda>j. ai_ID j = ai_ID i) f (agent_instances d)\<rparr>) =
    insert (ai_ID i) (active_ids d)"
proof (rule set_eqI)
  fix x
  show "x \<in> active_ids (d\<lparr>agent_instances := update_where (\<lambda>j. ai_ID j = ai_ID i) f (agent_instances d)\<rparr>) \<longleftrightarrow>
      x \<in> insert (ai_ID i) (active_ids d)"
    unfolding in_active_ids_update [of f, OF assms(2)] assms(3) using assms(1)
    by (cases "x = ai_ID i") (auto simp: in_active_ids)
qed

lemma warm_not_active:
  assumes "agents_ok d" "i \<in> set (agent_instances d)" "ai_State i \<noteq> ''active''"
  shows "ai_ID i \<notin> active_ids d"
  using assms distinct_keyD [of ai_ID "agent_instances d"]
  by (auto simp: active_ids_def agents_ok_def instances_inv_def)

lemma claim_uuids: "uuids (snd (ClaimInstance t p d)) = uuids d"
proof -
  have "uuids (snd (statement (claim_stmt t p) d)) = uuids d"
    by (rule statement_preserves [where P = "\<lambda>x. uuids x = uuids d"])
      (auto simp: claim_stmt_def split: list.splits)
  then show ?thesis by (auto simp: ClaimInstance_result split: prod.splits sum.splits)
qed

lemma claim_agents_ok: "agents_ok d \<Longrightarrow> agents_ok (snd (ClaimInstance t p d))"
  unfolding agents_ok_def claim_uuids
  using statement_instances_inv [of d "claim_stmt t p", OF _ claim_stmt_inv]
  by (auto simp: ClaimInstance_result split: prod.splits sum.splits)

lemma adapter_claim_some:
  assumes "agents_ok d" "adapter_ClaimInstance t p d = (Inr (Some inst), d')"
  shows "aii_ID inst \<notin> active_ids d \<and> aii_ID inst \<noteq> '''' \<and> active_ids d' = insert (aii_ID inst) (active_ids d)"
proof -
  obtain row where "ClaimInstance t p d = (Inr (Some row), d')" and inst: "inst = adapter_info row"
    using assms(2) by (auto simp: adapter_ClaimInstance_def split: prod.splits sum.splits option.splits)
  from claim_takes_one_warm_row [OF this(1)] obtain i where i: "i \<in> set (agent_instances d)"
    "warm_for t p i" "row = claimed_row (clock d) i"
    "agent_instances d' = update_where (\<lambda>j. ai_ID j = ai_ID i) (claimed_row (clock d)) (agent_instances d)"
    by blast
  then have "active_ids d' = insert (ai_ID i) (active_ids d)"
    using active_ids_set_active [OF i(1), of "claimed_row (clock d)"] by (simp add: active_ids_def claimed_row_def)
  moreover have "aii_ID inst = ai_ID i" by (simp add: inst i(3) adapter_info_def claimed_row_def)
  moreover have "ai_State i \<noteq> ''active''" using i(2) by (simp add: warm_for_def)
  ultimately show ?thesis
    using warm_not_active [OF assms(1) i(1)] agents_ok_id [OF assms(1) i(1)] by simp
qed

lemma adapter_claim_none:
  assumes "adapter_ClaimInstance t p d = (r, d')" "\<forall>inst. r \<noteq> Inr (Some inst)"
  shows "active_ids d' = active_ids d"
proof -
  obtain e where "statement (claim_stmt t p) d = (Inl e, d')"
    using assms by (auto simp: adapter_ClaimInstance_def ClaimInstance_result split: prod.splits sum.splits)
  then show ?thesis
    by (cases rule: statement_cases) (auto simp: claim_stmt_def split: list.splits)
qed

lemma release_stmt:
  assumes "ReleaseInstance i d = (r, d')"
  shows "(\<exists>fs. d' = d\<lparr>faults := fs\<rparr>) \<and> r \<noteq> Inr () \<or>
    (\<exists>fs. r = Inr () \<and> d' = d\<lparr>faults := fs, agent_instances := update_where (\<lambda>j. ai_ID j = i)
        (\<lambda>j. j\<lparr>ai_State := ''warm'', ai_ReleasedAt := Some (clock d), ai_ClaimedAt := None\<rparr>) (agent_instances d)\<rparr>)"
  using assms unfolding ReleaseInstance_def by (cases rule: statement_cases) auto

lemma release_agents_ok: "agents_ok d \<Longrightarrow> agents_ok (snd (ReleaseInstance i d))"
proof -
  assume d: "agents_ok d"
  have "instance_step\<^sup>*\<^sup>* d (snd (ReleaseInstance i d))" by (auto intro: is_release)
  then have "instances_inv (snd (ReleaseInstance i d))"
    using d instance_steps_inv by (auto simp: agents_ok_def)
  moreover have "uuids (snd (ReleaseInstance i d)) = uuids d"
    using release_stmt [of i d] by (cases "ReleaseInstance i d") auto
  ultimately show ?thesis using d by (simp add: agents_ok_def)
qed

lemma release_active:
  assumes "ReleaseInstance i d = (r, d')"
  shows "active_ids d' = (if r = Inr () then active_ids d - {i} else active_ids d)"
proof (cases "r = Inr ()")
  case True
  then obtain fs where "d' = d\<lparr>faults := fs, agent_instances := update_where (\<lambda>j. ai_ID j = i)
        (\<lambda>j. j\<lparr>ai_State := ''warm'', ai_ReleasedAt := Some (clock d), ai_ClaimedAt := None\<rparr>) (agent_instances d)\<rparr>"
    using release_stmt [OF assms] by auto
  then have "x \<in> active_ids d' \<longleftrightarrow> (\<exists>j \<in> set (agent_instances d). ai_ID j = x \<and> ai_ID j \<noteq> i \<and> ai_State j = ''active'')" for x
    using in_active_ids_update [of "\<lambda>j. j\<lparr>ai_State := ''warm'', ai_ReleasedAt := Some (clock d), ai_ClaimedAt := None\<rparr>"
        x "\<lambda>j. ai_ID j = i" "d\<lparr>faults := fs\<rparr>"]
    by simp
  then have "x \<in> active_ids d' \<longleftrightarrow> x \<in> active_ids d - {i}" for x
    by (auto simp: in_active_ids)
  with True show ?thesis by auto
qed (use release_stmt [OF assms] in auto)

interpretation agents: instance_repo agentRepoAdapter active_ids agents_ok
proof unfold_locales
  fix d d' :: "'a agent_db_scheme" and t p i :: string and r and inst and e
  show "agents_ok d \<Longrightarrow> air_ClaimInstance agentRepoAdapter t p d = (Inr (Some inst), d') \<Longrightarrow>
      aii_ID inst \<notin> active_ids d \<and> aii_ID inst \<noteq> '''' \<and> active_ids d' = insert (aii_ID inst) (active_ids d)"
    by (simp add: agentRepoAdapter_def adapter_claim_some)
  show "air_ClaimInstance agentRepoAdapter t p d = (r, d') \<Longrightarrow> \<forall>inst. r \<noteq> Inr (Some inst) \<Longrightarrow> active_ids d' = active_ids d"
    by (simp add: agentRepoAdapter_def adapter_claim_none)
  show "agents_ok d \<Longrightarrow> agents_ok (snd (air_ClaimInstance agentRepoAdapter t p d))"
    using claim_agents_ok [of d t p]
    by (auto simp: agentRepoAdapter_def adapter_ClaimInstance_def split: prod.splits sum.splits option.splits)
  show "air_ReleaseInstance agentRepoAdapter i d = (Inr (), d') \<Longrightarrow> active_ids d' = active_ids d - {i}"
    "air_ReleaseInstance agentRepoAdapter i d = (Inl e, d') \<Longrightarrow> active_ids d' = active_ids d"
    by (simp_all add: agentRepoAdapter_def release_active)
  show "agents_ok d \<Longrightarrow> agents_ok (snd (air_ReleaseInstance agentRepoAdapter i d))"
    by (simp add: agentRepoAdapter_def release_agents_ok)
qed

interpretation claims: claim_backend memory_table "\<lambda>m c. Memory_Get c m" "\<lambda>_. True" agentRepoAdapter active_ids agents_ok
  by unfold_locales (auto simp: memory_table_def Memory_Get_def Memory_Set_def Memory_Delete_def fun_eq_iff)

section \<open>Interleaved requests\<close>

text \<open>
  \<open>EnsureInstance\<close> and \<open>Release\<close> run in many goroutines (and gateways) at once; what is atomic is one
  operation on the routing table and one SQL statement. A thread is at one of these points;
  \<open>cm_step\<close> is what it does next.
\<close>

datatype claim_pc =
    E_get string string string            \<comment> \<open>\<open>EnsureInstance\<close> entered\<close>
  | E_claim string string string          \<comment> \<open>after the miss in the table\<close>
  | E_set string AgentInstanceInfo        \<comment> \<open>after the claim\<close>
  | E_done "ClaimResult option result"
  | R_get string                          \<comment> \<open>\<open>Release\<close> entered\<close>
  | R_del string string                   \<comment> \<open>with the instance read from the table\<close>
  | R_rel string string                   \<comment> \<open>after deleting the route\<close>
  | R_done "unit result"

fun cm_step :: "'rt RoutingTable \<Rightarrow> 'db AgentInstanceRepo \<Rightarrow> claim_pc \<Rightarrow> 'rt \<times> 'db \<Rightarrow> claim_pc \<times> 'rt \<times> 'db" where
  "cm_step T R (E_get c t p) (rt, d) =
     (case rtab_Get T c rt of
        (uid, rt1) \<Rightarrow>
          ((if uid \<noteq> '''' then E_done (Inr (Some \<lparr>cr_InstanceID = uid, cr_PodName = ''''\<rparr>)) else E_claim c t p), rt1, d))"
| "cm_step T R (E_claim c t p) (rt, d) =
     (case air_ClaimInstance R t p d of
        (Inl err, d1) \<Rightarrow> (E_done (Inl (Wrap (''claim instance for conv '' @ c) err)), rt, d1)
      | (Inr None, d1) \<Rightarrow> (E_done (Inr None), rt, d1)
      | (Inr (Some inst), d1) \<Rightarrow> (E_set c inst, rt, d1))"
| "cm_step T R (E_set c inst) (rt, d) =
     (E_done (Inr (Some \<lparr>cr_InstanceID = aii_ID inst, cr_PodName = aii_PodName inst\<rparr>)),
      rtab_Set T c (aii_ID inst) 0 rt, d)"
| "cm_step T R (R_get c) (rt, d) =
     (case rtab_Get T c rt of
        (uid, rt1) \<Rightarrow> ((if uid = '''' then R_done (Inr ()) else R_del c uid), rt1, d))"
| "cm_step T R (R_del c uid) (rt, d) = (R_rel c uid, rtab_Delete T c rt, d)"
| "cm_step T R (R_rel c uid) (rt, d) =
     (case air_ReleaseInstance R uid d of
        (r, d1) \<Rightarrow> (R_done (wrap_err (''release instance '' @ uid @ '' for conv '' @ c) r), rt, d1))"
| "cm_step T R (E_done r) (rt, d) = (E_done r, rt, d)"
| "cm_step T R (R_done r) (rt, d) = (R_done r, rt, d)"

definition run3 :: "'rt RoutingTable \<Rightarrow> 'db AgentInstanceRepo \<Rightarrow> claim_pc \<Rightarrow> 'rt \<times> 'db \<Rightarrow> claim_pc \<times> 'rt \<times> 'db" where
  "run3 T R pc s =
     (case cm_step T R pc s of (pc1, s1) \<Rightarrow>
      case cm_step T R pc1 s1 of (pc2, s2) \<Rightarrow> cm_step T R pc2 s2)"

text \<open>A thread that is not interrupted does what the whole function does.\<close>

lemma run3_Ensure:
  "run3 T R (E_get c t p) s = (case EnsureInstance T R c t p s of (r, s') \<Rightarrow> (E_done r, s'))"
  by (cases s) (simp add: run3_def EnsureInstance_def split: prod.splits sum.splits option.splits)

lemma run3_Release: "run3 T R (R_get c) s = (case Release T R c s of (r, s') \<Rightarrow> (R_done r, s'))"
  by (cases s) (simp add: run3_def Release_def split: prod.splits)

text \<open>
  What a thread keeps to itself: the instance it has claimed and not yet routed, or has unrouted and
  not yet given back; the instance it has read and is about to unroute; the conversation it
  is releasing.
\<close>

fun holds :: "claim_pc \<Rightarrow> string" where
  "holds (E_set c inst) = aii_ID inst"
| "holds (R_rel c u) = u"
| "holds _ = ''''"

fun deleting :: "claim_pc \<Rightarrow> string" where
  "deleting (R_del c u) = u"
| "deleting _ = ''''"

fun releasing :: "claim_pc \<Rightarrow> string option" where
  "releasing (R_get c) = Some c"
| "releasing (R_del c u) = Some c"
| "releasing (R_rel c u) = Some c"
| "releasing _ = None"

definition thread_at :: "claim_pc list \<Rightarrow> nat \<Rightarrow> claim_pc" where
  "thread_at pcs k = (if k < length pcs then pcs ! k else R_done (Inr ()))"

lemma thread_at_update: "k < length pcs \<Longrightarrow> thread_at (pcs[k := pc]) = (thread_at pcs)(k := pc)"
  by (auto simp: thread_at_def fun_eq_iff)

lemma thread_at_snoc: "thread_at (pcs @ [pc]) = (thread_at pcs)(length pcs := pc)"
  by (auto simp: thread_at_def fun_eq_iff nth_append)

text \<open>
  The invariant: routed instances are claimed and no two conversations share one; an instance that a
  thread holds is claimed and is neither routed nor held by another thread; an instance that
  a thread is about to unroute is claimed, at most routed to the conversation of that thread,
  and no other thread has it; one release at a time for a conversation.
\<close>

definition routed_ok :: "(string \<Rightarrow> string) \<Rightarrow> string set \<Rightarrow> bool" where
  "routed_ok v A \<longleftrightarrow> (\<forall>c. v c \<noteq> '''' \<longrightarrow> v c \<in> A \<and> (\<forall>c'. v c' = v c \<longrightarrow> c' = c))"

definition held_ok :: "(string \<Rightarrow> string) \<Rightarrow> string set \<Rightarrow> (nat \<Rightarrow> claim_pc) \<Rightarrow> bool" where
  "held_ok v A th \<longleftrightarrow>
     (\<forall>k. holds (th k) \<noteq> '''' \<longrightarrow> holds (th k) \<in> A \<and> (\<forall>c. v c \<noteq> holds (th k)) \<and> (\<forall>l. holds (th l) = holds (th k) \<longrightarrow> l = k))"

definition deleting_ok :: "(string \<Rightarrow> string) \<Rightarrow> string set \<Rightarrow> (nat \<Rightarrow> claim_pc) \<Rightarrow> bool" where
  "deleting_ok v A th \<longleftrightarrow>
     (\<forall>k. deleting (th k) \<noteq> '''' \<longrightarrow> deleting (th k) \<in> A \<and> (\<forall>c. v c = deleting (th k) \<longrightarrow> releasing (th k) = Some c) \<and>
        (\<forall>l. holds (th l) \<noteq> deleting (th k)) \<and> (\<forall>l. deleting (th l) = deleting (th k) \<longrightarrow> l = k))"

definition one_release :: "(nat \<Rightarrow> claim_pc) \<Rightarrow> bool" where
  "one_release th \<longleftrightarrow> (\<forall>k l c. releasing (th k) = Some c \<and> releasing (th l) = Some c \<longrightarrow> k = l)"

definition claims_ok :: "(string \<Rightarrow> string) \<Rightarrow> string set \<Rightarrow> (nat \<Rightarrow> claim_pc) \<Rightarrow> bool" where
  "claims_ok v A th \<longleftrightarrow> routed_ok v A \<and> held_ok v A th \<and> deleting_ok v A th \<and> one_release th"

lemma one_release_update:
  "one_release th \<Longrightarrow> releasing pc = None \<or> releasing pc = releasing (th k) \<Longrightarrow> one_release (th(k := pc))"
  by (auto simp: one_release_def split: if_splits) metis+

lemma one_release_call: "one_release th \<Longrightarrow> \<forall>l. releasing (th l) \<noteq> releasing pc \<Longrightarrow> one_release (th(k := pc))"
  by (auto simp: one_release_def split: if_splits)

lemma held_ok_drop: "held_ok v A th \<Longrightarrow> holds pc = '''' \<Longrightarrow> held_ok v A (th(k := pc))"
  by (auto simp: held_ok_def split: if_splits)

lemma deleting_ok_drop: "deleting_ok v A th \<Longrightarrow> holds pc = '''' \<Longrightarrow> deleting pc = '''' \<Longrightarrow> deleting_ok v A (th(k := pc))"
  by (auto simp: deleting_ok_def split: if_splits)

lemma claims_ok_idle:
  "claims_ok v A th \<Longrightarrow> holds pc = '''' \<Longrightarrow> deleting pc = '''' \<Longrightarrow> releasing pc = None \<or> releasing pc = releasing (th k) \<Longrightarrow>
   claims_ok v A (th(k := pc))"
  by (simp add: claims_ok_def held_ok_drop deleting_ok_drop one_release_update)

lemma claims_ok_claim:
  assumes "claims_ok v A th" "holds pc \<notin> A" "deleting pc = ''''" "releasing pc = None"
  shows "claims_ok v (insert (holds pc) A) (th(k := pc))"
proof -
  have v: "\<forall>c. v c = holds pc \<longrightarrow> holds pc = ''''" and h: "\<forall>l. holds (th l) = holds pc \<longrightarrow> holds pc = ''''"
    using assms(1,2) unfolding claims_ok_def routed_ok_def held_ok_def by metis+
  have "routed_ok v (insert (holds pc) A)" using assms(1) by (auto simp: claims_ok_def routed_ok_def)
  moreover have "held_ok v (insert (holds pc) A) (th(k := pc))"
    using assms(1) v h by (auto simp: claims_ok_def held_ok_def split: if_splits)
  moreover have "deleting_ok v (insert (holds pc) A) (th(k := pc))"
    using assms by (auto simp: claims_ok_def deleting_ok_def split: if_splits)
  ultimately show ?thesis using assms by (simp add: claims_ok_def one_release_update)
qed

lemma claims_ok_set:
  assumes "claims_ok v A th" "i \<in> A" "\<forall>c'. v c' \<noteq> i" "\<forall>k. holds (th k) \<noteq> i \<and> deleting (th k) \<noteq> i"
  shows "claims_ok (v(c := i)) A th"
  using assms unfolding claims_ok_def
  by (auto simp: routed_ok_def held_ok_def deleting_ok_def split: if_splits)

lemma claims_ok_clear: "claims_ok v A th \<Longrightarrow> claims_ok (v(c := '''')) A th"
  unfolding claims_ok_def by (auto simp: routed_ok_def held_ok_def deleting_ok_def split: if_splits)

lemma claims_ok_held:
  assumes "claims_ok v A th" "holds (th k) \<noteq> ''''"
  shows "holds (th k) \<in> A" "v c \<noteq> holds (th k)" "holds (th l) = holds (th k) \<Longrightarrow> l = k" "deleting (th l) \<noteq> holds (th k)"
proof -
  show "holds (th k) \<in> A" "v c \<noteq> holds (th k)" "holds (th l) = holds (th k) \<Longrightarrow> l = k"
    using assms by (simp_all add: claims_ok_def held_ok_def)
  show "deleting (th l) \<noteq> holds (th k)"
  proof
    assume eq: "deleting (th l) = holds (th k)"
    then have "deleting (th l) \<noteq> ''''" using assms(2) by simp
    then have "holds (th k) \<noteq> deleting (th l)" using assms(1) by (simp add: claims_ok_def deleting_ok_def)
    with eq show False by simp
  qed
qed

lemma claims_ok_route:
  assumes "claims_ok v A th" "holds (th k) \<noteq> ''''" "holds pc = ''''" "deleting pc = ''''" "releasing pc = None"
  shows "claims_ok (v(c := holds (th k))) A (th(k := pc))"
proof (rule claims_ok_set)
  show "claims_ok v A (th(k := pc))" using assms by (simp add: claims_ok_idle)
  show "holds (th k) \<in> A" "\<forall>c'. v c' \<noteq> holds (th k)" using claims_ok_held [OF assms(1,2)] by auto
  show "\<forall>l. holds ((th(k := pc)) l) \<noteq> holds (th k) \<and> deleting ((th(k := pc)) l) \<noteq> holds (th k)"
    using claims_ok_held [OF assms(1,2)] assms(2-4) by auto
qed

lemma claims_ok_read:
  assumes "claims_ok v A th" "th k = R_get c" "v c \<noteq> ''''"
  shows "claims_ok v A (th(k := R_del c (v c)))"
proof -
  have free: "\<forall>l. holds (th l) \<noteq> v c" using claims_ok_held(2) [OF assms(1)] assms(3) by metis
  have "\<forall>l. deleting (th l) \<noteq> v c"
  proof (intro allI notI)
    fix l assume "deleting (th l) = v c"
    then have "releasing (th l) = Some c" "deleting (th l) \<noteq> ''''" using assms(1,3) by (auto simp: claims_ok_def deleting_ok_def)
    moreover from this have "l = k" using assms(1,2) by (auto simp: claims_ok_def one_release_def)
    ultimately show False using assms(2) by simp
  qed
  with free have "deleting_ok v A (th(k := R_del c (v c)))"
    using assms by (auto simp: claims_ok_def deleting_ok_def routed_ok_def split: if_splits)
  then show ?thesis using assms by (simp add: claims_ok_def held_ok_drop one_release_update)
qed

lemma claims_ok_unroute:
  assumes "claims_ok v A th" "th k = R_del c u" "u \<noteq> ''''"
  shows "claims_ok (v(c := '''')) A (th(k := R_rel c u))"
proof -
  have clear: "claims_ok (v(c := '''')) A th" by (rule claims_ok_clear) (rule assms(1))
  have del: "u \<in> A" "\<forall>e. v e = u \<longrightarrow> e = c" "\<forall>l. holds (th l) \<noteq> u" "\<forall>l. deleting (th l) = u \<longrightarrow> l = k"
    using assms unfolding claims_ok_def deleting_ok_def by (metis deleting.simps(1) releasing.simps(2) option.inject)+
  have "held_ok (v(c := '''')) A (th(k := R_rel c u))"
    using clear del assms(3) by (auto simp: claims_ok_def held_ok_def split: if_splits)
  moreover have "deleting_ok (v(c := '''')) A (th(k := R_rel c u))"
    using clear del by (auto simp: claims_ok_def deleting_ok_def split: if_splits)
  ultimately show ?thesis using clear assms(2) by (simp add: claims_ok_def one_release_update)
qed

lemma claims_ok_unused:
  assumes "claims_ok v A th" "A - {u} \<subseteq> B" "\<forall>c. v c \<noteq> u" "\<forall>l. holds (th l) \<noteq> u" "\<forall>l. deleting (th l) \<noteq> u"
  shows "claims_ok v B th"
proof -
  have B: "x \<in> B" if "x \<in> A" "x \<noteq> u" for x using that assms(2) by blast
  have "routed_ok v B" using assms(1,3) B by (simp add: claims_ok_def routed_ok_def)
  moreover have "held_ok v B th" using assms(1,4) B by (simp add: claims_ok_def held_ok_def)
  moreover have "deleting_ok v B th" using assms(1,5) B by (simp add: claims_ok_def deleting_ok_def)
  ultimately show ?thesis using assms(1) by (simp add: claims_ok_def)
qed

lemma claims_ok_released:
  assumes "claims_ok v A th" "th k = R_rel c u" "u \<noteq> ''''" "A - {u} \<subseteq> B" "holds pc = ''''" "deleting pc = ''''" "releasing pc = None"
  shows "claims_ok v B (th(k := pc))"
proof -
  have eq: "holds (th k) = u" using assms(2) by simp
  have u: "\<forall>c. v c \<noteq> u" "\<forall>l. holds (th l) = u \<longrightarrow> l = k" "\<forall>l. deleting (th l) \<noteq> u"
    using claims_ok_held [OF assms(1), of k, unfolded eq, OF assms(3)] by blast+
  have "claims_ok v A (th(k := pc))" using assms by (simp add: claims_ok_idle)
  moreover have "\<forall>l. holds ((th(k := pc)) l) \<noteq> u" "\<forall>l. deleting ((th(k := pc)) l) \<noteq> u" using u assms(3,5,6) by auto
  ultimately show ?thesis by (rule claims_ok_unused [OF _ assms(4) u(1)])
qed

lemma claims_ok_call:
  "claims_ok v A th \<Longrightarrow> \<forall>l. releasing (th l) \<noteq> Some c \<Longrightarrow> claims_ok v A (th(k := R_get c))"
  by (simp add: claims_ok_def held_ok_drop deleting_ok_drop one_release_call)
fun proper :: "claim_pc \<Rightarrow> bool" where
  "proper (E_set c inst) = (aii_ID inst \<noteq> '''')"
| "proper (R_del c u) = (u \<noteq> '''')"
| "proper (R_rel c u) = (u \<noteq> '''')"
| "proper _ = True"

context claim_backend
begin

definition threads_ok :: "claim_pc list \<times> 'rt \<times> 'db \<Rightarrow> bool" where
  "threads_ok s = (case s of (pcs, rt, d) \<Rightarrow>
     rinv rt \<and> dinv d \<and> claims_ok (view rt) (active d) (thread_at pcs) \<and> list_all proper pcs)"

lemma proper_step: "proper q \<Longrightarrow> dinv d \<Longrightarrow> cm_step T R q (rt, d) = (pc, rt', d') \<Longrightarrow> proper pc"
  using claim_some [of d] by (cases q) (auto split: prod.splits sum.splits option.splits if_splits)

lemma claims_ok_step:
  assumes "rinv rt" "dinv d" "claims_ok (view rt) (active d) th" "proper (th k)"
    and "cm_step T R (th k) (rt, d) = (pc, rt', d')"
  shows "rinv rt' \<and> dinv d' \<and> claims_ok (view rt') (active d') (th(k := pc))"
proof (cases "th k")
  case (E_get c t p)
  obtain uid rt1 where g: "rtab_Get T c rt = (uid, rt1)" by (cases "rtab_Get T c rt")
  have "rt' = rt1" "d' = d" "holds pc = ''''" "deleting pc = ''''" "releasing pc = None" using assms(5) E_get g by auto
  with get_facts [OF assms(1) g] assms(1-3) show ?thesis by (simp add: claims_ok_idle)
next
  case (E_claim c t p)
  obtain r d1 where cl: "air_ClaimInstance R t p d = (r, d1)" by (cases "air_ClaimInstance R t p d")
  have d1: "d' = d1" "rt' = rt" "dinv d1"
    using assms(5) E_claim cl claim_dinv [OF assms(2), of t p] by (auto split: sum.splits option.splits)
  show ?thesis
  proof (cases "\<exists>inst. r = Inr (Some inst)")
    case True
    then obtain inst where inst: "r = Inr (Some inst)" by blast
    then have "pc = E_set c inst" using assms(5) E_claim cl by simp
    with claim_some [OF assms(2), of t p inst d1] cl inst d1 assms(1) show ?thesis
      using claims_ok_claim [OF assms(3), of pc k] by simp
  next
    case False
    then have "active d1 = active d" "holds pc = ''''" "deleting pc = ''''" "releasing pc = None"
      using claim_none [OF assms(2) cl] assms(5) E_claim cl by (auto split: sum.splits option.splits)
    with assms(1,3) d1 show ?thesis by (simp add: claims_ok_idle)
  qed
next
  case (E_set c inst)
  then have "rt' = rtab_Set T c (aii_ID inst) 0 rt" "d' = d" "holds pc = ''''" "deleting pc = ''''" "releasing pc = None"
    using assms(5) by auto
  then show ?thesis
    using claims_ok_route [OF assms(3), of k pc c] assms(1,2,4) E_set by (simp add: set_view rinv_set)
next
  case (R_get c)
  obtain uid rt1 where g: "rtab_Get T c rt = (uid, rt1)" by (cases "rtab_Get T c rt")
  note facts = get_facts [OF assms(1) g]
  have st: "rt' = rt1" "d' = d" "pc = (if uid = '''' then R_done (Inr ()) else R_del c uid)" using assms(5) R_get g by auto
  show ?thesis
  proof (cases "uid = ''''")
    case True
    then show ?thesis using st facts assms(2,3) by (simp add: claims_ok_idle)
  next
    case False
    then show ?thesis using st facts assms(2) claims_ok_read [OF assms(3) R_get] by simp
  qed
next
  case (R_del c u)
  then have "rt' = rtab_Delete T c rt" "d' = d" "pc = R_rel c u" using assms(5) by auto
  then show ?thesis
    using claims_ok_unroute [OF assms(3) R_del] assms(1,2,4) R_del by (simp add: del_view rinv_del)
next
  case (R_rel c u)
  obtain r d1 where rel: "air_ReleaseInstance R u d = (r, d1)" by (cases "air_ReleaseInstance R u d")
  have "active d - {u} \<subseteq> active d1"
    using release_ok [OF assms(2), of u d1] release_err [OF assms(2), of u] rel by (cases r) auto
  moreover have "rt' = rt" "d' = d1" "holds pc = ''''" "deleting pc = ''''" "releasing pc = None" using assms(5) R_rel rel by auto
  ultimately show ?thesis
    using claims_ok_released [OF assms(3) R_rel, of "active d1" pc] assms(1,4) R_rel rel release_dinv [OF assms(2), of u] by simp
qed (use assms(1-3,5) in \<open>auto simp: claims_ok_idle\<close>)

lemma threads_ok_step:
  assumes "threads_ok (pcs, rt, d)" "k < length pcs" "cm_step T R (pcs ! k) (rt, d) = (pc, rt', d')"
  shows "threads_ok (pcs[k := pc], rt', d')"
proof -
  note ok = assms(1) [unfolded threads_ok_def, simplified]
  have k: "thread_at pcs k = pcs ! k" "proper (pcs ! k)" using ok assms(2) by (simp_all add: thread_at_def list_all_length)
  then have "proper pc" using assms(3) ok proper_step by blast
  then have "list_all proper (pcs[k := pc])" using ok assms(2) by (auto simp: list_all_length nth_list_update)
  with claims_ok_step [of rt d "thread_at pcs" k pc rt' d'] ok k assms(2,3) show ?thesis
    by (simp add: threads_ok_def thread_at_update)
qed

lemma threads_ok_ensure: "threads_ok (pcs, rt, d) \<Longrightarrow> threads_ok (pcs @ [E_get c t p], rt, d)"
  by (simp add: threads_ok_def thread_at_snoc claims_ok_idle)

lemma threads_ok_release:
  assumes "threads_ok (pcs, rt, d)" "\<forall>pc \<in> set pcs. releasing pc \<noteq> Some c"
  shows "threads_ok (pcs @ [R_get c], rt, d)"
proof -
  have "\<forall>l. releasing (thread_at pcs l) \<noteq> Some c" using assms(2) by (simp add: thread_at_def)
  then show ?thesis using assms(1) by (simp add: threads_ok_def thread_at_snoc claims_ok_call)
qed

lemma threads_ok_set:
  assumes "threads_ok (pcs, rt, d)"
    and "view rt c = i \<or> i \<in> active d \<and> (\<forall>c'. view rt c' \<noteq> i) \<and> (\<forall>pc \<in> set pcs. holds pc \<noteq> i \<and> deleting pc \<noteq> i)"
  shows "threads_ok (pcs, SetActiveInstance T c i rt, d)"
proof -
  note ok = assms(1) [unfolded threads_ok_def, simplified]
  have "claims_ok ((view rt)(c := i)) (active d) (thread_at pcs)" if "view rt c \<noteq> i" "i \<noteq> ''''"
    using ok assms(2) that by (intro claims_ok_set) (auto simp: thread_at_def)
  moreover have "claims_ok ((view rt)(c := i)) (active d) (thread_at pcs)" if "i = ''''"
    using ok that by (simp add: claims_ok_clear)
  moreover have "(view rt)(c := i) = view rt" if "view rt c = i" using that by auto
  ultimately show ?thesis using ok
    by (cases "view rt c = i"; cases "i = ''''") (simp_all add: threads_ok_def SetActiveInstance_def set_view rinv_set)
qed

lemma threads_ok_clear: "threads_ok (pcs, rt, d) \<Longrightarrow> threads_ok (pcs, ClearActiveInstance T c rt, d)"
  by (simp add: threads_ok_def ClearActiveInstance_def del_view rinv_del claims_ok_clear)

end

section \<open>Heartbeats do not disturb claims\<close>

lemma upsert_active_ids:
  assumes "st \<noteq> ''active''"
  shows "active_ids (snd (upsert_stmt t p pn ns st d)) = active_ids d"
proof (cases "select_one (\<lambda>i. ai_PodName i = Some pn) (agent_instances d)")
  case None
  then show ?thesis using assms by (auto simp: upsert_stmt_def new_uuid_def in_active_ids)
next
  case (Some old)
  let ?f = "\<lambda>i. i\<lparr>ai_LastHeartbeat := Some (clock d),
                   ai_State := (if ai_State i = ''active'' then ''active'' else st)\<rparr>"
  have "active_ids (d\<lparr>agent_instances := update_where (\<lambda>i. ai_PodName i = Some pn) ?f (agent_instances d)\<rparr>) = active_ids d"
    using assms by (intro set_eqI, subst in_active_ids_update) (auto simp: in_active_ids)
  with Some show ?thesis by (simp add: upsert_stmt_def)
qed

lemma heartbeat_upsert:
  assumes "agents_ok d"
  shows "agents_ok (snd (UpsertInstanceByPodName t p pn ns ''warm'' d))"
    and "active_ids (snd (UpsertInstanceByPodName t p pn ns ''warm'' d)) = active_ids d"
proof -
  let ?d' = "snd (statement (upsert_stmt t p pn ns ''warm'') d)"
  have eq: "snd (UpsertInstanceByPodName t p pn ns ''warm'' d) = ?d'"
    by (simp add: UpsertInstanceByPodName_def split: prod.splits)
  have "instances_inv ?d'"
    using assms by (intro statement_instances_inv upsert_stmt_inv) (simp_all add: agents_ok_def)
  moreover have "uuids ?d' = uuids d"
    by (rule statement_preserves [where P = "\<lambda>x. uuids x = uuids d"])
      (auto simp: upsert_stmt_def new_uuid_def split: option.splits)
  ultimately show "agents_ok (snd (UpsertInstanceByPodName t p pn ns ''warm'' d))"
    using assms by (simp add: eq agents_ok_def)
  show "active_ids (snd (UpsertInstanceByPodName t p pn ns ''warm'' d)) = active_ids d"
    unfolding eq
    by (rule statement_preserves [where P = "\<lambda>x. active_ids x = active_ids d"]) (simp_all add: upsert_active_ids)
qed

lemma GetProfileByName_state: "\<exists>fs. snd (GetProfileByName t n d) = d\<lparr>faults := fs\<rparr>"
proof -
  obtain r d' where st: "statement (\<lambda>d. (one_row (select_one (\<lambda>p. ap_TenantID p = t \<and> ap_Name p = n) (agent_profiles d)), d)) d = (r, d')"
    by (meson surj_pair)
  then have "\<exists>fs. d' = d\<lparr>faults := fs\<rparr>" by (cases rule: statement_cases) auto
  with st show ?thesis by (simp add: GetProfileByName_def)
qed

lemma heartbeat_keeps_claims:
  assumes "agents_ok d"
  shows "agents_ok (handleHeartbeat msg d)" "active_ids (handleHeartbeat msg d) = active_ids d"
proof -
  have "agents_ok (handleHeartbeat msg d) \<and> active_ids (handleHeartbeat msg d) = active_ids d"
  proof (cases msg)
    case (Some hb)
    obtain r d1 where g: "GetProfileByName (hb_TenantID hb) (hb_Profile hb) d = (r, d1)" by (meson surj_pair)
    then have "agents_ok d1" "active_ids d1 = active_ids d"
      using GetProfileByName_state [of "hb_TenantID hb" "hb_Profile hb" d] assms by auto
    with Some g assms show ?thesis
      by (auto simp: handleHeartbeat_def heartbeat_upsert split: prod.splits sum.splits if_splits)
  qed (simp add: handleHeartbeat_def assms)
  then show "agents_ok (handleHeartbeat msg d)" "active_ids (handleHeartbeat msg d) = active_ids d" by auto
qed

section \<open>No two conversations share an instance\<close>

text \<open>
  What happens in a gateway: a thread makes its next step; \<open>EnsureInstance\<close>, \<open>Release\<close>,
  \<open>SetActiveInstance\<close> or \<open>ClearActiveInstance\<close> is called; a heartbeat arrives; time passes.
  \<open>EnsureInstance\<close> and \<open>Release\<close> start a thread whose steps are separate events, so a run is any
  interleaving of any number of calls.
\<close>

datatype gateway_event =
    Thread nat
  | Call_Ensure string string string
  | Call_Release string
  | Call_SetActive string string
  | Call_Clear string
  | Heartbeat "heartbeatData option"
  | Tick time

type_synonym 'a gateway_state = "claim_pc list \<times> MemoryRoutingTable \<times> 'a agent_db_scheme"

fun gateway_step :: "gateway_event \<Rightarrow> 'a gateway_state \<Rightarrow> 'a gateway_state" where
  "gateway_step (Thread k) (pcs, m, d) =
     (if k < length pcs
      then (case cm_step memory_table agentRepoAdapter (pcs ! k) (m, d) of (pc, m', d') \<Rightarrow> (pcs[k := pc], m', d'))
      else (pcs, m, d))"
| "gateway_step (Call_Ensure c t p) (pcs, m, d) = (pcs @ [E_get c t p], m, d)"
| "gateway_step (Call_Release c) (pcs, m, d) = (pcs @ [R_get c], m, d)"
| "gateway_step (Call_SetActive c i) (pcs, m, d) = (pcs, SetActiveInstance memory_table c i m, d)"
| "gateway_step (Call_Clear c) (pcs, m, d) = (pcs, ClearActiveInstance memory_table c m, d)"
| "gateway_step (Heartbeat msg) (pcs, m, d) = (pcs, m, handleHeartbeat msg d)"
| "gateway_step (Tick now) (pcs, m, d) = (pcs, m, d\<lparr>clock := now\<rparr>)"

fun gateway_run :: "gateway_event list \<Rightarrow> 'a gateway_state \<Rightarrow> 'a gateway_state" where
  "gateway_run [] s = s"
| "gateway_run (e # es) s = gateway_run es (gateway_step e s)"

text \<open>
  The discipline that the callers of the claim manager have to keep, since it does not enforce it: a conversation is not
  released while a release of it is under way, and \<open>SetActiveInstance\<close> (called with the
  instance that an \<open>agent_start\<close> event announces) confirms the route that is there or names an
  active instance that nobody else has.
\<close>

fun orderly :: "gateway_event \<Rightarrow> 'a gateway_state \<Rightarrow> bool" where
  "orderly (Call_Release c) (pcs, m, d) \<longleftrightarrow> (\<forall>pc \<in> set pcs. releasing pc \<noteq> Some c)"
| "orderly (Call_SetActive c i) (pcs, m, d) \<longleftrightarrow>
     Memory_Get c m = i \<or>
     i \<in> active_ids d \<and> (\<forall>c'. Memory_Get c' m \<noteq> i) \<and> (\<forall>pc \<in> set pcs. holds pc \<noteq> i \<and> deleting pc \<noteq> i)"
| "orderly _ _ \<longleftrightarrow> True"

fun orderly_run :: "gateway_event list \<Rightarrow> 'a gateway_state \<Rightarrow> bool" where
  "orderly_run [] s \<longleftrightarrow> True"
| "orderly_run (e # es) s \<longleftrightarrow> orderly e s \<and> orderly_run es (gateway_step e s)"

lemma agents_ok_clock: "agents_ok (d\<lparr>clock := now\<rparr>) = agents_ok d" "active_ids (d\<lparr>clock := now\<rparr>) = active_ids d"
  by (simp_all add: agents_ok_def instances_inv_def active_ids_def)

lemma gateway_step_ok:
  assumes "claims.threads_ok s" "orderly e s"
  shows "claims.threads_ok (gateway_step e s)"
proof -
  obtain pcs m d where s: "s = (pcs, m, d)" by (cases s)
  show ?thesis
  proof (cases e)
    case (Thread k)
    obtain pc m' d' where "cm_step memory_table agentRepoAdapter (pcs ! k) (m, d) = (pc, m', d')" by (metis prod_cases3)
    then show ?thesis using assms(1) s Thread claims.threads_ok_step by auto
  next
    case (Call_SetActive c i)
    then show ?thesis using assms s claims.threads_ok_set [of pcs m d c i] by auto
  next
    case (Heartbeat msg)
    then show ?thesis using assms(1) s by (simp add: claims.threads_ok_def heartbeat_keeps_claims)
  next
    case (Tick now)
    then show ?thesis using assms(1) s by (simp add: claims.threads_ok_def agents_ok_clock)
  qed (use assms s in \<open>auto intro: claims.threads_ok_ensure claims.threads_ok_release claims.threads_ok_clear\<close>)
qed

lemma gateway_run_ok: "claims.threads_ok s \<Longrightarrow> orderly_run es s \<Longrightarrow> claims.threads_ok (gateway_run es s)"
  by (induction es arbitrary: s) (simp_all add: gateway_step_ok)

text \<open>C1: exclusive claims. Start with an empty routing table and a well-formed instance table and let
  any number of requests claim instances and any number of releases give them back, with the single steps of
  \<open>EnsureInstance\<close> and \<open>Release\<close> (each operation on the routing table, each statement)
  interleaved in any order with each other, with \<open>SetActiveInstance\<close>, cleared routes and
  heartbeats, and any statement refused by the database. Provided that no release of a
  conversation starts while another one of it is under way, and that \<open>SetActiveInstance\<close>
  confirms a route or names an active instance nobody else has, then at every moment each
  routed instance is marked active in the database, no two conversations are routed to the
  same instance, and an instance that a thread holds (claimed and not yet routed, or
  unrouted and not yet given back) is active, routed nowhere and held by no other thread.
  Both provisos are needed: see the last section.\<close>

theorem claimed_instances_are_exclusive:
  assumes "agents_ok d" "orderly_run es ([], NewMemoryRoutingTable, d)"
    and "gateway_run es ([], NewMemoryRoutingTable, d) = (pcs, m, d')"
  shows "(\<forall>c. Memory_Get c m \<noteq> '''' \<longrightarrow> Memory_Get c m \<in> active_ids d') \<and>
    (\<forall>c c'. Memory_Get c m = Memory_Get c' m \<and> Memory_Get c m \<noteq> '''' \<longrightarrow> c = c') \<and>
    (\<forall>k < length pcs. holds (pcs ! k) \<noteq> '''' \<longrightarrow>
       holds (pcs ! k) \<in> active_ids d' \<and> (\<forall>c. Memory_Get c m \<noteq> holds (pcs ! k)) \<and>
       (\<forall>l < length pcs. holds (pcs ! l) = holds (pcs ! k) \<longrightarrow> l = k))"
proof -
  have "claims.threads_ok ([], NewMemoryRoutingTable, d)"
    unfolding claims.threads_ok_def using assms(1)
    by (simp add: claims_ok_def routed_ok_def held_ok_def deleting_ok_def one_release_def thread_at_def
        NewMemoryRoutingTable_def Memory_Get_def)
  from gateway_run_ok [OF this assms(2)]
  have ok: "claims_ok (\<lambda>c. Memory_Get c m) (active_ids d') (thread_at pcs)"
    using assms(3) by (simp add: claims.threads_ok_def)
  have "holds (pcs ! k) \<in> active_ids d' \<and> Memory_Get c m \<noteq> holds (pcs ! k) \<and>
      (l < length pcs \<longrightarrow> holds (pcs ! l) = holds (pcs ! k) \<longrightarrow> l = k)"
    if "k < length pcs" "holds (pcs ! k) \<noteq> ''''" for k c l
    using claims_ok_held [OF ok, of k] that by (simp add: thread_at_def)
  moreover have "Memory_Get c m \<in> active_ids d' \<and> (Memory_Get c m = Memory_Get c' m \<longrightarrow> c = c')"
    if "Memory_Get c m \<noteq> ''''" for c c'
    using ok that by (auto simp: claims_ok_def routed_ok_def)
  ultimately show ?thesis by blast
qed

text \<open>Two requests for one conversation and one for another, on the two warm instances of \<open>two_warm\<close>.\<close>

lemma two_warm_ok: "agents_ok two_warm"
  by (simp add: agents_ok_def two_warm_inv) (simp add: two_warm_def)

lemma adapter_two_warm:
  "adapter_ClaimInstance ''t'' ''p'' two_warm =
     (Inr (Some (adapter_info (claimed_row 10 (warm_row ''uu'' 7)))),
      two_warm\<lparr>agent_instances := [warm_row ''u'' 3, claimed_row 10 (warm_row ''uu'' 7)]\<rparr>)"
  by (simp add: adapter_ClaimInstance_def two_warm_claim)

definition two_warm_routed :: "MemoryRoutingTable \<times> agent_db" where
  "two_warm_routed = snd (EnsureInstance memory_table agentRepoAdapter ''c'' ''t'' ''p'' (NewMemoryRoutingTable, two_warm))"

lemma two_warm_routed_eq:
  "two_warm_routed = (\<lparr>table = [''c'' \<mapsto> ''uu'']\<rparr>,
     two_warm\<lparr>agent_instances := [warm_row ''u'' 3, claimed_row 10 (warm_row ''uu'' 7)]\<rparr>)"
  by (simp add: two_warm_routed_def EnsureInstance_def memory_table_def agentRepoAdapter_def Memory_Get_def
      Memory_Set_def NewMemoryRoutingTable_def adapter_two_warm adapter_info_def claimed_row_def warm_row_def)

text \<open>Conversation \<open>c\<close> claims an instance, its agent confirms it, and \<open>c\<close> is released while \<open>e\<close> claims.\<close>

definition release_while_claiming :: "gateway_event list" where
  "release_while_claiming =
     [Call_Ensure ''c'' ''t'' ''p'', Thread 0, Thread 0, Thread 0, Call_SetActive ''c'' ''uu'',
      Call_Release ''c'', Call_Ensure ''e'' ''t'' ''p'', Thread 1, Thread 2, Thread 2, Thread 1, Thread 2, Thread 1]"

lemmas gateway_defs = memory_table_def agentRepoAdapter_def Memory_Get_def Memory_Set_def Memory_Delete_def
  SetActiveInstance_def NewMemoryRoutingTable_def
  two_warm_def warm_row_def claimed_row_def adapter_info_def
  adapter_ClaimInstance_def ClaimInstance_result claim_stmt_def warm_candidates_def order_by_def
  desc_nulls_first_def ReleaseInstance_def update_where_def

lemma release_while_claiming_run:
  "orderly_run release_while_claiming ([], NewMemoryRoutingTable, two_warm)"
  "(case gateway_run release_while_claiming ([], NewMemoryRoutingTable, two_warm) of (pcs, m, d) \<Rightarrow> Memory_Get ''e'' m = ''u'')"
  by (simp_all add: release_while_claiming_def gateway_defs)

theorem claimed_instances_are_exclusive_witness:
  "\<exists>pcs m d. gateway_run release_while_claiming ([], NewMemoryRoutingTable, two_warm) = (pcs, m, d) \<and>
     Memory_Get ''e'' m = ''u'' \<and> ''u'' \<in> active_ids d \<and> Memory_Get ''c'' m \<noteq> ''u''"
proof -
  obtain pcs m d where run: "gateway_run release_while_claiming ([], NewMemoryRoutingTable, two_warm) = (pcs, m, d)"
    by (metis prod_cases3)
  note ok = claimed_instances_are_exclusive [OF two_warm_ok release_while_claiming_run(1) run]
  have e: "Memory_Get ''e'' m = ''u''" using release_while_claiming_run(2) run by simp
  moreover have "''u'' \<in> active_ids d" using ok [THEN conjunct1, rule_format, of "''e''"] e by simp
  moreover have "Memory_Get ''c'' m \<noteq> ''u''"
    using ok [THEN conjunct2, THEN conjunct1, rule_format, of "''e''" "''c''"] e by auto
  ultimately show ?thesis using run by blast
qed

text \<open>C3: an instance is claimed once per conversation. When \<open>EnsureInstance\<close> has returned an instance for
  a conversation, every further call for that conversation returns the same instance from
  the routing table and leaves the database as it is.\<close>

theorem ensure_instance_is_sticky:
  assumes "agents_ok d" "routes_ok (\<lambda>c. Memory_Get c m) (active_ids d)"
    and "EnsureInstance memory_table agentRepoAdapter c t p (m, d) = (Inr (Some r), m', d')"
  shows "EnsureInstance memory_table agentRepoAdapter c t' p' (m', d') =
    (Inr (Some \<lparr>cr_InstanceID = cr_InstanceID r, cr_PodName = ''''\<rparr>), m', d')"
proof -
  have "claims.exclusive (m, d)" using assms(1,2) by (simp add: claims.exclusive_def)
  from claims.Ensure_sticky [OF this assms(3)] show ?thesis by (simp add: memory_table_def)
qed

theorem ensure_instance_is_sticky_witness:
  "fst (EnsureInstance memory_table agentRepoAdapter ''c'' ''t'' ''p'' two_warm_routed) =
     Inr (Some \<lparr>cr_InstanceID = ''uu'', cr_PodName = ''''\<rparr>)"
proof -
  have "EnsureInstance memory_table agentRepoAdapter ''c'' ''t'' ''p'' (NewMemoryRoutingTable, two_warm) =
     (Inr (Some \<lparr>cr_InstanceID = ''uu'', cr_PodName = ''''\<rparr>), fst two_warm_routed, snd two_warm_routed)"
    by (simp add: two_warm_routed_eq EnsureInstance_def memory_table_def agentRepoAdapter_def Memory_Get_def
      Memory_Set_def NewMemoryRoutingTable_def adapter_two_warm adapter_info_def claimed_row_def warm_row_def)
  moreover have "routes_ok (\<lambda>c. Memory_Get c NewMemoryRoutingTable) (active_ids two_warm)"
    by (simp add: routes_ok_def Memory_Get_def NewMemoryRoutingTable_def)
  ultimately show ?thesis
    using ensure_instance_is_sticky [OF two_warm_ok, of NewMemoryRoutingTable "''c''" "''t''" "''p''" _ "fst two_warm_routed"
        "snd two_warm_routed" "''t''" "''p''"] by simp
qed

section \<open>Both provisos are needed\<close>

definition one_active :: agent_db where
  "one_active = two_warm\<lparr>agent_instances := [claimed_row 10 (warm_row ''uu'' 7)]\<rparr>"

text \<open>
  Concurrent releases break exclusivity. Two watchers of one conversation that both see \<open>agent_end\<close> both
  call \<open>Release\<close>; both read the route. The first one finishes, another conversation \<open>e\<close> claims
  the released instance, and the second one then releases it again: \<open>e\<close> is routed to the
  instance although the database lists it as warm, so the next claim hands the same instance
  to a third conversation \<open>f\<close>.
\<close>

theorem concurrent_releases_share_an_instance:
  "routes_ok (\<lambda>c. Memory_Get c \<lparr>table = [''c'' \<mapsto> ''uu'']\<rparr>) (active_ids one_active) \<and>
   (case gateway_run
       ([Call_Release ''c'', Call_Release ''c'', Call_Ensure ''e'' ''t'' ''p'', Call_Ensure ''f'' ''t'' ''p''] @
        map Thread [0, 1, 0, 0, 2, 2, 2, 1, 1, 3, 3, 3])
       ([], \<lparr>table = [''c'' \<mapsto> ''uu'']\<rparr>, one_active) of
      (pcs, m, d) \<Rightarrow> Memory_Get ''e'' m = ''uu'' \<and> Memory_Get ''f'' m = ''uu'')"
proof (intro conjI)
  show "routes_ok (\<lambda>c. Memory_Get c \<lparr>table = [''c'' \<mapsto> ''uu'']\<rparr>) (active_ids one_active)"
    by (auto simp: routes_ok_def Memory_Get_def in_active_ids one_active_def claimed_row_def warm_row_def split: if_splits)
qed (simp add: gateway_defs one_active_def)

text \<open>
  An \<open>agent_start\<close> of an instance that nobody claimed breaks exclusivity too. A task that was
  published to the pool is taken by a warm agent; its \<open>agent_start\<close> makes the watcher route
  conversation \<open>e\<close> to the instance with \<open>SetActiveInstance\<close>, and the database still lists it as
  warm, so the claim of conversation \<open>c\<close> takes it as well.
\<close>

theorem pool_agents_are_claimed_again:
  "case gateway_run [Call_SetActive ''e'' ''uu'', Call_Ensure ''c'' ''t'' ''p'', Thread 0, Thread 0, Thread 0]
       ([], NewMemoryRoutingTable, two_warm) of
     (pcs, m, d) \<Rightarrow> Memory_Get ''e'' m = ''uu'' \<and> Memory_Get ''c'' m = ''uu''"
  by (simp add: gateway_defs)

end
