(* ===== verification/Dispatch.thy ===== *)
theory Dispatch
  imports Claims Skill_Repo API_Resources
begin

text \<open>
  Sending work to agents: the transport types and subjects of \<^verbatim>\<open>internal/dispatch/types.go\<close>, the
  dispatcher and the stream bridge of \<^verbatim>\<open>dispatcher.go\<close> and \<^verbatim>\<open>bridge.go\<close>, the profile resolver of
  \<^verbatim>\<open>internal/gateway/skills.go\<close>, \<open>dispatchTask\<close> of \<^verbatim>\<open>internal/gateway/server.go\<close> and
  \<open>dispatchToAgent\<close> of \<^verbatim>\<open>internal/gateway/api/conversations.go\<close>. NATS is the list of messages
  published so far, with the outcomes of the publications to come. Trace propagation is left
  out.
\<close>

section \<open>Transport types\<close>

record DBlock =
  db_Type :: string
  db_Text :: string
  db_ToolUseID :: string
  db_Name :: string
  db_InputJSON :: string
  db_Content :: string
  db_IsError :: bool
  db_AttachmentID :: string
  db_URL :: string
  db_FileName :: string
  db_MimeType :: string
  db_Size :: int

definition text_block :: "string \<Rightarrow> DBlock" where
  "text_block t = \<lparr>db_Type = ''text'', db_Text = t, db_ToolUseID = '''', db_Name = '''', db_InputJSON = '''',
     db_Content = '''', db_IsError = False, db_AttachmentID = '''', db_URL = '''', db_FileName = '''',
     db_MimeType = '''', db_Size = 0\<rparr>"

record DMessage =
  dmsg_Role :: string
  dmsg_Content :: "DBlock list"

record SkillRuntimeSpec =
  sr_Image :: string
  sr_Mode :: string
  sr_Transport :: string

record SkillCLISpec =
  cli_Binary :: string
  cli_AllowedCommands :: "string list"

record SkillParameter =
  par_Name :: string
  par_Type :: string
  par_Description :: string
  par_Required :: bool

record SkillSpec =
  ss_Name :: string
  ss_Type :: string
  ss_Version :: string
  ss_Description :: string
  ss_Prompt :: string
  ss_Runtime :: "SkillRuntimeSpec option"
  ss_CLI :: "SkillCLISpec option"
  ss_Parameters :: "SkillParameter list"

record TaskCredential =
  tc_Provider :: string
  tc_Token :: string
  tc_Scopes :: "string list"
  tc_ExpiresIn :: int

record ProfileConfig =
  pc_Provider :: string
  pc_Model :: string
  pc_MaxTokens :: int
  pc_Temperature :: rat
  pc_MaxToolRounds :: int
  pc_SystemPrompt :: string

record DispatchTask =
  dt_TaskID :: string
  dt_ConversationID :: string
  dt_TenantID :: string
  dt_AgentID :: string
  dt_ProfileName :: string
  dt_ProfileType :: string
  dt_InstanceID :: string
  dt_DBTaskID :: string
  dt_ParentTaskID :: string
  dt_DelegationDepth :: int
  dt_SystemPrompt :: string
  dt_Provider :: string
  dt_Model :: string
  dt_MaxTokens :: int
  dt_Temperature :: rat
  dt_MaxToolRounds :: int
  dt_Messages :: "DMessage list"
  dt_EnabledTools :: "string list"
  dt_Skills :: "SkillSpec list"
  dt_Credentials :: "TaskCredential list"

definition zero_task :: DispatchTask where
  "zero_task = \<lparr>dt_TaskID = '''', dt_ConversationID = '''', dt_TenantID = '''', dt_AgentID = '''',
     dt_ProfileName = '''', dt_ProfileType = '''', dt_InstanceID = '''', dt_DBTaskID = '''', dt_ParentTaskID = '''',
     dt_DelegationDepth = 0, dt_SystemPrompt = '''', dt_Provider = '''', dt_Model = '''', dt_MaxTokens = 0,
     dt_Temperature = 0, dt_MaxToolRounds = 0, dt_Messages = [], dt_EnabledTools = [], dt_Skills = [],
     dt_Credentials = []\<rparr>"

definition PoolSubject :: "string \<Rightarrow> string" where
  "PoolSubject profileName = ''volund.pool.'' @ profileName"

definition ConvStreamSubject :: "string \<Rightarrow> string" where
  "ConvStreamSubject convID = ''volund.conv.'' @ convID @ ''.stream''"

definition InstanceSubject :: "string \<Rightarrow> string" where
  "InstanceSubject instanceID = ''volund.agent.'' @ instanceID @ ''.task''"

definition SteerSubject :: "string \<Rightarrow> string" where
  "SteerSubject instanceID = ''volund.agent.'' @ instanceID @ ''.steer''"

section \<open>The dispatcher\<close>

datatype payload = TaskMsg DispatchTask | SteerMsg string

record nats =
  published :: "(string \<times> payload) list"
  pub_outcomes :: "go_err option list"

definition Publish :: "string \<Rightarrow> payload \<Rightarrow> nats \<Rightarrow> unit result \<times> nats" where
  "Publish subject data n =
     (case pub_outcomes n of
        Some e # os \<Rightarrow> (Inl e, n\<lparr>pub_outcomes := os\<rparr>)
      | None # os \<Rightarrow> (Inr (), n\<lparr>pub_outcomes := os, published := published n @ [(subject, data)]\<rparr>)
      | [] \<Rightarrow> (Inr (), n\<lparr>published := published n @ [(subject, data)]\<rparr>))"

record Dispatcher =
  dp_noop :: bool

definition MaxDelegationDepth :: int where
  "MaxDelegationDepth = 5"

definition Connect :: "(string \<Rightarrow> unit result) \<Rightarrow> string \<Rightarrow> Dispatcher result" where
  "Connect nats_connect natsURL =
     (if natsURL = '''' then Inr \<lparr>dp_noop = True\<rparr>
      else (case nats_connect natsURL of
              Inl err \<Rightarrow> Inl (Wrap (''dispatch: connect to NATS at '' @ natsURL) err)
            | Inr _ \<Rightarrow> Inr \<lparr>dp_noop = False\<rparr>))"

definition Dispatch :: "Dispatcher \<Rightarrow> DispatchTask \<Rightarrow> nats \<Rightarrow> unit result \<times> nats" where
  "Dispatch dp task n =
     (if MaxDelegationDepth < dt_DelegationDepth task then
        (Inl (Msg (''dispatch: delegation depth '' @ itoa_int (dt_DelegationDepth task) @ '' exceeds max '' @
                   itoa_int MaxDelegationDepth @ '' (possible cycle)'')), n)
      else if dp_noop dp then (Inr (), n)
      else (let subject = PoolSubject (dt_ProfileName task) in
            wrapped (''dispatch: publish to '' @ subject) (Publish subject (TaskMsg task) n)))"

definition DispatchToInstance :: "Dispatcher \<Rightarrow> DispatchTask \<Rightarrow> string \<Rightarrow> nats \<Rightarrow> unit result \<times> nats" where
  "DispatchToInstance dp task instanceID n =
     (if dp_noop dp then (Inr (), n)
      else (let subject = InstanceSubject instanceID in
            wrapped (''dispatch: publish to '' @ subject)
              (Publish subject (TaskMsg (task\<lparr>dt_InstanceID := instanceID\<rparr>)) n)))"

definition Steer :: "Dispatcher \<Rightarrow> string \<Rightarrow> string \<Rightarrow> nats \<Rightarrow> unit result \<times> nats" where
  "Steer dp instanceID content n =
     (if dp_noop dp then (Inr (), n)
      else (let subject = SteerSubject instanceID in
            wrapped (''dispatch: publish steer to '' @ subject) (Publish subject (SteerMsg content) n)))"

text \<open>\<open>fmt.Sprintf("task-%x", b)\<close> of eight random bytes; a failed read leaves zero bytes.\<close>

definition hex_digit :: "nat \<Rightarrow> char" where
  "hex_digit n = (if n < 10 then char_of (48 + n) else char_of (87 + n))"

definition hex_encode :: "string \<Rightarrow> string" where
  "hex_encode s = concat (map (\<lambda>c. let n = of_char c in [hex_digit (n div 16), hex_digit (n mod 16)]) s)"

definition NewTaskID :: "entropy \<Rightarrow> string \<times> entropy" where
  "NewTaskID src =
     (case src of
        Some b # src' \<Rightarrow> (''task-'' @ hex_encode (take 8 b), src')
      | None # src' \<Rightarrow> (''task-'' @ hex_encode (replicate 8 (CHR 0x00)), src')
      | [] \<Rightarrow> (''task-'' @ hex_encode (replicate 8 (CHR 0x00)), []))"

section \<open>The bridge\<close>

record StreamEvent =
  se_Type :: string
  se_TurnID :: string
  se_AgentID :: string
  se_InstanceID :: string
  se_ConvID :: string
  se_ProfileType :: string
  se_Content :: string
  se_ToolName :: string
  se_Args :: string
  se_Result :: string
  se_IsError :: bool
  se_StopReason :: string
  se_Message :: string
  se_Fatal :: bool

text \<open>The channel of a subscription: at most 512 events wait. The callback drops an event when the
  channel is full, and a message that does not decode (\<open>None\<close>).\<close>

definition bridge_capacity :: nat where
  "bridge_capacity = 512"

definition bridge_callback :: "StreamEvent option \<Rightarrow> StreamEvent list \<Rightarrow> StreamEvent list" where
  "bridge_callback msg ch =
     (case msg of
        None \<Rightarrow> ch
      | Some evt \<Rightarrow> if length ch < bridge_capacity then ch @ [evt] else ch)"

section \<open>The profile resolver\<close>

record profileJSON =
  pj_Provider :: string
  pj_Name :: string
  pj_MaxTokens :: int
  pj_Temperature :: rat
  pj_MaxToolRounds :: int
  pj_SystemPrompt :: string
  pj_Skills :: "SkillSpec list"

record profileEntry =
  pe_Config :: ProfileConfig
  pe_Skills :: "SkillSpec list"

definition profile_entry :: "profileJSON \<Rightarrow> profileEntry" where
  "profile_entry p =
     \<lparr>pe_Config = \<lparr>pc_Provider = pj_Provider p, pc_Model = pj_Name p, pc_MaxTokens = pj_MaxTokens p,
        pc_Temperature = pj_Temperature p, pc_MaxToolRounds = pj_MaxToolRounds p, pc_SystemPrompt = pj_SystemPrompt p\<rparr>,
      pe_Skills = pj_Skills p\<rparr>"

text \<open>\<open>read_file\<close> and \<open>parse\<close> stand for \<open>os.ReadFile\<close> and \<open>json.Unmarshal\<close>.\<close>

definition NewStaticProfileResolver ::
  "(string \<Rightarrow> string option) \<Rightarrow> (string \<Rightarrow> (string \<rightharpoonup> profileJSON) option) \<Rightarrow> string \<Rightarrow> (string \<rightharpoonup> profileEntry)" where
  "NewStaticProfileResolver read_file parse configPath =
     (if configPath = '''' then Map.empty
      else (case read_file configPath of
              None \<Rightarrow> Map.empty
            | Some data \<Rightarrow>
                (case parse data of
                   None \<Rightarrow> Map.empty
                 | Some profiles \<Rightarrow> (\<lambda>name. map_option profile_entry (profiles name)))))"

definition ResolveProfile :: "(string \<rightharpoonup> profileEntry) \<Rightarrow> string \<Rightarrow> ProfileConfig option \<times> SkillSpec list" where
  "ResolveProfile profiles profileName =
     (case profiles profileName of
        None \<Rightarrow> (None, [])
      | Some e \<Rightarrow> (Some (pe_Config e), pe_Skills e))"

section \<open>The gateway's side\<close>

text \<open>The state the goroutines share, and the watchers started so far (conversation, task).\<close>

record ('rt, 'd) gateway =
  gw_db :: 'd
  gw_rt :: 'rt
  gw_nats :: nats
  gw_watchers :: "(string \<times> string) list"

text \<open>\<open>dispatchTask\<close>; the dispatcher is nil when the connection to NATS failed.\<close>

definition dispatchTask ::
  "Dispatcher option \<Rightarrow> DispatchTask \<Rightarrow> ('rt, 'd) gateway \<Rightarrow> unit result \<times> ('rt, 'd) gateway" where
  "dispatchTask dispatcher task g =
     (case dispatcher of
        None \<Rightarrow> (Inl (Msg ''dispatcher not available''), g)
      | Some dp \<Rightarrow>
          (case (if dt_InstanceID task \<noteq> '''' then DispatchToInstance dp task (dt_InstanceID task) (gw_nats g)
                 else Dispatch dp task (gw_nats g)) of
             (Inl err, n) \<Rightarrow> (Inl err, g\<lparr>gw_nats := n\<rparr>)
           | (Inr _, n) \<Rightarrow>
               (Inr (), g\<lparr>gw_nats := n,
                          gw_watchers := (if dt_ConversationID task \<noteq> ''''
                                          then gw_watchers g @ [(dt_ConversationID task, dt_DBTaskID task)]
                                          else gw_watchers g)\<rparr>)))"

text \<open>The dependencies of the handlers. \<open>parse_blocks\<close> and \<open>parse_spec\<close> stand for \<open>json.Unmarshal\<close> into a
  block list and into the runtime and prompt of a skill; the broker is nil without an
  encryption key. The other services are set whenever the REST API is registered.\<close>

record 'rt Services =
  svc_parse_blocks :: "string \<Rightarrow> DBlock list option"
  svc_parse_spec :: "string \<Rightarrow> (SkillRuntimeSpec option \<times> string) option"
  svc_profiles :: "string \<rightharpoonup> profileEntry"
  svc_broker :: "aead option"
  svc_route :: "'rt RoutingTable"
  svc_dispatcher :: "Dispatcher option"

definition buildMessages :: "(string \<Rightarrow> DBlock list option) \<Rightarrow> DB_Message list \<Rightarrow> DMessage list" where
  "buildMessages parse msgs =
     map (\<lambda>m. \<lparr>dmsg_Role = dm_Role m,
               dmsg_Content = (case parse (dm_Content m) of None \<Rightarrow> [text_block (dm_Content m)] | Some bs \<Rightarrow> bs)\<rparr>) msgs"

definition skillToSpec ::
  "(string \<Rightarrow> (SkillRuntimeSpec option \<times> string) option) \<Rightarrow> RegistrySkill \<Rightarrow> SkillSpec" where
  "skillToSpec parse sk =
     (let spec = \<lparr>ss_Name = sk_Name sk, ss_Type = sk_Type sk, ss_Version = sk_Version sk,
                  ss_Description = sk_Description sk, ss_Prompt = '''', ss_Runtime = None, ss_CLI = None,
                  ss_Parameters = []\<rparr> in
      (case sk_Spec sk of
         None \<Rightarrow> spec
       | Some j \<Rightarrow>
           (case parse j of
              None \<Rightarrow> spec
            | Some (rt, prompt) \<Rightarrow> spec\<lparr>ss_Runtime := rt, ss_Prompt := prompt\<rparr>)))"

definition apply_profile :: "(string \<rightharpoonup> profileEntry) \<Rightarrow> DispatchTask \<Rightarrow> DispatchTask" where
  "apply_profile profiles task =
     (case ResolveProfile profiles (dt_ProfileName task) of
        (cfg, sks) \<Rightarrow>
          (let task1 = (case cfg of
                None \<Rightarrow> task
              | Some c \<Rightarrow> task\<lparr>dt_Provider := pc_Provider c, dt_Model := pc_Model c, dt_MaxTokens := pc_MaxTokens c,
                               dt_Temperature := pc_Temperature c, dt_MaxToolRounds := pc_MaxToolRounds c,
                               dt_SystemPrompt := pc_SystemPrompt c\<rparr>) in
           if sks \<noteq> [] then task1\<lparr>dt_Skills := sks\<rparr> else task1))"

text \<open>One credential per connected provider; a provider whose token cannot be issued is skipped.\<close>

fun issue_all ::
  "aead \<Rightarrow> string \<Rightarrow> string \<Rightarrow> string \<Rightarrow> ProviderInfo list \<Rightarrow> 'a skill_db_scheme \<Rightarrow>
   TaskCredential list \<times> 'a skill_db_scheme" where
  "issue_all A tenantID userID convID [] d = ([], d)"
| "issue_all A tenantID userID convID (p # ps) d =
     (case IssueToken A \<lparr>tr_TenantID = tenantID, tr_UserID = userID, tr_Provider = pi_Provider p, tr_Scopes = [],
             tr_AgentInstanceID = '''', tr_ConversationID = convID, tr_SkillName = ''''\<rparr> d of
        (Inl _, d1) \<Rightarrow> issue_all A tenantID userID convID ps d1
      | (Inr resp, d1) \<Rightarrow>
          (case issue_all A tenantID userID convID ps d1 of
             (cs, d2) \<Rightarrow>
               (\<lparr>tc_Provider = pi_Provider p, tc_Token = to_Token resp, tc_Scopes = to_Scopes resp,
                 tc_ExpiresIn = to_ExpiresIn resp\<rparr> # cs, d2)))"

text \<open>The steps of \<open>dispatchToAgent\<close>: each takes the task so far and the database.\<close>

definition with_task_record ::
  "dispatch_job \<Rightarrow> DispatchTask \<Rightarrow> 'a skill_db_scheme \<Rightarrow> DispatchTask \<times> 'a skill_db_scheme" where
  "with_task_record job task d =
     (case Task_Create (dj_tenantID job) (Some (cv_ID (dj_convo job))) (''Agent task: '' @ dt_ProfileName task) d of
        (Inl _, d') \<Rightarrow> (task, d')
      | (Inr t, d') \<Rightarrow> (task\<lparr>dt_DBTaskID := tk_ID t\<rparr>, d'))"

definition with_active_skills ::
  "'rt Services \<Rightarrow> dispatch_job \<Rightarrow> DispatchTask \<Rightarrow> 'a skill_db_scheme \<Rightarrow> DispatchTask \<times> 'a skill_db_scheme" where
  "with_active_skills S job task d =
     (if dj_userID job = '''' then (task, d)
      else (case ListActiveSkills (dj_tenantID job) (dj_userID job) d of
              (Inl _, d') \<Rightarrow> (task, d')
            | (Inr ss, d') \<Rightarrow> (task\<lparr>dt_Skills := dt_Skills task @ map (skillToSpec (svc_parse_spec S)) ss\<rparr>, d')))"

definition with_credentials ::
  "'rt Services \<Rightarrow> dispatch_job \<Rightarrow> DispatchTask \<Rightarrow> 'a skill_db_scheme \<Rightarrow> DispatchTask \<times> 'a skill_db_scheme" where
  "with_credentials S job task d =
     (case svc_broker S of
        None \<Rightarrow> (task, d)
      | Some A \<Rightarrow>
          if dj_userID job = '''' then (task, d)
          else (case ListProviders (dj_tenantID job) (dj_userID job) d of
                  (Inl _, d') \<Rightarrow> (task, d')
                | (Inr ps, d') \<Rightarrow>
                    (case issue_all A (dj_tenantID job) (dj_userID job) (cv_ID (dj_convo job)) ps d' of
                       (cs, d2) \<Rightarrow> (task\<lparr>dt_Credentials := dt_Credentials task @ cs\<rparr>, d2))))"

definition with_instance ::
  "'rt Services \<Rightarrow> dispatch_job \<Rightarrow> DispatchTask \<Rightarrow> 'rt \<times> 'a skill_db_scheme \<Rightarrow> DispatchTask \<times> 'rt \<times> 'a skill_db_scheme" where
  "with_instance S job task s =
     (case GetProfileByName (dj_tenantID job) (dt_ProfileName task) (snd s) of
        (Inl _, d1) \<Rightarrow> (task, fst s, d1)
      | (Inr profile, d1) \<Rightarrow>
          (case EnsureInstance (svc_route S) agentRepoAdapter (cv_ID (dj_convo job)) (dj_tenantID job) (ap_ID profile) (fst s, d1) of
             (Inl _, s2) \<Rightarrow> (task, s2)
           | (Inr None, s2) \<Rightarrow> (task, s2)
           | (Inr (Some claim), s2) \<Rightarrow>
               (task\<lparr>dt_InstanceID := (if cr_PodName claim \<noteq> '''' then cr_PodName claim else cr_InstanceID claim)\<rparr>, s2)))"

definition dispatchToAgent ::
  "'rt Services \<Rightarrow> string \<Rightarrow> dispatch_job \<Rightarrow> ('rt, 'a skill_db_scheme) gateway \<Rightarrow> ('rt, 'a skill_db_scheme) gateway" where
  "dispatchToAgent S taskID job g =
     (case ListMessages (cv_ID (dj_convo job)) 500 (gw_db g) of
        (Inl _, d1) \<Rightarrow> g\<lparr>gw_db := d1\<rparr>
      | (Inr msgs, d1) \<Rightarrow>
          (let profileName = (if dj_profileName job = '''' then ''default-orchestrator'' else dj_profileName job);
               profileType = (if dj_profileType job = '''' then ''orchestrator'' else dj_profileType job);
               task0 = apply_profile (svc_profiles S)
                 (zero_task\<lparr>dt_TaskID := taskID, dt_ConversationID := cv_ID (dj_convo job),
                            dt_TenantID := dj_tenantID job, dt_ProfileName := profileName, dt_ProfileType := profileType,
                            dt_Messages := buildMessages (svc_parse_blocks S) msgs\<rparr>) in
           (case with_task_record job task0 d1 of (task1, d2) \<Rightarrow>
            case with_active_skills S job task1 d2 of (task2, d3) \<Rightarrow>
            case with_credentials S job task2 d3 of (task3, d4) \<Rightarrow>
            case with_instance S job task3 (gw_rt g, d4) of (task4, rt5, d5) \<Rightarrow>
              snd (dispatchTask (svc_dispatcher S) task4 (g\<lparr>gw_db := d5, gw_rt := rt5\<rparr>)))))"

end
