(* ===== verification/Conv_Stream.thy ===== *)
theory Conv_Stream
  imports Dispatch
begin

text \<open>
  The stream of a conversation: \<^verbatim>\<open>internal/gateway/ws.go\<close>. A watcher follows the events of an agent,
  keeps the routing table and the task record up to date and stores what the agent says; a
  WebSocket handler forwards the same events to a client and passes its steering on. Both
  are loops over a \<open>select\<close>, here over the list of cases that become ready.
\<close>

section \<open>The server's side of the routing table\<close>

text \<open>The claim manager exists exactly when there is a database (\<open>New\<close> in \<^verbatim>\<open>server.go\<close>).
  \<open>ws_marshal\<close> stands for \<open>json.Marshal\<close> of a list with one text block.\<close>

record 'rt ws_server =
  ws_route :: "'rt RoutingTable"
  ws_pool :: bool
  ws_marshal :: "string \<Rightarrow> string"
  ws_dispatcher :: "Dispatcher option"

definition activeInstance :: "'rt ws_server \<Rightarrow> string \<Rightarrow> 'rt \<Rightarrow> string \<times> 'rt" where
  "activeInstance W convID rt =
     (if ws_pool W then ActiveInstance (ws_route W) convID rt else rtab_Get (ws_route W) convID rt)"

definition setActiveInstance :: "'rt ws_server \<Rightarrow> string \<Rightarrow> string \<Rightarrow> 'rt \<Rightarrow> 'rt" where
  "setActiveInstance W convID instanceID rt =
     (if ws_pool W then SetActiveInstance (ws_route W) convID instanceID rt
      else rtab_Set (ws_route W) convID instanceID 0 rt)"

definition clearActiveInstance :: "'rt ws_server \<Rightarrow> string \<Rightarrow> 'rt \<Rightarrow> 'rt" where
  "clearActiveInstance W convID rt =
     (if ws_pool W then ClearActiveInstance (ws_route W) convID rt else rtab_Delete (ws_route W) convID rt)"

section \<open>The watcher\<close>

record watcher =
  wt_content :: string
  wt_agentName :: string

definition assistant_message :: "'rt ws_server \<Rightarrow> string \<Rightarrow> string \<Rightarrow> string \<Rightarrow> DB_Message" where
  "assistant_message W convID agentName text =
     \<lparr>dm_ID = '''', dm_ConversationID = convID, dm_Role = ''assistant'', dm_AuthorType = ''agent'', dm_AuthorID = None,
      dm_AgentName = (if agentName \<noteq> '''' then Some agentName else None), dm_Content = ws_marshal W text,
      dm_ToolCallID = None, dm_InputTokens = 0, dm_OutputTokens = 0, dm_CreatedAt = 0\<rparr>"

definition persistAssistantMessage ::
  "'rt ws_server \<Rightarrow> string \<Rightarrow> string \<Rightarrow> string \<Rightarrow> 'a conv_db_scheme \<Rightarrow> 'a conv_db_scheme" where
  "persistAssistantMessage W convID agentName text d = snd (AddMessage (assistant_message W convID agentName text) d)"

text \<open>\<open>agent_start\<close>: the pod name of the event is resolved to the id of the instance row.\<close>

definition watch_start ::
  "'rt ws_server \<Rightarrow> string \<Rightarrow> string \<Rightarrow> StreamEvent \<Rightarrow> 'rt \<times> 'a conv_db_scheme \<Rightarrow> 'rt \<times> 'a conv_db_scheme" where
  "watch_start W convID taskID evt s =
     (case s of (rt, d) \<Rightarrow>
      case (if se_InstanceID evt \<noteq> '''' \<and> ws_pool W
            then (case GetInstanceByPodName (se_InstanceID evt) d of
                    (Inl _, d1) \<Rightarrow> ('''', d1)
                  | (Inr inst, d1) \<Rightarrow> (ai_ID inst, d1))
            else ('''', d)) of
        (instanceUUID, d1) \<Rightarrow>
          (if instanceUUID \<noteq> '''' then setActiveInstance W convID instanceUUID rt else rt,
           if taskID \<noteq> '''' \<and> ws_pool W \<and> instanceUUID \<noteq> '''' then snd (SetRunning taskID instanceUUID d1) else d1))"

definition done_json :: string where
  "done_json = ''{'' @ [CHR 34] @ ''status'' @ [CHR 34] @ '':'' @ [CHR 34] @ ''done'' @ [CHR 34] @ ''}''"

text \<open>\<open>agent_end\<close>: the rest of the text is stored, the task completed, the instance released.\<close>

definition watch_end ::
  "'rt ws_server \<Rightarrow> string \<Rightarrow> string \<Rightarrow> watcher \<Rightarrow> 'rt \<times> 'a conv_db_scheme \<Rightarrow> 'rt \<times> 'a conv_db_scheme" where
  "watch_end W convID taskID w s =
     (case s of (rt, d) \<Rightarrow>
        (let d1 = (if ws_pool W \<and> wt_content w \<noteq> '''' then persistAssistantMessage W convID (wt_agentName w) (wt_content w) d else d);
             d2 = (if taskID \<noteq> '''' \<and> ws_pool W then snd (Complete taskID done_json d1) else d1) in
         (case (if ws_pool W then snd (Release (ws_route W) agentRepoAdapter convID (rt, d2)) else (rt, d2)) of
            (rt3, d3) \<Rightarrow> (clearActiveInstance W convID rt3, d3))))"

text \<open>One event; \<open>None\<close> when the watcher returns.\<close>

definition watch_event ::
  "'rt ws_server \<Rightarrow> string \<Rightarrow> string \<Rightarrow> StreamEvent \<Rightarrow> watcher \<Rightarrow> 'rt \<times> 'a conv_db_scheme \<Rightarrow>
   watcher option \<times> 'rt \<times> 'a conv_db_scheme" where
  "watch_event W convID taskID evt w s =
     (if se_Type evt = ''agent_start'' then
        (Some \<lparr>wt_content = '''', wt_agentName = se_AgentID evt\<rparr>, watch_start W convID taskID evt s)
      else if se_Type evt = ''delta'' then (Some (w\<lparr>wt_content := wt_content w @ se_Content evt\<rparr>), s)
      else if se_Type evt = ''turn_end'' then
        (if ws_pool W \<and> wt_content w \<noteq> ''''
         then (Some (w\<lparr>wt_content := ''''\<rparr>),
               fst s, persistAssistantMessage W convID (wt_agentName w) (wt_content w) (snd s))
         else (Some w, s))
      else if se_Type evt = ''agent_end'' then (None, watch_end W convID taskID w s)
      else if se_Type evt = ''error'' \<and> se_Fatal evt \<and> taskID \<noteq> '''' \<and> ws_pool W then
        (Some w, fst s, snd (Fail taskID (if se_Content evt = '''' then se_Message evt else se_Content evt) (snd s)))
      else (Some w, s))"

text \<open>What the \<open>select\<close> of the watcher sees: cancellation, the timeout of 30 minutes, a closed
  channel, an event.\<close>

datatype watch_signal = W_done | W_timeout | W_closed | W_event StreamEvent

fun watch_loop ::
  "'rt ws_server \<Rightarrow> string \<Rightarrow> string \<Rightarrow> watch_signal list \<Rightarrow> watcher \<Rightarrow> 'rt \<times> 'a conv_db_scheme \<Rightarrow>
   watcher option \<times> 'rt \<times> 'a conv_db_scheme" where
  "watch_loop W convID taskID [] w s = (Some w, s)"
| "watch_loop W convID taskID (sig # sigs) w s =
     (case sig of
        W_done \<Rightarrow> (None, s)
      | W_timeout \<Rightarrow> (None, clearActiveInstance W convID (fst s), snd s)
      | W_closed \<Rightarrow> (None, s)
      | W_event evt \<Rightarrow>
          (case watch_event W convID taskID evt w s of
             (None, s') \<Rightarrow> (None, s')
           | (Some w', s') \<Rightarrow> watch_loop W convID taskID sigs w' s'))"

definition watchConvStream ::
  "'rt ws_server \<Rightarrow> string \<Rightarrow> string \<Rightarrow> unit result \<Rightarrow> watch_signal list \<Rightarrow> 'rt \<times> 'a conv_db_scheme \<Rightarrow>
   watcher option \<times> 'rt \<times> 'a conv_db_scheme" where
  "watchConvStream W convID taskID subscribed sigs s =
     (case subscribed of
        Inl _ \<Rightarrow> (None, s)
      | Inr _ \<Rightarrow> watch_loop W convID taskID sigs \<lparr>wt_content = '''', wt_agentName = ''''\<rparr> s)"

section \<open>The client's connection\<close>

record wsClientFrame =
  cf_Type :: string
  cf_Content :: string

definition handleClientFrame ::
  "'rt ws_server \<Rightarrow> wsClientFrame \<Rightarrow> string \<Rightarrow> 'rt \<times> nats \<Rightarrow> 'rt \<times> nats" where
  "handleClientFrame W frame convID s =
     (if cf_Type frame = ''steer'' then
        (case ws_dispatcher W of
           None \<Rightarrow> s
         | Some dp \<Rightarrow>
             if cf_Content frame = '''' then s
             else (case activeInstance W convID (fst s) of
                     (instanceID, rt) \<Rightarrow>
                       if instanceID = '''' then (rt, snd s)
                       else (rt, snd (Steer dp instanceID (cf_Content frame) (snd s)))))
      else s)"

text \<open>What the \<open>select\<close> of the handler sees: cancellation, an event with the outcome of writing it
  to the client, a frame; \<open>None\<close> for a closed channel.\<close>

datatype ws_signal = S_done | S_event "(StreamEvent \<times> bool) option" | S_frame "wsClientFrame option"

record ws_conn =
  wc_sent :: "StreamEvent list"
  wc_closed :: "string option"

fun ws_loop ::
  "'rt ws_server \<Rightarrow> string \<Rightarrow> ws_signal list \<Rightarrow> ws_conn \<times> 'rt \<times> nats \<Rightarrow> ws_conn \<times> 'rt \<times> nats" where
  "ws_loop W convID [] s = s"
| "ws_loop W convID (sig # sigs) s =
     (case sig of
        S_done \<Rightarrow> s
      | S_event None \<Rightarrow> s
      | S_event (Some (evt, written)) \<Rightarrow>
          if \<not> written then s
          else (let c = (fst s)\<lparr>wc_sent := wc_sent (fst s) @ [evt]\<rparr> in
                if se_Type evt = ''agent_end'' then (c\<lparr>wc_closed := Some ''agent done''\<rparr>, snd s)
                else ws_loop W convID sigs (c, snd s))
      | S_frame None \<Rightarrow> s
      | S_frame (Some frame) \<Rightarrow> ws_loop W convID sigs (fst s, handleClientFrame W frame convID (snd s)))"

definition unavailable_event :: StreamEvent where
  "unavailable_event =
     \<lparr>se_Type = ''error'', se_TurnID = '''', se_AgentID = '''', se_InstanceID = '''', se_ConvID = '''', se_ProfileType = '''',
      se_Content = '''', se_ToolName = '''', se_Args = '''', se_Result = '''', se_IsError = False, se_StopReason = '''',
      se_Message = ''stream unavailable'', se_Fatal = True\<rparr>"

text \<open>The upgrade answers itself when it fails; otherwise the connection is a stream.\<close>

datatype ws_reply = WS_refused response | WS_not_upgraded | WS_stream ws_conn

text \<open>\<open>sigs\<close> gives what the \<open>select\<close> sees when the bridge is subscribed to a subject.\<close>

definition handleConvStream ::
  "'rt ws_server \<Rightarrow> string \<Rightarrow> Claims option \<Rightarrow> unit result \<Rightarrow> unit result \<Rightarrow> (string \<Rightarrow> ws_signal list) \<Rightarrow>
   ('rt, 'a conv_db_scheme) gateway \<Rightarrow> ws_reply \<times> ('rt, 'a conv_db_scheme) gateway" where
  "handleConvStream W convID claims accepted subscribed sigs g =
     (if convID = '''' then (WS_refused (http_Error ''conversation_id required'' 400), g)
      else (case claims of
        None \<Rightarrow> (WS_refused (http_Error ''unauthorized'' 401), g)
      | Some cl \<Rightarrow>
          (case (if ws_pool W then Conv_Get convID (gw_db g) else (Inl (Msg ''''), gw_db g)) of
             (r, d) \<Rightarrow>
               if ws_pool W \<and> (case r of Inl _ \<Rightarrow> True | Inr convo \<Rightarrow> cv_TenantID convo \<noteq> cl_TenantID cl)
               then (WS_refused (http_Error ''conversation not found'' 404), g\<lparr>gw_db := d\<rparr>)
               else (case accepted of
                       Inl _ \<Rightarrow> (WS_not_upgraded, g\<lparr>gw_db := d\<rparr>)
                     | Inr _ \<Rightarrow>
                         (case subscribed of
                            Inl _ \<Rightarrow> (WS_stream \<lparr>wc_sent = [unavailable_event], wc_closed = None\<rparr>, g\<lparr>gw_db := d\<rparr>)
                          | Inr _ \<Rightarrow>
                              (case ws_loop W convID (sigs (ConvStreamSubject convID))
                                      (\<lparr>wc_sent = [], wc_closed = None\<rparr>, gw_rt g, gw_nats g) of
                                 (c, rt, n) \<Rightarrow> (WS_stream c, g\<lparr>gw_db := d, gw_rt := rt, gw_nats := n\<rparr>)))))))"

definition legacyHandleChat :: response where
  "legacyHandleChat = http_Error ''deprecated: use /ws/conv/{id}'' 410"

section \<open>What the watcher stores\<close>

text \<open>A row of the messages table that says \<open>text\<close> in the agent's name.\<close>

definition said :: "'rt ws_server \<Rightarrow> string \<Rightarrow> string \<Rightarrow> DB_Message \<Rightarrow> string \<Rightarrow> bool" where
  "said W convID agentName row text \<longleftrightarrow> text \<noteq> '''' \<and> dm_ConversationID row = convID \<and> dm_Role row = ''assistant'' \<and>
     dm_AgentName row = (if agentName \<noteq> '''' then Some agentName else None) \<and> dm_Content row = ws_marshal W text"

definition deltas :: "StreamEvent list \<Rightarrow> string" where
  "deltas evs = concat (map se_Content (filter (\<lambda>e. se_Type e = ''delta'') evs))"

lemma deltas_simps [simp]:
  "deltas [] = ''''" "deltas (e # es) = (if se_Type e = ''delta'' then se_Content e else '''') @ deltas es"
  by (simp_all add: deltas_def)

lemma AddMessage_no_faults:
  assumes "faults d = []"
  shows "faults (snd (AddMessage m d)) = []" "tasks (snd (AddMessage m d)) = tasks d"
    "\<exists>row. fst (AddMessage m d) = Inr row"
  using assms by (simp_all add: AddMessage_def update_conv_def scanMessage_def)

lemma persist_effect:
  assumes "faults d = []" "text \<noteq> ''''"
  shows "faults (persistAssistantMessage W c a text d) = []" "tasks (persistAssistantMessage W c a text d) = tasks d"
    "\<exists>row. messages (persistAssistantMessage W c a text d) = messages d @ [row] \<and> said W c a row text"
proof -
  let ?m = "assistant_message W c a text"
  obtain row where "AddMessage ?m d = (Inr row, snd (AddMessage ?m d))"
    using AddMessage_no_faults(3) [OF assms(1), of ?m] by (metis prod.collapse)
  from AddMessage_messages [OF this] show
    "\<exists>row. messages (persistAssistantMessage W c a text d) = messages d @ [row] \<and> said W c a row text"
    using assms(2) by (auto simp: persistAssistantMessage_def said_def assistant_message_def)
qed (simp_all add: persistAssistantMessage_def AddMessage_no_faults assms(1))

definition body_event :: "StreamEvent \<Rightarrow> bool" where
  "body_event e \<longleftrightarrow> se_Type e \<noteq> ''agent_start'' \<and> se_Type e \<noteq> ''agent_end''"

text \<open>Between \<open>agent_start\<close> and \<open>agent_end\<close> nothing of the text is lost: what was stored, followed by what is
  still buffered, is what the agent has said.\<close>

lemma watch_event_body:
  assumes "body_event e" "faults d = []" "ws_pool W"
  obtains w' d' rows texts where "watch_event W c t e w (rt, d) = (Some w', rt, d')" "faults d' = []"
    "wt_agentName w' = wt_agentName w" "messages d' = messages d @ rows" "list_all2 (said W c (wt_agentName w)) rows texts"
    "concat texts @ wt_content w' = wt_content w @ deltas [e]" "map tk_ID (tasks d') = map tk_ID (tasks d)"
proof -
  note P = that
  have fail: "faults (snd (Fail t m d)) = []" "messages (snd (Fail t m d)) = messages d"
    "map tk_ID (tasks (snd (Fail t m d))) = map tk_ID (tasks d)" for m
    using assms(2) by (simp_all add: Fail_def update_task_def map_update_where_key)
  consider "se_Type e = ''delta''" | "se_Type e = ''turn_end''" "wt_content w \<noteq> ''''"
    | "se_Type e = ''error''" "se_Fatal e" "t \<noteq> ''''"
    | "se_Type e \<noteq> ''delta''" "\<not> (se_Type e = ''turn_end'' \<and> wt_content w \<noteq> '''')"
      "\<not> (se_Type e = ''error'' \<and> se_Fatal e \<and> t \<noteq> '''')" by blast
  then show thesis
  proof cases
    case 1
    then show thesis using assms 
      by (intro P [of "w\<lparr>wt_content := wt_content w @ se_Content e\<rparr>" d "[]" "[]"]) (simp_all add: watch_event_def)
  next
    case 2
    obtain row where "messages (persistAssistantMessage W c (wt_agentName w) (wt_content w) d) = messages d @ [row]"
      "said W c (wt_agentName w) row (wt_content w)" using persist_effect(3) [OF assms(2) 2(2)] by blast
    with 2 show thesis
      using assms persist_effect(1,2) [OF assms(2) 2(2), of W c "wt_agentName w"]
      by (intro P [of "w\<lparr>wt_content := ''''\<rparr>" "persistAssistantMessage W c (wt_agentName w) (wt_content w) d"
            "[row]" "[wt_content w]"]) (simp_all add: watch_event_def)
  next
    case 3
    then show thesis using assms fail
      by (intro P [of w "snd (Fail t (if se_Content e = '''' then se_Message e else se_Content e) d)" "[]" "[]"])
        (simp_all add: watch_event_def)
  next
    case 4
    then show thesis using assms by (intro P [of w d "[]" "[]"]) (auto simp: watch_event_def body_event_def)
  qed
qed

lemma watch_body:
  assumes "\<forall>e \<in> set evs. body_event e" "faults d = []" "ws_pool W"
  shows "\<exists>w' d' rows texts. watch_loop W c t (map W_event evs @ rest) w (rt, d) = watch_loop W c t rest w' (rt, d') \<and>
    faults d' = [] \<and> wt_agentName w' = wt_agentName w \<and> messages d' = messages d @ rows \<and>
    list_all2 (said W c (wt_agentName w)) rows texts \<and> concat texts @ wt_content w' = wt_content w @ deltas evs \<and>
    map tk_ID (tasks d') = map tk_ID (tasks d)"
  using assms
proof (induction evs arbitrary: w d)
  case Nil
  then show ?case by (intro exI [of _ w] exI [of _ d] exI [of _ "[]"]) simp
next
  case (Cons e evs)
  from Cons.prems obtain w1 d1 rows1 texts1 where
    1: "watch_event W c t e w (rt, d) = (Some w1, rt, d1)" "faults d1 = []" "wt_agentName w1 = wt_agentName w"
      "messages d1 = messages d @ rows1" "list_all2 (said W c (wt_agentName w)) rows1 texts1"
      "concat texts1 @ wt_content w1 = wt_content w @ deltas [e]" "map tk_ID (tasks d1) = map tk_ID (tasks d)"
    by (elim watch_event_body [rotated -1]) auto
  from Cons.IH [OF _ 1(2) Cons.prems(3), of w1] Cons.prems(1) obtain w2 d2 rows2 texts2 where
    2: "watch_loop W c t (map W_event evs @ rest) w1 (rt, d1) = watch_loop W c t rest w2 (rt, d2)"
      "faults d2 = []" "wt_agentName w2 = wt_agentName w1" "messages d2 = messages d1 @ rows2"
      "list_all2 (said W c (wt_agentName w1)) rows2 texts2" "concat texts2 @ wt_content w2 = wt_content w1 @ deltas evs"
      "map tk_ID (tasks d2) = map tk_ID (tasks d1)" by auto
  have "concat (texts1 @ texts2) @ wt_content w2 = wt_content w @ deltas (e # evs)"
    using 1(6) 2(6) by (metis append.assoc append.right_neutral concat_append deltas_simps)
  then show ?case
    using 1 2 by (intro exI [of _ w2] exI [of _ d2] exI [of _ "rows1 @ rows2"] exI [of _ "texts1 @ texts2"])
      (simp add: list_all2_appendI)
qed

section \<open>The end of a run\<close>

lemma Complete_effect:
  assumes "faults d = []"
  shows "faults (snd (Complete t r d)) = []" "messages (snd (Complete t r d)) = messages d"
    "\<forall>x \<in> set (tasks (snd (Complete t r d))). tk_ID x = t \<longrightarrow> tk_Status x = ''completed'' \<and> tk_Result x = Some r"
proof -
  let ?done = "\<lambda>x. x\<lparr>tk_Status := ''completed'', tk_Result := Some r, tk_UpdatedAt := clock d, tk_CompletedAt := Some (clock d)\<rparr>"
  have c: "snd (Complete t r d) = d\<lparr>tasks := update_where (\<lambda>x. tk_ID x = t) ?done (tasks d)\<rparr>"
    using assms by (simp add: Complete_def update_task_def)
  show "faults (snd (Complete t r d)) = []" "messages (snd (Complete t r d)) = messages d"
    using assms by (simp_all add: c)
  show "\<forall>x \<in> set (tasks (snd (Complete t r d))). tk_ID x = t \<longrightarrow> tk_Status x = ''completed'' \<and> tk_Result x = Some r"
  proof (intro ballI impI)
    fix x assume "x \<in> set (tasks (snd (Complete t r d)))" "tk_ID x = t"
    then show "tk_Status x = ''completed'' \<and> tk_Result x = Some r"
      unfolding c by (simp add: update_where_def) (elim imageE, simp split: if_splits)
  qed
qed

lemma Release_memory:
  assumes "faults d = []"
  shows "\<exists>m' rows. snd (Release memory_table agentRepoAdapter c (m, d)) = (m', d\<lparr>agent_instances := rows\<rparr>) \<and>
    Memory_Get c m' = '''' \<and>
    (Memory_Get c m \<noteq> '''' \<longrightarrow> (\<forall>i \<in> set rows. ai_ID i = Memory_Get c m \<longrightarrow> ai_State i = ''warm''))"
proof (cases "Memory_Get c m = ''''")
  case True
  then have "snd (Release memory_table agentRepoAdapter c (m, d)) = (m, d\<lparr>agent_instances := agent_instances d\<rparr>)"
    by (simp add: Release_def memory_table_def)
  with True show ?thesis by (intro exI [of _ m] exI [of _ "agent_instances d"]) simp
next
  case False
  let ?rows = "update_where (\<lambda>i. ai_ID i = Memory_Get c m)
    (\<lambda>i. i\<lparr>ai_State := ''warm'', ai_ReleasedAt := Some (clock d), ai_ClaimedAt := None\<rparr>) (agent_instances d)"
  have "snd (Release memory_table agentRepoAdapter c (m, d)) = (Memory_Delete c m, d\<lparr>agent_instances := ?rows\<rparr>)"
    using False assms by (simp add: Release_def memory_table_def agentRepoAdapter_def ReleaseInstance_def)
  moreover have "Memory_Get c (Memory_Delete c m) = ''''" by (simp add: Memory_Get_def Memory_Delete_def)
  moreover have "\<forall>i \<in> set ?rows. ai_ID i = Memory_Get c m \<longrightarrow> ai_State i = ''warm''"
    by (auto simp: set_update_where)
  ultimately show ?thesis by (intro exI [of _ "Memory_Delete c m"] exI [of _ ?rows]) simp
qed

lemma watch_end_effect:
  assumes "faults d = []" "ws_pool W" "ws_route W = memory_table"
    and "watch_end W c t w (m, d) = (m', d')"
  shows "(\<exists>rows texts. messages d' = messages d @ rows \<and> list_all2 (said W c (wt_agentName w)) rows texts \<and>
      concat texts = wt_content w)" "Memory_Get c m' = ''''"
    "t \<noteq> '''' \<Longrightarrow> \<forall>x \<in> set (tasks d'). tk_ID x = t \<longrightarrow> tk_Status x = ''completed''"
    "Memory_Get c m \<noteq> '''' \<Longrightarrow> \<forall>i \<in> set (agent_instances d'). ai_ID i = Memory_Get c m \<longrightarrow> ai_State i = ''warm''"
proof -
  define d1 where "d1 = (if wt_content w \<noteq> '''' then persistAssistantMessage W c (wt_agentName w) (wt_content w) d else d)"
  define d2 where "d2 = (if t \<noteq> '''' then snd (Complete t done_json d1) else d1)"
  have f1: "faults d1 = []" by (simp add: d1_def persist_effect(1) assms(1))
  have f2: "faults d2 = []" "messages d2 = messages d1" using f1 Complete_effect [OF f1] by (simp_all add: d2_def)
  obtain m3 rows where r: "snd (Release memory_table agentRepoAdapter c (m, d2)) = (m3, d2\<lparr>agent_instances := rows\<rparr>)"
    "Memory_Get c m \<noteq> '''' \<longrightarrow> (\<forall>i \<in> set rows. ai_ID i = Memory_Get c m \<longrightarrow> ai_State i = ''warm'')"
    using Release_memory [OF f2(1)] by blast
  have "watch_end W c t w (m, d) =
      (case snd (Release memory_table agentRepoAdapter c (m, d2)) of (rt3, d3) \<Rightarrow> (Memory_Delete c rt3, d3))"
    using assms(2,3) by (simp add: watch_end_def Let_def d1_def d2_def clearActiveInstance_def ClearActiveInstance_def) (simp add: memory_table_def)
  then have e: "m' = Memory_Delete c m3" "d' = d2\<lparr>agent_instances := rows\<rparr>"
    using assms(4) r(1) by simp_all
  show "Memory_Get c m' = ''''" by (simp add: e Memory_Get_def Memory_Delete_def)
  show "\<forall>x \<in> set (tasks d'). tk_ID x = t \<longrightarrow> tk_Status x = ''completed''" if "t \<noteq> ''''"
    using that Complete_effect(3) [OF f1, of t done_json] by (simp add: e d2_def)
  show "\<forall>i \<in> set (agent_instances d'). ai_ID i = Memory_Get c m \<longrightarrow> ai_State i = ''warm''" if "Memory_Get c m \<noteq> ''''"
    using that r(2) by (simp add: e)
  show "\<exists>rows texts. messages d' = messages d @ rows \<and> list_all2 (said W c (wt_agentName w)) rows texts \<and> concat texts = wt_content w"
  proof (cases "wt_content w = ''''")
    case True
    then show ?thesis by (intro exI [of _ "[]"]) (simp add: e f2(2) d1_def)
  next
    case False
    then obtain row where "messages d1 = messages d @ [row]" "said W c (wt_agentName w) row (wt_content w)"
      using persist_effect(3) [OF assms(1), of "wt_content w" W c "wt_agentName w"] by (auto simp: d1_def)
    then show ?thesis by (intro exI [of _ "[row]"] exI [of _ "[wt_content w]"]) (simp add: e f2(2))
  qed
qed

lemma watch_start_effect:
  assumes "faults d = []" "watch_start W c t e (rt, d) = (rt', d')"
  shows "faults d' = []" "messages d' = messages d"
  using assms
  by (auto simp: watch_start_def GetInstanceByPodName_def SetRunning_def update_task_def
      split: prod.splits sum.splits if_splits)

text \<open>C14: an agent's answer is stored as it was said. When the watcher of a conversation sees a run from
  \<open>agent_start\<close> to \<open>agent_end\<close> and the database accepts its statements, it ends; the messages it adds to
  the conversation, put together, are the deltas of the run in their order, none of them is empty and all
  carry the agent's name; the conversation has no route any more; and the task is marked
  completed, whatever happened in between, a fatal error of the agent included.\<close>

theorem watcher_persists_the_stream:
  assumes "faults d = []" "ws_pool W" "ws_route W = memory_table"
    and "se_Type start = ''agent_start''" "\<forall>e \<in> set body. body_event e" "se_Type stop = ''agent_end''"
    and "watchConvStream W c t (Inr ()) (map W_event (start # body @ [stop]) @ rest) (m, d) = (w, m', d')"
  shows "w = None \<and> Memory_Get c m' = '''' \<and>
    (\<exists>rows texts. messages d' = messages d @ rows \<and> list_all2 (said W c (se_AgentID start)) rows texts \<and>
       concat texts = deltas body) \<and>
    (t \<noteq> '''' \<longrightarrow> (\<forall>x \<in> set (tasks d'). tk_ID x = t \<longrightarrow> tk_Status x = ''completed''))"
proof -
  let ?w1 = "\<lparr>wt_content = '''', wt_agentName = se_AgentID start\<rparr>"
  obtain m1 d1 where s: "watch_start W c t start (m, d) = (m1, d1)" by (meson surj_pair)
  note d1 = watch_start_effect [OF assms(1) s]
  obtain w2 d2 rows texts where
    b: "watch_loop W c t (map W_event body @ W_event stop # rest) ?w1 (m1, d1) = watch_loop W c t (W_event stop # rest) w2 (m1, d2)"
      "faults d2 = []" "wt_agentName w2 = se_AgentID start" "messages d2 = messages d1 @ rows"
      "list_all2 (said W c (se_AgentID start)) rows texts" "concat texts @ wt_content w2 = deltas body"
    using watch_body [OF assms(5) d1(1) assms(2), of c t "W_event stop # rest" ?w1 m1] by auto
  obtain m3 d3 where e: "watch_end W c t w2 (m1, d2) = (m3, d3)" by (meson surj_pair)
  have run: "w = None" "m' = m3" "d' = d3"
    using assms(4,6,7) s b(1) e by (simp_all add: watchConvStream_def watch_event_def)
  note fin = watch_end_effect [OF b(2) assms(2,3) e]
  obtain rows2 texts2 where f: "messages d3 = messages d2 @ rows2" "list_all2 (said W c (se_AgentID start)) rows2 texts2"
    "concat texts2 = wt_content w2" using fin(1) unfolding b(3) by blast
  have "messages d' = messages d @ (rows @ rows2)" "concat (texts @ texts2) = deltas body"
    using run d1 b(4,6) f(1,3) by simp_all
  moreover have "list_all2 (said W c (se_AgentID start)) (rows @ rows2) (texts @ texts2)"
    using b(5) f(2) by (rule list_all2_appendI)
  ultimately show ?thesis using run fin(2,3) by blast
qed

section \<open>What a client of the stream sees\<close>

definition signal_events :: "ws_signal list \<Rightarrow> StreamEvent list" where
  "signal_events sigs = List.map_filter (\<lambda>s. case s of S_event (Some (e, _)) \<Rightarrow> Some e | _ \<Rightarrow> None) sigs"

lemma signal_events_simps [simp]:
  "signal_events [] = []" "signal_events (S_event (Some (e, b)) # sigs) = e # signal_events sigs"
  "signal_events (S_frame f # sigs) = signal_events sigs"
  by (simp_all add: signal_events_def map_filter_simps)

lemma ws_loop_sends:
  "\<exists>evs. prefix evs (signal_events sigs) \<and> wc_sent (fst (ws_loop W c sigs s)) = wc_sent (fst s) @ evs \<and>
     (\<forall>e \<in> set (butlast evs). se_Type e \<noteq> ''agent_end'') \<and>
     (wc_closed (fst (ws_loop W c sigs s)) \<noteq> wc_closed (fst s) \<longrightarrow> evs \<noteq> [] \<and> se_Type (last evs) = ''agent_end'')"
proof (induction sigs arbitrary: s)
  case (Cons sig sigs)
  show ?case
  proof (cases "\<exists>e. sig = S_event (Some (e, True))")
    case True
    then obtain e where sig: "sig = S_event (Some (e, True))" by blast
    let ?s = "((fst s)\<lparr>wc_sent := wc_sent (fst s) @ [e]\<rparr>, snd s)"
    show ?thesis
    proof (cases "se_Type e = ''agent_end''")
      case True
      then show ?thesis using sig by (intro exI [of _ "[e]"]) simp
    next
      case False
      from Cons.IH [of ?s] obtain evs where "prefix evs (signal_events sigs)"
        "wc_sent (fst (ws_loop W c sigs ?s)) = wc_sent (fst s) @ [e] @ evs"
        "\<forall>e \<in> set (butlast evs). se_Type e \<noteq> ''agent_end''"
        "wc_closed (fst (ws_loop W c sigs ?s)) \<noteq> wc_closed (fst s) \<longrightarrow> evs \<noteq> [] \<and> se_Type (last evs) = ''agent_end''"
        by auto
      with sig False show ?thesis by (intro exI [of _ "e # evs"]) auto
    qed
  next
    case False
    then consider f where "sig = S_frame (Some f)" | "ws_loop W c (sig # sigs) s = s"
    proof (cases sig)
      case (S_frame x)
      then show thesis using that by (cases x) auto
    qed (auto split: option.splits)
    then show ?thesis
    proof cases
      case 1
      with Cons.IH [of "(fst s, handleClientFrame W f c (snd s))"] show ?thesis by simp
    qed (intro exI [of _ "[]"], simp)
  qed
qed (intro exI [of _ "[]"], simp)

text \<open>
  What happens on NATS while a client is connected: a message is published on some subject (\<open>None\<close> if it does not decode),
  or the handler takes the next event from the channel of its bridge. The callback of the bridge runs for the messages
  on the subject of the subscription only.
\<close>

datatype traffic = Publish string "StreamEvent option" | Take

fun bridge_run :: "string \<Rightarrow> traffic list \<Rightarrow> StreamEvent list \<Rightarrow> StreamEvent list" where
  "bridge_run subject [] ch = []"
| "bridge_run subject (Publish s msg # ts) ch = bridge_run subject ts (if s = subject then bridge_callback msg ch else ch)"
| "bridge_run subject (Take # ts) ch = (case ch of [] \<Rightarrow> bridge_run subject ts [] | e # ch' \<Rightarrow> e # bridge_run subject ts ch')"

fun published_on :: "string \<Rightarrow> traffic list \<Rightarrow> StreamEvent list" where
  "published_on subject [] = []"
| "published_on subject (Publish s msg # ts) =
     (case msg of Some e \<Rightarrow> if s = subject then [e] else [] | None \<Rightarrow> []) @ published_on subject ts"
| "published_on subject (Take # ts) = published_on subject ts"

lemma bridge_run_subseq: "subseq (bridge_run subject ts ch) (ch @ published_on subject ts)"
proof (induction ts arbitrary: ch)
  case (Cons t ts)
  show ?case
  proof (cases t)
    case (Publish s msg)
    show ?thesis
    proof (cases "s = subject \<and> msg \<noteq> None \<and> length ch < bridge_capacity")
      case True
      then obtain e where "msg = Some e" by auto
      then show ?thesis using Publish True Cons.IH [of "ch @ [e]"] by (simp add: bridge_callback_def)
    next
      case False
      then have "(if s = subject then bridge_callback msg ch else ch) = ch" by (auto simp: bridge_callback_def split: option.splits)
      moreover have "subseq (ch @ published_on subject ts) (ch @ published_on subject (t # ts))"
        using Publish by (simp add: subseq_append' list_emb_append2)
      ultimately show ?thesis using Publish Cons.IH [of ch] subseq_order.trans by fastforce
    qed
  next
    case Take
    then show ?thesis using Cons.IH [of "[]"] Cons.IH [of "tl ch"] by (cases ch) simp_all
  qed
qed simp

text \<open>C34: a client sees only conversations of its tenant, and sees them as they happen. In a gateway with a database, when
  \<open>handleConvStream\<close> opens a stream, the request was authenticated and the conversation exists and belongs to the
  tenant of the token. Whatever is published on NATS, on whichever subjects, the client is sent only events that were
  published on the subject of this conversation, in their order and each at most once (some may be missing, since the
  bridge drops events when its channel is full), nothing after \<open>agent_end\<close>, and the server closes the stream only
  after it has sent \<open>agent_end\<close>. The proviso is needed: a gateway without a database, which is what the command
  \<open>volund gateway\<close> starts, opens the stream of any conversation to any authenticated caller.\<close>

theorem client_streams_are_isolated:
  assumes "ws_pool W" "handleConvStream W c claims acc (Inr ()) sigs g = (WS_stream conn, g')"
    and "\<And>subject. signal_events (sigs subject) = bridge_run subject ts []"
  shows "(\<exists>cl convo. claims = Some cl \<and> convo \<in> set (conversations (gw_db g)) \<and> cv_ID convo = c \<and>
            cv_TenantID convo = cl_TenantID cl) \<and>
    subseq (wc_sent conn) (published_on (ConvStreamSubject c) ts) \<and>
    (\<forall>e \<in> set (butlast (wc_sent conn)). se_Type e \<noteq> ''agent_end'') \<and>
    (wc_closed conn \<noteq> None \<longrightarrow> wc_sent conn \<noteq> [] \<and> se_Type (last (wc_sent conn)) = ''agent_end'')"
proof -
  let ?sigs = "sigs (ConvStreamSubject c)"
  obtain r d where g: "Conv_Get c (gw_db g) = (r, d)" by (meson surj_pair)
  obtain cl convo where cl: "claims = Some cl" "r = Inr convo" "cv_TenantID convo = cl_TenantID cl"
    and conn: "conn = fst (ws_loop W c ?sigs (\<lparr>wc_sent = [], wc_closed = None\<rparr>, gw_rt g, gw_nats g))"
    using assms(1,2) g by (auto simp: handleConvStream_def split: if_splits option.splits sum.splits prod.splits)
  have convo: "convo \<in> set (conversations (gw_db g)) \<and> cv_ID convo = c"
    using Conv_Get_state [OF g] cl(2) by blast
  obtain evs where evs: "prefix evs (signal_events ?sigs)" "wc_sent conn = evs" "\<forall>e \<in> set (butlast evs). se_Type e \<noteq> ''agent_end''"
    "wc_closed conn \<noteq> None \<longrightarrow> evs \<noteq> [] \<and> se_Type (last evs) = ''agent_end''"
    using ws_loop_sends [of ?sigs W c "(\<lparr>wc_sent = [], wc_closed = None\<rparr>, gw_rt g, gw_nats g)"] conn by auto
  have "subseq evs (bridge_run (ConvStreamSubject c) ts [])" using prefix_imp_subseq [OF evs(1)] assms(3) by simp
  then have "subseq evs (published_on (ConvStreamSubject c) ts)"
    using bridge_run_subseq [of "ConvStreamSubject c" ts "[]"] subseq_order.trans by fastforce
  with cl convo evs show ?thesis by auto
qed

text \<open>Without a database nothing is checked but the token.\<close>

theorem streams_open_without_a_database:
  assumes "\<not> ws_pool W" "c \<noteq> ''''"
  shows "\<exists>conn g'. handleConvStream W c (Some cl) (Inr ()) (Inr ()) sigs g = (WS_stream conn, g')"
  using assms by (auto simp: handleConvStream_def split: prod.splits)

section \<open>A run\<close>

definition run_server :: "MemoryRoutingTable ws_server" where
  "run_server = \<lparr>ws_route = memory_table, ws_pool = True, ws_marshal = (\<lambda>s. s), ws_dispatcher = None\<rparr>"

definition run_event :: "string \<Rightarrow> string \<Rightarrow> StreamEvent" where
  "run_event ty content = unavailable_event\<lparr>se_Type := ty, se_Content := content, se_AgentID := ''ann''\<rparr>"

definition run_body :: "StreamEvent list" where
  "run_body = [run_event ''delta'' ''Hel'', run_event ''delta'' ''lo'', run_event ''turn_end'' '''', run_event ''error'' ''oom'',
     run_event ''delta'' ''!'']"

definition run_db :: conv_db where
  "run_db = empty_convs\<lparr>conversations := [\<lparr>cv_ID = ''c'', cv_TenantID = ''t'', cv_UserID = None, cv_Title = '''',
     cv_Status = ''active'', cv_CreatedAt = 0, cv_UpdatedAt = 0\<rparr>]\<rparr>"

theorem watcher_persists_the_stream_witness:
  "\<exists>rows texts. messages (snd (snd (watchConvStream run_server ''c'' ''k'' (Inr ())
       (map W_event (run_event ''agent_start'' '''' # run_body @ [run_event ''agent_end'' ''''])) (NewMemoryRoutingTable, run_db)))) = rows \<and>
     list_all2 (said run_server ''c'' ''ann'') rows texts \<and> concat texts = ''Hello!''"
proof -
  obtain w m' d' where run: "watchConvStream run_server ''c'' ''k'' (Inr ())
       (map W_event (run_event ''agent_start'' '''' # run_body @ [run_event ''agent_end'' ''''])) (NewMemoryRoutingTable, run_db) = (w, m', d')"
    using prod_cases3 by blast
  have "deltas run_body = ''Hello!''" "\<forall>e \<in> set run_body. body_event e"
    by (simp_all add: run_body_def run_event_def body_event_def)
  moreover have "faults run_db = []" "messages run_db = []" by (simp_all add: run_db_def empty_convs_def)
  moreover have "ws_pool run_server" "ws_route run_server = memory_table" by (simp_all add: run_server_def)
  moreover have "se_Type (run_event ty x) = ty" "se_AgentID (run_event ty x) = ''ann''" for ty x by (simp_all add: run_event_def)
  ultimately show ?thesis
    using watcher_persists_the_stream [of run_db run_server "run_event ''agent_start'' ''''" run_body "run_event ''agent_end'' ''''"
        "''c''" "''k''" "[]" NewMemoryRoutingTable w m' d'] run by auto
qed

text \<open>Two conversations stream at the same time; a client is connected to \<open>c\<close>.\<close>

definition busy_traffic :: "traffic list" where
  "busy_traffic =
     [Publish (ConvStreamSubject ''c'') (Some (run_event ''delta'' ''Hel'')), Publish (ConvStreamSubject ''e'') (Some (run_event ''delta'' ''other'')),
      Publish (ConvStreamSubject ''c'') None, Take, Publish (ConvStreamSubject ''c'') (Some (run_event ''agent_end'' '''')),
      Publish (ConvStreamSubject ''c'') (Some (run_event ''delta'' ''late'')), Take, Take]"

definition busy_signals :: "string \<Rightarrow> ws_signal list" where
  "busy_signals subject = map (\<lambda>e. S_event (Some (e, True))) (bridge_run subject busy_traffic [])"

lemma signal_events_map: "signal_events (map (\<lambda>e. S_event (Some (e, True))) es) = es"
  by (induction es) simp_all

theorem client_streams_are_isolated_witness:
  "\<exists>conn g'. handleConvStream run_server ''c'' (Some (member_claims ''t'')) (Inr ()) (Inr ()) busy_signals
       \<lparr>gw_db = run_db, gw_rt = NewMemoryRoutingTable, gw_nats = \<lparr>published = [], pub_outcomes = []\<rparr>, gw_watchers = []\<rparr> =
     (WS_stream conn, g') \<and> subseq (wc_sent conn) [run_event ''delta'' ''Hel'', run_event ''agent_end'' '''', run_event ''delta'' ''late'']"
proof -
  let ?run = "handleConvStream run_server ''c'' (Some (member_claims ''t'')) (Inr ()) (Inr ()) busy_signals
       \<lparr>gw_db = run_db, gw_rt = NewMemoryRoutingTable, gw_nats = \<lparr>published = [], pub_outcomes = []\<rparr>, gw_watchers = []\<rparr>"
  have "\<exists>conn g'. ?run = (WS_stream conn, g')"
    by (simp add: handleConvStream_def run_server_def run_db_def empty_convs_def Conv_Get_def scanConversation_def
        select_one_def member_claims_def split: prod.split)
  then obtain conn g' where run: "?run = (WS_stream conn, g')" by blast
  have "ws_pool run_server" by (simp add: run_server_def)
  moreover have "\<And>subject. signal_events (busy_signals subject) = bridge_run subject busy_traffic []"
    by (simp add: busy_signals_def signal_events_map)
  moreover have "published_on (ConvStreamSubject ''c'') busy_traffic =
      [run_event ''delta'' ''Hel'', run_event ''agent_end'' '''', run_event ''delta'' ''late'']"
    by (simp add: busy_traffic_def ConvStreamSubject_def)
  ultimately show ?thesis using client_streams_are_isolated [OF _ run, of busy_traffic] run by auto
qed

end
