(* ===== verification/Gateway_Routes.thy ===== *)
theory Gateway_Routes
  imports API_Forge Storage Conv_Stream
begin

text \<open>
  The front of the gateway: the route table of \<open>Register\<close> in \<^verbatim>\<open>internal/gateway/api/api.go\<close>, the routes and the
  chain of middleware that \<open>Start\<close> sets up in \<^verbatim>\<open>internal/gateway/server.go\<close>, and the optional services it
  makes from the configuration. The handlers of the table are a parameter here, so what is shown of the
  front holds whatever they do. Patterns and their precedence are those of \<open>http.ServeMux\<close>; the path of a
  request is the unescaped one.
\<close>

section \<open>Patterns\<close>

datatype seg = Lit string | Wild string

record pattern =
  pt_method :: string
  pt_segs :: "seg list"

definition parse_seg :: "string \<Rightarrow> seg" where
  "parse_seg s =
     (if s \<noteq> [] \<and> hd s = CHR ''{'' \<and> last s = CHR ''}'' then Wild (butlast (tl s)) else Lit s)"

definition path_segs :: "string \<Rightarrow> string list" where
  "path_segs path = tl (split_on slash path)"

definition parse_pattern :: "string \<Rightarrow> pattern" where
  "parse_pattern p =
     (case split_on CHR '' '' p of
        [m, path] \<Rightarrow> \<lparr>pt_method = m, pt_segs = map parse_seg (path_segs path)\<rparr>
      | _ \<Rightarrow> \<lparr>pt_method = '''', pt_segs = map parse_seg (path_segs p)\<rparr>)"

text \<open>A pattern without a method takes every method, and one for \<open>GET\<close> takes \<open>HEAD\<close> too. A wildcard takes one
  segment, which is not empty.\<close>

definition method_below :: "string \<Rightarrow> string \<Rightarrow> bool" where
  "method_below m m' \<longleftrightarrow> m' = '''' \<or> m = m' \<or> m = ''HEAD'' \<and> m' = ''GET''"

fun match_seg :: "seg \<Rightarrow> string \<Rightarrow> bool" where
  "match_seg (Lit l) x = (x = l)"
| "match_seg (Wild _) x = (x \<noteq> '''')"

definition path_matches :: "pattern \<Rightarrow> string list \<Rightarrow> bool" where
  "path_matches p xs = list_all2 match_seg (pt_segs p) xs"

definition pattern_matches :: "pattern \<Rightarrow> string \<Rightarrow> string list \<Rightarrow> bool" where
  "pattern_matches p m xs \<longleftrightarrow> method_below m (pt_method p) \<and> path_matches p xs"

text \<open>\<open>below p q\<close>: every request that \<open>p\<close> takes is one that \<open>q\<close> takes. Two patterns overlap when some request is
  taken by both; registering patterns that overlap where neither is the more specific one panics.\<close>

fun seg_below :: "seg \<Rightarrow> seg \<Rightarrow> bool" where
  "seg_below (Lit a) (Lit b) = (a = b)"
| "seg_below (Lit a) (Wild _) = True"
| "seg_below (Wild _) (Lit b) = False"
| "seg_below (Wild _) (Wild _) = True"

definition below :: "pattern \<Rightarrow> pattern \<Rightarrow> bool" where
  "below p q \<longleftrightarrow> method_below (pt_method p) (pt_method q) \<and> list_all2 seg_below (pt_segs p) (pt_segs q)"

fun seg_overlap :: "seg \<Rightarrow> seg \<Rightarrow> bool" where
  "seg_overlap (Lit a) (Lit b) = (a = b)"
| "seg_overlap _ _ = True"

definition overlap :: "pattern \<Rightarrow> pattern \<Rightarrow> bool" where
  "overlap p q \<longleftrightarrow>
     (method_below (pt_method p) (pt_method q) \<or> method_below (pt_method q) (pt_method p)) \<and>
     list_all2 seg_overlap (pt_segs p) (pt_segs q)"

definition conflicts :: "pattern \<Rightarrow> pattern \<Rightarrow> bool" where
  "conflicts p q \<longleftrightarrow> overlap p q \<and> below p q = below q p"

text \<open>Registration one by one: \<open>None\<close> is the panic.\<close>

fun register_all :: "(pattern \<times> 'h) list \<Rightarrow> (pattern \<times> 'h) list \<Rightarrow> (pattern \<times> 'h) list option" where
  "register_all mux [] = Some mux"
| "register_all mux ((p, h) # rs) =
     (if list_ex (\<lambda>(q, _). conflicts p q) mux then None else register_all (mux @ [(p, h)]) rs)"

text \<open>The handler of the most specific pattern that takes the request\<close>

definition candidates :: "(pattern \<times> 'h) list \<Rightarrow> string \<Rightarrow> string list \<Rightarrow> (pattern \<times> 'h) list" where
  "candidates mux m xs = filter (\<lambda>(p, _). pattern_matches p m xs) mux"

definition mux_match :: "(pattern \<times> 'h) list \<Rightarrow> string \<Rightarrow> string list \<Rightarrow> (pattern \<times> 'h) option" where
  "mux_match mux m xs =
     (let cs = candidates mux m xs in find (\<lambda>(p, _). list_all (\<lambda>(q, _). below p q) cs) cs)"

text \<open>\<open>cleanPath\<close>: a request for another spelling of a path is redirected to the clean one.\<close>

definition cleanPath :: "string \<Rightarrow> string" where
  "cleanPath p =
     (let parts = clean_parts [] (split_on slash p) in
      slash # join_with [slash] parts @ (if parts \<noteq> [] \<and> p \<noteq> [] \<and> last p = slash then [slash] else []))"

text \<open>The values of the wildcards, which the request carries from then on\<close>

fun path_values :: "seg list \<Rightarrow> string list \<Rightarrow> (string \<times> string) list" where
  "path_values (Wild n # ps) (x # xs) = (n, x) # path_values ps xs"
| "path_values (Lit _ # ps) (_ # xs) = path_values ps xs"
| "path_values _ _ = []"

definition ServeHTTP :: "nat \<Rightarrow> (pattern \<times> 's page) list \<Rightarrow> 's page" where
  "ServeHTTP redirectCode mux rq s =
     (if rq_method rq \<noteq> ''CONNECT'' \<and> cleanPath (rq_path rq) \<noteq> rq_path rq
      then (Some (http_Redirect (cleanPath (rq_path rq)) redirectCode), s)
      else
        (case mux_match mux (rq_method rq) (path_segs (rq_path rq)) of
           Some (p, page) \<Rightarrow> page (rq\<lparr>rq_values := path_values (pt_segs p) (path_segs (rq_path rq))\<rparr>) s
         | None \<Rightarrow>
             if list_ex (\<lambda>(p, _). path_matches p (path_segs (rq_path rq))) mux
             then (Some (http_Error ''Method Not Allowed'' 405), s)
             else (Some (http_Error ''404 page not found'' 404), s)))"

section \<open>The routes\<close>

text \<open>The handlers of \<^verbatim>\<open>internal/gateway/api\<close>, one name each\<close>

datatype endpoint =
  HandleRegister | HandleLogin | HandleRefresh | HandleLogout | HandleMe | HandleOIDCProviders
  | HandleOIDCRedirect | HandleOIDCCallback | HandleCreateTenant | HandleListTenants
  | HandleGetTenant | HandleUpdateTenant | HandleDeleteTenant | HandleListMembers
  | HandleCreateInvite | HandleAcceptInvite | HandleCreateAgent | HandleListAgents
  | HandleGetAgent | HandleUpdateAgent | HandleDeleteAgent | HandleCreateSystemAgent
  | HandleCreateConversation | HandleListConversations | HandleGetConversation
  | HandleUpdateConversation | HandleDeleteConversation | HandlePostMessage
  | HandleUploadAttachment | HandleListAttachments | HandleGetAttachment | HandleListTasks
  | HandleGetTask | HandleCancelTask | HandleListAvailableSkills | HandleEnableSkill
  | HandleDisableSkill | HandleInstallSkill | HandleUninstallSkill | HandleListInstalledSkills
  | HandleListSkills | HandleGetSkill | HandlePublishSkill | HandleUpdateSkill | HandleDeleteSkill
  | HandleStoreMemory | HandleSearchMemory | HandleListMemories | HandleDeleteMemory
  | HandleUsageSummary | HandleUsageBreakdown | HandleQuotaStatus | HandleUsageByConversation
  | HandleStoreCredential | HandleListCredentials | HandleDeleteCredential | HandleIssueToken
  | HandleCredentialAudit | HandleConnectList | HandleConnectStart | HandleConnectCallback
  | HandleSetProviderCredentials | HandleListProviders | HandleDeleteProvider

text \<open>Pattern, whether the handler is wrapped in \<open>RequireAuth\<close>, and the handler\<close>

definition api_routes :: "(string \<times> bool \<times> endpoint) list" where
  "api_routes =
     [(''POST /v1/auth/register'', False, HandleRegister),
      (''POST /v1/auth/login'', False, HandleLogin),
      (''POST /v1/auth/refresh'', False, HandleRefresh),
      (''POST /v1/auth/logout'', False, HandleLogout),
      (''GET /v1/auth/me'', True, HandleMe),
      (''GET /v1/auth/oidc/providers'', False, HandleOIDCProviders),
      (''GET /v1/auth/oidc/{provider}'', False, HandleOIDCRedirect),
      (''GET /v1/auth/oidc/{provider}/callback'', False, HandleOIDCCallback),
      (''POST /v1/tenants'', True, HandleCreateTenant),
      (''GET /v1/tenants'', True, HandleListTenants),
      (''GET /v1/tenants/{id}'', True, HandleGetTenant),
      (''PUT /v1/tenants/{id}'', True, HandleUpdateTenant),
      (''DELETE /v1/tenants/{id}'', True, HandleDeleteTenant),
      (''GET /v1/tenants/{id}/members'', True, HandleListMembers),
      (''POST /v1/tenants/{id}/invites'', True, HandleCreateInvite),
      (''POST /v1/invites/{token}/accept'', False, HandleAcceptInvite),
      (''POST /v1/agents'', True, HandleCreateAgent),
      (''GET /v1/agents'', True, HandleListAgents),
      (''GET /v1/agents/{id}'', True, HandleGetAgent),
      (''PUT /v1/agents/{id}'', True, HandleUpdateAgent),
      (''DELETE /v1/agents/{id}'', True, HandleDeleteAgent),
      (''POST /v1/admin/agents'', True, HandleCreateSystemAgent),
      (''POST /v1/conversations'', True, HandleCreateConversation),
      (''GET /v1/conversations'', True, HandleListConversations),
      (''GET /v1/conversations/{id}'', True, HandleGetConversation),
      (''PATCH /v1/conversations/{id}'', True, HandleUpdateConversation),
      (''DELETE /v1/conversations/{id}'', True, HandleDeleteConversation),
      (''POST /v1/conversations/{id}/messages'', True, HandlePostMessage),
      (''POST /v1/conversations/{id}/attachments'', True, HandleUploadAttachment),
      (''GET /v1/conversations/{id}/attachments'', True, HandleListAttachments),
      (''GET /v1/attachments/{id}'', True, HandleGetAttachment),
      (''GET /v1/tasks'', True, HandleListTasks),
      (''GET /v1/tasks/{id}'', True, HandleGetTask),
      (''POST /v1/tasks/{id}/cancel'', True, HandleCancelTask),
      (''GET /v1/skills'', True, HandleListAvailableSkills),
      (''POST /v1/skills/{id}/enable'', True, HandleEnableSkill),
      (''DELETE /v1/skills/{id}/enable'', True, HandleDisableSkill),
      (''POST /v1/admin/skills/{id}/install'', True, HandleInstallSkill),
      (''DELETE /v1/admin/skills/{id}/install'', True, HandleUninstallSkill),
      (''GET /v1/admin/skills/installed'', True, HandleListInstalledSkills),
      (''GET /v1/forge/skills'', False, HandleListSkills),
      (''GET /v1/forge/skills/{id}'', False, HandleGetSkill),
      (''POST /v1/forge/skills'', True, HandlePublishSkill),
      (''PUT /v1/forge/skills/{id}'', True, HandleUpdateSkill),
      (''DELETE /v1/forge/skills/{id}'', True, HandleDeleteSkill),
      (''POST /v1/memory'', True, HandleStoreMemory),
      (''POST /v1/memory/search'', True, HandleSearchMemory),
      (''GET /v1/memory'', True, HandleListMemories),
      (''DELETE /v1/memory/{id}'', True, HandleDeleteMemory),
      (''GET /v1/usage/summary'', True, HandleUsageSummary),
      (''GET /v1/usage/breakdown'', True, HandleUsageBreakdown),
      (''GET /v1/usage/quota'', True, HandleQuotaStatus),
      (''GET /v1/usage/conversations/{id}'', True, HandleUsageByConversation),
      (''POST /v1/credentials'', True, HandleStoreCredential),
      (''GET /v1/credentials'', True, HandleListCredentials),
      (''DELETE /v1/credentials/{provider}'', True, HandleDeleteCredential),
      (''POST /v1/credentials/token'', True, HandleIssueToken),
      (''GET /v1/credentials/audit'', True, HandleCredentialAudit),
      (''GET /v1/connect'', True, HandleConnectList),
      (''GET /v1/connect/{provider}'', True, HandleConnectStart),
      (''GET /v1/connect/{provider}/callback'', False, HandleConnectCallback),
      (''PUT /v1/admin/providers/{id}/credentials'', True, HandleSetProviderCredentials),
      (''GET /v1/admin/providers'', True, HandleListProviders),
      (''DELETE /v1/admin/providers/{id}'', True, HandleDeleteProvider)]"

definition API_Register :: "(endpoint \<Rightarrow> 's page) \<Rightarrow> (pattern \<times> 's page) list" where
  "API_Register svc = map (\<lambda>(p, protected, h). (parse_pattern p, if protected then RequireAuth (\<lambda>_. svc h) else svc h)) api_routes"

definition healthz :: "'s page" where
  "healthz rq s = (Some (writeJSON 200 (JObj [(''status'', JStr ''ok'')])), s)"

text \<open>What \<open>Start\<close> registers, in its order: the WebSocket bridge and the metrics are parameters, and there are API
  routes only with a database.\<close>

definition gateway_mux :: "bool \<Rightarrow> (endpoint \<Rightarrow> 's page) \<Rightarrow> 's page \<Rightarrow> 's page \<Rightarrow> (pattern \<times> 's page) list" where
  "gateway_mux has_pool svc ws metrics =
     [(parse_pattern ''GET /healthz'', healthz), (parse_pattern ''GET /ws/conv/{id}'', ws),
      (parse_pattern ''/ws/chat'', \<lambda>rq s. (Some legacyHandleChat, s))] @
     (if has_pool then API_Register svc else []) @ [(parse_pattern ''GET /metrics'', metrics)]"

definition gateway_handler ::
  "jwt_lib \<Rightarrow> TokenManager \<Rightarrow> time \<Rightarrow> nat \<Rightarrow> (pattern \<times> 's page) list \<Rightarrow> ('s \<times> log_line list) handler" where
  "gateway_handler J tm now redirectCode mux =
     RecoveryMiddleware (CORSMiddleware (LoggingMiddleware (HTTPMiddleware J tm now (ServeHTTP redirectCode mux))))"

section \<open>Optional services\<close>

text \<open>A service whose configuration is missing or wrong is left out. \<open>parse\<close> decodes the list of sign-on providers,
  \<open>discover\<close> asks an issuer for its endpoints.\<close>

definition init_broker :: "(string \<Rightarrow> aead) \<Rightarrow> config \<Rightarrow> aead option" where
  "init_broker gcm cfg =
     (if cf_CredentialEncryptionKey cfg = '''' then None
      else (case NewBroker gcm (cf_CredentialEncryptionKey cfg) of Inl _ \<Rightarrow> None | Inr A \<Rightarrow> Some A))"

definition init_oidc ::
  "(string \<Rightarrow> OIDCProviderConfig list result) \<Rightarrow> (string \<Rightarrow> 'ep result) \<Rightarrow> config \<Rightarrow> 'ep OIDCManager option" where
  "init_oidc parse discover cfg =
     (if cf_OIDCProviders cfg = '''' then None
      else (case parse (cf_OIDCProviders cfg) of
              Inl _ \<Rightarrow> None
            | Inr ps \<Rightarrow> if ps = [] then None else (case NewOIDCManager discover ps of Inl _ \<Rightarrow> None | Inr m \<Rightarrow> Some m)))"

definition init_store :: "config \<Rightarrow> disk \<Rightarrow> Store option \<times> disk" where
  "init_store cfg d =
     (if cf_StorageBackend cfg = ''s3''
      then (Some (s3_store (NewS3Store \<lparr>Endpoint = cf_S3Endpoint cfg, Bucket = cf_S3Bucket cfg, AccessKey = cf_S3AccessKey cfg,
              SecretKey = cf_S3SecretKey cfg, Region = '''', UsePathStyle = cf_S3UsePathStyle cfg, UseSSL = False\<rparr>)), d)
      else (case NewLocalStore (cf_StorageLocalDir cfg) (''http://localhost'' @ cf_GatewayHTTPAddr cfg @ ''/v1/attachments'') d of
              (Inl _, d') \<Rightarrow> (None, d')
            | (Inr ls, d') \<Rightarrow> (Some (local_store ls), d')))"

section \<open>Precedence\<close>

lemma method_below_trans: "method_below a b \<Longrightarrow> method_below b c \<Longrightarrow> method_below a c"
  by (auto simp: method_below_def)

lemma seg_below_trans: "seg_below a b \<Longrightarrow> seg_below b c \<Longrightarrow> seg_below a c"
  by (cases a; cases b; cases c) auto

lemma below_refl [simp]: "below p p"
proof -
  have "seg_below x x" for x by (cases x) simp_all
  then show ?thesis by (simp add: below_def method_below_def list_all2_same)
qed

lemma below_trans: "below p q \<Longrightarrow> below q r \<Longrightarrow> below p r"
  unfolding below_def
  by (auto intro: method_below_trans list_all2_trans [where ?P1.0 = seg_below and ?P2.0 = seg_below] seg_below_trans)

lemma overlap_sym: "overlap p q \<Longrightarrow> overlap q p"
proof -
  have "seg_overlap a b \<Longrightarrow> seg_overlap b a" for a b by (cases a; cases b) auto
  then show "overlap p q \<Longrightarrow> overlap q p" unfolding overlap_def by (auto simp: list_all2_conv_all_nth)
qed

lemma conflicts_sym: "conflicts p q = conflicts q p"
  by (metis conflicts_def overlap_sym)

text \<open>Two patterns that take the same request overlap.\<close>

lemma same_request_overlap:
  assumes "pattern_matches p m xs" "pattern_matches q m xs"
  shows "overlap p q"
proof -
  have "seg_overlap a b" if "match_seg a x" "match_seg b x" for a b x using that by (cases a; cases b) auto
  then have "list_all2 seg_overlap (pt_segs p) (pt_segs q)"
    using assms by (auto simp: pattern_matches_def path_matches_def list_all2_conv_all_nth)
  then show ?thesis using assms by (auto simp: overlap_def pattern_matches_def method_below_def)
qed

lemma register_all_eq:
  "register_all mux rs = Some mux' \<longleftrightarrow>
     mux' = mux @ rs \<and> (\<forall>x \<in> set mux. \<forall>y \<in> set rs. \<not> conflicts (fst y) (fst x)) \<and> sorted_wrt (\<lambda>x y. \<not> conflicts (fst x) (fst y)) rs"
  by (induction mux rs rule: register_all.induct) (auto simp: list_ex_iff conflicts_sym case_prod_beta)

text \<open>Among patterns that do not conflict and take the same request, one is the most specific.\<close>

lemma most_specific_exists:
  assumes "sorted_wrt (\<lambda>x y. \<not> conflicts (fst x) (fst y)) cs" "cs \<noteq> []" "\<forall>x \<in> set cs. pattern_matches (fst x) m xs"
  shows "\<exists>x \<in> set cs. \<forall>y \<in> set cs. below (fst x) (fst y)"
  using assms
proof (induction cs)
  case (Cons c cs)
  show ?case
  proof (cases "cs = []")
    case False
    then obtain x where x: "x \<in> set cs" "\<forall>y \<in> set cs. below (fst x) (fst y)" using Cons by auto
    have "\<not> conflicts (fst c) (fst x)" "overlap (fst c) (fst x)"
      using Cons.prems x(1) same_request_overlap by auto
    then have "below (fst c) (fst x) \<or> below (fst x) (fst c)" by (auto simp: conflicts_def)
    then show ?thesis
    proof
      assume "below (fst c) (fst x)"
      then have "\<forall>y \<in> set (c # cs). below (fst c) (fst y)" using x(2) below_trans by auto
      then show ?thesis by auto
    qed (use x in auto)
  qed auto
qed simp

lemma mux_match_total:
  assumes "register_all [] mux = Some mux" "(p, h) \<in> set mux" "pattern_matches p m xs"
  shows "\<exists>q g. mux_match mux m xs = Some (q, g) \<and> (q, g) \<in> set mux \<and> pattern_matches q m xs \<and> below q p"
proof -
  let ?cs = "candidates mux m xs"
  have cs: "set ?cs = {x \<in> set mux. pattern_matches (fst x) m xs}" by (auto simp: candidates_def)
  have "sorted_wrt (\<lambda>x y. \<not> conflicts (fst x) (fst y)) ?cs"
    using assms(1) unfolding register_all_eq candidates_def by (auto intro: sorted_wrt_filter)
  moreover have "?cs \<noteq> []" using assms(2,3) cs by force
  ultimately obtain x where x: "x \<in> set ?cs" "\<forall>y \<in> set ?cs. below (fst x) (fst y)"
    using most_specific_exists [of ?cs m xs] cs by auto
  then have "(\<lambda>(p, _). list_all (\<lambda>(q, _). below p q) ?cs) x" by (simp add: list_all_iff case_prod_beta)
  then have "find (\<lambda>(p, _). list_all (\<lambda>(q, _). below p q) ?cs) ?cs \<noteq> None"
    using x(1) unfolding find_None_iff by blast
  then obtain q g where f: "mux_match mux m xs = Some (q, g)" unfolding mux_match_def Let_def by auto
  then have "(q, g) \<in> set ?cs \<and> list_all (\<lambda>(r, _). below q r) ?cs"
    unfolding mux_match_def Let_def by (auto simp: find_Some_iff) (metis nth_mem)
  then show ?thesis using f assms(2,3) cs by (auto simp: list_all_iff)
qed

section \<open>The table is well formed\<close>

definition route_patterns :: "string list" where
  "route_patterns = [''GET /healthz'', ''GET /ws/conv/{id}'', ''/ws/chat''] @ map fst api_routes @ [''GET /metrics'']"

abbreviation sso_list :: string where
  "sso_list \<equiv> ''GET /v1/auth/oidc/providers''"

abbreviation sso_redirect :: string where
  "sso_redirect \<equiv> ''GET /v1/auth/oidc/{provider}''"

lemma gateway_patterns: "map fst (gateway_mux True svc ws metrics) = map parse_pattern route_patterns"
  by (simp add: gateway_mux_def route_patterns_def API_Register_def case_prod_beta)

lemma patterns_do_not_conflict: "sorted_wrt (\<lambda>p q. \<not> conflicts p q) (map parse_pattern route_patterns)"
  by code_simp

lemma patterns_overlap:
  "sorted_wrt (\<lambda>p q. overlap p q \<longrightarrow> p = parse_pattern sso_list \<and> q = parse_pattern sso_redirect) (map parse_pattern route_patterns)"
  by code_simp

lemma sso_patterns:
  "parse_pattern sso_list = \<lparr>pt_method = ''GET'', pt_segs = [Lit ''v1'', Lit ''auth'', Lit ''oidc'', Lit ''providers'']\<rparr>"
  "parse_pattern sso_redirect = \<lparr>pt_method = ''GET'', pt_segs = [Lit ''v1'', Lit ''auth'', Lit ''oidc'', Wild ''provider'']\<rparr>"
  by code_simp+

lemma sorted_wrt_pairs: "sorted_wrt R xs \<Longrightarrow> x \<in> set xs \<Longrightarrow> y \<in> set xs \<Longrightarrow> x \<noteq> y \<Longrightarrow> R x y \<or> R y x"
  by (induction xs) auto

lemma gateway_registers: "register_all [] (gateway_mux True svc ws metrics) = Some (gateway_mux True svc ws metrics)"
proof -
  have "sorted_wrt (\<lambda>p q. \<not> conflicts p q) (map fst (gateway_mux True svc ws metrics))"
    unfolding gateway_patterns by (rule patterns_do_not_conflict)
  then show ?thesis by (simp add: register_all_eq sorted_wrt_map)
qed

lemma gateway_patterns_distinct:
  assumes "(p, h) \<in> set (gateway_mux True svc ws metrics)" "(p, g) \<in> set (gateway_mux True svc ws metrics)"
  shows "g = h"
proof (rule ccontr)
  assume "g \<noteq> h"
  then have "\<not> conflicts p p"
    using assms sorted_wrt_pairs [of "\<lambda>x y. \<not> conflicts (fst x) (fst y)" "gateway_mux True svc ws metrics" "(p, h)" "(p, g)"]
      gateway_registers [of svc ws metrics] unfolding register_all_eq by auto
  moreover have "overlap p p"
  proof -
    have "seg_overlap x x" for x by (cases x) simp_all
    then show ?thesis by (simp add: overlap_def method_below_def list_all2_same)
  qed
  ultimately show False by (simp add: conflicts_def)
qed

lemma sso_not_below: "\<not> below (parse_pattern sso_redirect) (parse_pattern sso_list)"
  by (simp add: sso_patterns below_def)

text \<open>C31: the routes are well formed and every request has its route. Setting up the table does not panic, as no
  two patterns conflict, and a request that a route takes is served by this very route: the only
  exception is the list of sign-on providers, which the redirect of a provider of that name would also take.\<close>

theorem every_request_has_its_route:
  assumes "(p, h) \<in> set (gateway_mux True svc ws metrics)" "pattern_matches p m xs"
    and "(p, xs) \<noteq> (parse_pattern sso_redirect, [''v1'', ''auth'', ''oidc'', ''providers''])"
  shows "register_all [] (gateway_mux True svc ws metrics) = Some (gateway_mux True svc ws metrics) \<and>
    mux_match (gateway_mux True svc ws metrics) m xs = Some (p, h)"
proof -
  obtain q g where q: "mux_match (gateway_mux True svc ws metrics) m xs = Some (q, g)"
      "(q, g) \<in> set (gateway_mux True svc ws metrics)" "pattern_matches q m xs" "below q p"
    using mux_match_total [OF gateway_registers assms(1,2)] by blast
  have "q = p"
  proof (rule ccontr)
    assume ne: "q \<noteq> p"
    have "p \<in> set (map parse_pattern route_patterns)" "q \<in> set (map parse_pattern route_patterns)"
      unfolding gateway_patterns [of svc ws metrics, symmetric] using assms(1) q(2) by force+
    then have "q = parse_pattern sso_list \<and> p = parse_pattern sso_redirect \<or> p = parse_pattern sso_list \<and> q = parse_pattern sso_redirect"
      using sorted_wrt_pairs [OF patterns_overlap _ _ ne] same_request_overlap [OF q(3) assms(2)]
        same_request_overlap [OF assms(2) q(3)] by blast
    then have "q = parse_pattern sso_list" "p = parse_pattern sso_redirect" using sso_not_below q(4) by auto
    moreover from this(1) have "xs = [''v1'', ''auth'', ''oidc'', ''providers'']"
      using q(3) by (auto simp: pattern_matches_def path_matches_def sso_patterns list_all2_Cons1)
    ultimately show False using assms(3) by simp
  qed
  then show ?thesis using q gateway_registers gateway_patterns_distinct [OF assms(1), of g] by simp
qed

text \<open>Handlers that count their calls\<close>

definition counting_svc :: "endpoint \<Rightarrow> nat page" where
  "counting_svc h rq n = (Some (writeJSON 200 (JBool (h = HandleLogin))), Suc n)"

definition counting_mux :: "(pattern \<times> nat page) list" where
  "counting_mux = gateway_mux True counting_svc (\<lambda>rq s. (Some (http_Error ''unauthorized'' 401), s)) (\<lambda>rq s. (Some (writeJSON 200 JNull), s))"

theorem every_request_has_its_route_witness:
  "mux_match counting_mux ''HEAD'' [''v1'', ''auth'', ''oidc'', ''google''] = Some (parse_pattern sso_redirect, counting_svc HandleOIDCRedirect)"
proof -
  have "(parse_pattern sso_redirect, counting_svc HandleOIDCRedirect) \<in> set counting_mux"
    by (simp add: counting_mux_def gateway_mux_def API_Register_def api_routes_def)
  moreover have "pattern_matches (parse_pattern sso_redirect) ''HEAD'' [''v1'', ''auth'', ''oidc'', ''google'']"
    unfolding sso_patterns by (simp add: pattern_matches_def path_matches_def method_below_def)
  ultimately show ?thesis unfolding counting_mux_def by (rule every_request_has_its_route [THEN conjunct2]) simp
qed

section \<open>What a stranger reaches\<close>

definition public_handlers :: "endpoint set" where
  "public_handlers = {HandleRegister, HandleLogin, HandleRefresh, HandleLogout, HandleOIDCProviders,
     HandleOIDCRedirect, HandleOIDCCallback, HandleAcceptInvite, HandleListSkills, HandleGetSkill, HandleConnectCallback}"

lemma unprotected_routes: "\<forall>(p, protected, h) \<in> set api_routes. protected \<or> h \<in> public_handlers"
  by (simp add: api_routes_def public_handlers_def)

lemma pages_without_claims:
  assumes "(p, page) \<in> set (gateway_mux has_pool svc ws metrics)" "rq_claims rq = None" "page rq s = (r, s')"
    and ws: "\<And>rq s. rq_claims rq = None \<Longrightarrow> snd (ws rq s) = s" and metrics: "\<And>rq s. snd (metrics rq s) = s"
  shows "s' = s \<or> (\<exists>h \<in> public_handlers. svc h rq s = (r, s'))"
proof -
  consider "(p, page) \<in> set (API_Register svc)" | "page = healthz" | "page = ws" | "page = (\<lambda>rq s. (Some legacyHandleChat, s))" | "page = metrics"
    using assms(1) by (auto simp: gateway_mux_def split: if_splits)
  then show ?thesis
  proof cases
    case 1
    then obtain pat protected h where n: "(pat, protected, h) \<in> set api_routes"
        "page = (if protected then RequireAuth (\<lambda>_. svc h) else svc h)" by (auto simp: API_Register_def)
    then show ?thesis using assms(2,3) unprotected_routes by (cases protected) (auto simp: RequireAuth_def)
  next
    case 3
    then show ?thesis using ws [OF assms(2), of s] assms(3) by simp
  next
    case 5
    then show ?thesis using metrics [of rq s] assms(3) by simp
  qed (use assms(3) in \<open>simp_all add: healthz_def\<close>)
qed

lemma mux_match_in: "mux_match mux m xs = Some r \<Longrightarrow> r \<in> set mux"
  using select_one_Some [unfolded select_one_def, of _ "candidates mux m xs" r] by (auto simp: mux_match_def candidates_def Let_def)

lemma ServeHTTP_page:
  assumes "ServeHTTP redirectCode mux rq s = (r, s')"
  shows "s' = s \<or> (\<exists>p page vs. (p, page) \<in> set mux \<and> page (rq\<lparr>rq_values := vs\<rparr>) s = (r, s'))"
proof (cases "mux_match mux (rq_method rq) (path_segs (rq_path rq))")
  case None
  then show ?thesis using assms by (auto simp: ServeHTTP_def split: if_splits)
next
  case (Some x)
  obtain p page where x: "x = (p, page)" by (rule prod.exhaust)
  then have "(p, page) \<in> set mux" using mux_match_in [OF Some] by simp
  moreover have "s' = s \<or> (\<exists>vs. page (rq\<lparr>rq_values := vs\<rparr>) s = (r, s'))" using assms Some x by (auto simp: ServeHTTP_def split: if_splits)
  ultimately show ?thesis by blast
qed

text \<open>Whatever the request, at most one page of the table runs, with the claims of the token if there is one.\<close>

lemma gateway_runs_one_page:
  assumes "gateway_handler J tm now redirectCode mux rq (s, lines) = (r, (s', lines'))"
  shows "s' = s \<or> (\<exists>p page vs cl r0. (p, page) \<in> set mux \<and> page (rq\<lparr>rq_values := vs, rq_claims := cl\<rparr>) s = (r0, s') \<and>
    (cl = rq_claims rq \<or> (\<exists>claims. cl = Some claims \<and> Validate J tm now (token_of_request rq) = Inr claims)))"
proof -
  have swap: "rq\<lparr>rq_claims := cl, rq_values := vs\<rparr> = rq\<lparr>rq_values := vs, rq_claims := cl\<rparr>" for cl vs by (cases rq) simp
  obtain r0 s0 where h: "HTTPMiddleware J tm now (ServeHTTP redirectCode mux) rq s = (r0, s0)" by (meson surj_pair)
  have out: "s' = s \<or> s' = s0"
    using assms h by (auto simp: gateway_handler_def RecoveryMiddleware_def CORSMiddleware_def LoggingMiddleware_def Let_def
        split: if_splits option.splits prod.splits)
  have "s0 = s \<or> ServeHTTP redirectCode mux rq s = (r0, s0) \<or>
      (\<exists>claims. Validate J tm now (token_of_request rq) = Inr claims \<and> ServeHTTP redirectCode mux (rq\<lparr>rq_claims := Some claims\<rparr>) s = (r0, s0))"
    using h by (auto simp: HTTPMiddleware_def split: if_splits sum.splits)
  then show ?thesis
  proof (elim disjE exE conjE)
    assume "ServeHTTP redirectCode mux rq s = (r0, s0)"
    moreover have "rq\<lparr>rq_values := vs\<rparr> = rq\<lparr>rq_values := vs, rq_claims := rq_claims rq\<rparr>" for vs by simp
    ultimately show ?thesis using ServeHTTP_page out by metis
  next
    fix claims
    assume v: "Validate J tm now (token_of_request rq) = Inr claims"
      and "ServeHTTP redirectCode mux (rq\<lparr>rq_claims := Some claims\<rparr>) s = (r0, s0)"
    then have "s0 = s \<or> (\<exists>p page vs. (p, page) \<in> set mux \<and> page (rq\<lparr>rq_values := vs, rq_claims := Some claims\<rparr>) s = (r0, s0))"
      using ServeHTTP_page [of redirectCode mux "rq\<lparr>rq_claims := Some claims\<rparr>" s r0 s0] by (simp add: swap)
    then show ?thesis using out v by metis
  qed (use out in simp)
qed

lemma strangers_reach_public_handlers:
  assumes "jwt_spec J signed_by" "rq_claims rq = None"
    and no_token: "\<forall>claims. signed_by HMAC (tm_secret tm) claims (token_of_request rq) \<longrightarrow> \<not> unexpired now claims"
    and ws: "\<And>rq s. rq_claims rq = None \<Longrightarrow> snd (ws rq s) = s" and metrics: "\<And>rq s. snd (metrics rq s) = s"
    and run: "gateway_handler J tm now redirectCode (gateway_mux has_pool svc ws metrics) rq (s, lines) = (r, (s', lines'))"
  shows "s' = s \<or> (\<exists>h \<in> public_handlers. \<exists>vs. snd (svc h (rq\<lparr>rq_values := vs\<rparr>) s) = s')"
proof -
  consider "s' = s" | p page vs cl r0 where "(p, page) \<in> set (gateway_mux has_pool svc ws metrics)"
      "page (rq\<lparr>rq_values := vs, rq_claims := cl\<rparr>) s = (r0, s')"
      "cl = rq_claims rq \<or> (\<exists>claims. cl = Some claims \<and> Validate J tm now (token_of_request rq) = Inr claims)"
    using gateway_runs_one_page [OF run] by blast
  then show ?thesis
  proof cases
    case 2
    then have none: "cl = None" using assms(2) no_token Validate_sound [OF assms(1)] by fastforce
    then have "s' = s \<or> (\<exists>h \<in> public_handlers. svc h (rq\<lparr>rq_values := vs, rq_claims := cl\<rparr>) s = (r0, s'))"
      by (intro pages_without_claims [OF 2(1) _ 2(2) ws metrics]) simp_all
    moreover have "rq\<lparr>rq_values := vs, rq_claims := cl\<rparr> = rq\<lparr>rq_values := vs\<rparr>" using none assms(2) by (cases rq) simp
    ultimately show ?thesis by (metis snd_conv)
  qed simp
qed

text \<open>What a stranger reaches. A request without a token of this server, signed and unexpired, changes the
  state of the services only through one of eleven handlers: the account, sign-on and invitation
  handlers, reading the skill registry, and the callback of a connect flow. Every other request leaves the
  state as it was, whatever its path and method.\<close>

theorem strangers_reach_public_handlers_only:
  assumes "jwt_spec J signed_by" "rq_claims rq = None"
    and no_token: "\<forall>claims. signed_by HMAC (tm_secret tm) claims (token_of_request rq) \<longrightarrow> \<not> unexpired now claims"
    and ws: "\<And>rq s. rq_claims rq = None \<Longrightarrow> snd (ws rq s) = s" and metrics: "\<And>rq s. snd (metrics rq s) = s"
    and run: "gateway_handler J tm now redirectCode (gateway_mux has_pool svc ws metrics) rq (s, lines) = (r, (s', lines'))"
  shows "s' = s \<or> (\<exists>h \<in> public_handlers. \<exists>vs. snd (svc h (rq\<lparr>rq_values := vs\<rparr>) s) = s')"
  by (rule strangers_reach_public_handlers [OF assms])

theorem strangers_reach_public_handlers_only_witness:
  "\<exists>r s' lines. gateway_handler ref_jwt (NewTokenManager ''s'') 0 301 counting_mux (plain_request ''/v1/tasks'' '''') (7, []) = (r, (s', lines)) \<and>
     (s' = 7 \<or> (\<exists>h \<in> public_handlers. \<exists>vs. snd (counting_svc h ((plain_request ''/v1/tasks'' '''')\<lparr>rq_values := vs\<rparr>) 7) = s'))"
proof -
  obtain r s' lines where run: "gateway_handler ref_jwt (NewTokenManager ''s'') 0 301 counting_mux (plain_request ''/v1/tasks'' '''') (7, []) = (r, (s', lines))"
    by (metis prod.collapse)
  have "decode_command [] = None" by code_simp
  then have "\<forall>claims. ref_signed HMAC (tm_secret (NewTokenManager ''s'')) claims (token_of_request (plain_request ''/v1/tasks'' '''')) \<longrightarrow> \<not> unexpired 0 claims"
    by (simp add: ref_signed_def token_of_request_def plain_request_def)
  from strangers_reach_public_handlers_only [OF ref_jwt_spec _ this _ _ run [unfolded counting_mux_def]]
  have "s' = 7 \<or> (\<exists>h \<in> public_handlers. \<exists>vs. snd (counting_svc h ((plain_request ''/v1/tasks'' '''')\<lparr>rq_values := vs\<rparr>) 7) = s')"
    by (simp add: plain_request_def)
  with run show ?thesis by (intro exI conjI)
qed

section \<open>Without a credential key\<close>

text \<open>C38: without a credential key a consent is lost. The connect engine is there whenever there is a database,
  the credential broker only with a key. When the callback of a pending flow gets its tokens and there is
  no broker, the handler panics: the answer is 500, the flow is used up, no credential is stored, and the log has
  the line of the recovered panic but no line of the request in the access log.\<close>

theorem consent_without_broker_is_lost:
  assumes key: "cf_CredentialEncryptionKey cfg = ''''"
    and cb: "HandleCallback post baseURL (rq_query rq ''state'') (rq_query rq ''code'') s = (Inr res, s1)"
    and q: "rq_query rq ''error'' = ''''" "rq_query rq ''state'' \<noteq> ''''" "rq_query rq ''code'' \<noteq> ''''" "rq_method rq \<noteq> ''OPTIONS''"
    and run: "RecoveryMiddleware (CORSMiddleware (LoggingMiddleware
        (handleConnectCallback post (init_broker gcm cfg) page (Some baseURL)))) rq (s, lines) =
      (r, (s', lines'))"
  shows "rs_status r = 500 \<and> oa_states s' (rq_query rq ''state'') = None \<and>
    lines' = lines @ [Panic_Recovered (rq_method rq) (rq_path rq)] \<and>
    user_credentials (oa_db s') = user_credentials (oa_db s)"
proof -
  have "handleConnectCallback post (init_broker gcm cfg) page (Some baseURL) rq s = (None, s1)"
    using cb q key by (simp add: handleConnectCallback_def init_broker_def)
  then have out: "s' = s1" "lines' = lines @ [Panic_Recovered (rq_method rq) (rq_path rq)]" "rs_status r = 500"
    using run q(4) by (auto simp: RecoveryMiddleware_def CORSMiddleware_def LoggingMiddleware_def Let_def)
  have "user_credentials (oa_db s1) = user_credentials (oa_db s)"
    using cb by (auto simp: HandleCallback_def Registry_Get_def exchangeCode_def Let_def query_def statement_def
        split: option.splits prod.splits sum.splits list.splits)
  then show ?thesis using out HandleCallback_consumes [OF cb] by simp
qed

theorem consent_without_broker_is_lost_witness:
  "\<exists>r s' lines'. RecoveryMiddleware (CORSMiddleware (LoggingMiddleware (handleConnectCallback gmail_reply (init_broker (\<lambda>_. ref_aead) (Load (\<lambda>_. ''''))) (\<lambda>_. '''') (Some ''https://v''))))
       callback_rq (waiting_engine, []) = (r, (s', lines')) \<and> rs_status r = 500 \<and> oa_states s' ''61'' = None \<and>
     lines' = [Panic_Recovered (rq_method callback_rq) (rq_path callback_rq)] \<and>
     user_credentials (oa_db s') = user_credentials (oa_db waiting_engine)"
proof -
  obtain s1 where cb: "HandleCallback gmail_reply ''https://v'' (rq_query callback_rq ''state'') (rq_query callback_rq ''code'') waiting_engine = (Inr gmail_result, s1)"
    using gmail_callback by (auto simp: waiting_facts)
  obtain r s' lines' where run: "RecoveryMiddleware (CORSMiddleware (LoggingMiddleware (handleConnectCallback gmail_reply (init_broker (\<lambda>_. ref_aead) (Load (\<lambda>_. ''''))) (\<lambda>_. '''') (Some ''https://v''))))
       callback_rq (waiting_engine, []) = (r, (s', lines'))" by (metis prod.collapse)
  have m: "rq_method callback_rq \<noteq> ''OPTIONS''" by (simp add: callback_rq_def)
  have lost: "rs_status r = 500 \<and> oa_states s' ''61'' = None \<and>
     lines' = [Panic_Recovered (rq_method callback_rq) (rq_path callback_rq)] \<and>
     user_credentials (oa_db s') = user_credentials (oa_db waiting_engine)"
    using consent_without_broker_is_lost [OF _ cb _ _ _ m run] by (simp add: waiting_facts Load_def)
  show ?thesis by (rule exI, rule exI, rule exI, rule conjI, rule run, rule lost)
qed

end
