(* ===== verification/LLM_Types.thy ===== *)
theory LLM_Types
  imports Prelude
begin

text \<open>
  The provider-agnostic data of \<^verbatim>\<open>internal/llm/provider.go\<close>. A Go pointer that may be nil is
  an \<open>option\<close>, an \<open>interface{}\<close> is a datatype with the dynamic types the code switches
  on, and a \<open>float64\<close> that is only moved about is a \<^typ>\<open>rat\<close>. A provider is a record of
  functions; the network behind it is the state \<open>'w\<close> that each call may change.
\<close>

record ImageData =
  MediaType :: string
  ImgData :: string
  ImgURL :: string

record ToolUseData =
  tu_ID :: string
  tu_Name :: string
  tu_InputJSON :: string

record ToolResultData =
  tr_ToolUseID :: string
  tr_Content :: string
  tr_IsError :: bool

record Block =
  b_Type :: string
  b_Text :: string
  b_Image :: "ImageData option"
  b_ToolUse :: "ToolUseData option"
  b_ToolResult :: "ToolResultData option"

record Message =
  Role :: string
  Content :: "Block list"
  ToolCallID :: string

record ToolDef =
  td_Name :: string
  td_Description :: string
  td_InputSchemaJSON :: string

record Usage =
  InputTokens :: int
  OutputTokens :: int
  CacheReadTokens :: int
  CacheWriteTokens :: int

record ProviderRequest =
  pq_Model :: string
  pq_Messages :: "Message list"
  pq_Temperature :: rat
  pq_MaxTokens :: int
  pq_StopSequences :: "string list"
  pq_Tools :: "ToolDef list"

record ProviderResponse =
  pr_ID :: string
  pr_Model :: string
  pr_Content :: "Block list"
  pr_StopReason :: string
  pr_Usage :: Usage

record Chunk =
  ch_TextDelta :: string
  ch_ToolUse :: "ToolUseData option"
  ch_Final :: "ProviderResponse option"

text \<open>\<open>Content interface{} // string or []*Block\<close> and \<open>Input interface{} // string or []*InputItem\<close>:
  \<open>CNil\<close> and \<open>INil\<close> are the nil interface.\<close>

datatype ItemContent = CText string | CBlocks "Block list" | CNil

record InputItem =
  it_Type :: string
  it_Role :: string
  it_Content :: ItemContent
  it_CallID :: string
  it_Output :: string

datatype Input = IText string | IItems "InputItem list" | INil

record ResponseRequest =
  rq_Model :: string
  rq_Input :: Input
  rq_Instructions :: string
  rq_PreviousResponseID :: string
  rq_Tools :: "ToolDef list"
  rq_Temperature :: rat
  rq_MaxTokens :: int

record OutputItem =
  o_Type :: string
  o_Role :: string
  o_Content :: "Block list"
  o_CallID :: string
  o_Name :: string
  o_Arguments :: string

record ResponseResult =
  rr_ID :: string
  rr_Model :: string
  rr_Output :: "OutputItem list"
  rr_Usage :: Usage
  rr_Status :: string

record ResponseEvent =
  ev_Type :: string
  ev_TextDelta :: string
  ev_Response :: "ResponseResult option"

record ModelInfo =
  mi_Provider :: string
  mi_ID :: string
  mi_DisplayName :: string
  mi_ContextWindow :: int
  mi_MaxOutputTokens :: int
  mi_SupportsVision :: bool
  mi_SupportsToolUse :: bool
  mi_SupportsStreaming :: bool
  mi_InputPricePerMTok :: rat
  mi_OutputPricePerMTok :: rat

text \<open>A stream is the sequence of results its \<open>Recv\<close> calls return: a chunk (\<open>Some\<close>), the nil
  chunk (\<open>None\<close>) or an error; after the last one \<open>Recv\<close> returns \<open>io.EOF\<close>.\<close>

type_synonym Stream = "Chunk option result list"
type_synonym ResponseStream = "ResponseEvent option result list"

text \<open>A call of a provider: it may change the outside world and may fail.\<close>

type_synonym ('w, 'a) call = "'w \<Rightarrow> 'a result \<times> 'w"

record 'w ResponderProvider =
  rp_Respond :: "ResponseRequest \<Rightarrow> ('w, ResponseResult) call"
  rp_StreamRespond :: "ResponseRequest \<Rightarrow> ('w, ResponseStream) call"

record 'w Provider =
  p_Name :: string
  p_Chat :: "ProviderRequest \<Rightarrow> ('w, ProviderResponse) call"
  p_StreamChat :: "ProviderRequest \<Rightarrow> ('w, Stream) call"
  p_Embed :: "string \<Rightarrow> string list \<Rightarrow> ('w, rat list list \<times> Usage option) call"
  p_ListModels :: "('w, ModelInfo list) call"
  p_HealthCheck :: "('w, unit) call"
  p_responder :: "'w ResponderProvider option"  \<comment> \<open>the type assertion \<open>p.(ResponderProvider)\<close>\<close>

text \<open>The composite literal \<open>&Block{Type: "text", Text: s}\<close>\<close>

definition text_block :: "string \<Rightarrow> Block" where
  "text_block s =
     \<lparr>b_Type = ''text'', b_Text = s, b_Image = None, b_ToolUse = None, b_ToolResult = None\<rparr>"

end
