(* ===== verification/Chat_SDK.thy ===== *)
theory Chat_SDK
  imports LLM_Types "HOL-Library.Log_Nat"
begin

text \<open>
  What the provider adapters share: Go's conversions of numbers, the text of a message, the event
  streams of the client libraries and the data of the Chat Completions API, which the OpenAI and the
  Ollama adapter both speak. The client libraries themselves are not part of the repository: a client
  is a record of functions, and a stream is the list of the events the server sends together with the
  error, if any, that ends it.
\<close>

section \<open>Numbers\<close>

text \<open>\<open>int32(n)\<close> of a 64-bit integer keeps the low 32 bits.\<close>

definition to_int32 :: "int \<Rightarrow> int" where
  "to_int32 n = (n + 2 ^ 31) mod 2 ^ 32 - 2 ^ 31"

lemma to_int32_bounds: "- (2 ^ 31) \<le> to_int32 n" "to_int32 n < 2 ^ 31"
  by (simp_all add: to_int32_def)

lemma to_int32_id: "- (2 ^ 31) \<le> n \<Longrightarrow> n < 2 ^ 31 \<Longrightarrow> to_int32 n = n"
  by (simp add: to_int32_def)

lemma to_int32_0 [simp]: "to_int32 0 = 0"
  by (simp add: to_int32_def)

text \<open>\<open>float32(x)\<close>: the multiple of the unit in the last place nearest to \<open>x\<close>, ties to even. The unit
  of a normal number with exponent \<open>e\<close> is \<open>2 ^ (e - 23)\<close>; numbers below \<open>2 ^ -126\<close> share the smallest
  unit. Values beyond the range of a \<open>float32\<close>, which would become infinite, are left out.\<close>

definition binary_exponent :: "rat \<Rightarrow> int" where
  "binary_exponent x =
     (let (n, d) = quotient_of \<bar>x\<bar>; e = int (floorlog 2 (nat n)) - int (floorlog 2 (nat d)) in
      if 2 powi e \<le> \<bar>x\<bar> then e else e - 1)"

definition round_half_even :: "rat \<Rightarrow> int" where
  "round_half_even x =
     (let m = \<lfloor>x\<rfloor>; r = x - of_int m in
      if r < 1 / 2 \<or> r = 1 / 2 \<and> even m then m else m + 1)"

definition float32 :: "rat \<Rightarrow> rat" where
  "float32 x =
     (if x = 0 then 0
      else let u = 2 powi (max (binary_exponent x) (- 126) - 23) in of_int (round_half_even (x / u)) * u)"

lemma round_half_even_error: "\<bar>of_int (round_half_even x) - x\<bar> \<le> 1 / 2"
proof -
  define r where "r = x - of_int \<lfloor>x\<rfloor>"
  have "0 \<le> r" "r < 1" unfolding r_def by linarith+
  moreover have "x = of_int \<lfloor>x\<rfloor> + r" by (simp add: r_def)
  ultimately show ?thesis
    unfolding round_half_even_def Let_def r_def [symmetric] by (auto simp: r_def abs_if; linarith)
qed

section \<open>The text of a message\<close>

text \<open>The three adapters have their own copy of \<open>textContent\<close>: the text of the first text block.\<close>

fun textContent :: "Block list \<Rightarrow> string" where
  "textContent [] = ''''"
| "textContent (b # blocks) = (if b_Type b = ''text'' then b_Text b else textContent blocks)"

definition tool_use_block :: "string \<Rightarrow> string \<Rightarrow> string \<Rightarrow> Block" where
  "tool_use_block ident name args =
     \<lparr>b_Type = ''tool_use'', b_Text = '''', b_Image = None,
      b_ToolUse = Some \<lparr>tu_ID = ident, tu_Name = name, tu_InputJSON = args\<rparr>, b_ToolResult = None\<rparr>"

lemma text_block_simps [simp]:
  "b_Type (text_block s) = ''text''" "b_Text (text_block s) = s" "b_Image (text_block s) = None"
  "b_ToolUse (text_block s) = None" "b_ToolResult (text_block s) = None"
  by (simp_all add: text_block_def)

lemma tool_use_block_simps [simp]:
  "b_Type (tool_use_block i n a) = ''tool_use''"
  "b_ToolUse (tool_use_block i n a) = Some \<lparr>tu_ID = i, tu_Name = n, tu_InputJSON = a\<rparr>"
  "b_ToolResult (tool_use_block i n a) = None" "b_Image (tool_use_block i n a) = None"
  by (simp_all add: tool_use_block_def)

text \<open>The chunks of a stream: \<open>&Chunk{TextDelta: t}\<close>, \<open>&Chunk{ToolUse: tu}\<close> and \<open>&Chunk{Final: r}\<close>.\<close>

definition text_chunk :: "string \<Rightarrow> Chunk" where
  "text_chunk t = \<lparr>ch_TextDelta = t, ch_ToolUse = None, ch_Final = None\<rparr>"

definition tool_chunk :: "ToolUseData \<Rightarrow> Chunk" where
  "tool_chunk tu = \<lparr>ch_TextDelta = '''', ch_ToolUse = Some tu, ch_Final = None\<rparr>"

definition final_chunk :: "ProviderResponse \<Rightarrow> Chunk" where
  "final_chunk r = \<lparr>ch_TextDelta = '''', ch_ToolUse = None, ch_Final = Some r\<rparr>"

lemmas chunk_defs = text_chunk_def tool_chunk_def final_chunk_def

definition empty_usage :: Usage where
  "empty_usage = \<lparr>InputTokens = 0, OutputTokens = 0, CacheReadTokens = 0, CacheWriteTokens = 0\<rparr>"

definition empty_response :: ProviderResponse where
  "empty_response = \<lparr>pr_ID = '''', pr_Model = '''', pr_Content = [], pr_StopReason = '''', pr_Usage = empty_usage\<rparr>"

section \<open>Event streams\<close>

text \<open>The stream of a client library: \<open>Next\<close> takes the next of the events, \<open>Err\<close> is the error that ended
  the stream, if it did not end by itself.\<close>

record 'e sse =
  pending :: "'e list"
  failure :: "go_err option"

text \<open>Reading a stream to its end: the results of \<open>Recv\<close> up to the first error, of which \<open>io.EOF\<close> is the
  regular end and not listed. The consumers in the sources stop at the first error. The number bounds the
  calls; a locale below gives the bound that is always enough.\<close>

fun drain :: "('s \<Rightarrow> 'x result \<times> 's) \<Rightarrow> nat \<Rightarrow> 's \<Rightarrow> 'x result list" where
  "drain recv 0 s = []"
| "drain recv (Suc n) s =
     (case recv s of
        (Inl e, s') \<Rightarrow> if e = EOF then [] else [Inl e]
      | (Inr x, s') \<Rightarrow> Inr x # drain recv n s')"

fun nth_recv :: "('s \<Rightarrow> 'x result \<times> 's) \<Rightarrow> nat \<Rightarrow> 's \<Rightarrow> 'x result" where
  "nth_recv recv 0 s = fst (recv s)"
| "nth_recv recv (Suc k) s = nth_recv recv k (snd (recv s))"

text \<open>What every stream promises: a chunk uses up some of what is left.\<close>

locale receiver =
  fixes recv :: "'s \<Rightarrow> 'x result \<times> 's" and left :: "'s \<Rightarrow> nat"
  assumes progress: "recv s = (Inr x, s') \<Longrightarrow> left s' < left s"
begin

lemma ends: "\<exists>k e. k \<le> left s \<and> nth_recv recv k s = Inl e"
proof (induction "left s" arbitrary: s rule: less_induct)
  case less
  obtain r s' where rs: "recv s = (r, s')" by (meson surj_pair)
  show ?case
  proof (cases r)
    case (Inl e)
    with rs show ?thesis by (intro exI [of _ 0] exI [of _ e]) simp
  next
    case (Inr x)
    then have small: "left s' < left s" using rs progress by blast
    from less [OF this] obtain k e where "k \<le> left s'" "nth_recv recv k s' = Inl e" by blast
    with rs small show ?thesis by (intro exI [of _ "Suc k"] exI [of _ e]) simp
  qed
qed

lemma drain_enough: "left s < m \<Longrightarrow> left s < n \<Longrightarrow> drain recv m s = drain recv n s"
proof (induction m arbitrary: n s)
  case (Suc m)
  then obtain n' where n: "n = Suc n'" by (cases n) auto
  obtain r s' where rs: "recv s = (r, s')" by (meson surj_pair)
  show ?case
  proof (cases r)
    case (Inr x)
    then have "left s' < left s" using rs progress by blast
    with Suc.prems n have "left s' < m" "left s' < n'" by simp_all
    from Suc.IH [OF this] show ?thesis by (simp add: n rs Inr)
  qed (simp add: n rs)
qed simp

end

section \<open>Chat Completions\<close>

record ToolCall =
  tc_ID :: string
  tc_Name :: string
  tc_Arguments :: string

text \<open>The message parameters: the content of an assistant message with tool calls may be absent.\<close>

datatype MessageParam =
    SystemMessage string
  | UserMessage string
  | ToolMessage string string  \<comment> \<open>content and tool call id\<close>
  | AssistantMessage "string option" "ToolCall list"

text \<open>The parameters of a tool are the parsed schema, the nil map when there is none.\<close>

record 'j ToolParam =
  tp_Name :: string
  tp_Description :: string
  tp_Parameters :: "'j option"

record 'j ChatParams =
  cp_Model :: string
  cp_Messages :: "MessageParam list"
  cp_Temperature :: "rat option"
  cp_MaxCompletionTokens :: "int option"
  cp_Tools :: "'j ToolParam list"

record CompletionMessage =
  cm_Content :: string
  cm_ToolCalls :: "ToolCall list"

record CompletionChoice =
  cc_Message :: CompletionMessage
  cc_FinishReason :: string

record ChatCompletion =
  cmp_ID :: string
  cmp_Model :: string
  cmp_Choices :: "CompletionChoice list"
  cmp_PromptTokens :: int
  cmp_CompletionTokens :: int

record ToolCallDelta =
  dt_Index :: int
  dt_ID :: string
  dt_Name :: string
  dt_Arguments :: string

record ChunkChoice =
  kc_Content :: string
  kc_ToolCalls :: "ToolCallDelta list"
  kc_FinishReason :: string

record ChatCompletionChunk =
  ck_Choices :: "ChunkChoice list"

record EmbeddingResponse =
  em_Data :: "rat list list"
  em_PromptTokens :: int

text \<open>The tool list both adapters build: a schema that does not parse stops the request.\<close>

fun chat_tools :: "(string \<Rightarrow> 'j result) \<Rightarrow> ToolDef list \<Rightarrow> 'j ToolParam list result" where
  "chat_tools unmarshal [] = Inr []"
| "chat_tools unmarshal (t # ts) =
     (let params = (if td_InputSchemaJSON t \<noteq> '''' then map_sum id Some (unmarshal (td_InputSchemaJSON t)) else Inr None) in
      case params of
        Inl err \<Rightarrow> Inl (Wrap (''invalid tool schema for '' @ quoted (td_Name t)) err)
      | Inr ps \<Rightarrow>
          map_sum id ((#) \<lparr>tp_Name = td_Name t, tp_Description = td_Description t, tp_Parameters = ps\<rparr>)
            (chat_tools unmarshal ts))"

text \<open>\<open>if v > 0 { p.X = param.NewOpt(v) }\<close>\<close>

definition opt_pos :: "'a::{zero,ord} \<Rightarrow> 'a option" where
  "opt_pos v = (if v > 0 then Some v else None)"

lemma chat_tools_names:
  "chat_tools unmarshal ts = Inr ps \<Longrightarrow> map tp_Name ps = map td_Name ts \<and> map tp_Description ps = map td_Description ts"
proof (induction ts arbitrary: ps)
  case (Cons t ts)
  then show ?case
    by (cases "chat_tools unmarshal ts") (auto simp: Let_def split: sum.splits if_splits)
qed simp

end
