(* ===== verification/Circuit.thy ===== *)
theory Circuit
  imports Prelude
begin

text \<open>
  The circuit breaker of \<^verbatim>\<open>internal/llm/circuit.go\<close>: its state, the four methods, the
  states they reach from \<open>NewCircuitBreaker\<close>, and what the breaker promises its caller
  (the router): it opens after five consecutive failures, refuses requests for thirty
  seconds, and closes again after two successes. Each method holds the mutex for its whole
  body, so a method is one atomic step; \<open>time.Now()\<close> is the \<open>now\<close> argument.
\<close>

section \<open>State and methods\<close>

datatype CircuitState = CircuitClosed | CircuitOpen | CircuitHalfOpen

record CircuitBreaker =
  cb_state :: CircuitState
  failures :: int
  successes :: int
  failureThreshold :: int
  successThreshold :: int
  openDuration :: duration
  lastFailure :: time

text \<open>\<open>lastFailure\<close> starts as Go's zero time; it is only read in the open state.\<close>

definition NewCircuitBreaker :: CircuitBreaker where
  "NewCircuitBreaker =
     \<lparr>cb_state = CircuitClosed, failures = 0, successes = 0, failureThreshold = 5,
      successThreshold = 2, openDuration = 30 * Second, lastFailure = 0\<rparr>"

definition Allow :: "time \<Rightarrow> CircuitBreaker \<Rightarrow> bool \<times> CircuitBreaker" where
  "Allow now cb =
     (case cb_state cb of
        CircuitClosed \<Rightarrow> (True, cb)
      | CircuitOpen \<Rightarrow>
          if now - lastFailure cb \<ge> openDuration cb
          then (True, cb\<lparr>cb_state := CircuitHalfOpen, successes := 0\<rparr>)
          else (False, cb)
      | CircuitHalfOpen \<Rightarrow> (True, cb))"

definition RecordSuccess :: "CircuitBreaker \<Rightarrow> CircuitBreaker" where
  "RecordSuccess cb =
     (let cb1 = cb\<lparr>failures := 0\<rparr> in
      if cb_state cb1 = CircuitHalfOpen then
        (let cb2 = cb1\<lparr>successes := successes cb1 + 1\<rparr> in
         if successes cb2 \<ge> successThreshold cb2 then cb2\<lparr>cb_state := CircuitClosed\<rparr> else cb2)
      else cb1)"

definition RecordFailure :: "time \<Rightarrow> CircuitBreaker \<Rightarrow> CircuitBreaker" where
  "RecordFailure now cb =
     (let cb1 = cb\<lparr>failures := failures cb + 1, lastFailure := now, successes := 0\<rparr> in
      if failures cb1 \<ge> failureThreshold cb1 then cb1\<lparr>cb_state := CircuitOpen\<rparr> else cb1)"

definition State :: "time \<Rightarrow> CircuitBreaker \<Rightarrow> CircuitState \<times> CircuitBreaker" where
  "State now cb =
     (let cb1 = (if cb_state cb = CircuitOpen \<and> now - lastFailure cb \<ge> openDuration cb
                 then cb\<lparr>cb_state := CircuitHalfOpen\<rparr> else cb)
      in (cb_state cb1, cb1))"

section \<open>Runs of the breaker\<close>

datatype cb_event = EvAllow | EvSuccess | EvFailure | EvState

fun cb_apply :: "time \<Rightarrow> cb_event \<Rightarrow> CircuitBreaker \<Rightarrow> CircuitBreaker" where
  "cb_apply now EvAllow cb = snd (Allow now cb)"
| "cb_apply now EvSuccess cb = RecordSuccess cb"
| "cb_apply now EvFailure cb = RecordFailure now cb"
| "cb_apply now EvState cb = snd (State now cb)"

inductive cb_step :: "CircuitBreaker \<Rightarrow> cb_event \<Rightarrow> CircuitBreaker \<Rightarrow> bool" where
  cb_step: "cb_step cb e (cb_apply now e cb)"

inductive cb_reachable :: "CircuitBreaker \<Rightarrow> bool" where
  cb_new: "cb_reachable NewCircuitBreaker"
| cb_next: "cb_reachable cb \<Longrightarrow> cb_step cb e cb' \<Longrightarrow> cb_reachable cb'"

inductive_cases cb_stepE [elim!]: "cb_step cb e cb'"

inductive_simps cb_step_simps: "cb_step cb e cb'"

fun cb_run :: "(time \<times> cb_event) list \<Rightarrow> CircuitBreaker \<Rightarrow> CircuitBreaker" where
  "cb_run [] cb = cb"
| "cb_run ((now, e) # es) cb = cb_run es (cb_apply now e cb)"

text \<open>The specification of the failure counter: failures since the last success.\<close>

fun trailing_failures :: "cb_event list \<Rightarrow> int \<Rightarrow> int" where
  "trailing_failures [] n = n"
| "trailing_failures (EvSuccess # es) n = trailing_failures es 0"
| "trailing_failures (EvFailure # es) n = trailing_failures es (n + 1)"
| "trailing_failures (EvAllow # es) n = trailing_failures es n"
| "trailing_failures (EvState # es) n = trailing_failures es n"

lemmas cb_defs = Allow_def RecordSuccess_def RecordFailure_def State_def Let_def

section \<open>Invariant\<close>

definition cb_inv :: "CircuitBreaker \<Rightarrow> bool" where
  "cb_inv cb \<longleftrightarrow>
     failureThreshold cb = 5 \<and> successThreshold cb = 2 \<and> openDuration cb = 30 * Second \<and>
     0 \<le> failures cb \<and> 0 \<le> successes cb \<and>
     (cb_state cb = CircuitClosed \<longrightarrow> failures cb < failureThreshold cb) \<and>
     (cb_state cb = CircuitOpen \<longrightarrow> successes cb = 0) \<and>
     (cb_state cb = CircuitHalfOpen \<longrightarrow> successes cb < successThreshold cb)"

lemma cb_inv_new: "cb_inv NewCircuitBreaker"
  by (simp add: cb_inv_def NewCircuitBreaker_def)

lemma cb_inv_apply: "cb_inv cb \<Longrightarrow> cb_inv (cb_apply now e cb)"
  by (cases e; cases "cb_state cb") (auto simp: cb_inv_def cb_defs)

lemma cb_inv_run: "cb_inv cb \<Longrightarrow> cb_inv (cb_run es cb)"
  by (induction es cb rule: cb_run.induct) (auto intro: cb_inv_apply)

lemma cb_inv_reachable: "cb_reachable cb \<Longrightarrow> cb_inv cb"
  by (induction rule: cb_reachable.induct) (auto intro: cb_inv_new cb_inv_apply)

lemma cb_reachable_run: "cb_reachable cb \<Longrightarrow> cb_reachable (cb_run es cb)"
  by (induction es cb rule: cb_run.induct) (auto intro: cb_next cb_step)

lemma failures_apply: "failures (cb_apply now e cb) = trailing_failures [e] (failures cb)"
  by (cases e; cases "cb_state cb") (auto simp: cb_defs)

lemma failures_run: "failures (cb_run es cb) = trailing_failures (map snd es) (failures cb)"
proof (induction es cb rule: cb_run.induct)
  case (2 now e es cb)
  have "trailing_failures (map snd es) (trailing_failures [e] n) =
      trailing_failures (e # map snd es) n" for n
    by (cases e) simp_all
  with 2 show ?case by (simp add: failures_apply)
qed simp

lemma cb_run_append: "cb_run (es @ fs) cb = cb_run fs (cb_run es cb)"
  by (induction es cb rule: cb_run.induct) auto

section \<open>What the breaker promises\<close>

text \<open>Every state that the methods reach from \<open>NewCircuitBreaker\<close>, in any order and at
  any times, has its thresholds unchanged, a closed breaker below the failure threshold, a
  half-open breaker below the success threshold, and no stale successes while open.\<close>

theorem circuit_invariant: "cb_inv (cb_run es NewCircuitBreaker)"
  by (intro cb_inv_run cb_inv_new)

lemma run_failures:
  assumes "0 \<le> failures cb" "ts \<noteq> []"
    "failureThreshold cb \<le> int (length ts)"
  shows "cb_state (cb_run (map (\<lambda>t. (t, EvFailure)) ts) cb) = CircuitOpen \<and>
         lastFailure (cb_run (map (\<lambda>t. (t, EvFailure)) ts) cb) = last ts \<and>
         openDuration (cb_run (map (\<lambda>t. (t, EvFailure)) ts) cb) = openDuration cb"
proof -
  have frame: "failureThreshold (cb_run (map (\<lambda>t. (t, EvFailure)) us) cb) = failureThreshold cb \<and>
     openDuration (cb_run (map (\<lambda>t. (t, EvFailure)) us) cb) = openDuration cb" for us
    by (induction us arbitrary: cb) (auto simp: cb_defs)
  have count: "trailing_failures (map (\<lambda>_. EvFailure) us) n = n + int (length us)" for us n
    by (induction us arbitrary: n) auto
  obtain us t where ts: "ts = us @ [t]"
    using assms(2) by (meson rev_exhaust)
  let ?c = "cb_run (map (\<lambda>t. (t, EvFailure)) us) cb"
  have "failures ?c = failures cb + int (length us)"
    by (simp add: failures_run comp_def count)
  with assms ts have "failureThreshold ?c \<le> failures ?c + 1"
    by (simp add: frame)
  then show ?thesis
    by (simp add: ts cb_run_append cb_defs frame)
qed

text \<open>From any reachable state, five or more failures in a row leave the breaker open; it
  then refuses every request during the thirty seconds after the last failure and allows a
  request, in the half-open state, from then on.\<close>

theorem circuit_opens_after_failures:
  assumes "cb_reachable cb" "5 \<le> length ts"
  shows "let cb' = cb_run (map (\<lambda>t. (t, EvFailure)) ts) cb in
         (fst (Allow now cb') \<longleftrightarrow> last ts + 30 * Second \<le> now) \<and>
         cb_state (snd (Allow now cb')) =
           (if last ts + 30 * Second \<le> now then CircuitHalfOpen else CircuitOpen)"
proof -
  have inv: "cb_inv cb" using assms(1) by (rule cb_inv_reachable)
  have "ts \<noteq> []" "failureThreshold cb \<le> int (length ts)" "0 \<le> failures cb"
    "openDuration cb = 30 * Second"
    using assms(2) inv by (auto simp: cb_inv_def)
  then show ?thesis
    using run_failures [of cb ts] by (auto simp: Allow_def Let_def)
qed

theorem circuit_opens_after_failures_witness:
  "let cb' = cb_run (map (\<lambda>t. (t, EvFailure)) [1, 2, 3, 4, 5]) NewCircuitBreaker in
   \<not> fst (Allow 30000000004 cb') \<and> cb_state (snd (Allow 30000000005 cb')) = CircuitHalfOpen"
proof -
  have len: "5 \<le> length [1, 2, 3, 4, 5 :: time]" by simp
  note opens = circuit_opens_after_failures [OF cb_new len]
  show ?thesis using opens [of 30000000004] opens [of 30000000005] by (simp add: Let_def)
qed

text \<open>C35: the failure counter is the number of failures recorded since the last success,
  whatever else happened; so a breaker that is closed or half-open is opened by a failure
  exactly when this is the fifth failure, or a later one, with no success in between.\<close>

theorem circuit_counts_consecutive_failures:
  "failures (cb_run es NewCircuitBreaker) = trailing_failures (map snd es) 0 \<and>
   (cb_state (cb_run (es @ [(now, EvFailure)]) NewCircuitBreaker) = CircuitOpen \<longleftrightarrow>
      cb_state (cb_run es NewCircuitBreaker) = CircuitOpen \<or>
      5 \<le> trailing_failures (map snd es @ [EvFailure]) 0)"
proof -
  let ?c = "cb_run es NewCircuitBreaker"
  have f: "failures ?c = trailing_failures (map snd es) 0"
    by (simp add: failures_run NewCircuitBreaker_def)
  have "cb_inv ?c" by (intro cb_inv_run cb_inv_new)
  then have th: "failureThreshold ?c = 5" by (simp add: cb_inv_def)
  have app: "trailing_failures (xs @ [EvFailure]) n = trailing_failures xs n + 1" for xs n
    by (induction xs n rule: trailing_failures.induct) auto
  show ?thesis
    using f th by (auto simp: cb_run_append app RecordFailure_def Let_def)
qed

text \<open>Recovery. From a reachable open breaker, a request at least thirty seconds after the
  last failure followed by two successes closes the breaker with a clean failure count.\<close>

theorem circuit_recovers:
  assumes "cb_reachable cb" "cb_state cb = CircuitOpen" "lastFailure cb + 30 * Second \<le> now"
  shows "fst (Allow now cb) \<and>
         cb_state (RecordSuccess (RecordSuccess (snd (Allow now cb)))) = CircuitClosed \<and>
         failures (RecordSuccess (RecordSuccess (snd (Allow now cb)))) = 0"
  using cb_inv_reachable [OF assms(1)] assms(2,3)
  by (simp add: cb_inv_def cb_defs)

theorem circuit_recovers_witness:
  "let cb = cb_run (map (\<lambda>t. (t, EvFailure)) [1, 2, 3, 4, 5]) NewCircuitBreaker in
   cb_state (RecordSuccess (RecordSuccess (snd (Allow 30000000005 cb)))) = CircuitClosed"
proof -
  let ?cb = "cb_run (map (\<lambda>t. (t, EvFailure)) [1, 2, 3, 4, 5]) NewCircuitBreaker"
  have "cb_state ?cb = CircuitOpen" "lastFailure ?cb + 30 * Second \<le> 30000000005"
    by (simp_all add: cb_defs NewCircuitBreaker_def)
  then show ?thesis
    using circuit_recovers [OF cb_reachable_run [OF cb_new], of "map (\<lambda>t. (t, EvFailure)) [1, 2, 3, 4, 5]"]
    by simp
qed

text \<open>\<open>State\<close> omits the reset of \<open>successes\<close> that \<open>Allow\<close> performs on the way to half-open;
  in reachable states the reset changes nothing, so the two transitions agree.\<close>

lemma state_agrees_with_allow:
  "cb_reachable cb \<Longrightarrow> snd (State now cb) = snd (Allow now cb)"
  using cb_inv_reachable [of cb]
  by (cases cb; cases "cb_state cb") (auto simp: cb_inv_def cb_defs)

text \<open>once a half-open breaker has seen one success, a failure no longer reopens it: the
  success cleared the failure count, so up to four further failures in a row leave it
  half-open, where every request is allowed.\<close>

theorem half_open_tolerates_failures:
  assumes "cb_reachable cb" "cb_state cb = CircuitHalfOpen" "successes cb = 0" "length ts < 5"
  shows "cb_state (cb_run (map (\<lambda>t. (t, EvFailure)) ts) (RecordSuccess cb)) = CircuitHalfOpen \<and>
         fst (Allow now (cb_run (map (\<lambda>t. (t, EvFailure)) ts) (RecordSuccess cb)))"
proof -
  have inv: "cb_inv cb" using assms(1) by (rule cb_inv_reachable)
  have stay: "cb_state (cb_run (map (\<lambda>t. (t, EvFailure)) us) c) = CircuitHalfOpen"
    if "cb_state c = CircuitHalfOpen" "failures c + int (length us) < failureThreshold c" for us c
    using that
  proof (induction us arbitrary: c)
    case (Cons u us)
    then have "cb_state (RecordFailure u c) = CircuitHalfOpen"
      "failures (RecordFailure u c) + int (length us) < failureThreshold (RecordFailure u c)"
      by (auto simp: RecordFailure_def Let_def)
    then show ?case using Cons.IH by simp
  qed simp
  have "cb_state (RecordSuccess cb) = CircuitHalfOpen" "failures (RecordSuccess cb) = 0"
    "failureThreshold (RecordSuccess cb) = 5"
    using assms(2,3) inv by (auto simp: cb_inv_def RecordSuccess_def Let_def)
  then have "cb_state (cb_run (map (\<lambda>t. (t, EvFailure)) ts) (RecordSuccess cb)) = CircuitHalfOpen"
    using assms(4) by (intro stay) simp_all
  then show ?thesis by (simp add: Allow_def)
qed

theorem half_open_tolerates_failures_witness:
  "let cb = snd (Allow 30000000005
               (cb_run (map (\<lambda>t. (t, EvFailure)) [1, 2, 3, 4, 5]) NewCircuitBreaker)) in
   cb_state cb = CircuitHalfOpen \<and>
   cb_state (cb_run (map (\<lambda>t. (t, EvFailure)) [6, 7, 8, 9]) (RecordSuccess cb)) = CircuitHalfOpen"
proof -
  let ?cb = "cb_run [(1, EvFailure), (2, EvFailure), (3, EvFailure), (4, EvFailure),
                (5, EvFailure), (30000000005, EvAllow)] NewCircuitBreaker"
  have "cb_reachable ?cb" by (intro cb_reachable_run cb_new)
  moreover have "cb_state ?cb = CircuitHalfOpen" "successes ?cb = 0"
    by (simp_all add: cb_defs NewCircuitBreaker_def)
  ultimately show ?thesis
    using half_open_tolerates_failures [of ?cb "[6, 7, 8, 9]"] by simp
qed

end
