(* ===== verification/Router.thy ===== *)
theory Router
  imports LLM_Types Circuit
begin

text \<open>
  The LLM router of \<^verbatim>\<open>internal/llm/router.go\<close>: provider registry, fallback chains and the
  use of one circuit breaker per provider. The three request methods (\<open>Chat\<close>, \<open>StreamChat\<close>,
  \<open>Embed\<close>) repeat the same loop over the chain in the source; the loop is \<open>try_chain\<close> here,
  with the call as its argument. The breaker is used through its three methods, which are
  arguments of the loop too: the locale \<open>breaker\<close> states what the router relies on.
\<close>

section \<open>State\<close>

record 'w Router =
  providers :: "string \<rightharpoonup> 'w Provider"
  circuits :: "string \<rightharpoonup> CircuitBreaker"
  fallbackChains :: "string \<rightharpoonup> string list"
  defaultProvider :: string

definition NewRouter :: "'w Router" where
  "NewRouter = \<lparr>providers = Map.empty, circuits = Map.empty, fallbackChains = Map.empty,
                defaultProvider = ''''\<rparr>"

definition Register :: "'w Provider \<Rightarrow> 'w Router \<Rightarrow> 'w Router" where
  "Register p r =
     (let r1 = r\<lparr>providers := (providers r)(p_Name p \<mapsto> p),
                 circuits := (circuits r)(p_Name p \<mapsto> NewCircuitBreaker)\<rparr>
      in if defaultProvider r1 = '''' then r1\<lparr>defaultProvider := p_Name p\<rparr> else r1)"

definition SetFallbackChain :: "string \<Rightarrow> string list \<Rightarrow> 'w Router \<Rightarrow> 'w Router" where
  "SetFallbackChain primary fallbacks r =
     r\<lparr>fallbackChains := (fallbackChains r)(primary \<mapsto> fallbacks)\<rparr>"

definition router_get :: "'w Router \<Rightarrow> string \<Rightarrow> 'w Provider result" where
  "router_get r name0 =
     (let name = (if name0 = '''' then defaultProvider r else name0) in
      if name = '''' then Inl (Msg ''no LLM providers configured'')
      else case providers r name of
             None \<Rightarrow> Inl (Msg (''unknown LLM provider '' @ quoted name))
           | Some p \<Rightarrow> Inr p)"

fun collect_fallbacks :: "'w Router \<Rightarrow> string list \<Rightarrow> 'w Provider list" where
  "collect_fallbacks r [] = []"
| "collect_fallbacks r (fb # fbs) =
     (case providers r fb of
        Some p \<Rightarrow> p # collect_fallbacks r fbs
      | None \<Rightarrow> collect_fallbacks r fbs)"

definition getWithFallbacks :: "'w Router \<Rightarrow> string \<Rightarrow> 'w Provider list result" where
  "getWithFallbacks r name0 =
     (let name = (if name0 = '''' then defaultProvider r else name0) in
      if name = '''' then Inl (Msg ''no LLM providers configured'')
      else case providers r name of
             None \<Rightarrow> Inl (Msg (''unknown LLM provider '' @ quoted name))
           | Some primary \<Rightarrow>
               Inr (primary # (case fallbackChains r name of
                                 Some fallbacks \<Rightarrow> collect_fallbacks r fallbacks
                               | None \<Rightarrow> [])))"

section \<open>The loop over the chain\<close>

text \<open>
  One pass over the chain. \<open>allow\<close>, \<open>success\<close> and \<open>failure\<close> are the methods of the
  breaker, \<open>clock\<close> reads the time of the outside world, \<open>cs\<close> holds the breakers by
  provider name (a missing breaker is the \<open>cb == nil\<close> case), \<open>call p\<close> is the request.
\<close>

fun try_chain ::
  "(time \<Rightarrow> 'b \<Rightarrow> bool \<times> 'b) \<Rightarrow> ('b \<Rightarrow> 'b) \<Rightarrow> (time \<Rightarrow> 'b \<Rightarrow> 'b) \<Rightarrow> ('w \<Rightarrow> time) \<Rightarrow>
   ('w Provider \<Rightarrow> ('w, 'a) call) \<Rightarrow> 'w Provider list \<Rightarrow> (string \<rightharpoonup> 'b) \<Rightarrow> go_err option \<Rightarrow> 'w \<Rightarrow>
   'a result \<times> (string \<rightharpoonup> 'b) \<times> 'w" where
  "try_chain allow success failure clock call [] cs lastErr w =
     (Inl (case lastErr of Some e \<Rightarrow> Wrap ''all providers failed'' e
                         | None \<Rightarrow> Msg ''all providers failed: %!w(<nil>)''), cs, w)"
| "try_chain allow success failure clock call (p # ps) cs lastErr w =
     (case cs (p_Name p) of
        None \<Rightarrow>
          (case call p w of
             (Inl err, w') \<Rightarrow> try_chain allow success failure clock call ps cs (Some err) w'
           | (Inr x, w') \<Rightarrow> (Inr x, cs, w'))
      | Some cb \<Rightarrow>
          (let (ok, cb1) = allow (clock w) cb; cs1 = cs(p_Name p \<mapsto> cb1) in
           if \<not> ok
           then try_chain allow success failure clock call ps cs1
                  (Some (Msg (''provider '' @ quoted (p_Name p) @ '' circuit open''))) w
           else
             (case call p w of
                (Inl err, w') \<Rightarrow>
                  try_chain allow success failure clock call ps
                    (cs1(p_Name p \<mapsto> failure (clock w') cb1)) (Some err) w'
              | (Inr x, w') \<Rightarrow> (Inr x, cs1(p_Name p \<mapsto> success cb1), w'))))"

definition route ::
  "('w \<Rightarrow> time) \<Rightarrow> ('w Provider \<Rightarrow> ('w, 'a) call) \<Rightarrow> string \<Rightarrow> 'w Router \<Rightarrow> 'w \<Rightarrow>
   'a result \<times> 'w Router \<times> 'w" where
  "route clock call providerName r w =
     (case getWithFallbacks r providerName of
        Inl err \<Rightarrow> (Inl err, r, w)
      | Inr chain \<Rightarrow>
          (case try_chain Allow RecordSuccess RecordFailure clock call chain (circuits r) None w of
             (res, cs, w') \<Rightarrow> (res, r\<lparr>circuits := cs\<rparr>, w')))"

definition Router_Chat ::
  "('w \<Rightarrow> time) \<Rightarrow> string \<Rightarrow> ProviderRequest \<Rightarrow> 'w Router \<Rightarrow> 'w \<Rightarrow>
   ProviderResponse result \<times> 'w Router \<times> 'w" where
  "Router_Chat clock providerName req = route clock (\<lambda>p. p_Chat p req) providerName"

definition Router_StreamChat ::
  "('w \<Rightarrow> time) \<Rightarrow> string \<Rightarrow> ProviderRequest \<Rightarrow> 'w Router \<Rightarrow> 'w \<Rightarrow> Stream result \<times> 'w Router \<times> 'w" where
  "Router_StreamChat clock providerName req = route clock (\<lambda>p. p_StreamChat p req) providerName"

definition Router_Embed ::
  "('w \<Rightarrow> time) \<Rightarrow> string \<Rightarrow> string \<Rightarrow> string list \<Rightarrow> 'w Router \<Rightarrow> 'w \<Rightarrow>
   (rat list list \<times> Usage option) result \<times> 'w Router \<times> 'w" where
  "Router_Embed clock providerName model texts = route clock (\<lambda>p. p_Embed p model texts) providerName"

section \<open>The Responses API\<close>

fun items_to_messages :: "InputItem list \<Rightarrow> Message list" where
  "items_to_messages [] = []"
| "items_to_messages (item # items) =
     (if it_Type item = ''message''
      then \<lparr>Role = it_Role item,
            Content = (case it_Content item of CText s \<Rightarrow> [text_block s] | _ \<Rightarrow> []),
            ToolCallID = ''''\<rparr> # items_to_messages items
      else items_to_messages items)"

definition responseToChat :: "ResponseRequest \<Rightarrow> ProviderRequest" where
  "responseToChat req =
     \<lparr>pq_Model = rq_Model req,
      pq_Messages =
        (if rq_Instructions req \<noteq> ''''
         then [\<lparr>Role = ''system'', Content = [text_block (rq_Instructions req)], ToolCallID = ''''\<rparr>]
         else []) @
        (case rq_Input req of
           IText v \<Rightarrow> [\<lparr>Role = ''user'', Content = [text_block v], ToolCallID = ''''\<rparr>]
         | IItems items \<Rightarrow> items_to_messages items
         | INil \<Rightarrow> []),
      pq_Temperature = rq_Temperature req, pq_MaxTokens = rq_MaxTokens req,
      pq_StopSequences = [], pq_Tools = rq_Tools req\<rparr>"

definition chatToResponseResult :: "ProviderResponse \<Rightarrow> ResponseResult" where
  "chatToResponseResult resp =
     \<lparr>rr_ID = pr_ID resp, rr_Model = pr_Model resp,
      rr_Output = [\<lparr>o_Type = ''message'', o_Role = ''assistant'', o_Content = pr_Content resp,
                    o_CallID = '''', o_Name = '''', o_Arguments = ''''\<rparr>],
      rr_Usage = pr_Usage resp, rr_Status = ''completed''\<rparr>"

text \<open>One \<open>Recv\<close> of the wrapped stream: the underlying \<open>Recv\<close> is the head of the list.\<close>

definition chatToResponseStream_Recv :: "Stream \<Rightarrow> ResponseEvent result \<times> Stream" where
  "chatToResponseStream_Recv s =
     (case s of
        [] \<Rightarrow> (Inl EOF, [])
      | Inl err # rest \<Rightarrow> (Inl err, rest)
      | Inr None # rest \<Rightarrow> (Inl EOF, rest)
      | Inr (Some chunk) # rest \<Rightarrow>
          (Inr (case ch_Final chunk of
                  None \<Rightarrow> \<lparr>ev_Type = ''response.output_text.delta'',
                           ev_TextDelta = ch_TextDelta chunk, ev_Response = None\<rparr>
                | Some final \<Rightarrow> \<lparr>ev_Type = ''response.completed'',
                           ev_TextDelta = ch_TextDelta chunk,
                           ev_Response = Some (chatToResponseResult final)\<rparr>), rest))"

text \<open>The wrapped stream as the sequence of its \<open>Recv\<close> results.\<close>

fun chatToResponseStream :: "Stream \<Rightarrow> ResponseStream" where
  "chatToResponseStream [] = []"
| "chatToResponseStream (x # rest) =
     (case chatToResponseStream_Recv (x # rest) of
        (Inl err, _) \<Rightarrow> Inl err # chatToResponseStream rest
      | (Inr ev, _) \<Rightarrow> Inr (Some ev) # chatToResponseStream rest)"

definition Router_Respond ::
  "('w \<Rightarrow> time) \<Rightarrow> string \<Rightarrow> ResponseRequest \<Rightarrow> 'w Router \<Rightarrow> 'w \<Rightarrow>
   ResponseResult result \<times> 'w Router \<times> 'w" where
  "Router_Respond clock providerName req r w =
     (case router_get r providerName of
        Inl err \<Rightarrow> (Inl err, r, w)
      | Inr p \<Rightarrow>
          (case p_responder p of
             Some rp \<Rightarrow> (case rp_Respond rp req w of (res, w') \<Rightarrow> (res, r, w'))
           | None \<Rightarrow>
               (case Router_Chat clock providerName (responseToChat req) r w of
                  (Inl err, r', w') \<Rightarrow> (Inl err, r', w')
                | (Inr resp, r', w') \<Rightarrow> (Inr (chatToResponseResult resp), r', w'))))"

definition Router_StreamRespond ::
  "('w \<Rightarrow> time) \<Rightarrow> string \<Rightarrow> ResponseRequest \<Rightarrow> 'w Router \<Rightarrow> 'w \<Rightarrow>
   ResponseStream result \<times> 'w Router \<times> 'w" where
  "Router_StreamRespond clock providerName req r w =
     (case router_get r providerName of
        Inl err \<Rightarrow> (Inl err, r, w)
      | Inr p \<Rightarrow>
          (case p_responder p of
             Some rp \<Rightarrow> (case rp_StreamRespond rp req w of (res, w') \<Rightarrow> (res, r, w'))
           | None \<Rightarrow>
               (case Router_StreamChat clock providerName (responseToChat req) r w of
                  (Inl err, r', w') \<Rightarrow> (Inl err, r', w')
                | (Inr s, r', w') \<Rightarrow> (Inr (chatToResponseStream s), r', w'))))"

section \<open>Listing\<close>

text \<open>\<open>range\<close> over a map visits the keys in an unspecified order; \<open>names\<close> is the order taken.\<close>

fun list_all_models :: "'w Router \<Rightarrow> string list \<Rightarrow> 'w \<Rightarrow> ModelInfo list \<times> 'w" where
  "list_all_models r [] w = ([], w)"
| "list_all_models r (n # ns) w =
     (case providers r n of
        None \<Rightarrow> list_all_models r ns w
      | Some p \<Rightarrow>
          (case p_ListModels p w of
             (res, w') \<Rightarrow>
               (case list_all_models r ns w' of
                  (ms, w'') \<Rightarrow> ((case res of Inl _ \<Rightarrow> [] | Inr models \<Rightarrow> models) @ ms, w''))))"

definition Router_ListModels ::
  "string list \<Rightarrow> string \<Rightarrow> 'w Router \<Rightarrow> 'w \<Rightarrow> ModelInfo list result \<times> 'w" where
  "Router_ListModels names providerName r w =
     (if providerName \<noteq> '''' then
        (case providers r providerName of
           None \<Rightarrow> (Inl (Msg (''unknown provider '' @ quoted providerName)), w)
         | Some p \<Rightarrow> p_ListModels p w)
      else (case list_all_models r names w of (ms, w') \<Rightarrow> (Inr ms, w')))"

definition ProviderHealth ::
  "time \<Rightarrow> 'w Router \<Rightarrow> (string \<rightharpoonup> CircuitState) \<times> 'w Router" where
  "ProviderHealth now r =
     (\<lambda>n. map_option (\<lambda>cb. fst (State now cb)) (circuits r n),
      r\<lparr>circuits := \<lambda>n. map_option (\<lambda>cb. snd (State now cb)) (circuits r n)\<rparr>)"

section \<open>What the router relies on: the breaker's contract\<close>

text \<open>A property of the breakers that each method of a breaker keeps is kept by the loop.\<close>

lemma try_chain_invariant:
  assumes "try_chain allow success failure clock call ps cs lastErr w = (res, cs', w')"
    and "P cs"
    and allow: "\<And>c n b t. P c \<Longrightarrow> n \<in> p_Name ` set ps \<Longrightarrow> c n = Some b \<Longrightarrow> P (c(n \<mapsto> snd (allow t b)))"
    and success: "\<And>c n b. P c \<Longrightarrow> n \<in> p_Name ` set ps \<Longrightarrow> c n = Some b \<Longrightarrow> P (c(n \<mapsto> success b))"
    and failure: "\<And>c n b t. P c \<Longrightarrow> n \<in> p_Name ` set ps \<Longrightarrow> c n = Some b \<Longrightarrow> P (c(n \<mapsto> failure t b))"
  shows "P cs'"
  using assms
proof (induction ps arbitrary: cs lastErr w)
  case (Cons p ps)
  let ?n = "p_Name p"
  have IH: "P cs'"
    if "try_chain allow success failure clock call ps c le w0 = (res, cs', w')" "P c" for c le w0
    using that
  proof (rule Cons.IH)
    fix c n b t
    assume c: "P c" "n \<in> p_Name ` set ps" "c n = Some b"
    then have n: "n \<in> p_Name ` set (p # ps)" by auto
    show "P (c(n \<mapsto> snd (allow t b)))" by (rule Cons.prems(3) [OF c(1) n c(3)])
    show "P (c(n \<mapsto> success b))" by (rule Cons.prems(4) [OF c(1) n c(3)])
    show "P (c(n \<mapsto> failure t b))" by (rule Cons.prems(5) [OF c(1) n c(3)])
  qed
  obtain res1 w1 where call: "call p w = (res1, w1)" by (meson surj_pair)
  show ?case
  proof (cases "cs ?n")
    case None
    with Cons.prems(1,2) call show ?thesis by (cases res1) (auto intro: IH)
  next
    case (Some b)
    obtain ok b1 where al: "allow (clock w) b = (ok, b1)" by (meson surj_pair)
    have n: "?n \<in> p_Name ` set (p # ps)" by simp
    have P1: "P (cs(?n \<mapsto> b1))"
      using Cons.prems(3) [OF Cons.prems(2) n Some, of "clock w"] unfolding al snd_conv .
    have b1: "(cs(?n \<mapsto> b1)) ?n = Some b1" by simp
    have "P (cs(?n \<mapsto> success b1))"
      using Cons.prems(4) [OF P1 n b1] unfolding fun_upd_upd .
    moreover have "P (cs(?n \<mapsto> failure t b1))" for t
      using Cons.prems(5) [OF P1 n b1] unfolding fun_upd_upd .
    moreover note P1
    ultimately show ?thesis using Cons.prems(1) Some al call
      by (cases ok; cases res1) (auto intro: IH)
  qed
qed simp

locale breaker =
  fixes allow :: "time \<Rightarrow> 'b \<Rightarrow> bool \<times> 'b"
    and success :: "'b \<Rightarrow> 'b"
    and failure :: "time \<Rightarrow> 'b \<Rightarrow> 'b"
    and healthy :: "'b \<Rightarrow> bool"
    and tripped :: "time \<Rightarrow> 'b \<Rightarrow> bool"
    and inv :: "'b \<Rightarrow> bool"
  assumes healthy_allow: "healthy b \<Longrightarrow> allow now b = (True, b)"
    and tripped_allow: "tripped now b \<Longrightarrow> allow now b = (False, b)"
    and inv_allow: "inv b \<Longrightarrow> inv (snd (allow now b))"
    and inv_success: "inv b \<Longrightarrow> inv (success b)"
    and inv_failure: "inv b \<Longrightarrow> inv (failure now b)"
begin

lemma all_tripped_fails_fast:
  assumes "\<forall>p \<in> set ps. \<exists>b. cs (p_Name p) = Some b \<and> tripped (clock w) b"
  shows "\<exists>e. try_chain allow success failure clock call ps cs lastErr w = (Inl e, cs, w)"
  using assms
proof (induction ps arbitrary: lastErr)
  case (Cons p ps)
  then obtain b where b: "cs (p_Name p) = Some b" "tripped (clock w) b" by auto
  then have "cs(p_Name p \<mapsto> b) = cs" by auto
  with b Cons show ?case by (simp add: tripped_allow)
qed simp

lemma result_from_chain:
  assumes "try_chain allow success failure clock call ps cs lastErr w = (Inr x, cs', w')"
  shows "\<exists>p \<in> set ps. \<exists>w0. call p w0 = (Inr x, w')"
  using assms
proof (induction ps arbitrary: cs lastErr w)
  case (Cons p ps)
  obtain res1 w1 where call: "call p w = (res1, w1)" by (meson surj_pair)
  show ?case
  proof (cases "cs (p_Name p)")
    case None
    with Cons call show ?thesis by (cases res1) auto
  next
    case (Some b)
    obtain ok b1 where "allow (clock w) b = (ok, b1)" by (meson surj_pair)
    with Some Cons.prems call show ?thesis
      by (cases ok; cases res1) (auto dest: Cons.IH)
  qed
qed simp

lemma breakers_frame:
  assumes "try_chain allow success failure clock call ps cs lastErr w = (res, cs', w')"
  shows "dom cs' = dom cs \<and> (\<forall>n. n \<notin> p_Name ` set ps \<longrightarrow> cs' n = cs n)"
  by (rule try_chain_invariant [OF assms,
        where P = "\<lambda>c. dom c = dom cs \<and> (\<forall>n. n \<notin> p_Name ` set ps \<longrightarrow> c n = cs n)"])
    (auto simp: domI insert_absorb)

lemma breakers_inv:
  assumes "try_chain allow success failure clock call ps cs lastErr w = (res, cs', w')"
    and "\<forall>b \<in> ran cs. inv b"
  shows "\<forall>b \<in> ran cs'. inv b"
  by (rule try_chain_invariant [OF assms(1), where P = "\<lambda>c. \<forall>b \<in> ran c. inv b"])
    (use assms(2) in \<open>auto simp: ran_def inv_allow inv_success inv_failure\<close>)

text \<open>A provider with a closed breaker that does not fail makes the whole request succeed,
  wherever it stands in the chain.\<close>

lemma working_provider_suffices:
  assumes "p \<in> set ps" "\<forall>b. cs (p_Name p) = Some b \<longrightarrow> healthy b"
    and "\<forall>q \<in> set ps. p_Name q = p_Name p \<longrightarrow> q = p"
    and "\<And>w. \<exists>x w'. call p w = (Inr x, w')"
  shows "\<exists>x cs' w'. try_chain allow success failure clock call ps cs lastErr w = (Inr x, cs', w')"
  using assms(1-3)
proof (induction ps arbitrary: cs lastErr w)
  case (Cons q qs)
  obtain x w1 where call: "call p w = (Inr x, w1)" using assms(4) by blast
  show ?case
  proof (cases "q = p")
    case True
    with Cons.prems(2) call show ?thesis
      by (cases "cs (p_Name p)") (auto simp: healthy_allow)
  next
    case False
    with Cons.prems have "p \<in> set qs" "p_Name q \<noteq> p_Name p"
      "\<forall>q \<in> set qs. p_Name q = p_Name p \<longrightarrow> q = p" by auto
    with Cons.prems(2) Cons.IH show ?thesis
      by (auto simp: Let_def split: option.splits prod.splits sum.splits)
  qed
qed simp

end

text \<open>The breaker of \<open>circuit.go\<close> keeps this contract.\<close>

definition cb_tripped :: "time \<Rightarrow> CircuitBreaker \<Rightarrow> bool" where
  "cb_tripped now cb = (cb_state cb = CircuitOpen \<and> now - lastFailure cb < openDuration cb)"

definition cb_closed :: "CircuitBreaker \<Rightarrow> bool" where
  "cb_closed cb = (cb_state cb = CircuitClosed)"

interpretation cb: breaker Allow RecordSuccess RecordFailure cb_closed cb_tripped cb_inv
proof unfold_locales
  fix now b
  show "cb_closed b \<Longrightarrow> Allow now b = (True, b)"
    by (simp add: cb_closed_def Allow_def)
  show "cb_tripped now b \<Longrightarrow> Allow now b = (False, b)"
    by (simp add: cb_tripped_def Allow_def)
  show "cb_inv b \<Longrightarrow> cb_inv (snd (Allow now b))"
    using cb_inv_apply [of b now EvAllow] by simp
  show "cb_inv b \<Longrightarrow> cb_inv (RecordSuccess b)"
    using cb_inv_apply [of b now EvSuccess] by simp
  show "cb_inv b \<Longrightarrow> cb_inv (RecordFailure now b)"
    using cb_inv_apply [of b now EvFailure] by simp
qed

section \<open>The router's invariant\<close>

definition router_inv :: "'w Router \<Rightarrow> bool" where
  "router_inv r \<longleftrightarrow>
     dom (circuits r) = dom (providers r) \<and>
     (\<forall>n p. providers r n = Some p \<longrightarrow> p_Name p = n) \<and>
     (\<forall>b \<in> ran (circuits r). cb_inv b) \<and>
     (defaultProvider r \<noteq> '''' \<longrightarrow> defaultProvider r \<in> dom (providers r))"

lemma router_inv_new: "router_inv NewRouter"
  by (simp add: router_inv_def NewRouter_def)

lemma router_inv_register: "router_inv r \<Longrightarrow> router_inv (Register p r)"
  using cb_inv_new by (auto simp: router_inv_def Register_def Let_def ran_def)

lemma router_inv_fallback: "router_inv r \<Longrightarrow> router_inv (SetFallbackChain n fbs r)"
  by (simp add: router_inv_def SetFallbackChain_def)

lemma collect_fallbacks_eq: "collect_fallbacks r fbs = List.map_filter (providers r) fbs"
  by (induction fbs) (auto simp: List.map_filter_simps split: option.splits)

lemma chain_registered:
  assumes "getWithFallbacks r name = Inr chain" "p \<in> set chain"
  shows "\<exists>n. providers r n = Some p"
proof -
  have "\<exists>n. providers r n = Some p" if "p \<in> set (collect_fallbacks r fbs)" for fbs
    using that by (auto simp: collect_fallbacks_eq List.map_filter_def)
  with assms show ?thesis
    by (fastforce simp: getWithFallbacks_def Let_def split: if_splits option.splits)
qed

lemma router_inv_route:
  assumes "router_inv r" "route clock call name r w = (res, r', w')"
  shows "router_inv r'"
proof -
  have "router_inv (r\<lparr>circuits := cs\<rparr>)"
    if "try_chain Allow RecordSuccess RecordFailure clock call chain (circuits r) None w = (res, cs, w')"
    for chain cs
    using cb.breakers_frame [OF that] cb.breakers_inv [OF that] assms(1)
    by (simp add: router_inv_def)
  with assms show ?thesis
    by (auto simp: route_def split: sum.splits prod.splits)
qed

section \<open>Runs of the router\<close>

text \<open>Every operation that changes the router, in any order, against any outside world.\<close>

inductive router_step :: "('w \<Rightarrow> time) \<Rightarrow> 'w Router \<Rightarrow> 'w Router \<Rightarrow> bool" for clock where
  rs_register: "router_step clock r (Register p r)"
| rs_fallback: "router_step clock r (SetFallbackChain n fbs r)"
| rs_chat: "Router_Chat clock n req r w = (res, r', w') \<Longrightarrow> router_step clock r r'"
| rs_stream: "Router_StreamChat clock n req r w = (sres, r', w') \<Longrightarrow> router_step clock r r'"
| rs_embed: "Router_Embed clock n model texts r w = (eres, r', w') \<Longrightarrow> router_step clock r r'"
| rs_respond: "Router_Respond clock n rq r w = (rres, r', w') \<Longrightarrow> router_step clock r r'"
| rs_srespond: "Router_StreamRespond clock n rq r w = (srres, r', w') \<Longrightarrow> router_step clock r r'"
| rs_health: "ProviderHealth now r = (h, r') \<Longrightarrow> router_step clock r r'"

inductive router_reachable :: "('w \<Rightarrow> time) \<Rightarrow> 'w Router \<Rightarrow> bool" for clock where
  rr_new: "router_reachable clock NewRouter"
| rr_step: "router_reachable clock r \<Longrightarrow> router_step clock r r' \<Longrightarrow> router_reachable clock r'"

lemma router_inv_health: "router_inv r \<Longrightarrow> router_inv (snd (ProviderHealth now r))"
proof -
  assume r: "router_inv r"
  have "cb_inv (snd (State now b))" if "b \<in> ran (circuits r)" for b
    using cb_inv_apply [of b now EvState] that r by (simp add: router_inv_def)
  with r show ?thesis
    by (auto simp: router_inv_def ProviderHealth_def ran_def dom_def)
qed

lemma router_inv_respond:
  assumes "router_inv r" "Router_Respond clock n rq r w = (res, r', w')"
  shows "router_inv r'"
  using assms router_inv_route [OF assms(1)]
  by (fastforce simp: Router_Respond_def Router_Chat_def
      split: sum.splits option.splits prod.splits)

lemma router_inv_srespond:
  assumes "router_inv r" "Router_StreamRespond clock n rq r w = (res, r', w')"
  shows "router_inv r'"
  using assms router_inv_route [OF assms(1)]
  by (fastforce simp: Router_StreamRespond_def Router_StreamChat_def
      split: sum.splits option.splits prod.splits)

lemma router_inv_step: "router_step clock r r' \<Longrightarrow> router_inv r \<Longrightarrow> router_inv r'"
proof (induction rule: router_step.induct)
  case (rs_health now r h r')
  then show ?case using router_inv_health [of r now] by simp
qed (auto simp: Router_Chat_def Router_StreamChat_def Router_Embed_def
      intro: router_inv_register router_inv_fallback
      dest: router_inv_route router_inv_respond router_inv_srespond)

text \<open>C32: whatever sequence of registrations, fallback settings, requests and health checks a
  router goes through, each registered provider is stored under its own name and has
  exactly one breaker in a legal state, no breaker is left without a provider, and the
  default provider, once set, is a registered one.\<close>

theorem router_reachable_inv:
  "router_reachable clock r \<Longrightarrow> router_inv r"
  by (induction rule: router_reachable.induct) (auto intro: router_inv_new router_inv_step)

definition echo_provider :: "string \<Rightarrow> bool \<Rightarrow> time Provider" where
  "echo_provider n ok =
     \<lparr>p_Name = n,
      p_Chat = \<lambda>req w.
        (if ok then Inr \<lparr>pr_ID = n, pr_Model = pq_Model req, pr_Content = [], pr_StopReason = ''end_turn'',
                         pr_Usage = \<lparr>InputTokens = 1, OutputTokens = 1, CacheReadTokens = 0,
                                     CacheWriteTokens = 0\<rparr>\<rparr>
         else Inl (Msg ''down''), w + 1),
      p_StreamChat = \<lambda>req w. (Inl (Msg ''down''), w),
      p_Embed = \<lambda>m ts w. (Inl (Msg ''down''), w),
      p_ListModels = \<lambda>w. (Inr [], w), p_HealthCheck = \<lambda>w. (Inr (), w), p_responder = None\<rparr>"

definition sample_request :: ProviderRequest where
  "sample_request = \<lparr>pq_Model = ''m'', pq_Messages = [], pq_Temperature = 1, pq_MaxTokens = 16,
                     pq_StopSequences = [], pq_Tools = []\<rparr>"

definition two_providers :: "time Router" where
  "two_providers =
     SetFallbackChain ''a'' [''b''] (Register (echo_provider ''b'' True)
       (Register (echo_provider ''a'' False) NewRouter))"

theorem router_reachable_inv_witness: "router_inv two_providers"
proof -
  have "router_reachable id two_providers"
    unfolding two_providers_def
    by (intro rr_step [OF _ rs_fallback] rr_step [OF _ rs_register] rr_new)
  then show ?thesis by (rule router_reachable_inv)
qed

section \<open>Routing decisions\<close>

text \<open>The provider chain is the requested provider (the default one for the empty name)
  followed by its configured fallbacks in order, those not registered left out; an
  unknown or missing provider is an error and nothing else is.\<close>

theorem getWithFallbacks_chain:
  "getWithFallbacks r name =
     (let n = (if name = '''' then defaultProvider r else name) in
      if n \<noteq> '''' \<and> n \<in> dom (providers r)
      then Inr (List.map_filter (providers r)
                  (n # (case fallbackChains r n of None \<Rightarrow> [] | Some fbs \<Rightarrow> fbs)))
      else Inl (Msg (if n = '''' then ''no LLM providers configured''
                     else ''unknown LLM provider '' @ quoted n)))"
  by (auto simp: getWithFallbacks_def collect_fallbacks_eq List.map_filter_simps Let_def
      split: option.splits)

text \<open>C11: fail fast. When the breaker of every provider of the chain is open and its thirty
  seconds have not passed, a chat request is answered with an error; no provider is
  called (the outside world is unchanged) and the router is unchanged.\<close>

theorem chat_fails_fast:
  assumes "getWithFallbacks r name = Inr chain"
    and "\<forall>p \<in> set chain. \<exists>b. circuits r (p_Name p) = Some b \<and> cb_tripped (clock w) b"
  shows "\<exists>e. Router_Chat clock name req r w = (Inl e, r, w)"
proof -
  obtain e where "try_chain Allow RecordSuccess RecordFailure clock (\<lambda>p. p_Chat p req) chain
                    (circuits r) None w = (Inl e, circuits r, w)"
    using cb.all_tripped_fails_fast [where ps = chain and cs = "circuits r" and clock = clock
        and w = w, OF assms(2)] by blast
  then show ?thesis by (simp add: Router_Chat_def route_def assms(1))
qed

theorem chat_fails_fast_witness:
  "let r = (Register (echo_provider ''a'' True) NewRouter)
             \<lparr>circuits := [''a'' \<mapsto> cb_run (map (\<lambda>t. (t, EvFailure)) [1, 2, 3, 4, 5]) NewCircuitBreaker]\<rparr> in
   \<exists>e. Router_Chat id ''a'' sample_request r 7 = (Inl e, r, 7)"
proof -
  let ?r = "(Register (echo_provider ''a'' True) NewRouter)
     \<lparr>circuits := [''a'' \<mapsto> cb_run (map (\<lambda>t. (t, EvFailure)) [1, 2, 3, 4, 5]) NewCircuitBreaker]\<rparr>"
  have "getWithFallbacks ?r ''a'' = Inr [echo_provider ''a'' True]"
    by (simp add: getWithFallbacks_def Register_def NewRouter_def Let_def echo_provider_def)
  then show ?thesis
    using chat_fails_fast [of ?r "''a''" "[echo_provider ''a'' True]" id 7]
    by (simp add: echo_provider_def cb_tripped_def cb_defs NewCircuitBreaker_def)
qed

text \<open>C5: fallback works. If some provider of the chain answers every request and its breaker
  is closed, the chat request succeeds, whatever the other providers and their breakers do.\<close>

theorem chat_fallback_succeeds:
  assumes "router_inv r" "getWithFallbacks r name = Inr chain" "p \<in> set chain"
    and "\<exists>b. circuits r (p_Name p) = Some b \<and> cb_closed b"
    and "\<And>w. \<exists>x w'. p_Chat p req w = (Inr x, w')"
  shows "\<exists>x r' w'. Router_Chat clock name req r w = (Inr x, r', w')"
proof -
  have "q = p" if "q \<in> set chain" "p_Name q = p_Name p" for q
  proof -
    have "providers r (p_Name x) = Some x" if "x \<in> set chain" for x
      using chain_registered [OF assms(2) that] assms(1) unfolding router_inv_def by metis
    from this [OF that(1)] this [OF assms(3)] that(2) show ?thesis by (metis option.inject)
  qed
  then have "\<exists>x cs' w'. try_chain Allow RecordSuccess RecordFailure clock (\<lambda>p. p_Chat p req) chain
                    (circuits r) None w = (Inr x, cs', w')"
    using assms(3-5) by (intro cb.working_provider_suffices) auto
  then show ?thesis by (fastforce simp: Router_Chat_def route_def assms(2))
qed

theorem chat_fallback_succeeds_witness:
  "\<exists>x r' w'. Router_Chat id '''' sample_request two_providers 7 = (Inr x, r', w')"
proof (rule chat_fallback_succeeds [where p = "echo_provider ''b'' True"])
  show "router_inv two_providers"
    unfolding two_providers_def
    by (intro router_inv_fallback router_inv_register router_inv_new)
  show "getWithFallbacks two_providers '''' =
      Inr [echo_provider ''a'' False, echo_provider ''b'' True]"
    by (simp add: getWithFallbacks_def two_providers_def SetFallbackChain_def Register_def
        NewRouter_def Let_def echo_provider_def)
qed (auto simp: two_providers_def SetFallbackChain_def Register_def NewRouter_def Let_def
      echo_provider_def cb_closed_def NewCircuitBreaker_def)

section \<open>Reference behaviour of the loop\<close>

text \<open>Without breakers, a chain is tried in order until a call succeeds.\<close>

fun first_success ::
  "('w Provider \<Rightarrow> ('w, 'a) call) \<Rightarrow> 'w Provider list \<Rightarrow> go_err option \<Rightarrow> 'w \<Rightarrow> 'a result \<times> 'w" where
  "first_success call [] lastErr w =
     (Inl (case lastErr of Some e \<Rightarrow> Wrap ''all providers failed'' e
                         | None \<Rightarrow> Msg ''all providers failed: %!w(<nil>)''), w)"
| "first_success call (p # ps) lastErr w =
     (case call p w of
        (Inl err, w') \<Rightarrow> first_success call ps (Some err) w'
      | (Inr x, w') \<Rightarrow> (Inr x, w'))"

lemma try_chain_first_success:
  assumes "distinct (map p_Name ps)"
    and "\<forall>p \<in> set ps. \<forall>b. cs (p_Name p) = Some b \<longrightarrow> cb_closed b"
  shows "(case try_chain Allow RecordSuccess RecordFailure clock call ps cs lastErr w of
            (res, cs', w') \<Rightarrow> (res, w')) = first_success call ps lastErr w"
  using assms
proof (induction ps arbitrary: cs lastErr w)
  case (Cons p ps)
  obtain res1 w1 where call: "call p w = (res1, w1)" by (meson surj_pair)
  have IH: "(case try_chain Allow RecordSuccess RecordFailure clock call ps c (Some e) w1 of
               (res, cs', w') \<Rightarrow> (res, w')) = first_success call ps (Some e) w1"
    if "\<forall>n. n \<noteq> p_Name p \<longrightarrow> c n = cs n" for c e
  proof (rule Cons.IH)
    have "c (p_Name q) = cs (p_Name q)" if "q \<in> set ps" for q
      using that \<open>\<forall>n. _\<close> Cons.prems(1) by (metis distinct.simps(2) image_eqI list.set_map list.simps(9))
    with Cons.prems show "\<forall>q \<in> set ps. \<forall>b. c (p_Name q) = Some b \<longrightarrow> cb_closed b" by simp
  qed (use Cons.prems in simp)
  show ?case
  proof (cases "cs (p_Name p)")
    case None
    with call IH [of cs] show ?thesis by (cases res1) auto
  next
    case (Some b)
    with Cons.prems have "cb_closed b" by simp
    with Some call IH show ?thesis by (cases res1) (auto simp: cb.healthy_allow)
  qed
qed simp

text \<open>C23: while every breaker of the chain is closed and no provider occurs twice in it, the breakers
  do not influence the answer: a chat request returns what trying the providers in order
  until the first success returns, and leaves the outside world in the same state. The
  chain is what \<open>SetFallbackChain\<close> was given, which does not look for repetitions; a
  provider that occurs again may be skipped then, since its first failure may open its
  breaker.\<close>

theorem chat_closed_breakers_first_success:
  assumes "getWithFallbacks r name = Inr chain" "distinct (map p_Name chain)"
    and "\<forall>p \<in> set chain. \<forall>b. circuits r (p_Name p) = Some b \<longrightarrow> cb_closed b"
  shows "(case Router_Chat clock name req r w of (res, r', w') \<Rightarrow> (res, w')) =
         first_success (\<lambda>p. p_Chat p req) chain None w"
  using try_chain_first_success [OF assms(2,3), of clock "\<lambda>p. p_Chat p req" None w]
  by (simp add: Router_Chat_def route_def assms(1) split: prod.splits)

theorem chat_closed_breakers_first_success_witness:
  "(case Router_Chat id ''a'' sample_request two_providers 7 of (res, r', w') \<Rightarrow> (res, w')) =
   (Inr \<lparr>pr_ID = ''b'', pr_Model = ''m'', pr_Content = [], pr_StopReason = ''end_turn'',
         pr_Usage = \<lparr>InputTokens = 1, OutputTokens = 1, CacheReadTokens = 0,
                     CacheWriteTokens = 0\<rparr>\<rparr>, 9)"
proof -
  let ?chain = "[echo_provider ''a'' False, echo_provider ''b'' True]"
  have "getWithFallbacks two_providers ''a'' = Inr ?chain"
    "distinct (map p_Name ?chain)"
    "\<forall>p \<in> set ?chain. \<forall>b. circuits two_providers (p_Name p) = Some b \<longrightarrow> cb_closed b"
    by (simp_all add: getWithFallbacks_def two_providers_def SetFallbackChain_def Register_def
        NewRouter_def Let_def echo_provider_def cb_closed_def NewCircuitBreaker_def)
  from chat_closed_breakers_first_success [OF this, of id sample_request 7]
  show ?thesis by (simp add: echo_provider_def sample_request_def)
qed

section \<open>The Responses API on providers without native support\<close>

definition stream_text :: "Stream \<Rightarrow> string" where
  "stream_text s = concat (map (\<lambda>x. case x of Inr (Some c) \<Rightarrow> ch_TextDelta c | _ \<Rightarrow> []) s)"

definition response_text :: "ResponseStream \<Rightarrow> string" where
  "response_text s = concat (map (\<lambda>x. case x of Inr (Some e) \<Rightarrow> ev_TextDelta e | _ \<Rightarrow> []) s)"

lemma chatToResponseStream_map:
  "chatToResponseStream s =
     map (\<lambda>x. case fst (chatToResponseStream_Recv [x]) of
                Inl err \<Rightarrow> Inl err | Inr ev \<Rightarrow> Inr (Some ev)) s"
proof (induction s)
  case (Cons x s)
  then show ?case
    by (cases x) (auto simp: chatToResponseStream_Recv_def split: option.splits)
qed simp

text \<open>Wrapping a chat stream as a response stream neither loses nor reorders anything: the
  wrapped stream has one result per result of the chat stream, the text deltas add up to
  the same text, and the result at a position completes the response exactly when the
  chunk there carries the final answer, with that answer as its content.\<close>

theorem response_stream_faithful:
  "length (chatToResponseStream s) = length s \<and>
   response_text (chatToResponseStream s) = stream_text s \<and>
   (\<forall>i < length s. \<forall>final.
      (\<exists>c. s ! i = Inr (Some c) \<and> ch_Final c = Some final) \<longrightarrow>
      (\<exists>ev. chatToResponseStream s ! i = Inr (Some ev) \<and> ev_Type ev = ''response.completed'' \<and>
            ev_Response ev = Some (chatToResponseResult final)))"
proof (intro conjI)
  show "response_text (chatToResponseStream s) = stream_text s"
    unfolding response_text_def stream_text_def chatToResponseStream_map map_map
    by (rule arg_cong [where f = concat], rule map_cong)
      (auto simp: chatToResponseStream_Recv_def split: sum.splits option.splits)
qed (auto simp: chatToResponseStream_map chatToResponseStream_Recv_def)

theorem response_stream_faithful_witness:
  "\<exists>ev. chatToResponseStream [Inr (Some \<lparr>ch_TextDelta = ''hi'', ch_ToolUse = None,
            ch_Final = Some \<lparr>pr_ID = ''x'', pr_Model = ''m'', pr_Content = [],
              pr_StopReason = ''end_turn'', pr_Usage = \<lparr>InputTokens = 1, OutputTokens = 1,
              CacheReadTokens = 0, CacheWriteTokens = 0\<rparr>\<rparr>\<rparr>)] ! 0 = Inr (Some ev) \<and>
        ev_Type ev = ''response.completed''"
  using response_stream_faithful [of "[Inr (Some \<lparr>ch_TextDelta = ''hi'', ch_ToolUse = None,
            ch_Final = Some \<lparr>pr_ID = ''x'', pr_Model = ''m'', pr_Content = [],
              pr_StopReason = ''end_turn'', pr_Usage = \<lparr>InputTokens = 1, OutputTokens = 1,
              CacheReadTokens = 0, CacheWriteTokens = 0\<rparr>\<rparr>\<rparr>)]"]
  by fastforce

text \<open>A response request keeps its instructions and its message items, in order; items of any
  other type are dropped, and so is message content given as blocks: the message is sent empty.\<close>

lemma items_to_messages_map:
  "items_to_messages items =
     map (\<lambda>it. \<lparr>Role = it_Role it,
                Content = (case it_Content it of CText s \<Rightarrow> [text_block s] | _ \<Rightarrow> []),
                ToolCallID = ''''\<rparr>)
       (filter (\<lambda>it. it_Type it = ''message'') items)"
  by (induction items) auto

lemma block_content_is_dropped:
  assumes "it_Type item = ''message''" "it_Content item = CBlocks bs"
  shows "pq_Messages (responseToChat \<lparr>rq_Model = m, rq_Input = IItems [item], rq_Instructions = '''',
           rq_PreviousResponseID = pid, rq_Tools = ts, rq_Temperature = t, rq_MaxTokens = k\<rparr>) =
         [\<lparr>Role = it_Role item, Content = [], ToolCallID = ''''\<rparr>]"
  using assms by (simp add: responseToChat_def)

end
