(* ===== verification/Anthropic.thy ===== *)
theory Anthropic
  imports Chat_SDK Router
begin

text \<open>
  The Anthropic adapter, \<^verbatim>\<open>internal/llm/anthropic/provider.go\<close>: the translation to the
  Messages API, where system messages travel apart from the conversation, and the stream, which
  assembles the input of a tool call from its fragments. The client library is the record
  \<open>anthropic_client\<close>; parsing the input of a tool call and the schema of a tool are arguments.
\<close>

section \<open>The client library\<close>

text \<open>The \<open>any\<close> a tool call's input is: nil, a parsed value, or the text when it does not parse.\<close>

datatype 'j tool_input = NoInput | Parsed 'j | RawInput string

datatype 'j ContentBlockParam =
    NewTextBlock string
  | NewImageBlock string
  | NewImageBlockBase64 string string
  | NewToolUseBlock string "'j tool_input" string
  | NewToolResultBlock string string bool

datatype 'j AntMessageParam =
    NewUserMessage "'j ContentBlockParam list"
  | NewAssistantMessage "'j ContentBlockParam list"

record 's AntToolParam =
  at_Name :: string
  at_Description :: "string option"
  at_InputSchema :: "'s option"

record ('j, 's) MessageNewParams =
  mp_Model :: string
  mp_Messages :: "'j AntMessageParam list"
  mp_MaxTokens :: int
  mp_System :: "string list"
  mp_Temperature :: "rat option"
  mp_StopSequences :: "string list"
  mp_Tools :: "'s AntToolParam list"

record ContentBlock =
  cb_Type :: string
  cb_Text :: string
  cb_ID :: string
  cb_Name :: string
  cb_Input :: string

record AntMessage =
  am_ID :: string
  am_Model :: string
  am_Content :: "ContentBlock list"
  am_StopReason :: string
  am_InputTokens :: int
  am_OutputTokens :: int
  am_CacheReadInputTokens :: int
  am_CacheCreationInputTokens :: int

text \<open>The events of a stream by their type, with what the code reads of them.\<close>

datatype StreamEvent =
    MessageStart
  | ContentBlockStart int ContentBlock
  | TextDelta int string
  | InputJSONDelta int string
  | OtherDelta int
  | ContentBlockStop int
  | MessageDelta int string  \<comment> \<open>output tokens and stop reason\<close>
  | OtherEvent

record ('w, 'j, 's) anthropic_client =
  ac_Models_List :: "('w, unit) call"
  Messages_New :: "('j, 's) MessageNewParams \<Rightarrow> ('w, AntMessage) call"
  Messages_NewStreaming :: "('j, 's) MessageNewParams \<Rightarrow> 'w \<Rightarrow> StreamEvent sse \<times> 'w"

section \<open>Requests\<close>

definition toContentBlock :: "(string \<Rightarrow> 'j result) \<Rightarrow> Block \<Rightarrow> 'j ContentBlockParam list" where
  "toContentBlock unmarshal b =
     (if b_Type b = ''text'' then [NewTextBlock (b_Text b)]
      else if b_Type b = ''image'' then
        (case b_Image b of
           None \<Rightarrow> []
         | Some img \<Rightarrow>
             if ImgURL img \<noteq> '''' then [NewImageBlock (ImgURL img)]
             else if ImgData img \<noteq> '''' then [NewImageBlockBase64 (MediaType img) (ImgData img)]
             else [])
      else if b_Type b = ''tool_use'' then
        (case b_ToolUse b of
           None \<Rightarrow> []
         | Some tu \<Rightarrow>
             [NewToolUseBlock (tu_ID tu)
               (if tu_InputJSON tu = '''' then NoInput
                else (case unmarshal (tu_InputJSON tu) of Inl _ \<Rightarrow> RawInput (tu_InputJSON tu) | Inr v \<Rightarrow> Parsed v))
               (tu_Name tu)])
      else if b_Type b = ''tool_result'' then
        (case b_ToolResult b of
           None \<Rightarrow> []
         | Some tr \<Rightarrow> [NewToolResultBlock (tr_ToolUseID tr) (tr_Content tr) (tr_IsError tr)])
      else [])"

definition toMessageParam :: "(string \<Rightarrow> 'j result) \<Rightarrow> Message \<Rightarrow> 'j AntMessageParam result" where
  "toMessageParam unmarshal m =
     (let blocks = concat (map (toContentBlock unmarshal) (Content m)) in
      if Role m = ''user'' then Inr (NewUserMessage blocks)
      else if Role m = ''assistant'' then Inr (NewAssistantMessage blocks)
      else Inl (Msg (''unsupported role '' @ quoted (Role m) @ '' (use system separately)'')))"

fun toToolParams :: "(string \<Rightarrow> 's result) \<Rightarrow> ToolDef list \<Rightarrow> 's AntToolParam list result" where
  "toToolParams unmarshalSchema [] = Inr []"
| "toToolParams unmarshalSchema (t # ts) =
     (let schema = (if td_InputSchemaJSON t \<noteq> '''' then map_sum id Some (unmarshalSchema (td_InputSchemaJSON t)) else Inr None) in
      case schema of
        Inl err \<Rightarrow> Inl (Wrap (''invalid tool schema for '' @ quoted (td_Name t)) err)
      | Inr sc \<Rightarrow>
          map_sum id
            ((#) \<lparr>at_Name = td_Name t, at_Description = (if td_Description t \<noteq> '''' then Some (td_Description t) else None),
                  at_InputSchema = sc\<rparr>)
            (toToolParams unmarshalSchema ts))"

text \<open>System messages are collected apart; the first message with another role than user or assistant
  ends the translation.\<close>

fun split_system :: "(string \<Rightarrow> 'j result) \<Rightarrow> Message list \<Rightarrow> (string list \<times> 'j AntMessageParam list) result" where
  "split_system unmarshal [] = Inr ([], [])"
| "split_system unmarshal (m # msgs) =
     (if Role m = ''system''
      then map_sum id (\<lambda>(systemBlocks, ps). (textContent (Content m) # systemBlocks, ps)) (split_system unmarshal msgs)
      else
        (case toMessageParam unmarshal m of
           Inl err \<Rightarrow> Inl err
         | Inr ap \<Rightarrow> map_sum id (\<lambda>(systemBlocks, ps). (systemBlocks, ap # ps)) (split_system unmarshal msgs)))"

definition toMessageParams ::
  "(string \<Rightarrow> 'j result) \<Rightarrow> (string \<Rightarrow> 's result) \<Rightarrow> ProviderRequest \<Rightarrow> ('j, 's) MessageNewParams result" where
  "toMessageParams unmarshal unmarshalSchema req =
     (case split_system unmarshal (pq_Messages req) of
        Inl err \<Rightarrow> Inl err
      | Inr (systemBlocks, msgs) \<Rightarrow>
          map_sum id
            (\<lambda>tools. \<lparr>mp_Model = pq_Model req, mp_Messages = msgs,
                      mp_MaxTokens = (if pq_MaxTokens req > 0 then pq_MaxTokens req else 8096),
                      mp_System = systemBlocks, mp_Temperature = opt_pos (pq_Temperature req),
                      mp_StopSequences = pq_StopSequences req, mp_Tools = tools\<rparr>)
            (toToolParams unmarshalSchema (pq_Tools req)))"

section \<open>Answers\<close>

definition stopReasonToInternal :: "string \<Rightarrow> string" where
  "stopReasonToInternal sr =
     (if sr = ''tool_use'' then ''tool_use'' else if sr = ''max_tokens'' then ''max_tokens'' else ''end_turn'')"

definition fromContentBlock :: "ContentBlock \<Rightarrow> Block list" where
  "fromContentBlock cb =
     (if cb_Type cb = ''text'' then [text_block (cb_Text cb)]
      else if cb_Type cb = ''tool_use'' then [tool_use_block (cb_ID cb) (cb_Name cb) (cb_Input cb)]
      else [])"

definition fromMessage :: "AntMessage option \<Rightarrow> ProviderResponse" where
  "fromMessage msg =
     (case msg of
        None \<Rightarrow> empty_response
      | Some m \<Rightarrow>
          \<lparr>pr_ID = am_ID m, pr_Model = am_Model m, pr_Content = concat (map fromContentBlock (am_Content m)),
           pr_StopReason = stopReasonToInternal (am_StopReason m),
           pr_Usage = \<lparr>InputTokens = to_int32 (am_InputTokens m), OutputTokens = to_int32 (am_OutputTokens m),
                       CacheReadTokens = to_int32 (am_CacheReadInputTokens m),
                       CacheWriteTokens = to_int32 (am_CacheCreationInputTokens m)\<rparr>\<rparr>)"

section \<open>The stream\<close>

record antStream =
  as_inner :: "StreamEvent sse"
  toolInputs :: "int \<rightharpoonup> string"
  toolMeta :: "int \<rightharpoonup> ContentBlock"
  as_done :: bool

text \<open>The zero value a Go map gives for a missing block\<close>

definition no_block :: ContentBlock where
  "no_block = \<lparr>cb_Type = '''', cb_Text = '''', cb_ID = '''', cb_Name = '''', cb_Input = ''''\<rparr>"

definition final_usage :: "int \<Rightarrow> string \<Rightarrow> ProviderResponse" where
  "final_usage tokens reason =
     empty_response\<lparr>pr_StopReason := stopReasonToInternal reason,
                    pr_Usage := empty_usage\<lparr>OutputTokens := to_int32 tokens\<rparr>\<rparr>"

text \<open>One event: what \<open>Recv\<close> returns for it, if anything, and the maps of the tool calls in progress.\<close>

fun ant_event ::
  "StreamEvent \<Rightarrow> (int \<rightharpoonup> string) \<times> (int \<rightharpoonup> ContentBlock) \<Rightarrow> Chunk option \<times> (int \<rightharpoonup> string) \<times> (int \<rightharpoonup> ContentBlock)" where
  "ant_event (ContentBlockStart i block) (inputs, meta) = (None, inputs, meta(i \<mapsto> block))"
| "ant_event (TextDelta i text) st = (if text \<noteq> '''' then Some (text_chunk text) else None, st)"
| "ant_event (InputJSONDelta i part) (inputs, meta) =
     (None, inputs(i \<mapsto> (case inputs i of Some s \<Rightarrow> s | None \<Rightarrow> '''') @ part), meta)"
| "ant_event (ContentBlockStop i) (inputs, meta) =
     (case inputs i of
        Some inputJSON \<Rightarrow>
          (let tu = (case meta i of Some block \<Rightarrow> block | None \<Rightarrow> no_block) in
           (Some (tool_chunk \<lparr>tu_ID = cb_ID tu, tu_Name = cb_Name tu, tu_InputJSON = inputJSON\<rparr>),
            inputs(i := None), meta(i := None)))
      | None \<Rightarrow> (None, inputs, meta))"
| "ant_event (MessageDelta tokens reason) st =
     (if tokens > 0 \<or> reason \<noteq> '''' then Some (final_chunk (final_usage tokens reason)) else None, st)"
| "ant_event _ st = (None, st)"

fun ant_recv_loop ::
  "go_err option \<Rightarrow> StreamEvent list \<Rightarrow> (int \<rightharpoonup> string) \<times> (int \<rightharpoonup> ContentBlock) \<Rightarrow> Chunk option result \<times> antStream" where
  "ant_recv_loop err [] st =
     ((case err of Some e \<Rightarrow> Inl (Wrap ''anthropic stream'' e) | None \<Rightarrow> Inl EOF),
      \<lparr>as_inner = \<lparr>pending = [], failure = err\<rparr>, toolInputs = fst st, toolMeta = snd st, as_done = True\<rparr>)"
| "ant_recv_loop err (evt # evts) st =
     (case ant_event evt st of
        (None, st') \<Rightarrow> ant_recv_loop err evts st'
      | (Some c, st') \<Rightarrow>
          (Inr (Some c), \<lparr>as_inner = \<lparr>pending = evts, failure = err\<rparr>, toolInputs = fst st', toolMeta = snd st', as_done = False\<rparr>))"

definition antStream_Recv :: "antStream \<Rightarrow> Chunk option result \<times> antStream" where
  "antStream_Recv s =
     (if as_done s then (Inl EOF, s)
      else ant_recv_loop (failure (as_inner s)) (pending (as_inner s)) (toolInputs s, toolMeta s))"

section \<open>The provider\<close>

definition Anthropic_Chat ::
  "(string \<Rightarrow> 'j result) \<Rightarrow> (string \<Rightarrow> 's result) \<Rightarrow> ('w, 'j, 's) anthropic_client \<Rightarrow> ProviderRequest \<Rightarrow> ('w, ProviderResponse) call" where
  "Anthropic_Chat unmarshal unmarshalSchema client req w =
     (case toMessageParams unmarshal unmarshalSchema req of
        Inl err \<Rightarrow> (Inl err, w)
      | Inr params \<Rightarrow>
          (case Messages_New client params w of
             (Inl err, w') \<Rightarrow> (Inl (Wrap ''anthropic chat'' err), w')
           | (Inr msg, w') \<Rightarrow> (Inr (fromMessage (Some msg)), w')))"

definition Anthropic_StreamChat ::
  "(string \<Rightarrow> 'j result) \<Rightarrow> (string \<Rightarrow> 's result) \<Rightarrow> ('w, 'j, 's) anthropic_client \<Rightarrow> ProviderRequest \<Rightarrow> ('w, antStream) call" where
  "Anthropic_StreamChat unmarshal unmarshalSchema client req w =
     (case toMessageParams unmarshal unmarshalSchema req of
        Inl err \<Rightarrow> (Inl err, w)
      | Inr params \<Rightarrow>
          (case Messages_NewStreaming client params w of
             (s, w') \<Rightarrow> (Inr \<lparr>as_inner = s, toolInputs = Map.empty, toolMeta = Map.empty, as_done = False\<rparr>, w')))"

definition ErrEmbedNotSupported :: go_err where
  "ErrEmbedNotSupported = Msg ''anthropic does not support embeddings''"

definition Anthropic_Embed :: "string \<Rightarrow> string list \<Rightarrow> ('w, rat list list \<times> Usage option) call" where
  "Anthropic_Embed model texts w = (Inl ErrEmbedNotSupported, w)"

definition ant_left :: "antStream \<Rightarrow> nat" where
  "ant_left s = (if as_done s then 0 else length (pending (as_inner s)))"

lemma ant_recv_loop_left: "ant_recv_loop err evts st = (Inr x, s') \<Longrightarrow> ant_left s' < length evts"
  by (induction err evts st rule: ant_recv_loop.induct) (auto simp: ant_left_def less_SucI split: option.splits prod.splits)

interpretation anthropic_chat: receiver antStream_Recv ant_left
proof
  fix s x s'
  assume "antStream_Recv s = (Inr x, s')"
  then show "ant_left s' < ant_left s"
    using ant_recv_loop_left by (fastforce simp: antStream_Recv_def ant_left_def split: if_splits)
qed

definition anthropic_provider ::
  "(string \<Rightarrow> 'j result) \<Rightarrow> (string \<Rightarrow> 's result) \<Rightarrow> ModelInfo list \<Rightarrow> ('w, 'j, 's) anthropic_client \<Rightarrow> 'w Provider" where
  "anthropic_provider unmarshal unmarshalSchema knownModels client =
     \<lparr>p_Name = ''anthropic'',
      p_Chat = Anthropic_Chat unmarshal unmarshalSchema client,
      p_StreamChat = (\<lambda>req w. case Anthropic_StreamChat unmarshal unmarshalSchema client req w of
          (r, w') \<Rightarrow> (map_sum id (\<lambda>s. drain antStream_Recv (Suc (ant_left s)) s) r, w')),
      p_Embed = Anthropic_Embed,
      p_ListModels = (\<lambda>w. (Inr knownModels, w)),
      p_HealthCheck = ac_Models_List client,
      p_responder = None\<rparr>"

section \<open>What a stream delivers\<close>

fun ant_reports :: "(int \<rightharpoonup> string) \<times> (int \<rightharpoonup> ContentBlock) \<Rightarrow> StreamEvent list \<Rightarrow> Chunk list" where
  "ant_reports st [] = []"
| "ant_reports st (evt # evts) =
     (case ant_event evt st of
        (None, st') \<Rightarrow> ant_reports st' evts
      | (Some c, st') \<Rightarrow> c # ant_reports st' evts)"

lemma ant_recv_loop_reports:
  "case ant_recv_loop err evts st of
     (Inl e, s) \<Rightarrow> ant_reports st evts = [] \<and> e = (case err of Some e0 \<Rightarrow> Wrap ''anthropic stream'' e0 | None \<Rightarrow> EOF)
   | (Inr x, s) \<Rightarrow>
       \<not> as_done s \<and> failure (as_inner s) = err \<and> length (pending (as_inner s)) < length evts \<and>
       (\<exists>c. x = Some c \<and> ant_reports st evts = c # ant_reports (toolInputs s, toolMeta s) (pending (as_inner s)))"
proof (induction err evts st rule: ant_recv_loop.induct)
  case (1 err st)
  then show ?case by (cases err) simp_all
next
  case (2 err evt evts st)
  obtain c st' where "ant_event evt st = (c, st')" by (meson surj_pair)
  with 2 show ?case by (cases c) (fastforce split: prod.splits sum.splits)+
qed

lemma drain_ant:
  "ant_left s < n \<Longrightarrow> \<not> as_done s \<Longrightarrow>
   drain antStream_Recv n s =
     map (\<lambda>c. Inr (Some c)) (ant_reports (toolInputs s, toolMeta s) (pending (as_inner s))) @
     (case failure (as_inner s) of Some e \<Rightarrow> [Inl (Wrap ''anthropic stream'' e)] | None \<Rightarrow> [])"
proof (induction n arbitrary: s)
  case (Suc n)
  obtain r s' where rs: "ant_recv_loop (failure (as_inner s)) (pending (as_inner s)) (toolInputs s, toolMeta s) = (r, s')"
    by (meson surj_pair)
  note step = ant_recv_loop_reports [where err = "failure (as_inner s)" and evts = "pending (as_inner s)"
      and st = "(toolInputs s, toolMeta s)", unfolded rs]
  have recv: "antStream_Recv s = (r, s')" using Suc.prems rs by (simp add: antStream_Recv_def)
  show ?case
  proof (cases r)
    case (Inl e)
    with step show ?thesis by (auto simp: recv split: option.splits)
  next
    case (Inr x)
    with step Suc.prems have "ant_left s' < n" "\<not> as_done s'" by (auto simp: ant_left_def)
    from Suc.IH [OF this] step Inr show ?thesis by (auto simp: recv split: option.split)
  qed
qed simp

text \<open>What the server says, block by block, and the events that say it: a block has an index, a start, its
  fragments and a stop.\<close>

datatype said = Said "string list" | Called string string "string list"

fun block_events :: "int \<Rightarrow> said \<Rightarrow> StreamEvent list" where
  "block_events i (Said parts) =
     ContentBlockStart i (no_block\<lparr>cb_Type := ''text''\<rparr>) # map (TextDelta i) parts @ [ContentBlockStop i]"
| "block_events i (Called ident name parts) =
     ContentBlockStart i (no_block\<lparr>cb_Type := ''tool_use'', cb_ID := ident, cb_Name := name\<rparr>) #
     map (InputJSONDelta i) parts @ [ContentBlockStop i]"

fun message_events :: "int \<Rightarrow> said list \<Rightarrow> StreamEvent list" where
  "message_events i [] = []"
| "message_events i (b # bs) = block_events i b @ message_events (i + 1) bs"

fun block_chunks :: "said \<Rightarrow> Chunk list" where
  "block_chunks (Said parts) = map text_chunk (filter (\<lambda>t. t \<noteq> '''') parts)"
| "block_chunks (Called ident name parts) =
     (if parts = [] then [] else [tool_chunk \<lparr>tu_ID = ident, tu_Name = name, tu_InputJSON = concat parts\<rparr>])"

lemma reports_text_deltas:
  "ant_reports st (map (TextDelta i) parts @ evts) = map text_chunk (filter (\<lambda>t. t \<noteq> '''') parts) @ ant_reports st evts"
  by (induction parts) simp_all

lemma reports_json_deltas:
  "ant_reports (inputs, meta) (map (InputJSONDelta i) parts @ evts) =
     ant_reports (if parts = [] then inputs
                  else inputs(i \<mapsto> (case inputs i of Some s \<Rightarrow> s | None \<Rightarrow> '''') @ concat parts), meta) evts"
  by (induction parts arbitrary: inputs) simp_all

lemma reports_block:
  "\<exists>meta'. ant_reports (Map.empty, meta) (block_events i b @ evts) = block_chunks b @ ant_reports (Map.empty, meta') evts"
proof (cases b)
  case (Said parts)
  then show ?thesis by (auto simp: reports_text_deltas)
next
  case (Called ident name parts)
  then show ?thesis by (auto simp: reports_json_deltas fun_upd_upd)
qed

lemma reports_message:
  "\<exists>meta'. ant_reports (Map.empty, meta) (message_events i bs @ evts) =
     concat (map block_chunks bs) @ ant_reports (Map.empty, meta') evts"
proof (induction bs arbitrary: i meta)
  case (Cons b bs)
  obtain m1 where b: "ant_reports (Map.empty, meta) (block_events i b @ message_events (i + 1) bs @ evts) =
      block_chunks b @ ant_reports (Map.empty, m1) (message_events (i + 1) bs @ evts)"
    using reports_block by blast
  obtain m2 where "ant_reports (Map.empty, m1) (message_events (i + 1) bs @ evts) =
      concat (map block_chunks bs) @ ant_reports (Map.empty, m2) evts"
    using Cons.IH by blast
  with b show ?case by (intro exI [of _ m2]) simp
qed (auto intro: exI [of _ meta])

text \<open>C21: the Anthropic stream reassembles what the model says. When the server sends a message block by
  block, however it cuts texts and tool inputs into fragments, reading the stream gives the text fragments
  in order, one chunk per tool call with the call's identifier and name and its whole input, and at the
  end one chunk with the stop reason and the output tokens (and nothing else of the answer). A tool call
  the server sends no input fragment for is not reported at all.\<close>

theorem anthropic_stream_reassembles_blocks:
  assumes "Anthropic_StreamChat unmarshal unmarshalSchema client req w = (Inr s, w')"
    and "as_inner s = \<lparr>pending = MessageStart # message_events 0 bs @ [MessageDelta tokens reason, OtherEvent], failure = None\<rparr>"
    and "reason \<noteq> ''''"
  shows "p_StreamChat (anthropic_provider unmarshal unmarshalSchema models client) req w =
    (Inr (map (\<lambda>c. Inr (Some c)) (concat (map block_chunks bs) @ [final_chunk (final_usage tokens reason)])), w')"
proof -
  have s: "toolInputs s = Map.empty" "toolMeta s = Map.empty" "\<not> as_done s"
    using assms(1) by (auto simp: Anthropic_StreamChat_def split: sum.splits prod.splits)
  obtain m where "ant_reports (Map.empty, Map.empty) (message_events 0 bs @ [MessageDelta tokens reason, OtherEvent]) =
      concat (map block_chunks bs) @ ant_reports (Map.empty, m) [MessageDelta tokens reason, OtherEvent]"
    using reports_message by blast
  then show ?thesis
    using drain_ant [of s "Suc (ant_left s)"] s assms by (simp add: anthropic_provider_def)
qed

section \<open>Messages Anthropic does not take\<close>

definition anthropic_roles :: "string list" where
  "anthropic_roles = [''system'', ''user'', ''assistant'']"

lemma toMessageParam_ok: "is_ok (toMessageParam unmarshal m) \<longleftrightarrow> Role m \<in> {''user'', ''assistant''}"
  by (auto simp: toMessageParam_def Let_def)

lemma split_system_ok: "is_ok (split_system unmarshal msgs) \<longleftrightarrow> (\<forall>m \<in> set msgs. Role m \<in> set anthropic_roles)"
proof (induction msgs)
  case (Cons m msgs)
  show ?case
  proof (cases "Role m = ''system''")
    case True
    with Cons show ?thesis by (cases "split_system unmarshal msgs") (auto simp: anthropic_roles_def)
  next
    case False
    show ?thesis
    proof (cases "toMessageParam unmarshal m")
      case (Inl e)
      then have "\<not> is_ok (toMessageParam unmarshal m)" by simp
      with Inl False show ?thesis unfolding toMessageParam_ok by (simp add: anthropic_roles_def)
    next
      case (Inr p)
      then have "Role m \<in> {''user'', ''assistant''}" using toMessageParam_ok [of unmarshal m] by simp
      with Inr False Cons show ?thesis by (cases "split_system unmarshal msgs") (auto simp: anthropic_roles_def)
    qed
  qed
qed simp

lemma Anthropic_Chat_refused:
  assumes "m \<in> set (pq_Messages req)" "Role m \<notin> set anthropic_roles"
  shows "\<exists>e. Anthropic_Chat unmarshal unmarshalSchema client req w = (Inl e, w)"
proof -
  have "\<not> is_ok (split_system unmarshal (pq_Messages req))" using assms by (auto simp: split_system_ok)
  then obtain e where "split_system unmarshal (pq_Messages req) = Inl e"
    by (cases "split_system unmarshal (pq_Messages req)") auto
  then show ?thesis by (simp add: Anthropic_Chat_def toMessageParams_def)
qed

text \<open>A router whose requests for Anthropic have no fallback.\<close>

definition serves_anthropic ::
  "(string \<Rightarrow> 'j result) \<Rightarrow> (string \<Rightarrow> 's result) \<Rightarrow> ModelInfo list \<Rightarrow> ('w, 'j, 's) anthropic_client \<Rightarrow> 'w Router \<Rightarrow> bool" where
  "serves_anthropic unmarshal unmarshalSchema models client r \<longleftrightarrow>
     providers r ''anthropic'' = Some (anthropic_provider unmarshal unmarshalSchema models client) \<and>
     fallbackChains r ''anthropic'' = None"

definition has_foreign_role :: "ProviderRequest \<Rightarrow> bool" where
  "has_foreign_role req \<longleftrightarrow> (\<exists>m \<in> set (pq_Messages req). Role m \<notin> set anthropic_roles)"

text \<open>The router after requests that arrive one after the other, each with the state of the outside world
  at its time.\<close>

definition router_after :: "('w \<Rightarrow> time) \<Rightarrow> 'w Router \<Rightarrow> (ProviderRequest \<times> 'w) list \<Rightarrow> 'w Router" where
  "router_after clock = foldl (\<lambda>r (req, w). fst (snd (Router_Chat clock ''anthropic'' req r w)))"

lemma refused_step:
  assumes "serves_anthropic u us models client r" "circuits r ''anthropic'' = Some cb" "cb_state cb = CircuitClosed"
    and "has_foreign_role req"
  shows "fst (snd (Router_Chat clock ''anthropic'' req r w)) =
    r\<lparr>circuits := (circuits r)(''anthropic'' \<mapsto> RecordFailure (clock w) cb)\<rparr>"
proof -
  obtain e where "Anthropic_Chat u us client req w = (Inl e, w)"
    using assms(4) Anthropic_Chat_refused [of _ req u us client w] unfolding has_foreign_role_def by blast
  with assms(1-3) show ?thesis
    by (simp add: Router_Chat_def route_def getWithFallbacks_def serves_anthropic_def anthropic_provider_def Allow_def Let_def)
qed

lemma refused_run:
  assumes "serves_anthropic u us models client r" "circuits r ''anthropic'' = Some cb" "cb_state cb = CircuitClosed"
    and "failureThreshold cb = 5" "openDuration cb = 30 * Second" "failures cb + int (length reqs) = 5" "failures cb < 5"
    and "\<forall>(req, w) \<in> set reqs. has_foreign_role req"
  shows "\<exists>cb'. serves_anthropic u us models client (router_after clock r reqs) \<and>
    circuits (router_after clock r reqs) ''anthropic'' = Some cb' \<and> cb_state cb' = CircuitOpen \<and>
    openDuration cb' = 30 * Second \<and> lastFailure cb' = clock (snd (last reqs))"
  using assms
proof (induction reqs arbitrary: r cb)
  case (Cons qw reqs)
  obtain q w where qw: "qw = (q, w)" by (cases qw)
  let ?cb = "RecordFailure (clock w) cb"
  let ?r = "r\<lparr>circuits := (circuits r)(''anthropic'' \<mapsto> ?cb)\<rparr>"
  have "has_foreign_role q" using Cons.prems(8) qw by simp
  then have after: "router_after clock r (qw # reqs) = router_after clock ?r reqs"
    using refused_step [OF Cons.prems(1-3), of q clock w] by (simp add: router_after_def qw)
  have serves: "serves_anthropic u us models client ?r" using Cons.prems(1) by (simp add: serves_anthropic_def)
  have cb: "failureThreshold ?cb = 5" "openDuration ?cb = 30 * Second" "failures ?cb = failures cb + 1"
    "lastFailure ?cb = clock w" "cb_state ?cb = (if failures cb + 1 \<ge> 5 then CircuitOpen else CircuitClosed)"
    using Cons.prems(3-5) by (simp_all add: RecordFailure_def Let_def)
  show ?case
  proof (cases "reqs = []")
    case True
    with Cons.prems(6) cb serves show ?thesis unfolding after by (simp add: router_after_def qw)
  next
    case False
    then have "failures cb + 1 < 5" using Cons.prems(6) by (cases reqs) simp_all
    with Cons.IH [OF serves, of ?cb] cb Cons.prems(6,8) False show ?thesis unfolding after by simp
  qed
qed simp

text \<open>C28: requests Anthropic cannot take close it to everyone. A request with a message of the role \<open>tool\<close>, the
  form in which agents send the results of their tools, is refused by the adapter without asking the
  server; but the router counts the refusal as a failure of the provider. After five of them a router with
  a fresh breaker for Anthropic and no fallback refuses every request for Anthropic, whoever sends it and
  without calling the server, for thirty seconds.\<close>

theorem refused_requests_open_the_breaker:
  assumes "serves_anthropic u us models client r" "circuits r ''anthropic'' = Some NewCircuitBreaker"
    and "length reqs = 5" "\<forall>(req, w) \<in> set reqs. has_foreign_role req"
    and "clock w' - clock (snd (last reqs)) < 30 * Second"
  shows "\<exists>e. Router_Chat clock ''anthropic'' req' (router_after clock r reqs) w' = (Inl e, router_after clock r reqs, w')"
proof -
  let ?r = "router_after clock r reqs"
  have new: "cb_state NewCircuitBreaker = CircuitClosed" "failureThreshold NewCircuitBreaker = 5"
    "openDuration NewCircuitBreaker = 30 * Second" "failures NewCircuitBreaker + int (length reqs) = 5"
    "failures NewCircuitBreaker < 5"
    using assms(3) by (simp_all add: NewCircuitBreaker_def)
  obtain cb where cb: "serves_anthropic u us models client ?r" "circuits ?r ''anthropic'' = Some cb"
      "cb_state cb = CircuitOpen" "openDuration cb = 30 * Second" "lastFailure cb = clock (snd (last reqs))"
    using refused_run [OF assms(1,2) new assms(4), of clock] by blast
  then have "Allow (clock w') cb = (False, cb)" using assms(5) by (simp add: Allow_def)
  moreover have "(circuits ?r)(''anthropic'' \<mapsto> cb) = circuits ?r" using cb(2) by auto
  ultimately show ?thesis
    using cb(1,2) by (simp add: Router_Chat_def route_def getWithFallbacks_def serves_anthropic_def anthropic_provider_def)
qed

section \<open>A conversation with a tool\<close>

definition ref_anthropic :: "(time, unit, unit) anthropic_client" where
  "ref_anthropic =
     \<lparr>ac_Models_List = (\<lambda>w. (Inr (), w)), Messages_New = (\<lambda>p w. (Inl EOF, w)),
      Messages_NewStreaming = (\<lambda>p w. (\<lparr>pending = MessageStart # message_events 0
          [Said [''Let me '', ''see.''], Called ''t1'' ''search'' [''{q:'', ''1}''], Called ''t2'' ''now'' []] @
          [MessageDelta 7 ''tool_use'', OtherEvent], failure = None\<rparr>, w))\<rparr>"

definition user_request :: ProviderRequest where
  "user_request = \<lparr>pq_Model = ''m'', pq_Messages = [\<lparr>Role = ''user'', Content = [text_block ''hi''], ToolCallID = ''''\<rparr>],
     pq_Temperature = 0, pq_MaxTokens = 0, pq_StopSequences = [], pq_Tools = []\<rparr>"

definition tool_request :: ProviderRequest where
  "tool_request = user_request\<lparr>pq_Messages := pq_Messages user_request @ [\<lparr>Role = ''tool'', Content = [], ToolCallID = ''t1''\<rparr>]\<rparr>"

abbreviation ref_provider :: "time Provider" where
  "ref_provider \<equiv> anthropic_provider (\<lambda>_. Inr ()) (\<lambda>_. Inr ()) [] ref_anthropic"

theorem anthropic_stream_reassembles_blocks_witness:
  "p_StreamChat ref_provider user_request 0 =
    (Inr (map (\<lambda>c. Inr (Some c)) [text_chunk ''Let me '', text_chunk ''see.'',
       tool_chunk \<lparr>tu_ID = ''t1'', tu_Name = ''search'', tu_InputJSON = ''{q:1}''\<rparr>, final_chunk (final_usage 7 ''tool_use'')]), 0)"
proof -
  let ?bs = "[Said [''Let me '', ''see.''], Called ''t1'' ''search'' [''{q:'', ''1}''], Called ''t2'' ''now'' []]"
  let ?s = "\<lparr>as_inner = \<lparr>pending = MessageStart # message_events 0 ?bs @ [MessageDelta 7 ''tool_use'', OtherEvent], failure = None\<rparr>,
    toolInputs = Map.empty, toolMeta = Map.empty, as_done = False\<rparr>"
  have start: "Anthropic_StreamChat (\<lambda>_. Inr ()) (\<lambda>_. Inr ()) ref_anthropic user_request 0 = (Inr ?s, 0)"
    by (simp add: Anthropic_StreamChat_def toMessageParams_def user_request_def toMessageParam_def ref_anthropic_def)
  have inner: "as_inner ?s = \<lparr>pending = MessageStart # message_events 0 ?bs @ [MessageDelta 7 ''tool_use'', OtherEvent], failure = None\<rparr>"
    by (rule antStream.select_convs)
  from anthropic_stream_reassembles_blocks [OF start inner, of "[]"] show ?thesis by simp
qed

theorem refused_requests_open_the_breaker_witness:
  "\<exists>e. Router_Chat (\<lambda>w. w) ''anthropic'' user_request
      (router_after (\<lambda>w. w) (Register ref_provider NewRouter) (replicate 5 (tool_request, 0))) Second =
    (Inl e, router_after (\<lambda>w. w) (Register ref_provider NewRouter) (replicate 5 (tool_request, 0)), Second)"
proof (rule refused_requests_open_the_breaker)
  show "serves_anthropic (\<lambda>_. Inr ()) (\<lambda>_. Inr ()) [] ref_anthropic (Register ref_provider NewRouter)"
    "circuits (Register ref_provider NewRouter) ''anthropic'' = Some NewCircuitBreaker"
    by (simp_all add: serves_anthropic_def Register_def NewRouter_def Let_def anthropic_provider_def)
  show "\<forall>(req, w) \<in> set (replicate 5 (tool_request, 0 :: time)). has_foreign_role req"
    by (simp add: has_foreign_role_def tool_request_def user_request_def anthropic_roles_def)
qed simp_all

end
