(* ===== verification/OpenAI.thy ===== *)
theory OpenAI
  imports Chat_SDK
begin

text \<open>
  The OpenAI adapter, \<^verbatim>\<open>internal/llm/openai/provider.go\<close>: the translation of requests and
  answers of the Chat Completions and the Responses API and the two streams. The client library is the
  record \<open>openai_client\<close>, its accumulator of chunks the record \<open>accumulator\<close>, and the parsing of a tool's
  schema the argument \<open>unmarshal\<close>.
\<close>

section \<open>The client library\<close>

text \<open>\<open>AsMessage\<close> and \<open>AsOutputText\<close> give the role and the texts of an output item.\<close>

record ResponseItem =
  ri_Role :: string
  ri_Texts :: "string list"

record Response =
  rs_ID :: string
  rs_Model :: string
  rs_Output :: "ResponseItem list"
  rs_InputTokens :: int
  rs_OutputTokens :: int
  rs_Status :: string

record ResponseStreamEvent =
  re_Type :: string
  re_Delta :: string
  re_Response :: Response

record ResponseParams =
  rp_Model :: string
  rp_Input :: "string option"
  rp_PreviousResponseID :: "string option"
  rp_Instructions :: "string option"
  rp_MaxOutputTokens :: "int option"

record ('w, 'j) openai_client =
  Models_List :: "('w, unit) call"
  Completions_New :: "'j ChatParams \<Rightarrow> ('w, ChatCompletion) call"
  Completions_NewStreaming :: "'j ChatParams \<Rightarrow> 'w \<Rightarrow> ChatCompletionChunk sse \<times> 'w"
  Responses_New :: "ResponseParams \<Rightarrow> ('w, Response) call"
  Responses_NewStreaming :: "ResponseParams \<Rightarrow> 'w \<Rightarrow> ResponseStreamEvent sse \<times> 'w"
  Embeddings_New :: "string \<Rightarrow> string list \<Rightarrow> ('w, EmbeddingResponse) call"

record 'a accumulator =
  acc_empty :: 'a
  AddChunk :: "ChatCompletionChunk \<Rightarrow> 'a \<Rightarrow> 'a"
  JustFinishedToolCall :: "'a \<Rightarrow> ToolCall option"
  acc_completion :: "'a \<Rightarrow> ChatCompletion"

section \<open>Requests\<close>

fun extractToolResults :: "Block list \<Rightarrow> ToolResultData list" where
  "extractToolResults [] = []"
| "extractToolResults (b # blocks) =
     (case b_ToolResult b of
        Some tr \<Rightarrow> if b_Type b = ''tool_result'' then tr # extractToolResults blocks else extractToolResults blocks
      | None \<Rightarrow> extractToolResults blocks)"

fun extractToolCalls :: "Block list \<Rightarrow> ToolCall list" where
  "extractToolCalls [] = []"
| "extractToolCalls (b # blocks) =
     (case b_ToolUse b of
        Some tu \<Rightarrow>
          if b_Type b = ''tool_use''
          then \<lparr>tc_ID = tu_ID tu, tc_Name = tu_Name tu, tc_Arguments = tu_InputJSON tu\<rparr> # extractToolCalls blocks
          else extractToolCalls blocks
      | None \<Rightarrow> extractToolCalls blocks)"

definition toMessage :: "Message \<Rightarrow> MessageParam list result" where
  "toMessage m =
     (if Role m = ''system'' then Inr [SystemMessage (textContent (Content m))]
      else if Role m = ''user'' then Inr [UserMessage (textContent (Content m))]
      else if Role m = ''tool'' then
        (let toolResults = extractToolResults (Content m) in
         Inr (if toolResults \<noteq> []
              then map (\<lambda>tr. ToolMessage (tr_Content tr) (tr_ToolUseID tr)) toolResults
              else [ToolMessage (textContent (Content m)) (ToolCallID m)]))
      else if Role m = ''assistant'' then
        (let toolCalls = extractToolCalls (Content m); t = textContent (Content m) in
         Inr [if toolCalls \<noteq> [] then AssistantMessage (if t \<noteq> '''' then Some t else None) toolCalls
              else AssistantMessage (Some t) []])
      else Inl (Msg (''unknown message role '' @ quoted (Role m))))"

fun toMessages :: "Message list \<Rightarrow> MessageParam list result" where
  "toMessages [] = Inr []"
| "toMessages (m # msgs) =
     (case toMessage m of
        Inl err \<Rightarrow> Inl err
      | Inr ps \<Rightarrow> map_sum id ((@) ps) (toMessages msgs))"

definition toChatParams :: "(string \<Rightarrow> 'j result) \<Rightarrow> ProviderRequest \<Rightarrow> 'j ChatParams result" where
  "toChatParams unmarshal req =
     (case toMessages (pq_Messages req) of
        Inl err \<Rightarrow> Inl err
      | Inr msgs \<Rightarrow>
          map_sum id
            (\<lambda>tools. \<lparr>cp_Model = pq_Model req, cp_Messages = msgs, cp_Temperature = opt_pos (pq_Temperature req),
                      cp_MaxCompletionTokens = opt_pos (pq_MaxTokens req), cp_Tools = tools\<rparr>)
            (chat_tools unmarshal (pq_Tools req)))"

definition toResponseParams :: "ResponseRequest \<Rightarrow> ResponseParams" where
  "toResponseParams req =
     \<lparr>rp_Model = rq_Model req,
      rp_Input =
        (case rq_Input req of
           IText v \<Rightarrow> Some v
         | IItems [item] \<Rightarrow> (case it_Content item of CText s \<Rightarrow> Some s | _ \<Rightarrow> None)
         | _ \<Rightarrow> None),
      rp_PreviousResponseID = (if rq_PreviousResponseID req \<noteq> '''' then Some (rq_PreviousResponseID req) else None),
      rp_Instructions = (if rq_Instructions req \<noteq> '''' then Some (rq_Instructions req) else None),
      rp_MaxOutputTokens = opt_pos (rq_MaxTokens req)\<rparr>"

section \<open>Answers\<close>

definition finishReasonToStop :: "string \<Rightarrow> string" where
  "finishReasonToStop fr =
     (if fr = ''tool_calls'' then ''tool_use'' else if fr = ''length'' then ''max_tokens'' else ''end_turn'')"

definition message_blocks :: "CompletionMessage \<Rightarrow> Block list" where
  "message_blocks msg =
     (if cm_Content msg \<noteq> '''' then [text_block (cm_Content msg)] else []) @
     map (\<lambda>tc. tool_use_block (tc_ID tc) (tc_Name tc) (tc_Arguments tc)) (cm_ToolCalls msg)"

definition fromChatCompletion :: "ChatCompletion option \<Rightarrow> ProviderResponse" where
  "fromChatCompletion resp =
     (case resp of
        None \<Rightarrow> empty_response
      | Some r \<Rightarrow>
          (case cmp_Choices r of
             [] \<Rightarrow> empty_response
           | choice # _ \<Rightarrow>
               \<lparr>pr_ID = cmp_ID r, pr_Model = cmp_Model r, pr_Content = message_blocks (cc_Message choice),
                pr_StopReason = finishReasonToStop (cc_FinishReason choice),
                pr_Usage = empty_usage\<lparr>InputTokens := to_int32 (cmp_PromptTokens r),
                                       OutputTokens := to_int32 (cmp_CompletionTokens r)\<rparr>\<rparr>))"

definition output_items :: "ResponseItem list \<Rightarrow> OutputItem list" where
  "output_items items =
     concat (map (\<lambda>item.
       let content = map text_block (filter (\<lambda>t. t \<noteq> '''') (ri_Texts item)) in
       if content \<noteq> []
       then [\<lparr>o_Type = ''message'', o_Role = ri_Role item, o_Content = content,
              o_CallID = '''', o_Name = '''', o_Arguments = ''''\<rparr>]
       else []) items)"

definition fromResponse :: "Response option \<Rightarrow> ResponseResult" where
  "fromResponse resp =
     (case resp of
        None \<Rightarrow> \<lparr>rr_ID = '''', rr_Model = '''', rr_Output = [], rr_Usage = empty_usage, rr_Status = ''''\<rparr>
      | Some r \<Rightarrow>
          \<lparr>rr_ID = rs_ID r, rr_Model = rs_Model r, rr_Output = output_items (rs_Output r),
           rr_Usage = empty_usage\<lparr>InputTokens := to_int32 (rs_InputTokens r),
                                  OutputTokens := to_int32 (rs_OutputTokens r)\<rparr>,
           rr_Status = rs_Status r\<rparr>)"

section \<open>Streams\<close>

record 'a chatStream =
  cs_inner :: "ChatCompletionChunk sse"
  cs_acc :: 'a
  cs_done :: bool

text \<open>The loop of \<open>Recv\<close>: frames with nothing to report are skipped. A frame that completes a tool call is
  reported as the tool call.\<close>

fun chat_recv_loop ::
  "'a accumulator \<Rightarrow> go_err option \<Rightarrow> ChatCompletionChunk list \<Rightarrow> 'a \<Rightarrow> Chunk option result \<times> 'a chatStream" where
  "chat_recv_loop A err [] acc =
     ((case err of
         Some e \<Rightarrow> Inl (Wrap ''openai stream'' e)
       | None \<Rightarrow> Inr (Some (final_chunk (fromChatCompletion (Some (acc_completion A acc)))))),
      \<lparr>cs_inner = \<lparr>pending = [], failure = err\<rparr>, cs_acc = acc, cs_done = True\<rparr>)"
| "chat_recv_loop A err (chunk # chunks) acc0 =
     (let acc = AddChunk A chunk acc0; s = \<lparr>cs_inner = \<lparr>pending = chunks, failure = err\<rparr>, cs_acc = acc, cs_done = False\<rparr> in
      case ck_Choices chunk of
        [] \<Rightarrow> chat_recv_loop A err chunks acc
      | choice # _ \<Rightarrow>
          (case JustFinishedToolCall A acc of
             Some tc \<Rightarrow>
               (Inr (Some (tool_chunk \<lparr>tu_ID = tc_ID tc, tu_Name = tc_Name tc, tu_InputJSON = tc_Arguments tc\<rparr>)), s)
           | None \<Rightarrow>
               if kc_Content choice \<noteq> '''' then (Inr (Some (text_chunk (kc_Content choice))), s)
               else chat_recv_loop A err chunks acc))"

definition chatStream_Recv :: "'a accumulator \<Rightarrow> 'a chatStream \<Rightarrow> Chunk option result \<times> 'a chatStream" where
  "chatStream_Recv A s =
     (if cs_done s then (Inl EOF, s)
      else chat_recv_loop A (failure (cs_inner s)) (pending (cs_inner s)) (cs_acc s))"

text \<open>The response stream ends with \<open>io.EOF\<close>; only text and the completed response are reported.\<close>

record responseStream =
  rt_inner :: "ResponseStreamEvent sse"
  rt_done :: bool

fun response_recv_loop ::
  "go_err option \<Rightarrow> ResponseStreamEvent list \<Rightarrow> ResponseEvent option result \<times> responseStream" where
  "response_recv_loop err [] =
     ((case err of Some e \<Rightarrow> Inl (Wrap ''openai response stream'' e) | None \<Rightarrow> Inl EOF),
      \<lparr>rt_inner = \<lparr>pending = [], failure = err\<rparr>, rt_done = True\<rparr>)"
| "response_recv_loop err (evt # evts) =
     (let s = \<lparr>rt_inner = \<lparr>pending = evts, failure = err\<rparr>, rt_done = False\<rparr> in
      if re_Type evt = ''response.output_text.delta'' \<and> re_Delta evt \<noteq> '''' then
        (Inr (Some \<lparr>ev_Type = ''response.output_text.delta'', ev_TextDelta = re_Delta evt, ev_Response = None\<rparr>), s)
      else if re_Type evt = ''response.completed'' then
        (Inr (Some \<lparr>ev_Type = ''response.completed'', ev_TextDelta = '''',
                    ev_Response = Some (fromResponse (Some (re_Response evt)))\<rparr>), s)
      else response_recv_loop err evts)"

definition responseStream_Recv :: "responseStream \<Rightarrow> ResponseEvent option result \<times> responseStream" where
  "responseStream_Recv s =
     (if rt_done s then (Inl EOF, s) else response_recv_loop (failure (rt_inner s)) (pending (rt_inner s)))"

section \<open>The provider\<close>

definition OpenAI_Chat :: "(string \<Rightarrow> 'j result) \<Rightarrow> ('w, 'j) openai_client \<Rightarrow> ProviderRequest \<Rightarrow> ('w, ProviderResponse) call" where
  "OpenAI_Chat unmarshal client req w =
     (case toChatParams unmarshal req of
        Inl err \<Rightarrow> (Inl err, w)
      | Inr params \<Rightarrow>
          (case Completions_New client params w of
             (Inl err, w') \<Rightarrow> (Inl (Wrap ''openai chat'' err), w')
           | (Inr resp, w') \<Rightarrow> (Inr (fromChatCompletion (Some resp)), w')))"

definition OpenAI_StreamChat ::
  "(string \<Rightarrow> 'j result) \<Rightarrow> 'a accumulator \<Rightarrow> ('w, 'j) openai_client \<Rightarrow> ProviderRequest \<Rightarrow> ('w, 'a chatStream) call" where
  "OpenAI_StreamChat unmarshal A client req w =
     (case toChatParams unmarshal req of
        Inl err \<Rightarrow> (Inl err, w)
      | Inr params \<Rightarrow>
          (case Completions_NewStreaming client params w of
             (s, w') \<Rightarrow> (Inr \<lparr>cs_inner = s, cs_acc = acc_empty A, cs_done = False\<rparr>, w')))"

definition OpenAI_Respond :: "('w, 'j) openai_client \<Rightarrow> ResponseRequest \<Rightarrow> ('w, ResponseResult) call" where
  "OpenAI_Respond client req w =
     (case Responses_New client (toResponseParams req) w of
        (Inl err, w') \<Rightarrow> (Inl (Wrap ''openai responses'' err), w')
      | (Inr resp, w') \<Rightarrow> (Inr (fromResponse (Some resp)), w'))"

definition OpenAI_StreamRespond :: "('w, 'j) openai_client \<Rightarrow> ResponseRequest \<Rightarrow> ('w, responseStream) call" where
  "OpenAI_StreamRespond client req w =
     (case Responses_NewStreaming client (toResponseParams req) w of
        (s, w') \<Rightarrow> (Inr \<lparr>rt_inner = s, rt_done = False\<rparr>, w'))"

definition OpenAI_Embed ::
  "('w, 'j) openai_client \<Rightarrow> string \<Rightarrow> string list \<Rightarrow> ('w, rat list list \<times> Usage option) call" where
  "OpenAI_Embed client model texts w =
     (case Embeddings_New client model texts w of
        (Inl err, w') \<Rightarrow> (Inl (Wrap ''openai embed'' err), w')
      | (Inr resp, w') \<Rightarrow>
          (Inr (map (map float32) (em_Data resp),
                Some (empty_usage\<lparr>InputTokens := to_int32 (em_PromptTokens resp)\<rparr>)), w'))"

section \<open>Streams end\<close>

definition chat_left :: "'a chatStream \<Rightarrow> nat" where
  "chat_left s = (if cs_done s then 0 else Suc (length (pending (cs_inner s))))"

definition response_left :: "responseStream \<Rightarrow> nat" where
  "response_left s = (if rt_done s then 0 else length (pending (rt_inner s)))"

lemma chat_recv_loop_left:
  "chat_recv_loop A err chunks acc = (Inr x, s') \<Longrightarrow> chat_left s' \<le> length chunks"
proof (induction A err chunks acc rule: chat_recv_loop.induct)
  case (2 A err chunk chunks acc0)
  then show ?case
    by (fastforce simp: chat_left_def Let_def split: list.splits option.splits if_splits)
qed (auto simp: chat_left_def)

lemma response_recv_loop_left:
  "response_recv_loop err evts = (Inr x, s') \<Longrightarrow> response_left s' < length evts"
  by (induction err evts rule: response_recv_loop.induct)
    (auto simp: response_left_def Let_def split: option.splits if_splits)

interpretation openai_chat: receiver "chatStream_Recv A" chat_left for A
proof
  fix s :: "'a chatStream" and x s'
  assume "chatStream_Recv A s = (Inr x, s')"
  then show "chat_left s' < chat_left s"
    using chat_recv_loop_left by (fastforce simp: chatStream_Recv_def chat_left_def split: if_splits)
qed

interpretation openai_response: receiver responseStream_Recv response_left
proof
  fix s x s'
  assume "responseStream_Recv s = (Inr x, s')"
  then show "response_left s' < response_left s"
    using response_recv_loop_left by (fastforce simp: responseStream_Recv_def response_left_def split: if_splits)
qed

text \<open>The provider as the router sees it: a stream is the list of what reading it to its end gives.\<close>

definition openai_provider :: "(string \<Rightarrow> 'j result) \<Rightarrow> 'a accumulator \<Rightarrow> ModelInfo list \<Rightarrow> ('w, 'j) openai_client \<Rightarrow> 'w Provider" where
  "openai_provider unmarshal A knownModels client =
     \<lparr>p_Name = ''openai'',
      p_Chat = OpenAI_Chat unmarshal client,
      p_StreamChat = (\<lambda>req w. case OpenAI_StreamChat unmarshal A client req w of
          (r, w') \<Rightarrow> (map_sum id (\<lambda>s. drain (chatStream_Recv A) (Suc (chat_left s)) s) r, w')),
      p_Embed = OpenAI_Embed client,
      p_ListModels = (\<lambda>w. (Inr knownModels, w)),
      p_HealthCheck = Models_List client,
      p_responder = Some \<lparr>rp_Respond = OpenAI_Respond client,
        rp_StreamRespond = (\<lambda>req w. case OpenAI_StreamRespond client req w of
          (r, w') \<Rightarrow> (map_sum id (\<lambda>s. drain responseStream_Recv (Suc (response_left s)) s) r, w'))\<rparr>\<rparr>"

section \<open>What a chat stream delivers\<close>

text \<open>The text of a frame, and of a finished answer.\<close>

definition frame_text :: "ChatCompletionChunk \<Rightarrow> string" where
  "frame_text chunk = (case ck_Choices chunk of [] \<Rightarrow> '''' | choice # _ \<Rightarrow> kc_Content choice)"

definition completion_text :: "ChatCompletion \<Rightarrow> string" where
  "completion_text r = (case cmp_Choices r of [] \<Rightarrow> '''' | choice # _ \<Rightarrow> cm_Content (cc_Message choice))"

lemma textContent_calls: "textContent (map (\<lambda>tc. tool_use_block (f tc) (g tc) (h tc)) tcs) = ''''"
  by (induction tcs) simp_all

lemma textContent_message_blocks: "textContent (message_blocks msg) = cm_Content msg"
  by (simp add: message_blocks_def textContent_calls)

lemma textContent_fromChatCompletion:
  "textContent (pr_Content (fromChatCompletion (Some r))) = completion_text r"
  by (simp add: fromChatCompletion_def completion_text_def empty_response_def textContent_message_blocks split: list.split)

text \<open>The frames of a stream by what they report.\<close>

fun reports :: "'a accumulator \<Rightarrow> 'a \<Rightarrow> ChatCompletionChunk list \<Rightarrow> Chunk list" where
  "reports A acc0 [] = []"
| "reports A acc0 (chunk # chunks) =
     (let acc = AddChunk A chunk acc0 in
      (case ck_Choices chunk of
         [] \<Rightarrow> []
       | choice # _ \<Rightarrow>
           (case JustFinishedToolCall A acc of
              Some tc \<Rightarrow> [tool_chunk \<lparr>tu_ID = tc_ID tc, tu_Name = tc_Name tc, tu_InputJSON = tc_Arguments tc\<rparr>]
            | None \<Rightarrow> if kc_Content choice \<noteq> '''' then [text_chunk (kc_Content choice)] else [])) @
      reports A acc chunks)"

lemma drain_chat_done: "cs_done s \<Longrightarrow> drain (chatStream_Recv A) n s = []"
  by (cases n) (simp_all add: chatStream_Recv_def)

lemma chat_recv_loop_reports:
  "case chat_recv_loop A err chunks acc of
     (Inl e, s) \<Rightarrow> reports A acc chunks = [] \<and> (\<exists>e0. err = Some e0 \<and> e = Wrap ''openai stream'' e0)
   | (Inr x, s) \<Rightarrow>
       (cs_done s \<and> err = None \<and> reports A acc chunks = [] \<and>
          x = Some (final_chunk (fromChatCompletion (Some (acc_completion A (fold (AddChunk A) chunks acc)))))) \<or>
       (\<not> cs_done s \<and> failure (cs_inner s) = err \<and> length (pending (cs_inner s)) < length chunks \<and>
          fold (AddChunk A) (pending (cs_inner s)) (cs_acc s) = fold (AddChunk A) chunks acc \<and>
          (\<exists>c. x = Some c \<and> reports A acc chunks = c # reports A (cs_acc s) (pending (cs_inner s))))"
proof (induction A err chunks acc rule: chat_recv_loop.induct)
  case (1 A err acc)
  then show ?case by (cases err) simp_all
next
  case (2 A err chunk chunks acc0)
  let ?acc = "AddChunk A chunk acc0"
  show ?case
  proof (cases "ck_Choices chunk")
    case Nil
    with 2(1) show ?thesis by (fastforce split: prod.splits sum.splits)
  next
    case (Cons choice rest)
    show ?thesis
    proof (cases "JustFinishedToolCall A ?acc = None \<and> kc_Content choice = ''''")
      case True
      with 2(2) Cons show ?thesis by (fastforce split: prod.splits sum.splits)
    next
      case False
      with Cons show ?thesis by (cases "JustFinishedToolCall A ?acc") (auto simp: Let_def)
    qed
  qed
qed

lemma drain_chat:
  "chat_left s < n \<Longrightarrow> \<not> cs_done s \<Longrightarrow>
   drain (chatStream_Recv A) n s =
     map (\<lambda>c. Inr (Some c)) (reports A (cs_acc s) (pending (cs_inner s))) @
     (case failure (cs_inner s) of
        Some e \<Rightarrow> [Inl (Wrap ''openai stream'' e)]
      | None \<Rightarrow> [Inr (Some (final_chunk (fromChatCompletion (Some
                  (acc_completion A (fold (AddChunk A) (pending (cs_inner s)) (cs_acc s)))))))])"
proof (induction n arbitrary: s)
  case (Suc n)
  obtain r s' where rs: "chat_recv_loop A (failure (cs_inner s)) (pending (cs_inner s)) (cs_acc s) = (r, s')"
    by (meson surj_pair)
  note step = chat_recv_loop_reports [where A = A and err = "failure (cs_inner s)" and chunks = "pending (cs_inner s)" and acc = "cs_acc s", unfolded rs]
  have recv: "chatStream_Recv A s = (r, s')" using Suc.prems rs by (simp add: chatStream_Recv_def)
  show ?case
  proof (cases r)
    case (Inl e)
    with step show ?thesis by (auto simp: recv)
  next
    case (Inr x)
    show ?thesis
    proof (cases "cs_done s'")
      case True
      with step Inr show ?thesis by (auto simp: recv drain_chat_done)
    next
      case False
      with step Inr Suc.prems have "chat_left s' < n" by (auto simp: chat_left_def)
      from Suc.IH [OF this False] step Inr False show ?thesis by (auto simp: recv split: option.split)
    qed
  qed
qed simp

lemma reports_not_final: "c \<in> set (reports A acc chunks) \<Longrightarrow> ch_Final c = None"
  by (induction A acc chunks rule: reports.induct) (auto simp: Let_def chunk_defs split: list.splits option.splits if_splits)

text \<open>A frame that completes a tool call and has text too loses the text; the others are relayed in full.\<close>

definition text_kept :: "'a accumulator \<Rightarrow> 'a \<Rightarrow> ChatCompletionChunk list \<Rightarrow> bool" where
  "text_kept A acc chunks \<longleftrightarrow>
     (\<forall>i < length chunks. frame_text (chunks ! i) = '''' \<or>
        JustFinishedToolCall A (fold (AddChunk A) (take (Suc i) chunks) acc) = None)"

lemma text_kept_Cons:
  "text_kept A acc (c # cs) \<longleftrightarrow>
     (frame_text c = '''' \<or> JustFinishedToolCall A (AddChunk A c acc) = None) \<and> text_kept A (AddChunk A c acc) cs"
  unfolding text_kept_def
  by (auto simp: All_less_Suc2 less_Suc_eq_0_disj)

lemma reports_text:
  "text_kept A acc chunks \<Longrightarrow> concat (map ch_TextDelta (reports A acc chunks)) = concat (map frame_text chunks)"
  by (induction A acc chunks rule: reports.induct)
    (auto simp: text_kept_Cons Let_def chunk_defs frame_text_def split: list.splits option.splits)

text \<open>C27: a chat stream of OpenAI delivers the answer. When the request is accepted and the connection does
  not break, reading the stream gives chunks without an answer followed by one last chunk with the whole
  answer, the accumulation of everything the server sent; and if no frame both completes a tool call and
  carries text, the pieces of text delivered on the way are together the text of that answer. That the
  accumulator concatenates the text of the frames is the documented behaviour of the client library.\<close>

theorem openai_stream_delivers_the_answer:
  assumes "\<And>chunks. completion_text (acc_completion A (fold (AddChunk A) chunks (acc_empty A))) = concat (map frame_text chunks)"
    and "OpenAI_StreamChat unmarshal A client req w = (Inr s, w')"
    and "failure (cs_inner s) = None"
    and "text_kept A (acc_empty A) (pending (cs_inner s))"
  shows "\<exists>cs r. fst (p_StreamChat (openai_provider unmarshal A models client) req w) =
      Inr (map (\<lambda>c. Inr (Some c)) (cs @ [final_chunk r])) \<and>
    (\<forall>c \<in> set cs. ch_Final c = None) \<and>
    r = fromChatCompletion (Some (acc_completion A (fold (AddChunk A) (pending (cs_inner s)) (acc_empty A)))) \<and>
    concat (map ch_TextDelta cs) = textContent (pr_Content r)"
proof -
  have s: "cs_acc s = acc_empty A" "\<not> cs_done s"
    using assms(2) by (auto simp: OpenAI_StreamChat_def split: sum.splits prod.splits)
  let ?cs = "reports A (acc_empty A) (pending (cs_inner s))"
  let ?r = "fromChatCompletion (Some (acc_completion A (fold (AddChunk A) (pending (cs_inner s)) (acc_empty A))))"
  have "fst (p_StreamChat (openai_provider unmarshal A models client) req w) =
      Inr (map (\<lambda>c. Inr (Some c)) (?cs @ [final_chunk ?r]))"
    using drain_chat [of s "Suc (chat_left s)" A] s assms(2,3) by (simp add: openai_provider_def)
  moreover have "concat (map ch_TextDelta ?cs) = textContent (pr_Content ?r)"
    unfolding reports_text [OF assms(4)] textContent_fromChatCompletion assms(1) ..
  moreover have "\<forall>c \<in> set ?cs. ch_Final c = None" by (simp add: reports_not_final)
  ultimately show ?thesis by (intro exI [of _ ?cs] exI [of _ ?r] conjI) (rule refl | assumption)+
qed

section \<open>Answers sent back\<close>

lemma extractToolCalls_blocks:
  "extractToolCalls (map (\<lambda>tc. tool_use_block (tc_ID tc) (tc_Name tc) (tc_Arguments tc)) tcs) = tcs"
  by (induction tcs) simp_all

lemma extractToolCalls_message: "extractToolCalls (message_blocks msg) = cm_ToolCalls msg"
  by (simp add: message_blocks_def extractToolCalls_blocks)

text \<open>An answer survives the way back to OpenAI. The content of an answer, put into the assistant message
  of the next request, is sent with the text and the tool calls the model produced, the identifiers and
  the arguments of the calls unchanged.\<close>

theorem openai_answers_roundtrip:
  assumes "cmp_Choices r = choice # rest"
  shows "toMessages [\<lparr>Role = ''assistant'', Content = pr_Content (fromChatCompletion (Some r)), ToolCallID = i\<rparr>] =
    Inr [AssistantMessage
           (if cm_Content (cc_Message choice) = '''' \<and> cm_ToolCalls (cc_Message choice) \<noteq> [] then None
            else Some (cm_Content (cc_Message choice)))
           (cm_ToolCalls (cc_Message choice))]"
  using assms
  by (auto simp: toMessage_def fromChatCompletion_def extractToolCalls_message textContent_message_blocks Let_def)

text \<open>The messages of a request are translated one by one; the only error is an unknown role.\<close>

definition known_roles :: "string list" where
  "known_roles = [''system'', ''user'', ''tool'', ''assistant'']"

lemma toMessage_ok: "is_ok (toMessage m) \<longleftrightarrow> Role m \<in> set known_roles"
  by (auto simp: toMessage_def known_roles_def Let_def)

lemma toMessages_ok: "is_ok (toMessages msgs) \<longleftrightarrow> (\<forall>m \<in> set msgs. Role m \<in> set known_roles)"
proof (induction msgs)
  case (Cons m msgs)
  show ?case
  proof (cases "toMessage m")
    case (Inl e)
    then have "\<not> is_ok (toMessage m)" by simp
    with Inl show ?thesis unfolding toMessage_ok by simp
  next
    case (Inr ps)
    then have "Role m \<in> set known_roles" using toMessage_ok [of m] by simp
    with Inr Cons show ?thesis by (cases "toMessages msgs") simp_all
  qed
qed simp

section \<open>A stream with a tool call\<close>

text \<open>An accumulator that collects the text and reports no tool call.\<close>

definition text_accumulator :: "string accumulator" where
  "text_accumulator =
     \<lparr>acc_empty = '''', AddChunk = (\<lambda>c t. t @ frame_text c), JustFinishedToolCall = (\<lambda>_. None),
      acc_completion = (\<lambda>t. \<lparr>cmp_ID = ''c'', cmp_Model = ''m'',
        cmp_Choices = [\<lparr>cc_Message = \<lparr>cm_Content = t, cm_ToolCalls = []\<rparr>, cc_FinishReason = ''stop''\<rparr>],
        cmp_PromptTokens = 1, cmp_CompletionTokens = 2\<rparr>)\<rparr>"

definition frame :: "string \<Rightarrow> ChatCompletionChunk" where
  "frame t = \<lparr>ck_Choices = [\<lparr>kc_Content = t, kc_ToolCalls = [], kc_FinishReason = ''''\<rparr>]\<rparr>"

definition ref_completion :: ChatCompletion where
  "ref_completion = \<lparr>cmp_ID = ''c'', cmp_Model = ''m'',
     cmp_Choices = [\<lparr>cc_Message = \<lparr>cm_Content = '''', cm_ToolCalls = [\<lparr>tc_ID = ''1'', tc_Name = ''f'', tc_Arguments = ''{}''\<rparr>]\<rparr>,
                     cc_FinishReason = ''tool_calls''\<rparr>],
     cmp_PromptTokens = 1, cmp_CompletionTokens = 2\<rparr>"

definition ref_openai :: "(unit, unit) openai_client" where
  "ref_openai =
     \<lparr>Models_List = (\<lambda>w. (Inr (), w)), Completions_New = (\<lambda>p w. (Inr ref_completion, w)),
      Completions_NewStreaming = (\<lambda>p w. (\<lparr>pending = [frame ''He'', frame '''', frame ''llo''], failure = None\<rparr>, w)),
      Responses_New = (\<lambda>p w. (Inl EOF, w)), Responses_NewStreaming = (\<lambda>p w. (\<lparr>pending = [], failure = None\<rparr>, w)),
      Embeddings_New = (\<lambda>m ts w. (Inr \<lparr>em_Data = [], em_PromptTokens = 0\<rparr>, w))\<rparr>"

definition ref_request :: ProviderRequest where
  "ref_request = \<lparr>pq_Model = ''m'', pq_Messages = [\<lparr>Role = ''user'', Content = [text_block ''hi''], ToolCallID = ''''\<rparr>],
     pq_Temperature = 0, pq_MaxTokens = 0, pq_StopSequences = [], pq_Tools = []\<rparr>"

lemma text_accumulator_fold: "fold (AddChunk text_accumulator) chunks t = t @ concat (map frame_text chunks)"
  by (induction chunks arbitrary: t) (simp_all add: text_accumulator_def)

lemma ref_stream:
  "OpenAI_StreamChat (\<lambda>_. Inr ()) text_accumulator ref_openai ref_request () =
     (Inr \<lparr>cs_inner = \<lparr>pending = [frame ''He'', frame '''', frame ''llo''], failure = None\<rparr>,
           cs_acc = '''', cs_done = False\<rparr>, ())"
  by (simp add: OpenAI_StreamChat_def toChatParams_def ref_request_def toMessage_def ref_openai_def text_accumulator_def)

theorem openai_stream_delivers_the_answer_witness:
  "\<exists>cs r. fst (p_StreamChat (openai_provider (\<lambda>_. Inr ()) text_accumulator [] ref_openai) ref_request ()) =
      Inr (map (\<lambda>c. Inr (Some c)) (cs @ [final_chunk r])) \<and>
    concat (map ch_TextDelta cs) = ''Hello'' \<and> textContent (pr_Content r) = ''Hello''"
proof -
  have fold: "concat (map frame_text [frame ''He'', frame '''', frame ''llo'']) = ''Hello''"
    by (simp add: frame_text_def frame_def)
  have law: "completion_text (acc_completion text_accumulator (fold (AddChunk text_accumulator) chunks (acc_empty text_accumulator))) =
      concat (map frame_text chunks)" for chunks
    unfolding text_accumulator_fold by (simp add: text_accumulator_def completion_text_def)
  have kept: "text_kept text_accumulator a chunks" for a chunks
    by (simp add: text_kept_def text_accumulator_def)
  obtain cs r where *: "fst (p_StreamChat (openai_provider (\<lambda>_. Inr ()) text_accumulator [] ref_openai) ref_request ()) =
      Inr (map (\<lambda>c. Inr (Some c)) (cs @ [final_chunk r]))"
    "r = fromChatCompletion (Some (acc_completion text_accumulator
           (fold (AddChunk text_accumulator) [frame ''He'', frame '''', frame ''llo''] (acc_empty text_accumulator))))"
    "concat (map ch_TextDelta cs) = textContent (pr_Content r)"
    using openai_stream_delivers_the_answer [where models = "[]", OF law ref_stream _ kept] by (simp del: fold_simps) blast
  have "textContent (pr_Content r) = ''Hello''"
    unfolding *(2) textContent_fromChatCompletion law fold ..
  with * show ?thesis by (intro exI [of _ cs] exI [of _ r] conjI) simp_all
qed

theorem openai_answers_roundtrip_witness:
  "toMessages [\<lparr>Role = ''assistant'', Content = pr_Content (fromChatCompletion (Some ref_completion)), ToolCallID = ''''\<rparr>] =
    Inr [AssistantMessage None [\<lparr>tc_ID = ''1'', tc_Name = ''f'', tc_Arguments = ''{}''\<rparr>]]"
proof -
  have "cmp_Choices ref_completion = hd (cmp_Choices ref_completion) # []" by (simp add: ref_completion_def)
  from openai_answers_roundtrip [OF this, of "''''"] show ?thesis by (simp add: ref_completion_def)
qed

end
