(* ===== verification/Ollama.thy ===== *)
theory Ollama
  imports OpenAI
begin

text \<open>
  The Ollama adapter, \<^verbatim>\<open>internal/llm/ollama/provider.go\<close>. It speaks the Chat Completions API through
  the same client library as the OpenAI adapter, but translates messages and answers in its own way and
  reads its stream frame by frame, without the library's accumulator. The list of models and the health
  check are plain HTTP requests, given by their outcomes. Go visits the entries of a map in no particular
  order: the entry a loop visits first is chosen by the argument \<open>first\<close>.
\<close>

section \<open>Requests\<close>

definition ollama_message :: "Message \<Rightarrow> MessageParam list" where
  "ollama_message m =
     (let text = textContent (Content m) in
      if Role m = ''system'' then [SystemMessage text]
      else if Role m = ''user'' then [UserMessage text]
      else if Role m = ''assistant'' then
        (let toolCalls = extractToolCalls (Content m) in [AssistantMessage (Some text) toolCalls])
      else if Role m = ''tool'' then
        map (\<lambda>tr. ToolMessage (tr_Content tr) (tr_ToolUseID tr)) (extractToolResults (Content m)) @
        (if Content m = [] \<or> b_Type (hd (Content m)) \<noteq> ''tool_result'' then [ToolMessage text (ToolCallID m)] else [])
      else [])"

definition ollama_toMessages :: "Message list \<Rightarrow> MessageParam list" where
  "ollama_toMessages msgs = concat (map ollama_message msgs)"

definition buildParams :: "(string \<Rightarrow> 'j result) \<Rightarrow> ProviderRequest \<Rightarrow> 'j ChatParams result" where
  "buildParams unmarshal req =
     map_sum id
       (\<lambda>tools. \<lparr>cp_Model = pq_Model req, cp_Messages = ollama_toMessages (pq_Messages req),
                 cp_Temperature = opt_pos (pq_Temperature req),
                 cp_MaxCompletionTokens = opt_pos (pq_MaxTokens req), cp_Tools = tools\<rparr>)
       (chat_tools unmarshal (pq_Tools req))"

section \<open>Answers\<close>

definition parseResponse :: "ChatCompletion \<Rightarrow> ProviderResponse" where
  "parseResponse resp =
     (let pr = empty_response\<lparr>pr_ID := cmp_ID resp, pr_Model := cmp_Model resp,
                 pr_Usage := empty_usage\<lparr>InputTokens := to_int32 (cmp_PromptTokens resp),
                                         OutputTokens := to_int32 (cmp_CompletionTokens resp)\<rparr>\<rparr> in
      case cmp_Choices resp of
        [] \<Rightarrow> pr
      | choice # _ \<Rightarrow>
          pr\<lparr>pr_Content := message_blocks (cc_Message choice),
             pr_StopReason :=
               (if cm_ToolCalls (cc_Message choice) \<noteq> [] then ''tool_use''
                else if cc_FinishReason choice = ''stop'' then ''end_turn'' else cc_FinishReason choice)\<rparr>)"

section \<open>The stream\<close>

record ollamaStream =
  ol_inner :: "ChatCompletionChunk sse"
  ol_toolCalls :: "(int \<times> ToolUseData) list"

text \<open>A fragment of a tool call: the first one of its index brings the identifier and the name.\<close>

definition add_fragment :: "(int \<times> ToolUseData) list \<Rightarrow> ToolCallDelta \<Rightarrow> (int \<times> ToolUseData) list" where
  "add_fragment calls tc =
     (let calls1 = (if map_of calls (dt_Index tc) = None
                    then calls @ [(dt_Index tc, \<lparr>tu_ID = dt_ID tc, tu_Name = dt_Name tc, tu_InputJSON = ''''\<rparr>)]
                    else calls) in
      map (\<lambda>(i, tu). (i, if i = dt_Index tc then tu\<lparr>tu_InputJSON := tu_InputJSON tu @ dt_Arguments tc\<rparr> else tu)) calls1)"

definition ollama_frame ::
  "((int \<times> ToolUseData) list \<Rightarrow> int) \<Rightarrow> ChatCompletionChunk \<Rightarrow> (int \<times> ToolUseData) list \<Rightarrow> Chunk \<times> (int \<times> ToolUseData) list" where
  "ollama_frame first chunk calls0 =
     (case ck_Choices chunk of
        [] \<Rightarrow> (text_chunk '''', calls0)
      | choice # _ \<Rightarrow>
          (let calls = foldl add_fragment calls0 (kc_ToolCalls choice) in
           (\<lparr>ch_TextDelta = kc_Content choice,
             ch_ToolUse = (if (kc_FinishReason choice = ''tool_calls'' \<or> kc_FinishReason choice = ''stop'') \<and> calls \<noteq> []
                           then map_of calls (first calls) else None),
             ch_Final = None\<rparr>, calls)))"

definition ollamaStream_Recv ::
  "((int \<times> ToolUseData) list \<Rightarrow> int) \<Rightarrow> ollamaStream \<Rightarrow> Chunk option result \<times> ollamaStream" where
  "ollamaStream_Recv first s =
     (case pending (ol_inner s) of
        [] \<Rightarrow> (Inl (case failure (ol_inner s) of Some e \<Rightarrow> e | None \<Rightarrow> EOF), s)
      | chunk # chunks \<Rightarrow>
          (case ollama_frame first chunk (ol_toolCalls s) of
             (out, calls) \<Rightarrow>
               (Inr (Some out), \<lparr>ol_inner = (ol_inner s)\<lparr>pending := chunks\<rparr>, ol_toolCalls = calls\<rparr>)))"

section \<open>The provider\<close>

record OllamaProvider =
  op_apiURL :: string   \<comment> \<open>the base URL of the client\<close>
  op_baseURL :: string

definition Ollama_New :: "string \<Rightarrow> OllamaProvider" where
  "Ollama_New baseURL0 =
     (let baseURL = (if baseURL0 = '''' then ''http://localhost:11434'' else baseURL0) in
      \<lparr>op_apiURL = trim_right {CHR ''/''} baseURL @ ''/v1/'', op_baseURL = baseURL\<rparr>)"

definition Ollama_Chat :: "(string \<Rightarrow> 'j result) \<Rightarrow> ('w, 'j) openai_client \<Rightarrow> ProviderRequest \<Rightarrow> ('w, ProviderResponse) call" where
  "Ollama_Chat unmarshal client req w =
     (case buildParams unmarshal req of
        Inl err \<Rightarrow> (Inl err, w)
      | Inr params \<Rightarrow>
          (case Completions_New client params w of
             (Inl err, w') \<Rightarrow> (Inl (Wrap ''ollama chat'' err), w')
           | (Inr resp, w') \<Rightarrow> (Inr (parseResponse resp), w')))"

definition Ollama_StreamChat :: "(string \<Rightarrow> 'j result) \<Rightarrow> ('w, 'j) openai_client \<Rightarrow> ProviderRequest \<Rightarrow> ('w, ollamaStream) call" where
  "Ollama_StreamChat unmarshal client req w =
     (case buildParams unmarshal req of
        Inl err \<Rightarrow> (Inl err, w)
      | Inr params \<Rightarrow>
          (case Completions_NewStreaming client params w of
             (s, w') \<Rightarrow> (Inr \<lparr>ol_inner = s, ol_toolCalls = []\<rparr>, w')))"

definition Ollama_Embed ::
  "('w, 'j) openai_client \<Rightarrow> string \<Rightarrow> string list \<Rightarrow> ('w, rat list list \<times> Usage option) call" where
  "Ollama_Embed client model0 texts w =
     (let model = (if model0 = '''' then ''nomic-embed-text'' else model0) in
      case Embeddings_New client model texts w of
        (Inl err, w') \<Rightarrow> (Inl (Wrap ''ollama embed'' err), w')
      | (Inr resp, w') \<Rightarrow>
          (Inr (map (map float32) (em_Data resp),
                Some (empty_usage\<lparr>InputTokens := to_int32 (em_PromptTokens resp)\<rparr>)), w'))"

text \<open>\<open>GET baseURL/api/tags\<close>: an error, or a status and the names of the models if the body decodes. A status
  is a number of three digits.\<close>

record tags_reply =
  tg_StatusCode :: nat
  tg_models :: "string list result"

definition Ollama_ListModels :: "(string \<Rightarrow> ('w, tags_reply) call) \<Rightarrow> OllamaProvider \<Rightarrow> ('w, ModelInfo list) call" where
  "Ollama_ListModels http_get p w =
     (case http_get (op_baseURL p @ ''/api/tags'') w of
        (Inl err, w') \<Rightarrow> (Inl (Wrap ''ollama list models'' err), w')
      | (Inr resp, w') \<Rightarrow>
          (case tg_models resp of
             Inl err \<Rightarrow> (Inl (Wrap ''decode models'' err), w')
           | Inr names \<Rightarrow>
               (Inr (map (\<lambda>n. \<lparr>mi_Provider = ''ollama'', mi_ID = n, mi_DisplayName = n, mi_ContextWindow = 8192,
                   mi_MaxOutputTokens = 4096, mi_SupportsVision = (sublist ''llava'' n \<or> sublist ''vision'' n),
                   mi_SupportsToolUse = True, mi_SupportsStreaming = True,
                   mi_InputPricePerMTok = 0, mi_OutputPricePerMTok = 0\<rparr>) names), w')))"

definition Ollama_HealthCheck :: "(string \<Rightarrow> ('w, tags_reply) call) \<Rightarrow> OllamaProvider \<Rightarrow> ('w, unit) call" where
  "Ollama_HealthCheck http_get p w =
     (case http_get (op_baseURL p @ ''/api/tags'') w of
        (Inl err, w') \<Rightarrow> (Inl (Wrap ''ollama health'' err), w')
      | (Inr resp, w') \<Rightarrow>
          (if tg_StatusCode resp \<noteq> 200 then Inl (Msg (''ollama health: HTTP '' @ itoa (tg_StatusCode resp))) else Inr (), w'))"

definition ollama_left :: "ollamaStream \<Rightarrow> nat" where
  "ollama_left s = length (pending (ol_inner s))"

interpretation ollama_chat: receiver "ollamaStream_Recv first" ollama_left for first
  by unfold_locales (auto simp: ollamaStream_Recv_def ollama_left_def split: list.splits prod.splits)

definition ollama_provider ::
  "(string \<Rightarrow> 'j result) \<Rightarrow> ((int \<times> ToolUseData) list \<Rightarrow> int) \<Rightarrow> (string \<Rightarrow> ('w, tags_reply) call) \<Rightarrow> ('w, 'j) openai_client \<Rightarrow>
   OllamaProvider \<Rightarrow> 'w Provider" where
  "ollama_provider unmarshal first http_get client p =
     \<lparr>p_Name = ''ollama'',
      p_Chat = Ollama_Chat unmarshal client,
      p_StreamChat = (\<lambda>req w. case Ollama_StreamChat unmarshal client req w of
          (r, w') \<Rightarrow> (map_sum id (\<lambda>s. drain (ollamaStream_Recv first) (Suc (ollama_left s)) s) r, w')),
      p_Embed = Ollama_Embed client,
      p_ListModels = Ollama_ListModels http_get p,
      p_HealthCheck = Ollama_HealthCheck http_get p,
      p_responder = None\<rparr>"

section \<open>What a stream delivers\<close>

fun ollama_reports :: "((int \<times> ToolUseData) list \<Rightarrow> int) \<Rightarrow> (int \<times> ToolUseData) list \<Rightarrow> ChatCompletionChunk list \<Rightarrow> Chunk list" where
  "ollama_reports first calls [] = []"
| "ollama_reports first calls (chunk # chunks) =
     (case ollama_frame first chunk calls of (out, calls') \<Rightarrow> out # ollama_reports first calls' chunks)"

text \<open>A frame in which the model finishes.\<close>

definition finishing :: "ChatCompletionChunk \<Rightarrow> bool" where
  "finishing chunk \<longleftrightarrow>
     (case ck_Choices chunk of [] \<Rightarrow> False | c # _ \<Rightarrow> kc_FinishReason c = ''tool_calls'' \<or> kc_FinishReason c = ''stop'')"

lemma drain_ollama:
  "ollama_left s < n \<Longrightarrow> failure (ol_inner s) = None \<Longrightarrow>
   drain (ollamaStream_Recv first) n s =
     map (\<lambda>c. Inr (Some c)) (ollama_reports first (ol_toolCalls s) (pending (ol_inner s)))"
proof (induction n arbitrary: s)
  case (Suc n)
  then show ?case
    by (cases "pending (ol_inner s)") (auto simp: ollamaStream_Recv_def ollama_left_def split: prod.split)
qed simp

lemma ollama_frame_out:
  assumes "ollama_frame first chunk calls = (out, calls')"
  shows "ch_TextDelta out = frame_text chunk" "ch_Final out = None" "ch_ToolUse out \<noteq> None \<Longrightarrow> finishing chunk"
  using assms
  by (auto simp: ollama_frame_def frame_text_def finishing_def chunk_defs Let_def split: list.splits if_splits)

lemma ollama_reports_frames:
  "map ch_TextDelta (ollama_reports first calls chunks) = map frame_text chunks"
  "c \<in> set (ollama_reports first calls chunks) \<Longrightarrow> ch_Final c = None"
  "length (filter (\<lambda>c. ch_ToolUse c \<noteq> None) (ollama_reports first calls chunks)) \<le> length (filter finishing chunks)"
proof (induction chunks arbitrary: calls)
  case (Cons chunk chunks)
  { case 1 show ?case
      using Cons.IH(1) ollama_frame_out(1) [of first chunk calls] by (simp split: prod.split) }
  { case 2 then show ?case
    proof (cases "ollama_frame first chunk calls")
      case (Pair out calls')
      with 2 show ?thesis using Cons.IH(2) [of calls'] ollama_frame_out(2) [OF Pair] by auto
    qed }
  { case 3 show ?case
    proof (cases "ollama_frame first chunk calls")
      case (Pair out calls')
      then show ?thesis using Cons.IH(3) [of calls'] ollama_frame_out(3) [OF Pair] by auto
    qed }
qed simp_all

text \<open>The Ollama stream relays text, but neither the answer nor more than one tool call. When the
  connection does not break, reading the stream gives one chunk per frame with the text of the frame; no
  chunk carries the final answer, so neither a stop reason nor the tokens used reach the caller; and there
  are at most as many tool calls as frames in which the model finishes, however many calls the model made.\<close>

theorem ollama_stream_relays_text_only:
  assumes "Ollama_StreamChat unmarshal client req w = (Inr s, w')" "failure (ol_inner s) = None"
  shows "\<exists>cs. p_StreamChat (ollama_provider unmarshal first http_get client p) req w = (Inr (map (\<lambda>c. Inr (Some c)) cs), w') \<and>
    map ch_TextDelta cs = map frame_text (pending (ol_inner s)) \<and>
    (\<forall>c \<in> set cs. ch_Final c = None) \<and>
    length (filter (\<lambda>c. ch_ToolUse c \<noteq> None) cs) \<le> length (filter finishing (pending (ol_inner s)))"
proof -
  let ?cs = "ollama_reports first (ol_toolCalls s) (pending (ol_inner s))"
  have "p_StreamChat (ollama_provider unmarshal first http_get client p) req w = (Inr (map (\<lambda>c. Inr (Some c)) ?cs), w')"
    using drain_ollama [of s "Suc (ollama_left s)" first] assms by (simp add: ollama_provider_def)
  then show ?thesis
    using ollama_reports_frames by (intro exI [of _ ?cs] conjI) simp_all
qed

section \<open>The two adapters compared\<close>

text \<open>A message both adapters read alike: a tool message starts with a result if it has one, and an assistant
  message with tool calls has a text too.\<close>

definition plain_message :: "Message \<Rightarrow> bool" where
  "plain_message m \<longleftrightarrow>
     Role m \<in> set known_roles \<and>
     (Role m = ''tool'' \<longrightarrow>
        (extractToolResults (Content m) \<noteq> []) = (Content m \<noteq> [] \<and> b_Type (hd (Content m)) = ''tool_result'')) \<and>
     (Role m = ''assistant'' \<longrightarrow> extractToolCalls (Content m) \<noteq> [] \<longrightarrow> textContent (Content m) \<noteq> '''')"

lemma plain_message_same: "plain_message m \<Longrightarrow> toMessage m = Inr (ollama_message m)"
  by (auto simp: plain_message_def known_roles_def toMessage_def ollama_message_def Let_def)

lemma plain_messages_same: "\<forall>m \<in> set msgs. plain_message m \<Longrightarrow> toMessages msgs = Inr (ollama_toMessages msgs)"
  by (induction msgs) (simp_all add: plain_message_same ollama_toMessages_def)

text \<open>The OpenAI and the Ollama adapter send the same request. For conversations of known roles in which
  tool messages start with their results and assistant messages with tool calls have a text, both build
  the same parameters, or fail with the same error about a tool's schema.\<close>

theorem openai_and_ollama_send_the_same:
  assumes "\<forall>m \<in> set (pq_Messages req). plain_message m"
  shows "buildParams unmarshal req = toChatParams unmarshal req"
  using plain_messages_same [OF assms] by (simp add: buildParams_def toChatParams_def)

text \<open>The differences: a message of an unknown role is an error for one and silently left out by the other.\<close>

lemma ollama_drops_unknown_roles: "Role m \<notin> set known_roles \<Longrightarrow> ollama_message m = [] \<and> \<not> is_ok (toMessage m)"
  by (auto simp: toMessage_ok) (simp add: ollama_message_def known_roles_def Let_def)

theorem openai_and_ollama_send_the_same_witness:
  "buildParams (\<lambda>_. Inr ()) ref_request = toChatParams (\<lambda>_. Inr ()) ref_request"
  by (rule openai_and_ollama_send_the_same) (simp add: ref_request_def plain_message_def known_roles_def)

section \<open>Two tool calls at once\<close>

definition two_calls :: ChatCompletionChunk where
  "two_calls = \<lparr>ck_Choices = [\<lparr>kc_Content = '''',
     kc_ToolCalls = [\<lparr>dt_Index = 0, dt_ID = ''a'', dt_Name = ''f'', dt_Arguments = ''{}''\<rparr>,
                     \<lparr>dt_Index = 1, dt_ID = ''b'', dt_Name = ''g'', dt_Arguments = ''{}''\<rparr>],
     kc_FinishReason = ''tool_calls''\<rparr>]\<rparr>"

definition ref_ollama :: "(unit, unit) openai_client" where
  "ref_ollama = ref_openai\<lparr>Completions_NewStreaming := (\<lambda>p w. (\<lparr>pending = [frame ''Hi'', two_calls], failure = None\<rparr>, w))\<rparr>"

lemma ref_ollama_stream:
  "Ollama_StreamChat (\<lambda>_. Inr ()) ref_ollama ref_request () =
     (Inr \<lparr>ol_inner = \<lparr>pending = [frame ''Hi'', two_calls], failure = None\<rparr>, ol_toolCalls = []\<rparr>, ())"
  by (simp add: Ollama_StreamChat_def buildParams_def ref_request_def ref_ollama_def)

theorem ollama_stream_relays_text_only_witness:
  "\<exists>cs. p_StreamChat (ollama_provider (\<lambda>_. Inr ()) (\<lambda>calls. fst (hd calls)) (\<lambda>_ w. (Inl EOF, w)) ref_ollama (Ollama_New '''')) ref_request () =
      (Inr (map (\<lambda>c. Inr (Some c)) cs), ()) \<and>
    map ch_TextDelta cs = [''Hi'', ''''] \<and> length (filter (\<lambda>c. ch_ToolUse c \<noteq> None) cs) \<le> 1"
proof -
  let ?s = "\<lparr>ol_inner = \<lparr>pending = [frame ''Hi'', two_calls], failure = None\<rparr>, ol_toolCalls = []\<rparr>"
  have ok: "failure (ol_inner ?s) = None" by simp
  have frames: "map frame_text (pending (ol_inner ?s)) = [''Hi'', '''']" "length (filter finishing (pending (ol_inner ?s))) = 1"
    by (simp_all add: frame_text_def frame_def two_calls_def finishing_def)
  from ollama_stream_relays_text_only [OF ref_ollama_stream ok, of "\<lambda>calls. fst (hd calls)" "\<lambda>_ w. (Inl EOF, w)" "Ollama_New ''''"]
  show ?thesis unfolding frames by (elim exE conjE) (intro exI conjI)
qed

end
