(* ===== verification/Catalogue.thy ===== *)
theory Catalogue
  imports Anthropic Ollama Usage
begin

text \<open>
  The models the providers offer, \<^verbatim>\<open>internal/llm/openai/models.go\<close> and
  \<^verbatim>\<open>internal/llm/anthropic/models.go\<close>, against the table of costs that usage is charged by; and what the
  streams of all adapters have in common.
\<close>

section \<open>The catalogues\<close>

definition openai_models :: "ModelInfo list" where
  "openai_models =
    [\<lparr>mi_Provider = ''openai'', mi_ID = ''gpt-4o'', mi_DisplayName = ''GPT-4o'', mi_ContextWindow = 128000,
      mi_MaxOutputTokens = 16384, mi_SupportsVision = True, mi_SupportsToolUse = True, mi_SupportsStreaming = True,
      mi_InputPricePerMTok = 5/2, mi_OutputPricePerMTok = 10\<rparr>,
     \<lparr>mi_Provider = ''openai'', mi_ID = ''gpt-4o-mini'', mi_DisplayName = ''GPT-4o Mini'', mi_ContextWindow = 128000,
      mi_MaxOutputTokens = 16384, mi_SupportsVision = True, mi_SupportsToolUse = True, mi_SupportsStreaming = True,
      mi_InputPricePerMTok = 3/20, mi_OutputPricePerMTok = 3/5\<rparr>,
     \<lparr>mi_Provider = ''openai'', mi_ID = ''gpt-4.1'', mi_DisplayName = ''GPT-4.1'', mi_ContextWindow = 1047576,
      mi_MaxOutputTokens = 32768, mi_SupportsVision = True, mi_SupportsToolUse = True, mi_SupportsStreaming = True,
      mi_InputPricePerMTok = 2, mi_OutputPricePerMTok = 8\<rparr>,
     \<lparr>mi_Provider = ''openai'', mi_ID = ''gpt-4.1-mini'', mi_DisplayName = ''GPT-4.1 Mini'', mi_ContextWindow = 1047576,
      mi_MaxOutputTokens = 32768, mi_SupportsVision = True, mi_SupportsToolUse = True, mi_SupportsStreaming = True,
      mi_InputPricePerMTok = 2/5, mi_OutputPricePerMTok = 8/5\<rparr>,
     \<lparr>mi_Provider = ''openai'', mi_ID = ''o1'', mi_DisplayName = ''o1'', mi_ContextWindow = 200000,
      mi_MaxOutputTokens = 100000, mi_SupportsVision = True, mi_SupportsToolUse = True, mi_SupportsStreaming = False,
      mi_InputPricePerMTok = 15, mi_OutputPricePerMTok = 60\<rparr>,
     \<lparr>mi_Provider = ''openai'', mi_ID = ''o3'', mi_DisplayName = ''o3'', mi_ContextWindow = 200000,
      mi_MaxOutputTokens = 100000, mi_SupportsVision = True, mi_SupportsToolUse = True, mi_SupportsStreaming = False,
      mi_InputPricePerMTok = 10, mi_OutputPricePerMTok = 40\<rparr>,
     \<lparr>mi_Provider = ''openai'', mi_ID = ''o3-mini'', mi_DisplayName = ''o3 Mini'', mi_ContextWindow = 200000,
      mi_MaxOutputTokens = 100000, mi_SupportsVision = False, mi_SupportsToolUse = True, mi_SupportsStreaming = False,
      mi_InputPricePerMTok = 11/10, mi_OutputPricePerMTok = 22/5\<rparr>,
     \<lparr>mi_Provider = ''openai'', mi_ID = ''o4-mini'', mi_DisplayName = ''o4 Mini'', mi_ContextWindow = 200000,
      mi_MaxOutputTokens = 100000, mi_SupportsVision = True, mi_SupportsToolUse = True, mi_SupportsStreaming = False,
      mi_InputPricePerMTok = 11/10, mi_OutputPricePerMTok = 22/5\<rparr>,
     \<lparr>mi_Provider = ''openai'', mi_ID = ''text-embedding-3-small'', mi_DisplayName = ''Text Embedding 3 Small'', mi_ContextWindow = 8191,
      mi_MaxOutputTokens = 0, mi_SupportsVision = False, mi_SupportsToolUse = False, mi_SupportsStreaming = False,
      mi_InputPricePerMTok = 1/50, mi_OutputPricePerMTok = 0\<rparr>,
     \<lparr>mi_Provider = ''openai'', mi_ID = ''text-embedding-3-large'', mi_DisplayName = ''Text Embedding 3 Large'', mi_ContextWindow = 8191,
      mi_MaxOutputTokens = 0, mi_SupportsVision = False, mi_SupportsToolUse = False, mi_SupportsStreaming = False,
      mi_InputPricePerMTok = 13/100, mi_OutputPricePerMTok = 0\<rparr>]"

definition anthropic_models :: "ModelInfo list" where
  "anthropic_models =
    [\<lparr>mi_Provider = ''anthropic'', mi_ID = ''claude-opus-4-5'', mi_DisplayName = ''Claude Opus 4.5'', mi_ContextWindow = 200000,
      mi_MaxOutputTokens = 32000, mi_SupportsVision = True, mi_SupportsToolUse = True, mi_SupportsStreaming = True,
      mi_InputPricePerMTok = 15, mi_OutputPricePerMTok = 75\<rparr>,
     \<lparr>mi_Provider = ''anthropic'', mi_ID = ''claude-sonnet-4-5'', mi_DisplayName = ''Claude Sonnet 4.5'', mi_ContextWindow = 200000,
      mi_MaxOutputTokens = 64000, mi_SupportsVision = True, mi_SupportsToolUse = True, mi_SupportsStreaming = True,
      mi_InputPricePerMTok = 3, mi_OutputPricePerMTok = 15\<rparr>,
     \<lparr>mi_Provider = ''anthropic'', mi_ID = ''claude-haiku-4-5'', mi_DisplayName = ''Claude Haiku 4.5'', mi_ContextWindow = 200000,
      mi_MaxOutputTokens = 16000, mi_SupportsVision = True, mi_SupportsToolUse = True, mi_SupportsStreaming = True,
      mi_InputPricePerMTok = 4/5, mi_OutputPricePerMTok = 4\<rparr>,
     \<lparr>mi_Provider = ''anthropic'', mi_ID = ''claude-opus-4-6'', mi_DisplayName = ''Claude Opus 4.6'', mi_ContextWindow = 200000,
      mi_MaxOutputTokens = 32000, mi_SupportsVision = True, mi_SupportsToolUse = True, mi_SupportsStreaming = True,
      mi_InputPricePerMTok = 15, mi_OutputPricePerMTok = 75\<rparr>,
     \<lparr>mi_Provider = ''anthropic'', mi_ID = ''claude-sonnet-4-6'', mi_DisplayName = ''Claude Sonnet 4.6'', mi_ContextWindow = 200000,
      mi_MaxOutputTokens = 64000, mi_SupportsVision = True, mi_SupportsToolUse = True, mi_SupportsStreaming = True,
      mi_InputPricePerMTok = 3, mi_OutputPricePerMTok = 15\<rparr>]"

text \<open>The two prices of a model: what the catalogue advertises and what the table of costs charges.\<close>

definition charged :: "ModelInfo \<Rightarrow> modelCost option" where
  "charged m = costs (mi_ID m)"

definition advertised :: "ModelInfo \<Rightarrow> modelCost" where
  "advertised m = \<lparr>InputPerMillion = mi_InputPricePerMTok m, OutputPerMillion = mi_OutputPricePerMTok m\<rparr>"

text \<open>What is charged is what is advertised, for the models that are charged at all. Every model of the
  two catalogues that has an entry in the table of costs has its advertised prices there; the others,
  ten of the fifteen, have none.\<close>

theorem charged_as_advertised:
  "map (\<lambda>m. (mi_ID m, charged m)) (openai_models @ anthropic_models) =
   map (\<lambda>m. (mi_ID m, if mi_ID m \<in> {''gpt-4o'', ''gpt-4o-mini'', ''text-embedding-3-small'', ''claude-opus-4-5'', ''claude-sonnet-4-5''}
                        then Some (advertised m) else None)) (openai_models @ anthropic_models)"
  by (simp add: openai_models_def anthropic_models_def charged_def advertised_def costs_def)

section \<open>Usage without a cost\<close>

text \<open>Usage events that arrive one after the other, each at its time.\<close>

definition usage_after :: "'a usage_db_scheme \<Rightarrow> (time \<times> UsageEventData option) list \<Rightarrow> 'a usage_db_scheme" where
  "usage_after = foldl (\<lambda>d (now, msg). handleEvent msg (d\<lparr>clock := now\<rparr>))"

definition uncharged :: "string \<Rightarrow> UsageEvent \<Rightarrow> bool" where
  "uncharged t e \<longleftrightarrow> (ue_TenantID e = t \<longrightarrow> ue_CostUSD e = None)"

definition names_no_cost :: "string \<Rightarrow> UsageEventData \<Rightarrow> bool" where
  "names_no_cost t u \<longleftrightarrow> (ud_TenantID u = t \<longrightarrow> costs (ud_Model u) = None)"

lemma handleEvent_uncharged:
  assumes "faults d = []" "\<forall>e \<in> set (usage_events d). uncharged t e" "\<forall>u. msg = Some u \<longrightarrow> names_no_cost t u"
  shows "faults (handleEvent msg d) = [] \<and> tenant_quotas (handleEvent msg d) = tenant_quotas d \<and>
    (\<forall>e \<in> set (usage_events (handleEvent msg d)). uncharged t e)"
proof -
  have "faults (snd (Record e d)) = [] \<and> tenant_quotas (snd (Record e d)) = tenant_quotas d \<and>
      (\<forall>x \<in> set (usage_events (snd (Record e d))). uncharged t x)"
    if e: "ue_TenantID e = t \<longrightarrow> ue_CostUSD e = None" for e
  proof -
    obtain r d' where st: "record_stmt e d = (r, d')" by (meson surj_pair)
    then have "faults d' = [] \<and> tenant_quotas d' = tenant_quotas d \<and> (\<forall>x \<in> set (usage_events d'). uncharged t x)"
      by (cases rule: record_stmt_state) (use assms(1,2) e in \<open>auto simp: uncharged_def\<close>)
    with st show ?thesis using assms(1) by (simp add: Record_no_faults)
  qed
  moreover have "handleEvent msg d = d \<or>
      (\<exists>e. (ue_TenantID e = t \<longrightarrow> ue_CostUSD e = None) \<and> handleEvent msg d = snd (Record e d))"
  proof (cases msg)
    case (Some u)
    with assms(3) have "ue_TenantID (tracked_event u) = t \<longrightarrow> ue_CostUSD (tracked_event u) = None"
      by (simp add: names_no_cost_def CalculateCost_def tracked_event_def)
    then show ?thesis by (auto simp: handleEvent_def Some)
  qed (simp add: handleEvent_def)
  ultimately show ?thesis using assms(1,2) by metis
qed

lemma usage_after_uncharged:
  assumes "faults d = []" "\<forall>e \<in> set (usage_events d). uncharged t e" "\<forall>(now, msg) \<in> set msgs. \<forall>u. msg = Some u \<longrightarrow> names_no_cost t u"
  shows "faults (usage_after d msgs) = [] \<and> tenant_quotas (usage_after d msgs) = tenant_quotas d \<and>
    (\<forall>e \<in> set (usage_events (usage_after d msgs)). uncharged t e)"
  using assms
proof (induction msgs arbitrary: d)
  case (Cons m msgs)
  obtain now msg where m: "m = (now, msg)" by (cases m)
  let ?d = "handleEvent msg (d\<lparr>clock := now\<rparr>)"
  have step: "faults ?d = [] \<and> tenant_quotas ?d = tenant_quotas d \<and> (\<forall>e \<in> set (usage_events ?d). uncharged t e)"
    using handleEvent_uncharged [of "d\<lparr>clock := now\<rparr>" t msg] Cons.prems m by simp
  with Cons.IH [of ?d] Cons.prems(3) m show ?case by (simp add: usage_after_def)
qed (simp add: usage_after_def)

text \<open>A cost quota does not hold for models without a cost. While the database answers, a tenant whose
  quota limits only the cost is never blocked as long as all its usage is of models that the table of
  costs does not list, however many tokens the events report.\<close>

theorem uncosted_usage_is_never_blocked:
  assumes "faults d = []" "\<forall>e \<in> set (usage_events d). uncharged t e"
    and "\<forall>(now, msg) \<in> set msgs. \<forall>u. msg = Some u \<longrightarrow> names_no_cost t u"
    and "quota_of t d = Some q" "tq_MaxTokens q = None"
  shows "fst (IsBlocked t (usage_after d msgs)) = Inr False"
proof -
  let ?d = "usage_after d msgs"
  have after: "faults ?d = []" "tenant_quotas ?d = tenant_quotas d" "\<forall>e \<in> set (usage_events ?d). uncharged t e"
    using usage_after_uncharged [OF assms(1-3)] by simp_all
  have "event_cost e = 0" if "e \<in> set (period_rows t q ?d)" for e
    using that after(3) by (auto simp: period_rows_def in_period_def uncharged_def event_cost_def)
  then have "sum_list (map event_cost (period_rows t q ?d)) = 0" by (simp cong: map_cong)
  then have "\<not> over_limit q (period_rows t q ?d)" using assms(5) by (simp add: over_limit_def)
  moreover have "quota_of t ?d = Some q" using assms(4) after(2) by (simp add: quota_of_def)
  ultimately have "\<not> qs_Exceeded (quota_status t q (summarize t (period_rows t q ?d)))"
    by (simp add: quota_status_exceeded)
  with \<open>quota_of t ?d = Some q\<close> after(1) show ?thesis by (simp add: IsBlocked_def CheckQuota_no_faults)
qed

definition cost_limited_db :: usage_db where
  "cost_limited_db = metered_db\<lparr>tenant_quotas := [metered_quota\<lparr>tq_MaxTokens := None, tq_MaxCostUSD := Some 1\<rparr>]\<rparr>"

definition heavy_use :: UsageEventData where
  "heavy_use = metered_event\<lparr>ud_Model := ''claude-opus-4-6'', ud_InputTokens := 2000000000\<rparr>"

theorem uncosted_usage_is_never_blocked_witness:
  "fst (IsBlocked ''t'' (usage_after cost_limited_db [(4, Some heavy_use), (5, Some heavy_use)])) = Inr False"
proof (rule uncosted_usage_is_never_blocked)
  show "quota_of ''t'' cost_limited_db = Some (metered_quota\<lparr>tq_MaxTokens := None, tq_MaxCostUSD := Some 1\<rparr>)"
    by (simp add: quota_of_def cost_limited_db_def select_one_def metered_quota_def)
qed (simp_all add: cost_limited_db_def metered_db_def metered_quota_def heavy_use_def metered_event_def names_no_cost_def costs_def)

section \<open>Streams end\<close>

text \<open>C33: reading a stream comes to an end. Whatever the server sends, each of the four streams returns an
  error, of which \<open>io.EOF\<close> is the regular end, after at most as many chunks as events are still to come,
  one more for the OpenAI chat stream, which adds a chunk with the answer; so the loops over \<open>Recv\<close> in the
  service and in the router end.\<close>

theorem streams_end:
  "(\<exists>k e. k \<le> Suc (length (pending (cs_inner s))) \<and> nth_recv (chatStream_Recv A) k s = Inl e) \<and>
   (\<exists>k e. k \<le> length (pending (rt_inner rs)) \<and> nth_recv responseStream_Recv k rs = Inl e) \<and>
   (\<exists>k e. k \<le> length (pending (as_inner as)) \<and> nth_recv antStream_Recv k as = Inl e) \<and>
   (\<exists>k e. k \<le> length (pending (ol_inner os)) \<and> nth_recv (ollamaStream_Recv first) k os = Inl e)"
proof (intro conjI)
  have "chat_left s \<le> Suc (length (pending (cs_inner s)))" by (simp add: chat_left_def)
  with openai_chat.ends [of s A] show "\<exists>k e. k \<le> Suc (length (pending (cs_inner s))) \<and> nth_recv (chatStream_Recv A) k s = Inl e"
    by (meson order_trans)
  have "response_left rs \<le> length (pending (rt_inner rs))" by (simp add: response_left_def)
  with openai_response.ends [of rs] show "\<exists>k e. k \<le> length (pending (rt_inner rs)) \<and> nth_recv responseStream_Recv k rs = Inl e"
    by (meson order_trans)
  have "ant_left as \<le> length (pending (as_inner as))" by (simp add: ant_left_def)
  with anthropic_chat.ends [of as] show "\<exists>k e. k \<le> length (pending (as_inner as)) \<and> nth_recv antStream_Recv k as = Inl e"
    by (meson order_trans)
  from ollama_chat.ends [of os first] show "\<exists>k e. k \<le> length (pending (ol_inner os)) \<and> nth_recv (ollamaStream_Recv first) k os = Inl e"
    by (simp add: ollama_left_def)
qed

end
