(* ===== verification/LLM_Service.thy ===== *)
theory LLM_Service
  imports Router
begin

text \<open>
  The gRPC service of \<^verbatim>\<open>internal/llm/service.go\<close>: conversion of protobuf messages to and
  from the provider-agnostic types, and the four RPCs on top of the router. The protobuf
  types are generated from another repository; the records below have the fields that
  \<open>service.go\<close> reads or writes.
\<close>

section \<open>Protobuf messages\<close>

text \<open>\<open>ContentBlock.block\<close> is a oneof; \<open>PbUnset\<close> is a block with no member set.\<close>

datatype PbContentBlock =
    PbText string
  | PbImage string string string
  | PbToolUse string string string
  | PbToolResult string string bool
  | PbUnset

record PbLLMMessage =
  pb_Role :: string
  pb_Content :: "PbContentBlock list"
  pb_ToolCallId :: string

record PbToolDefinition =
  pbt_Name :: string
  pbt_Description :: string
  pbt_InputSchemaJson :: string

record PbChatRequest =
  pbq_Provider :: string
  pbq_Model :: string
  pbq_Messages :: "PbLLMMessage list"
  pbq_Temperature :: rat
  pbq_MaxTokens :: int
  pbq_StopSequences :: "string list"
  pbq_Tools :: "PbToolDefinition list"

record PbChatResponse =
  pbr_Id :: string
  pbr_Provider :: string
  pbr_Model :: string
  pbr_Content :: "PbContentBlock list"
  pbr_StopReason :: string
  pbr_InputTokens :: int
  pbr_OutputTokens :: int

datatype PbStreamChatResponse =
    PbComplete PbChatResponse
  | PbStreamToolUse string string string
  | PbTextDelta string

text \<open>A gRPC status: its code and its message.\<close>

datatype grpc_code = InvalidArgument | Internal | Unauthenticated

datatype grpc_error = Status grpc_code string | Other go_err

type_synonym 'a rpc_result = "grpc_error + 'a"

section \<open>Conversions\<close>

fun protoBlocks :: "PbContentBlock list \<Rightarrow> Block list result" where
  "protoBlocks [] = Inr []"
| "protoBlocks (b # bs) =
     (case b of
        PbText s \<Rightarrow> map_sum id ((#) (text_block s)) (protoBlocks bs)
      | PbImage mt d u \<Rightarrow> map_sum id ((#)
          \<lparr>b_Type = ''image'', b_Text = '''',
           b_Image = Some \<lparr>MediaType = mt, ImgData = d, ImgURL = u\<rparr>,
           b_ToolUse = None, b_ToolResult = None\<rparr>) (protoBlocks bs)
      | PbToolUse i n j \<Rightarrow> map_sum id ((#)
          \<lparr>b_Type = ''tool_use'', b_Text = '''', b_Image = None,
           b_ToolUse = Some \<lparr>tu_ID = i, tu_Name = n, tu_InputJSON = j\<rparr>,
           b_ToolResult = None\<rparr>) (protoBlocks bs)
      | PbToolResult i c e \<Rightarrow> map_sum id ((#)
          \<lparr>b_Type = ''tool_result'', b_Text = '''', b_Image = None, b_ToolUse = None,
           b_ToolResult = Some \<lparr>tr_ToolUseID = i, tr_Content = c, tr_IsError = e\<rparr>\<rparr>) (protoBlocks bs)
      | PbUnset \<Rightarrow> Inl (Msg ''unknown content block type <nil>''))"

fun protoMessages :: "PbLLMMessage list \<Rightarrow> Message list result" where
  "protoMessages [] = Inr []"
| "protoMessages (m # ms) =
     (case protoBlocks (pb_Content m) of
        Inl err \<Rightarrow> Inl err
      | Inr blocks \<Rightarrow>
          map_sum id ((#) \<lparr>Role = pb_Role m, Content = blocks, ToolCallID = pb_ToolCallId m\<rparr>)
            (protoMessages ms))"

definition protoTools :: "PbToolDefinition list \<Rightarrow> ToolDef list" where
  "protoTools pbTools =
     map (\<lambda>t. \<lparr>td_Name = pbt_Name t, td_Description = pbt_Description t,
               td_InputSchemaJSON = pbt_InputSchemaJson t\<rparr>) pbTools"

definition protoToProviderRequest :: "PbChatRequest \<Rightarrow> ProviderRequest result" where
  "protoToProviderRequest req =
     (case protoMessages (pbq_Messages req) of
        Inl err \<Rightarrow> Inl err
      | Inr msgs \<Rightarrow> Inr
          \<lparr>pq_Model = pbq_Model req, pq_Messages = msgs, pq_Temperature = pbq_Temperature req,
           pq_MaxTokens = pbq_MaxTokens req, pq_StopSequences = pbq_StopSequences req,
           pq_Tools = protoTools (pbq_Tools req)\<rparr>)"

text \<open>\<open>msgs, _ := protoMessages(...)\<close>: on an error the messages are nil.\<close>

definition streamProtoToProviderRequest :: "PbChatRequest \<Rightarrow> ProviderRequest" where
  "streamProtoToProviderRequest req =
     \<lparr>pq_Model = pbq_Model req,
      pq_Messages = (case protoMessages (pbq_Messages req) of Inl _ \<Rightarrow> [] | Inr msgs \<Rightarrow> msgs),
      pq_Temperature = pbq_Temperature req, pq_MaxTokens = pbq_MaxTokens req,
      pq_StopSequences = pbq_StopSequences req, pq_Tools = protoTools (pbq_Tools req)\<rparr>"

fun blocksToProto :: "Block list \<Rightarrow> PbContentBlock list" where
  "blocksToProto [] = []"
| "blocksToProto (b # bs) =
     (if b_Type b = ''text'' then PbText (b_Text b) # blocksToProto bs
      else if b_Type b = ''tool_use'' then
        (case b_ToolUse b of
           Some tu \<Rightarrow> PbToolUse (tu_ID tu) (tu_Name tu) (tu_InputJSON tu) # blocksToProto bs
         | None \<Rightarrow> blocksToProto bs)
      else blocksToProto bs)"

definition providerResponseToProto :: "ProviderResponse \<Rightarrow> PbChatResponse" where
  "providerResponseToProto resp =
     \<lparr>pbr_Id = pr_ID resp, pbr_Provider = ''openai'', pbr_Model = pr_Model resp,
      pbr_Content = blocksToProto (pr_Content resp), pbr_StopReason = pr_StopReason resp,
      pbr_InputTokens = InputTokens (pr_Usage resp), pbr_OutputTokens = OutputTokens (pr_Usage resp)\<rparr>"

definition chunkToProto :: "Chunk \<Rightarrow> PbStreamChatResponse" where
  "chunkToProto c =
     (case ch_Final c of
        Some final \<Rightarrow> PbComplete (providerResponseToProto final)
      | None \<Rightarrow>
          (case ch_ToolUse c of
             Some tu \<Rightarrow> PbStreamToolUse (tu_ID tu) (tu_Name tu) (tu_InputJSON tu)
           | None \<Rightarrow> PbTextDelta (ch_TextDelta c)))"

section \<open>RPCs\<close>

definition Service_Chat ::
  "('w \<Rightarrow> time) \<Rightarrow> PbChatRequest \<Rightarrow> 'w Router \<Rightarrow> 'w \<Rightarrow> PbChatResponse rpc_result \<times> 'w Router \<times> 'w" where
  "Service_Chat clock req r w =
     (case protoToProviderRequest req of
        Inl err \<Rightarrow> (Inl (Status InvalidArgument (''invalid request: '' @ err_text err)), r, w)
      | Inr pr \<Rightarrow>
          (case Router_Chat clock (pbq_Provider req) pr r w of
             (Inl err, r', w') \<Rightarrow> (Inl (Status Internal (''llm error: '' @ err_text err)), r', w')
           | (Inr resp, r', w') \<Rightarrow> (Inr (providerResponseToProto resp), r', w')))"

text \<open>
  The forwarding loop: \<open>send i\<close> is the outcome of the \<open>i\<close>-th \<open>stream.Send\<close>. The result is the
  RPC's status and what the client was sent. A nil chunk without an error makes
  \<open>chunkToProto\<close> dereference nil; gRPC reports the panic as an error of the call.
\<close>

fun forward_chunks ::
  "(nat \<Rightarrow> go_err option) \<Rightarrow> Stream \<Rightarrow> nat \<Rightarrow> unit rpc_result \<times> PbStreamChatResponse list" where
  "forward_chunks send [] i = (Inr (), [])"
| "forward_chunks send (Inl err # rest) i =
     (if err = EOF then (Inr (), [])
      else (Inl (Status Internal (''stream recv: '' @ err_text err)), []))"
| "forward_chunks send (Inr None # rest) i = (Inl (Other (Msg ''nil pointer dereference'')), [])"
| "forward_chunks send (Inr (Some chunk) # rest) i =
     (case send i of
        Some e \<Rightarrow> (Inl (Other e), [])
      | None \<Rightarrow> (case forward_chunks send rest (Suc i) of
                   (res, sent) \<Rightarrow> (res, chunkToProto chunk # sent)))"

definition Service_StreamChat ::
  "('w \<Rightarrow> time) \<Rightarrow> (nat \<Rightarrow> go_err option) \<Rightarrow> PbChatRequest \<Rightarrow> 'w Router \<Rightarrow> 'w \<Rightarrow>
   (unit rpc_result \<times> PbStreamChatResponse list) \<times> 'w Router \<times> 'w" where
  "Service_StreamChat clock send req r w =
     (case Router_StreamChat clock (pbq_Provider req) (streamProtoToProviderRequest req) r w of
        (Inl err, r', w') \<Rightarrow> ((Inl (Status Internal (''llm stream error: '' @ err_text err)), []), r', w')
      | (Inr st, r', w') \<Rightarrow> (forward_chunks send st 0, r', w'))"

text \<open>An embedding with its dimension; \<open>int32(len(v))\<close>\<close>

definition Service_Embed ::
  "('w \<Rightarrow> time) \<Rightarrow> string \<Rightarrow> string list \<Rightarrow> 'w Router \<Rightarrow> 'w \<Rightarrow>
   ((rat list \<times> int) list \<times> int option) rpc_result \<times> 'w Router \<times> 'w" where
  "Service_Embed clock model texts r w =
     (case Router_Embed clock '''' model texts r w of
        (Inl err, r', w') \<Rightarrow> (Inl (Status Internal (''embed error: '' @ err_text err)), r', w')
      | (Inr (vecs, usage), r', w') \<Rightarrow>
          (Inr (map (\<lambda>v. (v, int (length v))) vecs, map_option InputTokens usage), r', w'))"

definition Service_ListModels ::
  "string list \<Rightarrow> string \<Rightarrow> 'w Router \<Rightarrow> 'w \<Rightarrow> ModelInfo list rpc_result \<times> 'w" where
  "Service_ListModels names provider r w =
     (case Router_ListModels names provider r w of
        (Inl err, w') \<Rightarrow> (Inl (Status Internal (''list models: '' @ err_text err)), w')
      | (Inr models, w') \<Rightarrow> (Inr models, w'))"

section \<open>Properties\<close>

fun pb_chat_block :: "PbContentBlock \<Rightarrow> bool" where
  "pb_chat_block (PbText s) = True"
| "pb_chat_block (PbToolUse i n j) = True"
| "pb_chat_block b = False"

lemma protoBlocks_ok: "is_ok (protoBlocks bs) \<longleftrightarrow> PbUnset \<notin> set bs"
proof (induction bs)
  case (Cons b bs)
  then show ?case by (cases b; cases "protoBlocks bs") auto
qed simp

lemma protoMessages_ok:
  "is_ok (protoMessages ms) \<longleftrightarrow> (\<forall>m \<in> set ms. PbUnset \<notin> set (pb_Content m))"
proof (induction ms)
  case (Cons m ms)
  then show ?case
    using protoBlocks_ok [of "pb_Content m"]
    by (cases "protoBlocks (pb_Content m)"; cases "protoMessages ms") auto
qed simp

text \<open>Content blocks survive the conversion to the internal form and back: text and tool-use
  blocks come back unchanged and in order, image and tool-result blocks are the only ones
  that do not come back, and conversion fails exactly on a block with no content.\<close>

theorem blocks_roundtrip:
  "(is_ok (protoBlocks bs) \<longleftrightarrow> PbUnset \<notin> set bs) \<and>
   (\<forall>blocks. protoBlocks bs = Inr blocks \<longrightarrow>
      length blocks = length bs \<and> blocksToProto blocks = filter pb_chat_block bs)"
proof (intro conjI protoBlocks_ok)
  show "\<forall>blocks. protoBlocks bs = Inr blocks \<longrightarrow>
      length blocks = length bs \<and> blocksToProto blocks = filter pb_chat_block bs"
  proof (induction bs)
    case (Cons b bs)
    then show ?case
      by (cases b; cases "protoBlocks bs") (auto simp: text_block_def)
  qed simp
qed

theorem blocks_roundtrip_witness:
  "blocksToProto (projr (protoBlocks [PbText ''a'', PbImage ''p'' ''d'' ''u'', PbToolUse ''i'' ''n'' ''{}''])) =
   [PbText ''a'', PbToolUse ''i'' ''n'' ''{}'']"
proof -
  let ?bs = "[PbText ''a'', PbImage ''p'' ''d'' ''u'', PbToolUse ''i'' ''n'' ''{}'']"
  have "is_ok (protoBlocks ?bs)" using blocks_roundtrip [of ?bs] by simp
  then obtain blocks where "protoBlocks ?bs = Inr blocks"
    by (cases "protoBlocks ?bs") (simp_all add: is_ok_def del: protoBlocks.simps)
  then show ?thesis using blocks_roundtrip [of ?bs] by (simp del: protoBlocks.simps)
qed

lemma forward_chunks_prefix:
  "\<exists>cs rest. s = map (\<lambda>c. Inr (Some c)) cs @ rest \<and>
     snd (forward_chunks send s i) = map chunkToProto cs"
proof (induction send s i rule: forward_chunks.induct)
  case (4 send chunk rest i)
  show ?case
  proof (cases "send i")
    case None
    obtain cs tl where "rest = map (\<lambda>c. Inr (Some c)) cs @ tl"
      "snd (forward_chunks send rest (Suc i)) = map chunkToProto cs"
      using "4.IH" [OF None] by blast
    with None show ?thesis
      by (intro exI [of _ "chunk # cs"] exI [of _ tl]) (auto split: prod.splits)
  next
    case (Some e)
    then show ?thesis by (intro exI [of _ "[] :: Chunk list"]) simp
  qed
qed auto

text \<open>Streaming. Whatever the provider's stream and the connection do, the client receives
  the converted chunks of a prefix of the stream, in order; when the stream is a sequence of
  chunks and no send fails, it receives all of them and the RPC returns success.\<close>

theorem stream_forwards_chunks:
  "(\<exists>cs rest. s = map (\<lambda>c. Inr (Some c)) cs @ rest \<and>
      snd (forward_chunks send s i) = map chunkToProto cs) \<and>
   ((\<forall>i. send i = None) \<longrightarrow>
      forward_chunks send (map (\<lambda>c. Inr (Some c)) chunks) i = (Inr (), map chunkToProto chunks))"
proof (intro conjI impI)
  assume ok: "\<forall>i. send i = None"
  show "forward_chunks send (map (\<lambda>c. Inr (Some c)) chunks) i = (Inr (), map chunkToProto chunks)"
    by (induction chunks arbitrary: i) (simp_all add: ok)
qed (rule forward_chunks_prefix)

theorem stream_forwards_chunks_witness:
  "forward_chunks (\<lambda>_. None) (map (\<lambda>c. Inr (Some c))
      [\<lparr>ch_TextDelta = ''he'', ch_ToolUse = None, ch_Final = None\<rparr>,
       \<lparr>ch_TextDelta = ''y'', ch_ToolUse = None, ch_Final = None\<rparr>]) 0 =
   (Inr (), [PbTextDelta ''he'', PbTextDelta ''y''])"
  using stream_forwards_chunks [of "[]" "\<lambda>_. None" 0 "[\<lparr>ch_TextDelta = ''he'', ch_ToolUse = None, ch_Final = None\<rparr>,
       \<lparr>ch_TextDelta = ''y'', ch_ToolUse = None, ch_Final = None\<rparr>]"]
  by (simp add: chunkToProto_def)

text \<open>a request with a malformed content block is refused by \<open>Chat\<close> with
  \<open>InvalidArgument\<close> before the router is touched, but \<open>StreamChat\<close> ignores the error and
  sends the provider a request with no messages at all.\<close>

theorem malformed_request_chat_vs_stream:
  assumes "m \<in> set (pbq_Messages req)" "PbUnset \<in> set (pb_Content m)"
  shows "(\<exists>msg. Service_Chat clock req r w = (Inl (Status InvalidArgument msg), r, w)) \<and>
         pq_Messages (streamProtoToProviderRequest req) = []"
proof -
  have "\<not> is_ok (protoMessages (pbq_Messages req))"
    using assms by (auto simp: protoMessages_ok)
  then obtain err where "protoMessages (pbq_Messages req) = Inl err"
    by (cases "protoMessages (pbq_Messages req)") auto
  then show ?thesis
    by (simp add: Service_Chat_def protoToProviderRequest_def streamProtoToProviderRequest_def)
qed

theorem malformed_request_chat_vs_stream_witness:
  "let req = \<lparr>pbq_Provider = ''a'', pbq_Model = ''m'',
              pbq_Messages = [\<lparr>pb_Role = ''user'', pb_Content = [PbText ''x'', PbUnset], pb_ToolCallId = ''''\<rparr>],
              pbq_Temperature = 1, pbq_MaxTokens = 5, pbq_StopSequences = [], pbq_Tools = []\<rparr> in
   (\<exists>msg. Service_Chat id req two_providers 7 = (Inl (Status InvalidArgument msg), two_providers, 7)) \<and>
   pq_Messages (streamProtoToProviderRequest req) = []"
  unfolding Let_def
  by (rule malformed_request_chat_vs_stream [of
        "\<lparr>pb_Role = ''user'', pb_Content = [PbText ''x'', PbUnset], pb_ToolCallId = ''''\<rparr>"]) simp_all

end
