(* ===== verification/Serve.thy ===== *)
theory Serve
  imports Gateway_Routes Catalogue LLM_Service
begin

text \<open>
  Starting the program: \<^verbatim>\<open>cmd/volund/serve.go\<close> builds the LLM router from the configuration and starts the gateway
  and the control plane, after the migrations of \<^verbatim>\<open>internal/db/db.go\<close>. The clients that the SDKs make, the
  migration library and the listeners are parameters.
\<close>

section \<open>The router that is served\<close>

text \<open>\<open>sk_openai\<close> makes a client from a key and a base URL (empty for the default), \<open>sk_anthropic\<close> from a key and a base
  URL, \<open>sk_ollama\<close> from the URL of the API.\<close>

record ('w, 'j, 's, 'a) sdks =
  sk_openai :: "string \<Rightarrow> string \<Rightarrow> ('w, 'j) openai_client"
  sk_anthropic :: "string \<Rightarrow> string \<Rightarrow> ('w, 'j, 's) anthropic_client"
  sk_ollama :: "string \<Rightarrow> ('w, 'j) openai_client"
  sk_unmarshal :: "string \<Rightarrow> 'j result"
  sk_unmarshalSchema :: "string \<Rightarrow> 's result"
  sk_accumulator :: "'a accumulator"
  sk_first :: "(int \<times> ToolUseData) list \<Rightarrow> int"
  sk_get :: "string \<Rightarrow> ('w, tags_reply) call"

definition buildRouter :: "('w, 'j, 's, 'a) sdks \<Rightarrow> config \<Rightarrow> 'w Router" where
  "buildRouter K cfg =
     (let r0 = NewRouter;
          r1 = (if cf_OpenAIAPIKey cfg \<noteq> ''''
                then Register (openai_provider (sk_unmarshal K) (sk_accumulator K) openai_models
                                 (sk_openai K (cf_OpenAIAPIKey cfg) (cf_OpenAIBaseURL cfg))) r0
                else r0);
          r2 = (if cf_AnthropicAPIKey cfg \<noteq> ''''
                then Register (anthropic_provider (sk_unmarshal K) (sk_unmarshalSchema K) anthropic_models
                                 (sk_anthropic K (cf_AnthropicAPIKey cfg) '''')) r1
                else r1);
          r3 = (if cf_OllamaURL cfg \<noteq> ''''
                then Register (ollama_provider (sk_unmarshal K) (sk_first K) (sk_get K)
                                 (sk_ollama K (op_apiURL (Ollama_New (cf_OllamaURL cfg)))) (Ollama_New (cf_OllamaURL cfg))) r2
                else r2)
      in r3)"

text \<open>The requests that the LLM service and the memory handlers make of the router\<close>

inductive serve_step :: "('w \<Rightarrow> time) \<Rightarrow> 'w Router \<Rightarrow> 'w Router \<Rightarrow> bool" for tick where
  ss_chat: "Router_Chat tick n req r w = (res, r', w') \<Longrightarrow> serve_step tick r r'"
| ss_stream: "Router_StreamChat tick n req r w = (sres, r', w') \<Longrightarrow> serve_step tick r r'"
| ss_embed: "Router_Embed tick n model texts r w = (eres, r', w') \<Longrightarrow> serve_step tick r r'"
| ss_respond: "Router_Respond tick n rq r w = (rres, r', w') \<Longrightarrow> serve_step tick r r'"
| ss_srespond: "Router_StreamRespond tick n rq r w = (srres, r', w') \<Longrightarrow> serve_step tick r r'"
| ss_health: "ProviderHealth now r = (h, r') \<Longrightarrow> serve_step tick r r'"

definition same_setup :: "'w Router \<Rightarrow> 'w Router \<Rightarrow> bool" where
  "same_setup r r' \<longleftrightarrow> providers r' = providers r \<and> fallbackChains r' = fallbackChains r \<and> defaultProvider r' = defaultProvider r"

lemma route_setup: "route tick call n r w = (res, r', w') \<Longrightarrow> same_setup r r'"
  by (auto simp: route_def same_setup_def split: sum.splits prod.splits)

lemma same_setup_refl [simp]: "same_setup r r"
  by (simp add: same_setup_def)

lemma serve_step_setup: "serve_step tick r r' \<Longrightarrow> same_setup r r'"
proof (induction rule: serve_step.induct)
  case (ss_respond n rq r w rres r' w')
  then show ?case using route_setup
    by (fastforce simp: Router_Respond_def Router_Chat_def split: sum.splits option.splits prod.splits)
next
  case (ss_srespond n rq r w srres r' w')
  then show ?case using route_setup
    by (fastforce simp: Router_StreamRespond_def Router_StreamChat_def split: sum.splits option.splits prod.splits)
next
  case (ss_health now r h r')
  then show ?case by (auto simp: ProviderHealth_def same_setup_def)
qed (auto simp: Router_Chat_def Router_StreamChat_def Router_Embed_def dest: route_setup)

lemma serve_run_setup: "(serve_step tick)\<^sup>*\<^sup>* r r' \<Longrightarrow> same_setup r r'"
  by (induction rule: rtranclp_induct) (auto simp: same_setup_def dest!: serve_step_setup)

lemma buildRouter_chains: "fallbackChains (buildRouter K cfg) = Map.empty"
  by (simp add: buildRouter_def Register_def NewRouter_def Let_def)

lemma one_provider_chain:
  assumes "fallbackChains r = Map.empty" "getWithFallbacks r n = Inr chain"
  shows "\<exists>p. chain = [p]"
  using assms by (auto simp: getWithFallbacks_def Let_def split: if_splits option.splits)

lemma route_single_failure:
  assumes "fallbackChains r = Map.empty" "\<And>p. getWithFallbacks r n = Inr [p] \<Longrightarrow> \<exists>e w'. call p w = (Inl e, w')"
  shows "\<exists>err. fst (route tick call n r w) = Inl err"
proof (cases "getWithFallbacks r n")
  case (Inl err)
  then show ?thesis by (simp add: route_def)
next
  case (Inr chain)
  then obtain p where p: "chain = [p]" using one_provider_chain [OF assms(1)] by blast
  obtain e w' where "call p w = (Inl e, w')" using assms(2) Inr p by blast
  then show ?thesis using Inr p
    by (cases "circuits r (p_Name p)") (auto simp: route_def Let_def split: prod.splits)
qed

text \<open>C25: the program never falls back. The router has fallback chains, but the program that is started sets
  none: at any time while it serves requests, a chat request whose provider answers with an error
  fails, whatever other providers are configured.\<close>

theorem served_requests_never_fall_back:
  assumes "(serve_step tick)\<^sup>*\<^sup>* (buildRouter K cfg) r"
    and "providers r (if n = '''' then defaultProvider r else n) = Some p" "p_Chat p req w = (Inl e, w')"
  shows "\<exists>err. fst (Router_Chat tick n req r w) = Inl err"
proof -
  have none: "fallbackChains r = Map.empty" using serve_run_setup [OF assms(1)] buildRouter_chains by (simp add: same_setup_def)
  show ?thesis unfolding Router_Chat_def
    by (rule route_single_failure [OF none])
      (use assms(2,3) none in \<open>auto simp: getWithFallbacks_def Let_def split: if_splits\<close>)
qed

text \<open>Memory needs OpenAI or Ollama to be the first provider. Embeddings are asked of the default provider, the
  first that is registered. With a key for Anthropic and none for OpenAI this is Anthropic, which has
  no embeddings, so every embedding fails, even when Ollama is configured.\<close>

theorem embeddings_fail_behind_anthropic:
  assumes "(serve_step tick)\<^sup>*\<^sup>* (buildRouter K cfg) r" "cf_OpenAIAPIKey cfg = ''''" "cf_AnthropicAPIKey cfg \<noteq> ''''"
  shows "\<exists>err. fst (Router_Embed tick '''' model texts r w) = Inl err"
proof -
  have s: "same_setup (buildRouter K cfg) r" by (rule serve_run_setup [OF assms(1)])
  then have none: "fallbackChains r = Map.empty" using buildRouter_chains by (simp add: same_setup_def)
  have d: "defaultProvider r = ''anthropic''"
    "providers r ''anthropic'' = Some (anthropic_provider (sk_unmarshal K) (sk_unmarshalSchema K) anthropic_models
       (sk_anthropic K (cf_AnthropicAPIKey cfg) ''''))"
    using s assms(2,3) by (simp_all add: same_setup_def buildRouter_def Register_def NewRouter_def Let_def anthropic_provider_def ollama_provider_def)
  show ?thesis unfolding Router_Embed_def
    by (rule route_single_failure [OF none])
      (use d none in \<open>auto simp: getWithFallbacks_def Let_def anthropic_provider_def Anthropic_Embed_def\<close>)
qed

section \<open>The routing table\<close>

text \<open>A gateway that cannot reach its Redis when it starts keeps its routes in memory from then on. \<open>fresh\<close> is the client
  for an address before it has a connection.\<close>

definition NewRedisRoutingTable :: "'srv RedisRoutingTable \<Rightarrow> 'srv RedisRoutingTable result" where
  "NewRedisRoutingTable rt =
     (case connect (rt\<lparr>rt_conn := None\<rparr>) of
        (Inl err, _) \<Rightarrow> Inl (Wrap ''redis routing table'' err)
      | (Inr _, rt') \<Rightarrow> Inr rt')"

datatype 'srv route_backend = Redis_backend "'srv RedisRoutingTable" | Memory_backend MemoryRoutingTable

definition init_route :: "(string \<Rightarrow> 'srv RedisRoutingTable) \<Rightarrow> config \<Rightarrow> 'srv route_backend" where
  "init_route fresh cfg =
     (if cf_RedisAddr cfg \<noteq> '''' then
        (case NewRedisRoutingTable (fresh (cf_RedisAddr cfg)) of
           Inl _ \<Rightarrow> Memory_backend NewMemoryRoutingTable
         | Inr rt \<Rightarrow> Redis_backend rt)
      else Memory_backend NewMemoryRoutingTable)"

section \<open>Startup\<close>

text \<open>\<open>Migrate\<close> rewrites the DSN for the driver; \<open>source\<close>, \<open>init\<close> and \<open>up\<close> are the migration library, \<open>up\<close> with
  \<open>None\<close> for its \<open>ErrNoChange\<close>. \<open>db_Connect\<close>, the function \<open>Connect\<close>, parses, connects and pings.\<close>

definition migrate_url :: "string \<Rightarrow> string" where
  "migrate_url dsn =
     (if has_prefix dsn ''postgresql://'' then ''pgx5://'' @ trim_prefix dsn ''postgresql://''
      else if has_prefix dsn ''postgres://'' then ''pgx5://'' @ trim_prefix dsn ''postgres://''
      else dsn)"

definition Migrate :: "unit result \<Rightarrow> (string \<Rightarrow> unit result) \<Rightarrow> (string \<Rightarrow> unit result option) \<Rightarrow> string \<Rightarrow> unit result" where
  "Migrate source init up dsn =
     (case source of
        Inl err \<Rightarrow> Inl (Wrap ''db migrate: source'' err)
      | Inr _ \<Rightarrow>
          (case init (migrate_url dsn) of
             Inl err \<Rightarrow> Inl (Wrap ''db migrate: init'' err)
           | Inr _ \<Rightarrow>
               (case up (migrate_url dsn) of
                  None \<Rightarrow> Inr ()
                | Some (Inl err) \<Rightarrow> Inl (Wrap ''db migrate: up'' err)
                | Some (Inr _) \<Rightarrow> Inr ())))"

definition db_Connect :: "(string \<Rightarrow> 'c result) \<Rightarrow> ('c \<Rightarrow> 'p result) \<Rightarrow> ('p \<Rightarrow> unit result) \<Rightarrow> string \<Rightarrow> 'p result" where
  "db_Connect parse new ping dsn =
     (case parse dsn of
        Inl err \<Rightarrow> Inl (Wrap ''db: parse config'' err)
      | Inr cfg \<Rightarrow>
          (case new cfg of
             Inl err \<Rightarrow> Inl (Wrap ''db: connect'' err)
           | Inr pool \<Rightarrow> (case ping pool of Inl err \<Rightarrow> Inl (Wrap ''db: ping'' err) | Inr _ \<Rightarrow> Inr pool)))"

text \<open>How \<open>serve\<close> ends or goes on: the process exits, the command returns an error, or both servers run.\<close>

datatype 'p startup = Exits | Returns go_err | Serving "'p option"

definition serve_start ::
  "unit result \<Rightarrow> (string \<Rightarrow> unit result) \<Rightarrow> (string \<Rightarrow> 'p result) \<Rightarrow> ('p option \<Rightarrow> unit result) \<Rightarrow> unit result \<Rightarrow> config \<Rightarrow> 'p startup" where
  "serve_start otel migrate open_pool gateway controlplane cfg =
     (let servers = (\<lambda>pool. case gateway pool of
              Inl err \<Rightarrow> Returns err
            | Inr _ \<Rightarrow> (case controlplane of Inl err \<Rightarrow> Returns err | Inr _ \<Rightarrow> Serving pool)) in
      if \<not> is_ok otel then Exits
      else if cf_DatabaseURL cfg \<noteq> '''' then
        (if \<not> is_ok (migrate (cf_DatabaseURL cfg)) then Exits
         else (case open_pool (cf_DatabaseURL cfg) of Inl _ \<Rightarrow> Exits | Inr pool \<Rightarrow> servers (Some pool)))
      else servers None)"

text \<open>The program cannot run without a database, although it has a mode for it: an unset variable gives the
  default DSN, so the servers run with a pool or not at all.\<close>

lemma serving_needs_a_database:
  "serve_start otel migrate open_pool gateway controlplane (Load env) = Serving pool \<Longrightarrow> pool \<noteq> None"
proof -
  have "cf_DatabaseURL (Load env) \<noteq> ''''" by (simp add: Load_def envOrDefault_def)
  then show "serve_start otel migrate open_pool gateway controlplane (Load env) = Serving pool \<Longrightarrow> pool \<noteq> None"
    by (auto simp: serve_start_def Let_def split: if_splits sum.splits)
qed

section \<open>A program to run\<close>

definition ref_sdks :: "(unit, unit, unit, string) sdks" where
  "ref_sdks = \<lparr>sk_openai = (\<lambda>_ _. ref_openai),
     sk_anthropic = (\<lambda>_ _. \<lparr>ac_Models_List = (\<lambda>w. (Inr (), w)), Messages_New = (\<lambda>p w. (Inl EOF, w)),
       Messages_NewStreaming = (\<lambda>p w. (\<lparr>pending = [], failure = None\<rparr>, w))\<rparr>),
     sk_ollama = (\<lambda>_. ref_ollama), sk_unmarshal = (\<lambda>_. Inr ()), sk_unmarshalSchema = (\<lambda>_. Inr ()),
     sk_accumulator = text_accumulator, sk_first = (\<lambda>calls. fst (hd calls)), sk_get = (\<lambda>_ w. (Inl EOF, w))\<rparr>"

definition ref_config :: "string \<Rightarrow> config" where
  "ref_config openaiKey = (Load (\<lambda>_. ''''))\<lparr>cf_OpenAIAPIKey := openaiKey, cf_AnthropicAPIKey := ''k'', cf_OllamaURL := ''http://o''\<rparr>"

lemma ref_anthropic_served:
  "providers (buildRouter ref_sdks (ref_config openaiKey)) ''anthropic'' =
     Some (anthropic_provider (\<lambda>_. Inr ()) (\<lambda>_. Inr ()) anthropic_models (sk_anthropic ref_sdks ''k'' ''''))"
  by (simp add: buildRouter_def ref_config_def Register_def NewRouter_def Let_def anthropic_provider_def openai_provider_def
      ollama_provider_def ref_sdks_def)

lemma ref_anthropic_refuses:
  "\<exists>e. p_Chat (anthropic_provider (\<lambda>_. Inr ()) (\<lambda>_. Inr ()) anthropic_models (sk_anthropic ref_sdks ''k'' '''')) user_request () = (Inl e, ())"
  by (simp add: anthropic_provider_def Anthropic_Chat_def toMessageParams_def user_request_def toMessageParam_def ref_sdks_def)

theorem served_requests_never_fall_back_witness:
  "\<exists>err. fst (Router_Chat (\<lambda>_. 0) ''anthropic'' user_request (buildRouter ref_sdks (ref_config ''key'')) ()) = Inl err"
proof -
  obtain e where e: "p_Chat (anthropic_provider (\<lambda>_. Inr ()) (\<lambda>_. Inr ()) anthropic_models (sk_anthropic ref_sdks ''k'' '''')) user_request () = (Inl e, ())"
    using ref_anthropic_refuses by blast
  have "providers (buildRouter ref_sdks (ref_config ''key''))
      (if ''anthropic'' = '''' then defaultProvider (buildRouter ref_sdks (ref_config ''key'')) else ''anthropic'') =
     Some (anthropic_provider (\<lambda>_. Inr ()) (\<lambda>_. Inr ()) anthropic_models (sk_anthropic ref_sdks ''k'' ''''))"
    using ref_anthropic_served by simp
  from served_requests_never_fall_back [OF rtranclp.rtrancl_refl this e] show ?thesis .
qed

theorem embeddings_fail_behind_anthropic_witness:
  "\<exists>err. fst (Router_Embed (\<lambda>_. 0) '''' ''text-embedding-3-small'' [''x''] (buildRouter ref_sdks (ref_config '''')) ()) = Inl err"
  by (rule embeddings_fail_behind_anthropic [OF rtranclp.rtrancl_refl]) (simp_all add: ref_config_def)

end
