(* ===== verification/Dispatch_Props.thy ===== *)
theory Dispatch_Props
  imports Dispatch
begin

text \<open>
  What the dispatch of a message to an agent guarantees: subjects are unambiguous, delegation is
  bounded on the pool path, the task carries only the user's own skills and credentials, and a
  claimed instance is addressed by its pod name the first time and by its id afterwards.
\<close>

section \<open>Subjects\<close>

text \<open>No two recipients share a subject. Different profiles, conversations and instances have
  different subjects, and the four kinds of subject never coincide, whatever the names are.\<close>

theorem subjects_are_unambiguous:
  "(PoolSubject a = PoolSubject b \<longleftrightarrow> a = b) \<and> (ConvStreamSubject a = ConvStreamSubject b \<longleftrightarrow> a = b) \<and>
   (InstanceSubject a = InstanceSubject b \<longleftrightarrow> a = b) \<and> (SteerSubject a = SteerSubject b \<longleftrightarrow> a = b) \<and>
   PoolSubject a \<noteq> ConvStreamSubject b \<and> PoolSubject a \<noteq> InstanceSubject b \<and> PoolSubject a \<noteq> SteerSubject b \<and>
   ConvStreamSubject a \<noteq> InstanceSubject b \<and> ConvStreamSubject a \<noteq> SteerSubject b \<and> InstanceSubject a \<noteq> SteerSubject b"
proof -
  have "last (InstanceSubject a) \<noteq> last (SteerSubject b)"
    by (simp add: InstanceSubject_def SteerSubject_def)
  then have "InstanceSubject a \<noteq> SteerSubject b" by metis
  then show ?thesis
    by (simp add: PoolSubject_def ConvStreamSubject_def InstanceSubject_def SteerSubject_def)
qed

section \<open>The steps leave the credentials alone\<close>

lemma query_snd: "\<exists>fs. snd (query q d) = d\<lparr>faults := fs\<rparr>"
  by (cases "query q d") (auto elim: query_state)

lemma query_snd_case: "\<exists>fs. snd (case query q d of (r, d') \<Rightarrow> (f r, d')) = d\<lparr>faults := fs\<rparr>"
  using query_snd [of q d] by (simp add: case_prod_beta)

lemma ListMessages_state: "\<exists>fs. snd (ListMessages c n d) = d\<lparr>faults := fs\<rparr>"
  unfolding ListMessages_def Let_def by (rule query_snd_case)

lemma Task_Create_state:
  "\<exists>fs k ts. snd (Task_Create t c title d) = d\<lparr>faults := fs, uuid_count := k, tasks := ts\<rparr>"
proof -
  obtain r d' where i: "insert_new (\<lambda>d uid.
          \<lparr>tk_ID = uid, tk_TenantID = t, tk_ConversationID = c,
           tk_AgentID = None, tk_Title = title, tk_Status = ''pending'',
           tk_Result = None, tk_Error = None, tk_CreatedAt = clock d,
           tk_UpdatedAt = clock d, tk_CompletedAt = None\<rparr>)
        (\<lambda>row d. d\<lparr>tasks := tasks d @ [row]\<rparr>) d = (r, d')" by (meson surj_pair)
  from i have "\<exists>fs k ts. d' = d\<lparr>faults := fs, uuid_count := k, tasks := ts\<rparr>"
  proof (cases rule: insert_new_state)
    case (refused fs e)
    then have "d' = d\<lparr>faults := fs, uuid_count := uuid_count d, tasks := tasks d\<rparr>" by simp
    then show ?thesis by blast
  qed auto
  with i show ?thesis by (simp add: Task_Create_def)
qed

definition same_creds :: "'a skill_db_scheme \<Rightarrow> 'a skill_db_scheme \<Rightarrow> bool" where
  "same_creds d d' \<longleftrightarrow> user_credentials d' = user_credentials d"

lemma with_task_record_effect:
  assumes "with_task_record job task d = (task', d')"
  shows "same_creds d d' \<and> dt_Credentials task' = dt_Credentials task"
  using Task_Create_state [of "dj_tenantID job" "Some (cv_ID (dj_convo job))" "''Agent task: '' @ dt_ProfileName task" d] assms
  by (auto simp: with_task_record_def same_creds_def split: prod.splits sum.splits)

lemma with_active_skills_effect:
  assumes "with_active_skills S job task d = (task', d')"
  shows "same_creds d d' \<and> dt_Credentials task' = dt_Credentials task"
proof -
  have "\<exists>fs. snd (ListActiveSkills (dj_tenantID job) (dj_userID job) d) = d\<lparr>faults := fs\<rparr>"
    unfolding ListActiveSkills_def snd_wrapped by (rule query_snd)
  then show ?thesis using assms
    by (auto simp: with_active_skills_def same_creds_def split: prod.splits sum.splits if_splits)
qed

text \<open>Where a credential of a task comes from.\<close>

definition own_credential :: "aead \<Rightarrow> string \<Rightarrow> string \<Rightarrow> UserCredential list \<Rightarrow> TaskCredential \<Rightarrow> bool" where
  "own_credential A tenant user creds c \<longleftrightarrow>
     (\<exists>uc \<in> set creds. cred_key uc = (tenant, user, tc_Provider c) \<and>
        decrypt A (uc_EncryptedToken uc) = Inr (tc_Token c) \<and> set (tc_Scopes c) \<subseteq> set (scope_list (uc_Scopes uc)))"

lemma Cred_Get_creds: "\<exists>fs. snd (Cred_Get t u p d) = d\<lparr>faults := fs\<rparr>"
  unfolding Cred_Get_def by (rule query_snd_case)

lemma IssueToken_creds: "user_credentials (snd (IssueToken A req d)) = user_credentials d"
  using Cred_Get_creds [of "tr_TenantID req" "tr_UserID req" "tr_Provider req" d]
  by (auto simp: IssueToken_def Let_def split: prod.splits sum.splits)

lemma issued_from_own_credential:
  assumes "IssueToken A req d = (Inr resp, d')"
  shows "\<exists>c \<in> set (user_credentials d). cred_key c = (tr_TenantID req, tr_UserID req, tr_Provider req) \<and>
    decrypt A (uc_EncryptedToken c) = Inr (to_Token resp) \<and> set (to_Scopes resp) \<subseteq> set (scope_list (uc_Scopes c))"
proof -
  obtain c d1 where g: "Cred_Get (tr_TenantID req) (tr_UserID req) (tr_Provider req) d = (Inr c, d1)"
    using assms by (auto simp: IssueToken_def split: prod.splits sum.splits)
  have "decrypt A (uc_EncryptedToken c) = Inr (to_Token resp)"
    "to_Scopes resp = intersectScopes (tr_Scopes req) (scope_list (uc_Scopes c))"
    using assms g by (auto simp: IssueToken_def Let_def split: sum.splits if_splits)
  then show ?thesis
    using Cred_Get_Inr(1) [OF g] intersectScopes_sound [of "tr_Scopes req" "scope_list (uc_Scopes c)"] by auto
qed

lemma issue_all_effect:
  assumes "issue_all A t u conv ps d = (cs, d')"
  shows "same_creds d d' \<and> (\<forall>c \<in> set cs. own_credential A t u (user_credentials d) c)"
  using assms
proof (induction ps arbitrary: d cs d')
  case (Cons p ps)
  let ?req = "\<lparr>tr_TenantID = t, tr_UserID = u, tr_Provider = pi_Provider p, tr_Scopes = [],
             tr_AgentInstanceID = '''', tr_ConversationID = conv, tr_SkillName = ''''\<rparr>"
  obtain r d1 where i: "IssueToken A ?req d = (r, d1)" by (meson surj_pair)
  obtain cs2 d2 where rest: "issue_all A t u conv ps d1 = (cs2, d2)" by (meson surj_pair)
  have d1: "user_credentials d1 = user_credentials d" using IssueToken_creds [of A ?req d] i by simp
  note ih = Cons.IH [OF rest]
  show ?case
  proof (cases r)
    case (Inl e)
    then show ?thesis using Cons.prems i rest ih d1 by (simp add: same_creds_def)
  next
    case (Inr resp)
    have "own_credential A t u (user_credentials d) \<lparr>tc_Provider = pi_Provider p, tc_Token = to_Token resp,
        tc_Scopes = to_Scopes resp, tc_ExpiresIn = to_ExpiresIn resp\<rparr>"
      using issued_from_own_credential [OF i [unfolded Inr]] by (auto simp: own_credential_def)
    then show ?thesis using Inr Cons.prems i rest ih d1 by (auto simp: same_creds_def)
  qed
qed (simp add: same_creds_def)

lemma with_credentials_effect:
  assumes "with_credentials S job task d = (task', d')" "dt_Credentials task = []" "svc_broker S = Some A"
  shows "\<forall>c \<in> set (dt_Credentials task'). own_credential A (dj_tenantID job) (dj_userID job) (user_credentials d) c"
proof (cases "dj_userID job = ''''")
  case False
  obtain r d1 where l: "ListProviders (dj_tenantID job) (dj_userID job) d = (r, d1)" by (meson surj_pair)
  have "\<exists>fs. snd (Cred_ListByUser (dj_tenantID job) (dj_userID job) d) = d\<lparr>faults := fs\<rparr>"
    unfolding Cred_ListByUser_def snd_wrapped by (rule query_snd)
  then have "user_credentials d1 = user_credentials d"
    using l by (cases "Cred_ListByUser (dj_tenantID job) (dj_userID job) d"; cases "fst (Cred_ListByUser (dj_tenantID job) (dj_userID job) d)")
      (auto simp: ListProviders_def)
  then show ?thesis
    using assms False l issue_all_effect [of A "dj_tenantID job" "dj_userID job" "cv_ID (dj_convo job)" _ d1]
    by (cases r) (auto simp: with_credentials_def split: prod.splits)
qed (use assms in \<open>simp add: with_credentials_def\<close>)

lemma with_credentials_none:
  assumes "with_credentials S job task d = (task', d')" "svc_broker S = None"
  shows "task' = task"
  using assms by (simp add: with_credentials_def)

lemma with_instance_creds: "dt_Credentials (fst (with_instance S job task s)) = dt_Credentials task"
  by (auto simp: with_instance_def split: prod.splits sum.splits option.splits)

lemma apply_profile_creds: "dt_Credentials (apply_profile ps task) = dt_Credentials task"
  by (auto simp: apply_profile_def Let_def split: prod.splits option.splits)

lemma Publish_new:
  "set (published (snd (Publish subj p n))) \<subseteq> insert (subj, p) (set (published n))"
  by (auto simp: Publish_def split: list.splits option.splits)

lemma dispatchTask_new:
  assumes "(subj, TaskMsg t) \<in> set (published (gw_nats (snd (dispatchTask dp task g))))"
    "(subj, TaskMsg t) \<notin> set (published (gw_nats g))"
  shows "dt_Credentials t = dt_Credentials task"
proof -
  have pub: "published (gw_nats (snd (dispatchTask (Some x) task g))) =
      published (snd (if dt_InstanceID task \<noteq> '''' then DispatchToInstance x task (dt_InstanceID task) (gw_nats g)
                 else Dispatch x task (gw_nats g)))" for x
    by (auto simp: dispatchTask_def split: prod.splits sum.splits if_splits)
  show ?thesis
  proof (cases dp)
    case None
    then show ?thesis using assms by (simp add: dispatchTask_def)
  next
    case (Some x)
    show ?thesis
      using assms Publish_new [of "InstanceSubject (dt_InstanceID task)" "TaskMsg (task\<lparr>dt_InstanceID := dt_InstanceID task\<rparr>)" "gw_nats g"]
        Publish_new [of "PoolSubject (dt_ProfileName task)" "TaskMsg task" "gw_nats g"]
      unfolding Some pub by (auto simp: DispatchToInstance_def Dispatch_def Let_def split: if_splits)
  qed
qed

text \<open>The task that \<open>dispatchToAgent\<close> starts from, and the run of its steps.\<close>

definition first_task :: "'rt Services \<Rightarrow> string \<Rightarrow> dispatch_job \<Rightarrow> DB_Message list \<Rightarrow> DispatchTask" where
  "first_task S taskID job msgs = apply_profile (svc_profiles S)
     (zero_task\<lparr>dt_TaskID := taskID, dt_ConversationID := cv_ID (dj_convo job), dt_TenantID := dj_tenantID job,
        dt_ProfileName := (if dj_profileName job = '''' then ''default-orchestrator'' else dj_profileName job),
        dt_ProfileType := (if dj_profileType job = '''' then ''orchestrator'' else dj_profileType job),
        dt_Messages := buildMessages (svc_parse_blocks S) msgs\<rparr>)"

lemma dispatchToAgent_cases:
  obtains (unread) e d1 where "ListMessages (cv_ID (dj_convo job)) 500 (gw_db g) = (Inl e, d1)"
      "dispatchToAgent S taskID job g = g\<lparr>gw_db := d1\<rparr>"
    | (sent) msgs fs task1 d2 task2 d3 task3 d4 task4 rt5 d5
    where "with_task_record job (first_task S taskID job msgs) ((gw_db g)\<lparr>faults := fs\<rparr>) = (task1, d2)"
      "ListMessages (cv_ID (dj_convo job)) 500 (gw_db g) = (Inr msgs, (gw_db g)\<lparr>faults := fs\<rparr>)"
      "with_active_skills S job task1 d2 = (task2, d3)"
      "with_credentials S job task2 d3 = (task3, d4)"
      "with_instance S job task3 (gw_rt g, d4) = (task4, rt5, d5)"
      "dispatchToAgent S taskID job g = snd (dispatchTask (svc_dispatcher S) task4 (g\<lparr>gw_db := d5, gw_rt := rt5\<rparr>))"
proof -
  obtain r d1 where l: "ListMessages (cv_ID (dj_convo job)) 500 (gw_db g) = (r, d1)" by (meson surj_pair)
  then obtain fs where d1: "d1 = (gw_db g)\<lparr>faults := fs\<rparr>"
    using ListMessages_state [of "cv_ID (dj_convo job)" 500 "gw_db g"] by auto
  show thesis
  proof (cases r)
    case (Inl e)
    with l show thesis by (intro unread) (simp_all add: dispatchToAgent_def)
  next
    case (Inr msgs)
    obtain task1 d2 where s1: "with_task_record job (first_task S taskID job msgs) d1 = (task1, d2)" by (meson surj_pair)
    obtain task2 d3 where s2: "with_active_skills S job task1 d2 = (task2, d3)" by (meson surj_pair)
    obtain task3 d4 where s3: "with_credentials S job task2 d3 = (task3, d4)" by (meson surj_pair)
    obtain task4 rt5 d5 where s4: "with_instance S job task3 (gw_rt g, d4) = (task4, rt5, d5)"
      using prod_cases3 by blast
    have "dispatchToAgent S taskID job g = snd (dispatchTask (svc_dispatcher S) task4 (g\<lparr>gw_db := d5, gw_rt := rt5\<rparr>))"
      using l Inr s1 s2 s3 s4 by (simp add: dispatchToAgent_def first_task_def Let_def)
    with s1 s2 s3 s4 l Inr d1 show thesis by (intro sent) simp_all
  qed
qed

lemma first_task_fields: "dt_Credentials (first_task S taskID job msgs) = []" "dt_DelegationDepth (first_task S taskID job msgs) = 0"
  by (auto simp: first_task_def apply_profile_def zero_task_def Let_def split: prod.splits option.splits)

text \<open>C37: an agent gets only the credentials of the user it works for. Every credential in a task that
  \<open>dispatchToAgent\<close> publishes is the decrypted token of a credential stored for the job's own tenant
  and user, with scopes stored for it; without a broker a task carries none.\<close>

theorem tasks_carry_own_credentials:
  assumes "(subj, TaskMsg t) \<in> set (published (gw_nats (dispatchToAgent S taskID job g)))"
    and "(subj, TaskMsg t) \<notin> set (published (gw_nats g))"
  shows "case svc_broker S of
      None \<Rightarrow> dt_Credentials t = []
    | Some A \<Rightarrow> \<forall>c \<in> set (dt_Credentials t).
        own_credential A (dj_tenantID job) (dj_userID job) (user_credentials (gw_db g)) c"
proof (cases rule: dispatchToAgent_cases [of job g S taskID])
  case (unread e d1)
  then show ?thesis using assms by simp
next
  case (sent msgs fs task1 d2 task2 d3 task3 d4 task4 rt5 d5)
  have "dt_Credentials t = dt_Credentials task4"
    using assms sent(6) dispatchTask_new [of subj t "svc_dispatcher S" task4 "g\<lparr>gw_db := d5, gw_rt := rt5\<rparr>"] by simp
  also have "\<dots> = dt_Credentials task3" using with_instance_creds [of S job task3 "(gw_rt g, d4)"] sent(5) by simp
  finally have t: "dt_Credentials t = dt_Credentials task3" .
  have c2: "dt_Credentials task2 = []" "user_credentials d3 = user_credentials (gw_db g)"
    using with_task_record_effect [OF sent(1)] with_active_skills_effect [OF sent(3)]
    by (simp_all add: first_task_fields same_creds_def)
  show ?thesis
    using with_credentials_effect [OF sent(4) c2(1)] with_credentials_none [OF sent(4)] t c2
    by (auto split: option.splits)
qed

section \<open>How an instance is addressed\<close>

text \<open>A claimed instance is addressed by its pod name once, and by its id from then on. When the
  routing table has no instance for the conversation and one is claimed, the task is
  published on the subject of the pod's name; the message after it finds the route, which holds
  the id of the instance row, and is published on the subject of that id.\<close>

theorem pod_name_first_id_afterwards:
  assumes "GetProfileByName (dj_tenantID job) (dt_ProfileName task) d = (Inr p, d1)"
    and "svc_route S = memory_table" "Memory_Get (cv_ID (dj_convo job)) m = ''''"
    and "adapter_ClaimInstance (dj_tenantID job) (ap_ID p) d1 = (Inr (Some i), d2)"
    and "aii_ID i \<noteq> ''''" "aii_PodName i \<noteq> ''''"
    and "with_instance S job task (m, d) = (task1, m1, d1')"
    and "GetProfileByName (dj_tenantID job) (dt_ProfileName task) d1' = (Inr p', d3)"
    and "with_instance S job task (m1, d1') = (task2, m2, d2')"
    and "\<not> dp_noop dp" "pub_outcomes (gw_nats g) = []"
  shows "published (gw_nats (snd (dispatchTask (Some dp) task1 g))) =
           published (gw_nats g) @ [(InstanceSubject (aii_PodName i), TaskMsg task1)] \<and>
         published (gw_nats (snd (dispatchTask (Some dp) task2 g))) =
           published (gw_nats g) @ [(InstanceSubject (aii_ID i), TaskMsg task2)]"
proof -
  have 1: "task1 = task\<lparr>dt_InstanceID := aii_PodName i\<rparr>" "m1 = Memory_Set (cv_ID (dj_convo job)) (aii_ID i) 0 m"
    using assms(1-7) by (simp_all add: with_instance_def EnsureInstance_def memory_table_def agentRepoAdapter_def)
  then have 2: "task2 = task\<lparr>dt_InstanceID := aii_ID i\<rparr>"
    using assms(2,5,8,9) by (simp add: with_instance_def EnsureInstance_def memory_table_def Memory_Get_def Memory_Set_def)
  have "published (gw_nats (snd (dispatchTask (Some dp) task1 g))) =
           published (gw_nats g) @ [(InstanceSubject (aii_PodName i), TaskMsg task1)]"
    using 1 assms(6,10,11) by (simp add: dispatchTask_def DispatchToInstance_def Publish_def Let_def)
  moreover have "published (gw_nats (snd (dispatchTask (Some dp) task2 g))) =
           published (gw_nats g) @ [(InstanceSubject (aii_ID i), TaskMsg task2)]"
    using 2 assms(5,10,11) by (simp add: dispatchTask_def DispatchToInstance_def Publish_def Let_def)
  ultimately show ?thesis ..
qed

section \<open>A gateway to run\<close>

definition orch_profile :: AgentProfile where
  "orch_profile = \<lparr>ap_ID = ''p'', ap_TenantID = ''t'', ap_Name = ''default-orchestrator'', ap_ProfileType = ''orchestrator'',
     ap_Visibility = ''system'', ap_OwnerID = None, ap_SystemPrompt = '''', ap_ModelProvider = '''', ap_ModelID = '''',
     ap_Temperature = 0, ap_MaxTokens = 0, ap_Skills = None, ap_CreatedAt = 0, ap_UpdatedAt = 0\<rparr>"

definition gh_cred :: UserCredential where
  "gh_cred = \<lparr>uc_ID = ''k'', uc_TenantID = ''t'', uc_UserID = ''u'', uc_Provider = ''github'', uc_EncryptedToken = ''nonosecret'',
     uc_Scopes = Some [''repo''], uc_TokenType = ''pat'', uc_ExpiresAt = None, uc_RefreshToken = None, uc_Metadata = '''',
     uc_CreatedAt = 0, uc_UpdatedAt = 0\<rparr>"

definition busy_db :: skill_db where
  "busy_db = one_skill\<lparr>agent_profiles := [orch_profile], agent_instances := [(warm_row ''w'' 3)\<lparr>ai_PodName := Some ''pod''\<rparr>],
     user_credentials := [gh_cred], messages := []\<rparr>"

definition busy_job :: dispatch_job where
  "busy_job = \<lparr>dj_convo = \<lparr>cv_ID = ''c'', cv_TenantID = ''t'', cv_UserID = Some ''u'', cv_Title = '''', cv_Status = ''active'', cv_CreatedAt = 0,
     cv_UpdatedAt = 0\<rparr>, dj_profileName = '''', dj_profileType = '''', dj_tenantID = ''t'', dj_userID = ''u''\<rparr>"

definition busy_services :: "MemoryRoutingTable Services" where
  "busy_services = \<lparr>svc_parse_blocks = (\<lambda>_. None), svc_parse_spec = (\<lambda>_. None), svc_profiles = Map.empty,
     svc_broker = Some ref_aead, svc_route = memory_table, svc_dispatcher = Some \<lparr>dp_noop = False\<rparr>\<rparr>"

definition busy_gateway :: "(MemoryRoutingTable, skill_db) gateway" where
  "busy_gateway = \<lparr>gw_db = busy_db, gw_rt = NewMemoryRoutingTable,
     gw_nats = \<lparr>published = [], pub_outcomes = []\<rparr>, gw_watchers = []\<rparr>"

lemmas busy_defs = busy_db_def one_skill_def warm_row_def

lemma busy_profile:
  "agent_profiles d = [orch_profile] \<Longrightarrow> faults d = [] \<Longrightarrow>
   GetProfileByName ''t'' ''default-orchestrator'' d = (Inr orch_profile, d)"
  by (simp add: GetProfileByName_def orch_profile_def select_one_def scanProfile_def)

definition pod_info :: AgentInstanceInfo where
  "pod_info = adapter_info (claimed_row 4 ((warm_row ''w'' 3)\<lparr>ai_PodName := Some ''pod''\<rparr>))"

definition claimed_db :: skill_db where
  "claimed_db = busy_db\<lparr>agent_instances := [claimed_row 4 ((warm_row ''w'' 3)\<lparr>ai_PodName := Some ''pod''\<rparr>)]\<rparr>"

lemma busy_claim: "adapter_ClaimInstance ''t'' ''p'' busy_db = (Inr (Some pod_info), claimed_db)"
  by (simp add: adapter_ClaimInstance_def ClaimInstance_result claim_stmt_def busy_defs warm_candidates_def
      order_by_def desc_nulls_first_def claimed_row_def update_where_def pod_info_def claimed_db_def)

definition busy_task :: DispatchTask where
  "busy_task = zero_task\<lparr>dt_ProfileName := ''default-orchestrator''\<rparr>"

lemma busy_fields [simp]:
  "agent_profiles busy_db = [orch_profile]" "faults busy_db = []"
  "agent_profiles claimed_db = [orch_profile]" "faults claimed_db = []"
  by (simp_all add: claimed_db_def busy_db_def one_skill_def)

lemma busy_instance:
  "with_instance busy_services busy_job busy_task (NewMemoryRoutingTable, busy_db) =
     (busy_task\<lparr>dt_InstanceID := ''pod''\<rparr>, Memory_Set ''c'' ''w'' 0 NewMemoryRoutingTable, claimed_db)"
  using busy_profile [of busy_db] busy_claim
  by (simp add: with_instance_def EnsureInstance_def memory_table_def agentRepoAdapter_def busy_services_def busy_job_def
      busy_task_def Memory_Get_def NewMemoryRoutingTable_def orch_profile_def
      pod_info_def adapter_info_def claimed_row_def warm_row_def)

lemma busy_instance_again:
  "with_instance busy_services busy_job busy_task (Memory_Set ''c'' ''w'' 0 NewMemoryRoutingTable, claimed_db) =
     (busy_task\<lparr>dt_InstanceID := ''w''\<rparr>, Memory_Set ''c'' ''w'' 0 NewMemoryRoutingTable, claimed_db)"
  using busy_profile [of claimed_db]
  by (simp add: with_instance_def EnsureInstance_def memory_table_def busy_services_def busy_job_def
      busy_task_def Memory_Get_def Memory_Set_def NewMemoryRoutingTable_def)

theorem pod_name_first_id_afterwards_witness:
  "published (gw_nats (snd (dispatchTask (Some \<lparr>dp_noop = False\<rparr>) (busy_task\<lparr>dt_InstanceID := ''pod''\<rparr>) busy_gateway))) =
     [(''volund.agent.pod.task'', TaskMsg (busy_task\<lparr>dt_InstanceID := ''pod''\<rparr>))] \<and>
   published (gw_nats (snd (dispatchTask (Some \<lparr>dp_noop = False\<rparr>) (busy_task\<lparr>dt_InstanceID := ''w''\<rparr>) busy_gateway))) =
     [(''volund.agent.w.task'', TaskMsg (busy_task\<lparr>dt_InstanceID := ''w''\<rparr>))]"
proof -
  have p: "GetProfileByName (dj_tenantID busy_job) (dt_ProfileName busy_task) d = (Inr orch_profile, d)"
    if "d \<in> {busy_db, claimed_db}" for d
    using that by (auto simp: busy_job_def busy_task_def busy_profile)
  have c: "adapter_ClaimInstance (dj_tenantID busy_job) (ap_ID orch_profile) busy_db = (Inr (Some pod_info), claimed_db)"
    using busy_claim by (simp add: busy_job_def orch_profile_def)
  show ?thesis
    using pod_name_first_id_afterwards [OF p _ _ c _ _ busy_instance p busy_instance_again,
        of "\<lparr>dp_noop = False\<rparr>" busy_gateway]
    by (simp add: busy_services_def busy_job_def Memory_Get_def NewMemoryRoutingTable_def pod_info_def adapter_info_def
        claimed_row_def warm_row_def busy_gateway_def InstanceSubject_def)
qed

definition own_cred :: TaskCredential where
  "own_cred = \<lparr>tc_Provider = ''github'', tc_Token = ''secret'', tc_Scopes = [''repo''], tc_ExpiresIn = 300\<rparr>"

lemma busy_credentials:
  assumes "user_credentials d = [gh_cred]" "faults d = []" "dt_Credentials task = []"
  shows "fst (with_credentials busy_services busy_job task d) = task\<lparr>dt_Credentials := [own_cred]\<rparr>"
proof -
  let ?req = "\<lparr>tr_TenantID = ''t'', tr_UserID = ''u'', tr_Provider = ''github'', tr_Scopes = [],
          tr_AgentInstanceID = '''', tr_ConversationID = ''c'', tr_SkillName = ''''\<rparr>"
  have "fst (IssueToken ref_aead ?req d) = Inr \<lparr>to_Token = ''secret'', to_ExpiresIn = 300, to_Scopes = [''repo'']\<rparr>"
    using assms
    by (simp add: IssueToken_def Cred_Get_def scanCredential_def gh_cred_def select_one_def cred_key_def intersectScopes_def
        scope_list_def decrypt_def ref_aead_def Let_def)
  moreover have "ListProviders ''t'' ''u'' d =
    (Inr [\<lparr>pi_Provider = ''github'', pi_TokenType = ''pat'', pi_Scopes = Some [''repo''], pi_ExpiresAt = None,
           pi_CreatedAt = 0, pi_UpdatedAt = 0\<rparr>], d)"
    using assms by (simp add: ListProviders_def Cred_ListByUser_def gh_cred_def order_by_text_def)
  ultimately show ?thesis
    using assms(3)
    by (cases "IssueToken ref_aead ?req d") (simp add: with_credentials_def busy_services_def busy_job_def own_cred_def)
qed

lemma with_instance_depth: "dt_DelegationDepth (fst (with_instance S job task s)) = dt_DelegationDepth task"
  by (auto simp: with_instance_def split: prod.splits sum.splits option.splits)

lemma dispatchTask_publishes:
  assumes "\<not> dp_noop dp" "pub_outcomes (gw_nats g) = []" "dt_DelegationDepth task = 0"
  shows "\<exists>subj t. (subj, TaskMsg t) \<in> set (published (gw_nats (snd (dispatchTask (Some dp) task g)))) \<and>
    dt_Credentials t = dt_Credentials task"
  using assms
  by (cases "dt_InstanceID task = ''''")
    (auto simp: dispatchTask_def Dispatch_def DispatchToInstance_def Publish_def MaxDelegationDepth_def Let_def)

lemma busy_publishes:
  assumes "user_credentials d = [gh_cred]" "faults d = []" "dt_Credentials task = []" "dt_DelegationDepth task = 0"
    and "with_credentials busy_services busy_job task d = (task3, d4)"
    and "with_instance busy_services busy_job task3 (rt, d4) = (task4, rt5, d5)"
  shows "\<exists>subj t. (subj, TaskMsg t) \<in> set (published (gw_nats
      (snd (dispatchTask (Some \<lparr>dp_noop = False\<rparr>) task4 (busy_gateway\<lparr>gw_db := d5, gw_rt := rt5\<rparr>))))) \<and>
      dt_Credentials t = [own_cred]"
proof -
  have "task3 = task\<lparr>dt_Credentials := [own_cred]\<rparr>" using busy_credentials [OF assms(1-3)] assms(5) by simp
  then have "dt_Credentials task4 = [own_cred]" "dt_DelegationDepth task4 = 0"
    using assms(4,6) with_instance_creds [of busy_services busy_job task3 "(rt, d4)"]
      with_instance_depth [of busy_services busy_job task3 "(rt, d4)"] by simp_all
  then show ?thesis
    using dispatchTask_publishes [of "\<lparr>dp_noop = False\<rparr>" "busy_gateway\<lparr>gw_db := d5, gw_rt := rt5\<rparr>" task4]
    by (simp add: busy_gateway_def)
qed

lemma with_task_record_quiet:
  "faults d = [] \<Longrightarrow> faults (snd (with_task_record job task d)) = [] \<and>
     dt_DelegationDepth (fst (with_task_record job task d)) = dt_DelegationDepth task"
  by (auto simp: with_task_record_def Task_Create_def scanTask_def split: sum.splits)

lemma with_active_skills_quiet:
  "faults d = [] \<Longrightarrow> faults (snd (with_active_skills S job task d)) = [] \<and>
     dt_DelegationDepth (fst (with_active_skills S job task d)) = dt_DelegationDepth task"
  by (auto simp: with_active_skills_def ListActiveSkills_def)

lemma busy_dispatch:
  "\<exists>subj t. (subj, TaskMsg t) \<in> set (published (gw_nats (dispatchToAgent busy_services ''task-1'' busy_job busy_gateway))) \<and>
     dt_Credentials t = [own_cred]"
proof (cases rule: dispatchToAgent_cases [of busy_job busy_gateway busy_services "''task-1''"])
  case (unread e d1)
  then show ?thesis by (simp add: ListMessages_def busy_gateway_def)
next
  case (sent msgs fs task1 d2 task2 d3 task3 d4 task4 rt5 d5)
  have "faults ((gw_db busy_gateway)\<lparr>faults := fs\<rparr>) = []"
    using sent(2) by (simp add: ListMessages_def busy_gateway_def)
  then have "faults d3 = []" "dt_DelegationDepth task2 = 0"
    using with_task_record_quiet [of "(gw_db busy_gateway)\<lparr>faults := fs\<rparr>" busy_job "first_task busy_services ''task-1'' busy_job msgs"]
      with_active_skills_quiet [of d2 busy_services busy_job task1] sent(1,3) by (simp_all add: first_task_fields)
  moreover have "dt_Credentials task2 = []" "user_credentials d3 = [gh_cred]"
    using with_task_record_effect [OF sent(1)] with_active_skills_effect [OF sent(3)]
    by (simp_all add: first_task_fields same_creds_def busy_gateway_def busy_db_def)
  ultimately show ?thesis
    using busy_publishes [OF _ _ _ _ sent(4,5)] sent(6) by (simp add: busy_services_def)
qed

theorem tasks_carry_own_credentials_witness:
  "\<exists>subj t. (subj, TaskMsg t) \<in> set (published (gw_nats (dispatchToAgent busy_services ''task-1'' busy_job busy_gateway))) \<and>
     dt_Credentials t \<noteq> [] \<and>
     (\<forall>c \<in> set (dt_Credentials t). own_credential ref_aead ''t'' ''u'' [gh_cred] c)"
proof -
  obtain subj t where new: "(subj, TaskMsg t) \<in> set (published (gw_nats (dispatchToAgent busy_services ''task-1'' busy_job busy_gateway)))"
    "dt_Credentials t = [own_cred]" using busy_dispatch by blast
  have "svc_broker busy_services = Some ref_aead" "published (gw_nats busy_gateway) = []"
    "dj_tenantID busy_job = ''t''" "dj_userID busy_job = ''u''" "user_credentials (gw_db busy_gateway) = [gh_cred]"
    by (simp_all add: busy_services_def busy_gateway_def busy_job_def busy_db_def)
  then have "\<forall>c \<in> set (dt_Credentials t). own_credential ref_aead ''t'' ''u'' [gh_cred] c"
    using tasks_carry_own_credentials [OF new(1)] by simp
  with new show ?thesis by (intro exI [of _ subj] exI [of _ t]) simp
qed

end
