(* ===== verification/API_Services.thy ===== *)
theory API_Services
  imports Serve Attachments Dispatch_Props
begin

text \<open>
  The gateway as a whole: the handlers of \<^verbatim>\<open>internal/gateway/api\<close> behind their routes, over one state that
  holds everything they change. \<open>Services\<close> of \<^verbatim>\<open>api.go\<close> is the record \<open>api\<close>; \<open>services\<close> says what each
  handler reads from its request (body, path values, query, claims) and which part of the state it gets.
  The decoders of the bodies, the OAuth2, OIDC and vector libraries and the WebSocket connections are parameters.
\<close>

section \<open>State and services\<close>

text \<open>\<open>gs_jobs\<close> are the \<open>dispatchToAgent\<close> goroutines that have not run yet, \<open>gs_src\<close> the random source, \<open>gs_states\<close>
  and \<open>gs_sent\<close> belong to the connect engine.\<close>

record ('rt, 'ep, 'w, 'd) server =
  gs_gw :: "('rt, 'd) gateway"
  gs_src :: entropy
  gs_states :: "string \<rightharpoonup> AuthState"
  gs_sent :: "http_post list"
  gs_oidc :: "'ep OIDCManager option"
  gs_disk :: disk
  gs_router :: "'w Router"
  gs_world :: 'w
  gs_jobs :: "dispatch_job list"

text \<open>\<open>json.Decoder\<close> on the body, for each input type, with its error text; and the multipart form\<close>

record decoders =
  dec_register :: "string \<Rightarrow> string + RegisterInput"
  dec_login :: "string \<Rightarrow> string + (string \<times> string)"
  dec_refresh :: "string \<Rightarrow> string + string"
  dec_logout :: "string \<Rightarrow> string + string"
  dec_create_tenant :: "string \<Rightarrow> string + create_tenant"
  dec_update_tenant :: "string \<Rightarrow> string + (string \<times> string)"
  dec_invite :: "string \<Rightarrow> string + (string \<times> string)"
  dec_accept :: "string \<Rightarrow> string + accept_account"
  dec_agent :: "string \<Rightarrow> string + agent_input"
  dec_agent_patch :: "string \<Rightarrow> string + agent_patch"
  dec_conversation :: "string \<Rightarrow> string + string"
  dec_title :: "string \<Rightarrow> string + string"
  dec_message :: "string \<Rightarrow> string + post_message"
  dec_publish :: "string \<Rightarrow> string + publish_skill"
  dec_update_skill :: "string \<Rightarrow> string + update_skill"
  dec_store_memory :: "string \<Rightarrow> string + store_memory"
  dec_search_memory :: "string \<Rightarrow> string + search_memory"
  dec_store_credential :: "string \<Rightarrow> string + store_credential"
  dec_issue_token :: "string \<Rightarrow> string + issue_token"
  dec_provider_credentials :: "string \<Rightarrow> string + (string \<times> string)"
  dec_form :: "string \<Rightarrow> upload_form"

record ('rt, 'ep, 'w) api =
  ae_auth :: Service
  ae_dec :: decoders
  ae_dispatch :: "'rt Services"
  ae_visit :: "string list \<Rightarrow> string list"
  ae_authCodeURL :: "'ep oidcProvider \<Rightarrow> string \<Rightarrow> string"
  ae_redeem :: "'ep redeemer"
  ae_verify :: "'ep verifier"
  ae_engine :: "string option"
  ae_post :: "http_post \<Rightarrow> http_outcome"
  ae_page :: "string \<Rightarrow> string"
  ae_parse_time :: "string \<Rightarrow> time option"
  ae_parse_providers :: "string \<Rightarrow> skill_provider list option"
  ae_provider_ids :: "string \<Rightarrow> string list"
  ae_vectors :: vector_ext
  ae_files :: attachment_services
  ae_tick :: "'w \<Rightarrow> time"

abbreviation broker_of :: "('rt, 'ep, 'w) api \<Rightarrow> aead option" where
  "broker_of E \<equiv> svc_broker (ae_dispatch E)"

abbreviation db_of :: "('rt, 'ep, 'w, 'd) server \<Rightarrow> 'd" where
  "db_of s \<equiv> gw_db (gs_gw s)"

definition put_db :: "'d \<Rightarrow> ('rt, 'ep, 'w, 'd) server \<Rightarrow> ('rt, 'ep, 'w, 'd) server" where
  "put_db d s = s\<lparr>gs_gw := (gs_gw s)\<lparr>gw_db := d\<rparr>\<rparr>"

text \<open>A handler that changes the database, and one that also draws random bytes\<close>

definition db_page :: "(request \<Rightarrow> 'd \<Rightarrow> response \<times> 'd) \<Rightarrow> ('rt, 'ep, 'w, 'd) server page" where
  "db_page h rq s = (case h rq (db_of s) of (r, d) \<Rightarrow> (Some r, put_db d s))"

definition auth_page :: "(request \<Rightarrow> 'd \<times> entropy \<Rightarrow> response \<times> 'd \<times> entropy) \<Rightarrow> ('rt, 'ep, 'w, 'd) server page" where
  "auth_page h rq s = (case h rq (db_of s, gs_src s) of (r, d, src) \<Rightarrow> (Some r, (put_db d s)\<lparr>gs_src := src\<rparr>))"

text \<open>\<open>claimsFromReq\<close> gives nil without claims, and the first use of it panics.\<close>

definition claimsFromReq :: "(Claims \<Rightarrow> 's page) \<Rightarrow> 's page" where
  "claimsFromReq h rq s = (case rq_claims rq of None \<Rightarrow> (None, s) | Some claims \<Rightarrow> h claims rq s)"

text \<open>The connect engine, the sign-on manager and the store as parts of the state\<close>

definition engine_page ::
  "(request \<Rightarrow> 'd oauth \<Rightarrow> response option \<times> 'd oauth) \<Rightarrow> ('rt, 'ep, 'w, 'd) server page" where
  "engine_page h rq s =
     (case h rq \<lparr>oa_db = db_of s, oa_src = gs_src s, oa_states = gs_states s, oa_sent = gs_sent s\<rparr> of
        (r, e) \<Rightarrow> (r, (put_db (oa_db e) s)\<lparr>gs_src := oa_src e, gs_states := oa_states e, gs_sent := oa_sent e\<rparr>))"

definition sso_page ::
  "(request \<Rightarrow> 'ep OIDCManager option \<times> 'd \<times> entropy \<Rightarrow> response \<times> 'ep OIDCManager option \<times> 'd \<times> entropy) \<Rightarrow>
   ('rt, 'ep, 'w, 'd) server page" where
  "sso_page h rq s =
     (case h rq (gs_oidc s, db_of s, gs_src s) of
        (r, m, d, src) \<Rightarrow> (Some r, (put_db d s)\<lparr>gs_src := src, gs_oidc := m\<rparr>))"

definition file_page :: "(request \<Rightarrow> 'd \<times> disk \<Rightarrow> response \<times> 'd \<times> disk) \<Rightarrow> ('rt, 'ep, 'w, 'd) server page" where
  "file_page h rq s = (case h rq (db_of s, gs_disk s) of (r, d, k) \<Rightarrow> (Some r, (put_db d s)\<lparr>gs_disk := k\<rparr>))"

text \<open>\<open>embedFn\<close> asks the router, which counts the outcome against the provider's circuit breaker. The handlers ask
  for an embedding only when the body decodes and the text is not empty.\<close>

definition embedFn ::
  "('w \<Rightarrow> time) \<Rightarrow> string \<Rightarrow> ('rt, 'ep, 'w, 'd) server \<Rightarrow> rat list list result \<times> ('rt, 'ep, 'w, 'd) server" where
  "embedFn tick text s =
     (case Router_Embed tick '''' ''text-embedding-3-small'' [text] (gs_router s) (gs_world s) of
        (res, r, w) \<Rightarrow> (map_sum id fst res, s\<lparr>gs_router := r, gs_world := w\<rparr>))"

definition embed_body ::
  "('w \<Rightarrow> time) \<Rightarrow> string option \<Rightarrow> ('rt, 'ep, 'w, 'd) server \<Rightarrow> rat list list result \<times> ('rt, 'ep, 'w, 'd) server" where
  "embed_body tick text s =
     (case text of None \<Rightarrow> (Inr [], s) | Some t \<Rightarrow> if t = '''' then (Inr [], s) else embedFn tick t s)"

definition store_memory_page ::
  "('rt, 'ep, 'w) api \<Rightarrow> Claims \<Rightarrow> ('rt, 'ep, 'w, 'a memory_db_scheme) server page" where
  "store_memory_page E claims rq s =
     (let body = dec_store_memory (ae_dec E) (rq_body rq) in
      (case embed_body (ae_tick E) (case body of Inl _ \<Rightarrow> None | Inr inp \<Rightarrow> Some (sm_Content inp)) s of
         (vecs, s1) \<Rightarrow> db_page (\<lambda>_. handleStoreMemory True (ae_vectors E) (Some vecs) claims body) rq s1))"

definition search_memory_page ::
  "('rt, 'ep, 'w) api \<Rightarrow> Claims \<Rightarrow> ('rt, 'ep, 'w, 'a memory_db_scheme) server page" where
  "search_memory_page E claims rq s =
     (let body = dec_search_memory (ae_dec E) (rq_body rq) in
      (case embed_body (ae_tick E) (case body of Inl _ \<Rightarrow> None | Inr inp \<Rightarrow> Some (se_Query inp)) s of
         (vecs, s1) \<Rightarrow>
           (case handleSearchMemory True (ae_vectors E) (Some vecs) claims body (db_of s1) of
              (r, d) \<Rightarrow> (r, put_db d s1))))"

text \<open>A posted message starts a goroutine.\<close>

definition post_message_page ::
  "('rt, 'ep, 'w) api \<Rightarrow> Claims \<Rightarrow> ('rt, 'ep, 'w, 'a conv_db_scheme) server page" where
  "post_message_page E claims rq s =
     (case handlePostMessage True claims (PathValue ''id'' rq) (dec_message (ae_dec E) (rq_body rq)) (db_of s) of
        (r, d, job) \<Rightarrow> (Some r, (put_db d s)\<lparr>gs_jobs := gs_jobs s @ (case job of None \<Rightarrow> [] | Some j \<Rightarrow> [j])\<rparr>))"

text \<open>\<open>ON DELETE CASCADE\<close> and \<open>SET NULL\<close> of the later migrations, when a tenant is removed\<close>

definition cascade_later :: "string \<Rightarrow> 'a oauth_db_scheme \<Rightarrow> 'a oauth_db_scheme" where
  "cascade_later uid d =
     (let gone = map cv_ID (filter (\<lambda>c. cv_TenantID c = uid) (conversations d)) in
      d\<lparr>user_credentials := delete_where (\<lambda>c. uc_TenantID c = uid) (user_credentials d),
        credential_audit_log := delete_where (\<lambda>e. ca_TenantID e = uid) (credential_audit_log d),
        tenant_skills := delete_where (\<lambda>(t, _). t = uid) (tenant_skills d),
        user_skills := delete_where (\<lambda>(t, _). t = uid) (user_skills d),
        usage_events := update_where (\<lambda>e. \<exists>c \<in> set gone. ue_ConversationID e = Some c) (\<lambda>e. e\<lparr>ue_ConversationID := None\<rparr>)
          (delete_where (\<lambda>e. ue_TenantID e = uid) (usage_events d)),
        tenant_quotas := delete_where (\<lambda>q. tq_TenantID q = uid) (tenant_quotas d),
        memories := delete_where (\<lambda>m. me_TenantID m = uid) (memories d),
        attachments := delete_where (\<lambda>a. at_ConversationID a \<in> set gone) (attachments d)\<rparr>)"

section \<open>The handlers behind the routes\<close>

text \<open>The repositories are always there when the routes are; the broker, the store and the sign-on manager may be missing.\<close>

primrec services :: "('rt, 'ep, 'w) api \<Rightarrow> endpoint \<Rightarrow> ('rt, 'ep, 'w, 'a oauth_db_scheme) server page" where
  "services E HandleRegister = auth_page (\<lambda>rq. handleRegister (ae_auth E) (dec_register (ae_dec E) (rq_body rq)))"
| "services E HandleLogin = auth_page (\<lambda>rq. handleLogin (ae_auth E) (dec_login (ae_dec E) (rq_body rq)))"
| "services E HandleRefresh = auth_page (\<lambda>rq. handleRefresh (ae_auth E) (dec_refresh (ae_dec E) (rq_body rq)))"
| "services E HandleLogout = auth_page (\<lambda>rq. handleLogout (dec_logout (ae_dec E) (rq_body rq)))"
| "services E HandleMe = claimsFromReq (\<lambda>claims. db_page (\<lambda>rq. handleMe claims))"
| "services E HandleOIDCProviders = (\<lambda>rq s. (Some (handleOIDCProviders (ae_visit E) (gs_oidc s)), s))"
| "services E HandleOIDCRedirect = sso_page (\<lambda>rq (m, d, src).
     case handleOIDCRedirect (ae_authCodeURL E) (PathValue ''provider'' rq) (m, src) of (r, m', src') \<Rightarrow> (r, m', d, src'))"
| "services E HandleOIDCCallback = sso_page (\<lambda>rq.
     handleOIDCCallback (ae_auth E) (ae_redeem E) (ae_verify E) (PathValue ''provider'' rq) rq)"
| "services E HandleCreateTenant = claimsFromReq (\<lambda>claims. db_page (\<lambda>rq.
     handleCreateTenant claims (dec_create_tenant (ae_dec E) (rq_body rq))))"
| "services E HandleListTenants = claimsFromReq (\<lambda>claims. db_page (\<lambda>rq. handleListTenants claims))"
| "services E HandleGetTenant = claimsFromReq (\<lambda>claims. db_page (\<lambda>rq. handleGetTenant claims (PathValue ''id'' rq)))"
| "services E HandleUpdateTenant = claimsFromReq (\<lambda>claims. db_page (\<lambda>rq.
     handleUpdateTenant claims (PathValue ''id'' rq) (dec_update_tenant (ae_dec E) (rq_body rq))))"
| "services E HandleDeleteTenant = claimsFromReq (\<lambda>claims. db_page (\<lambda>rq.
     handleDeleteTenant cascade_later claims (PathValue ''id'' rq)))"
| "services E HandleListMembers = claimsFromReq (\<lambda>claims. db_page (\<lambda>rq. handleListMembers claims (PathValue ''id'' rq)))"
| "services E HandleCreateInvite = claimsFromReq (\<lambda>claims. auth_page (\<lambda>rq.
     handleCreateInvite claims (PathValue ''id'' rq) (dec_invite (ae_dec E) (rq_body rq))))"
| "services E HandleAcceptInvite = auth_page (\<lambda>rq.
     handleAcceptInvite (ae_auth E) (rq_claims rq) (PathValue ''token'' rq) (dec_accept (ae_dec E) (rq_body rq)))"
| "services E HandleCreateAgent = claimsFromReq (\<lambda>claims. db_page (\<lambda>rq.
     handleCreateAgent claims (dec_agent (ae_dec E) (rq_body rq))))"
| "services E HandleListAgents = claimsFromReq (\<lambda>claims. db_page (\<lambda>rq. handleListAgents claims))"
| "services E HandleGetAgent = claimsFromReq (\<lambda>claims. db_page (\<lambda>rq. handleGetAgent claims (PathValue ''id'' rq)))"
| "services E HandleUpdateAgent = claimsFromReq (\<lambda>claims. db_page (\<lambda>rq.
     handleUpdateAgent claims (PathValue ''id'' rq) (dec_agent_patch (ae_dec E) (rq_body rq))))"
| "services E HandleDeleteAgent = claimsFromReq (\<lambda>claims. db_page (\<lambda>rq. handleDeleteAgent claims (PathValue ''id'' rq)))"
| "services E HandleCreateSystemAgent = claimsFromReq (\<lambda>claims. db_page (\<lambda>rq.
     handleCreateSystemAgent claims (dec_agent (ae_dec E) (rq_body rq))))"
| "services E HandleCreateConversation = claimsFromReq (\<lambda>claims. db_page (\<lambda>rq.
     handleCreateConversation claims (dec_conversation (ae_dec E) (rq_body rq))))"
| "services E HandleListConversations = claimsFromReq (\<lambda>claims. db_page (\<lambda>rq. handleListConversations claims))"
| "services E HandleGetConversation = claimsFromReq (\<lambda>claims. db_page (\<lambda>rq. handleGetConversation claims (PathValue ''id'' rq)))"
| "services E HandleUpdateConversation = claimsFromReq (\<lambda>claims. db_page (\<lambda>rq.
     handleUpdateConversation claims (PathValue ''id'' rq) (dec_title (ae_dec E) (rq_body rq))))"
| "services E HandleDeleteConversation = claimsFromReq (\<lambda>claims. db_page (\<lambda>rq. handleDeleteConversation claims (PathValue ''id'' rq)))"
| "services E HandlePostMessage = claimsFromReq (post_message_page E)"
| "services E HandleUploadAttachment = claimsFromReq (\<lambda>claims. file_page (\<lambda>rq.
     handleUploadAttachment (ae_files E) claims (PathValue ''id'' rq) (dec_form (ae_dec E) (rq_body rq))))"
| "services E HandleListAttachments = claimsFromReq (\<lambda>claims. db_page (\<lambda>rq. handleListAttachments (ae_files E) claims (PathValue ''id'' rq)))"
| "services E HandleGetAttachment = claimsFromReq (\<lambda>claims. file_page (\<lambda>rq. handleGetAttachment (ae_files E) claims (PathValue ''id'' rq) rq))"
| "services E HandleListTasks = claimsFromReq (\<lambda>claims. db_page (\<lambda>rq. handleListTasks claims rq))"
| "services E HandleGetTask = claimsFromReq (\<lambda>claims. db_page (\<lambda>rq. handleGetTask claims (PathValue ''id'' rq)))"
| "services E HandleCancelTask = claimsFromReq (\<lambda>claims. db_page (\<lambda>rq. handleCancelTask claims (PathValue ''id'' rq)))"
| "services E HandleListAvailableSkills = claimsFromReq (\<lambda>claims. db_page (\<lambda>rq. handleListAvailableSkills (ae_provider_ids E) claims))"
| "services E HandleEnableSkill = claimsFromReq (\<lambda>claims. db_page (\<lambda>rq. handleEnableSkill claims (PathValue ''id'' rq)))"
| "services E HandleDisableSkill = claimsFromReq (\<lambda>claims. db_page (\<lambda>rq. handleDisableSkill claims (PathValue ''id'' rq)))"
| "services E HandleInstallSkill = claimsFromReq (\<lambda>claims. db_page (\<lambda>rq. handleInstallSkill claims (PathValue ''id'' rq)))"
| "services E HandleUninstallSkill = claimsFromReq (\<lambda>claims. db_page (\<lambda>rq. handleUninstallSkill claims (PathValue ''id'' rq)))"
| "services E HandleListInstalledSkills = claimsFromReq (\<lambda>claims. db_page (\<lambda>rq. handleListInstalledSkills claims))"
| "services E HandleListSkills = db_page (\<lambda>rq. handleListSkills True rq)"
| "services E HandleGetSkill = db_page (\<lambda>rq. handleGetSkill True (PathValue ''id'' rq))"
| "services E HandlePublishSkill = claimsFromReq (\<lambda>claims. db_page (\<lambda>rq.
     handlePublishSkill (ae_parse_providers E) (ae_engine E) True claims (dec_publish (ae_dec E) (rq_body rq))))"
| "services E HandleUpdateSkill = db_page (\<lambda>rq.
     handleUpdateSkill True (PathValue ''id'' rq) (dec_update_skill (ae_dec E) (rq_body rq)))"
| "services E HandleDeleteSkill = db_page (\<lambda>rq. handleDeleteSkill True (PathValue ''id'' rq))"
| "services E HandleStoreMemory = claimsFromReq (store_memory_page E)"
| "services E HandleSearchMemory = claimsFromReq (search_memory_page E)"
| "services E HandleListMemories = claimsFromReq (\<lambda>claims. db_page (\<lambda>rq. handleListMemories True claims))"
| "services E HandleDeleteMemory = claimsFromReq (\<lambda>claims. db_page (\<lambda>rq. handleDeleteMemory True claims (PathValue ''id'' rq)))"
| "services E HandleUsageSummary = claimsFromReq (\<lambda>claims. db_page (\<lambda>rq. handleUsageSummary True (ae_parse_time E) claims rq))"
| "services E HandleUsageBreakdown = claimsFromReq (\<lambda>claims. db_page (\<lambda>rq. handleUsageBreakdown True (ae_parse_time E) claims rq))"
| "services E HandleQuotaStatus = claimsFromReq (\<lambda>claims. db_page (\<lambda>rq. handleQuotaStatus True claims))"
| "services E HandleUsageByConversation = claimsFromReq (\<lambda>claims. db_page (\<lambda>rq. handleUsageByConversation True claims (PathValue ''id'' rq)))"
| "services E HandleStoreCredential = claimsFromReq (\<lambda>claims. auth_page (\<lambda>rq.
     handleStoreCredential (ae_parse_time E) (broker_of E) claims (dec_store_credential (ae_dec E) (rq_body rq))))"
| "services E HandleListCredentials = claimsFromReq (\<lambda>claims. db_page (\<lambda>rq. handleListCredentials (broker_of E) claims))"
| "services E HandleDeleteCredential = claimsFromReq (\<lambda>claims. db_page (\<lambda>rq.
     handleDeleteCredential (broker_of E) claims (PathValue ''provider'' rq)))"
| "services E HandleIssueToken = claimsFromReq (\<lambda>claims. db_page (\<lambda>rq.
     handleIssueToken (broker_of E) claims (dec_issue_token (ae_dec E) (rq_body rq))))"
| "services E HandleCredentialAudit = claimsFromReq (\<lambda>claims. db_page (\<lambda>rq. handleCredentialAudit True claims))"
| "services E HandleConnectList = claimsFromReq (\<lambda>claims rq s.
     case handleConnectList (broker_of E) (ae_engine E) claims (db_of s) of (r, d) \<Rightarrow> (r, put_db d s))"
| "services E HandleConnectStart = claimsFromReq (\<lambda>claims. engine_page (\<lambda>rq e.
     case handleConnectStart (ae_engine E) claims (PathValue ''provider'' rq) rq e of (r, e') \<Rightarrow> (Some r, e')))"
| "services E HandleConnectCallback = engine_page (handleConnectCallback (ae_post E) (broker_of E) (ae_page E) (ae_engine E))"
| "services E HandleSetProviderCredentials = claimsFromReq (\<lambda>claims. db_page (\<lambda>rq.
     handleSetProviderCredentials (ae_engine E) claims (PathValue ''id'' rq) (dec_provider_credentials (ae_dec E) (rq_body rq))))"
| "services E HandleListProviders = claimsFromReq (\<lambda>claims. db_page (\<lambda>rq. handleListProviders (ae_engine E) claims))"
| "services E HandleDeleteProvider = claimsFromReq (\<lambda>claims. db_page (\<lambda>rq. handleDeleteProvider (ae_engine E) claims (PathValue ''id'' rq)))"

section \<open>The gateway\<close>

text \<open>How a WebSocket connection goes: the error and the answer of a refused upgrade, the outcome of the subscription,
  and what the connection then sees\<close>

record ws_session =
  wx_refused :: "(go_err \<times> response) option"
  wx_subscribed :: "unit result"
  wx_signals :: "string \<Rightarrow> ws_signal list"

definition ws_page ::
  "'rt ws_server \<Rightarrow> (request \<Rightarrow> ws_session) \<Rightarrow> ('rt, 'ep, 'w, 'a conv_db_scheme) server page" where
  "ws_page W X rq s =
     (let x = X rq in
      (case handleConvStream W (PathValue ''id'' rq) (rq_claims rq)
          (case wx_refused x of None \<Rightarrow> Inr () | Some (err, _) \<Rightarrow> Inl err) (wx_subscribed x) (wx_signals x) (gs_gw s) of
         (reply, g) \<Rightarrow>
           (Some (case reply of
              WS_refused r \<Rightarrow> r
            | WS_not_upgraded \<Rightarrow> (case wx_refused x of Some (_, r) \<Rightarrow> r | None \<Rightarrow> http_Error '''' 500)
            | WS_stream _ \<Rightarrow> \<lparr>rs_status = 101, rs_headers = [], rs_body = JNull\<rparr>),
            s\<lparr>gs_gw := g\<rparr>)))"

text \<open>\<open>metrics\<close> is the page of Prometheus, \<open>redirectCode\<close> the status of a redirect to a clean path.\<close>

definition gateway_routes ::
  "('rt, 'ep, 'w) api \<Rightarrow> 'rt ws_server \<Rightarrow> (request \<Rightarrow> ws_session) \<Rightarrow> (request \<Rightarrow> response) \<Rightarrow>
   (pattern \<times> ('rt, 'ep, 'w, 'a oauth_db_scheme) server page) list" where
  "gateway_routes E W X metrics = gateway_mux True (services E) (ws_page W X) (\<lambda>rq s. (Some (metrics rq), s))"

definition serve_request ::
  "('rt, 'ep, 'w) api \<Rightarrow> 'rt ws_server \<Rightarrow> (request \<Rightarrow> ws_session) \<Rightarrow> (request \<Rightarrow> response) \<Rightarrow> nat \<Rightarrow> time \<Rightarrow>
   (('rt, 'ep, 'w, 'a oauth_db_scheme) server \<times> log_line list) handler" where
  "serve_request E W X metrics redirectCode now =
     gateway_handler (sv_jwt (ae_auth E)) (sv_tm (ae_auth E)) now redirectCode (gateway_routes E W X metrics)"

text \<open>A goroutine that was started for a posted message; its task gets a fresh id.\<close>

definition run_job ::
  "('rt, 'ep, 'w) api \<Rightarrow> string \<Rightarrow> dispatch_job \<Rightarrow> ('rt, 'ep, 'w, 'a skill_db_scheme) server \<Rightarrow> ('rt, 'ep, 'w, 'a skill_db_scheme) server" where
  "run_job E taskID job s = s\<lparr>gs_gw := dispatchToAgent (ae_dispatch E) taskID job (gs_gw s)\<rparr>"

end
