(* ===== verification/Bystander.thy ===== *)
theory Bystander
  imports API_Services
begin

text \<open>
  What a request leaves alone. A bystander watches the database and accepts some changes of it: its relation
  \<open>R\<close> holds between the state it last saw and a state that looks right to it. The locales say which tables a
  bystander does not care for; in them every statement and every handler that only touches such tables is shown
  to be invisible. They are interpreted in \<open>Isolation\<close> for what strangers and other tenants must not change.
\<close>

named_theorems calm

section \<open>Reading\<close>

locale bystander =
  fixes R :: "'a oauth_db_scheme \<Rightarrow> 'a oauth_db_scheme \<Rightarrow> bool"
  assumes refl [simp, calm]: "R d d"
    and trans: "R d d1 \<Longrightarrow> R d1 d2 \<Longrightarrow> R d d2"
    and to_faults: "R d (d\<lparr>faults := fs\<rparr>)"
    and to_count: "uuid_count d \<le> n \<Longrightarrow> R d (d\<lparr>uuid_count := n\<rparr>)"
begin

lemma on_faults [calm]: "R d0 d \<Longrightarrow> R d0 (d\<lparr>faults := fs\<rparr>)"
  using trans to_faults by blast

lemma on_count [calm]: "R d0 d \<Longrightarrow> uuid_count d \<le> n \<Longrightarrow> R d0 (d\<lparr>uuid_count := n\<rparr>)"
  using trans to_count by blast

lemma on_statement [calm]: "R d0 d \<Longrightarrow> (\<And>d. R d0 d \<Longrightarrow> R d0 (snd (f d))) \<Longrightarrow> R d0 (snd (statement f d))"
  by (auto simp: statement_def on_faults split: list.splits option.splits)

lemma on_query [calm]: "R d0 d \<Longrightarrow> R d0 (snd (query q d))"
  by (simp add: query_def calm)

lemma on_exec [calm]: "R d0 d \<Longrightarrow> (\<And>d. R d0 d \<Longrightarrow> R d0 (f d)) \<Longrightarrow> R d0 (snd (exec f d))"
  by (simp add: exec_def calm)

lemma on_insert_new [calm]:
  "R d0 d \<Longrightarrow> (\<And>d row. R d0 d \<Longrightarrow> R d0 (add row d)) \<Longrightarrow> R d0 (snd (insert_new mk add d))"
  by (simp add: insert_new_def new_uuid_def case_prod_beta Let_def calm)

lemma on_insert_unique [calm]:
  "R d0 d \<Longrightarrow> (\<And>d row. R d0 d \<Longrightarrow> R d0 (add row d)) \<Longrightarrow> R d0 (snd (insert_unique taken mk add d))"
  by (simp add: insert_unique_def new_uuid_def case_prod_beta Let_def calm)

lemma on_and_then [calm]:
  "R d0 (snd m) \<Longrightarrow> (\<And>x d. R d0 d \<Longrightarrow> R d0 (snd (f x d))) \<Longrightarrow> R d0 (snd (and_then m f))"
  by (cases m, cases "fst m") auto

lemma on_pair_and_then [calm]:
  "R d0 (fst (snd m)) \<Longrightarrow> (\<And>x s. R d0 (fst s) \<Longrightarrow> R d0 (fst (snd (f x s)))) \<Longrightarrow> R d0 (fst (snd (and_then m f)))"
  by (cases m, cases "fst m") auto

lemma on_on_db [calm]: "R d0 (fst s) \<Longrightarrow> (\<And>d. R d0 d \<Longrightarrow> R d0 (snd (f d))) \<Longrightarrow> R d0 (fst (snd (on_db f s)))"
  by (simp add: on_db_def case_prod_beta)

lemma on_case_result:
  "R d0 (snd m) \<Longrightarrow> (\<And>e d. R d0 d \<Longrightarrow> R d0 (snd (f e d))) \<Longrightarrow> (\<And>x d. R d0 d \<Longrightarrow> R d0 (snd (g x d))) \<Longrightarrow>
     R d0 (snd (case m of (Inl e, d) \<Rightarrow> f e d | (Inr x, d) \<Rightarrow> g x d))"
  by (cases m, cases "fst m") auto

lemma on_decode_body [calm]:
  "R d0 d \<Longrightarrow> (\<And>x d. R d0 d \<Longrightarrow> R d0 (snd (k x d))) \<Longrightarrow> R d0 (snd (decode_body body k d))"
  by (simp add: decode_body_def split: sum.splits)

lemma on_pair_decode_body [calm]:
  "R d0 (fst s) \<Longrightarrow> (\<And>x s. R d0 (fst s) \<Longrightarrow> R d0 (fst (snd (k x s)))) \<Longrightarrow> R d0 (fst (snd (decode_body body k s)))"
  by (simp add: decode_body_def split: sum.splits)

end

context bystander
begin

text \<open>The statements that only read\<close>

lemma on_reads [calm]:
  assumes "R d0 d"
  shows "R d0 (snd (User_GetByID i d))" "R d0 (snd (GetByEmail e d))" "R d0 (snd (GetPrimaryMembership u d))"
    "R d0 (snd (User_ListByTenant t d))" "R d0 (snd (Tenant_GetByID i d))" "R d0 (snd (Tenant_List d))"
    "R d0 (snd (GetByHash h d))" "R d0 (snd (GetByToken k d))"
    "R d0 (snd (GetProfile i d))" "R d0 (snd (ListProfiles t u d))" "R d0 (snd (GetProfileByName t n d))"
    "R d0 (snd (GetInstanceByPodName n d))" "R d0 (snd (Task_Get i d))" "R d0 (snd (Task_ListByTenant t l d))"
    "R d0 (snd (Conv_Get i d))" "R d0 (snd (Conv_ListByUser t u d))" "R d0 (snd (ListMessages c l d))"
  using assms
  by (auto simp: User_GetByID_def GetByEmail_def GetPrimaryMembership_def User_ListByTenant_def Tenant_GetByID_def Tenant_List_def
      GetByHash_def GetByToken_def GetProfile_def ListProfiles_def GetProfileByName_def GetInstanceByPodName_def Task_Get_def
      Task_ListByTenant_def Conv_Get_def Conv_ListByUser_def ListMessages_def case_prod_beta Let_def calm split: sum.split)

lemma on_with_vector [calm]:
  "R d0 d \<Longrightarrow> (\<And>v d. R d0 d \<Longrightarrow> R d0 (snd (k v d))) \<Longrightarrow> R d0 (snd (with_vector V x k d))"
  by (simp add: with_vector_def split: option.split)

lemma on_further_reads [calm]:
  assumes "R d0 d"
  shows "R d0 (snd (Cred_Get t u p d))" "R d0 (snd (Cred_ListByUser t u d))" "R d0 (snd (ListAuditLog t l d))"
    "R d0 (snd (ListProviders t u d))" "R d0 (snd (Skill_Get i d))" "R d0 (snd (Skill_GetByName n d))"
    "R d0 (snd (Skill_List f d))" "R d0 (snd (find_skill i d))" "R d0 (snd (ListTenantSkills t d))"
    "R d0 (snd (ListActiveSkills t u d))" "R d0 (snd (ListAvailableSkills t u d))"
    "R d0 (snd (SummaryByTenant t from to d))" "R d0 (snd (SummaryByConversation c d))" "R d0 (snd (BreakdownByModel t from to d))"
    "R d0 (snd (Quota_Get t d))" "R d0 (snd (CheckQuota t d))" "R d0 (snd (Memory_ListByUser t u l d))"
    "R d0 (snd (find_duplicate V m emb d))" "R d0 (snd (Attachment_Get i d))" "R d0 (snd (ListByConversation c d))"
    "R d0 (snd (Registry_Get i d))" "R d0 (snd (Registry_List d))" "R d0 (snd (ListConfigured d))"
  using assms
  by (auto simp: Cred_Get_def Cred_ListByUser_def ListAuditLog_def ListProviders_def Skill_Get_def Skill_GetByName_def Skill_List_def
      find_skill_def ListTenantSkills_def ListActiveSkills_def ListAvailableSkills_def SummaryByTenant_def SummaryByConversation_def
      BreakdownByModel_def Quota_Get_def CheckQuota_def Memory_ListByUser_def find_duplicate_def Attachment_Get_def
      ListByConversation_def Registry_Get_def Registry_List_def ListConfigured_def case_prod_beta Let_def calm
      split: sum.split option.split list.split)

lemma on_own_conversation [calm]:
  "R d0 d \<Longrightarrow> (\<And>c d. R d0 d \<Longrightarrow> R d0 (snd (k c d))) \<Longrightarrow> R d0 (snd (own_conversation claims i k d))"
  by (auto simp: own_conversation_def case_prod_beta calm split: sum.split)

end

text \<open>The handlers that only read\<close>

context bystander
begin

lemma on_read_handlers [calm]:
  assumes "R d0 d"
  shows "R d0 (snd (handleMe c d))" "R d0 (snd (handleListTenants c d))" "R d0 (snd (handleGetTenant c i d))"
    "R d0 (snd (handleListMembers c i d))" "R d0 (snd (handleListAgents c d))" "R d0 (snd (handleGetAgent c i d))"
    "R d0 (snd (handleListConversations c d))" "R d0 (snd (handleGetConversation c i d))"
    "R d0 (snd (handleListTasks c rq d))" "R d0 (snd (handleGetTask c i d))"
    "R d0 (snd (handleListAttachments F c i d))"
    "R d0 (snd (handleListInstalledSkills c d))" "R d0 (snd (handleListAvailableSkills ids c d))"
    "R d0 (snd (handleListSkills b rq d))"
  using assms
  by (auto simp: handleMe_def handleListTenants_def handleGetTenant_def handleListMembers_def handleListAgents_def handleGetAgent_def
      handleListConversations_def handleGetConversation_def handleListTasks_def handleGetTask_def handleListAttachments_def
      handleListInstalledSkills_def handleListAvailableSkills_def handleListSkills_def case_prod_beta Let_def calm
      split: sum.split option.split)

lemma on_further_read_handlers [calm]:
  assumes "R d0 d"
  shows "R d0 (snd (handleListMemories b c d))"
    "R d0 (snd (handleUsageSummary b pt c rq d))" "R d0 (snd (handleUsageBreakdown b pt c rq d))"
    "R d0 (snd (handleQuotaStatus b c d))" "R d0 (snd (handleUsageByConversation b c i d))"
    "R d0 (snd (handleListCredentials A c d))" "R d0 (snd (handleCredentialAudit b c d))"
    "R d0 (snd (handleConnectList A en c d))" "R d0 (snd (handleListProviders en c d))"
    "R d0 (fst (snd (handleGetAttachment F c i rq (d, k))))"
  using assms
  by (auto simp: handleListMemories_def handleUsageSummary_def handleUsageBreakdown_def handleQuotaStatus_def
      handleUsageByConversation_def handleListCredentials_def handleCredentialAudit_def handleConnectList_def
      handleListProviders_def handleGetAttachment_def case_prod_beta Let_def calm split: sum.split option.split)

end

section \<open>Accounts and the registry of skills\<close>

locale account_bystander = bystander +
  assumes to_users: "R d (d\<lparr>users := us\<rparr>)" and to_tenants: "R d (d\<lparr>tenants := ts\<rparr>)"
    and to_members: "R d (d\<lparr>org_members := ms\<rparr>)" and to_invites: "R d (d\<lparr>org_invites := vs\<rparr>)"
    and to_tokens: "R d (d\<lparr>refresh_tokens := rs\<rparr>)" and to_skills: "R d (d\<lparr>skills := ss\<rparr>)"
begin

lemma on_account_tables [calm]:
  assumes "R d0 d"
  shows "R d0 (d\<lparr>users := us\<rparr>)" "R d0 (d\<lparr>tenants := ts\<rparr>)" "R d0 (d\<lparr>org_members := ms\<rparr>)" "R d0 (d\<lparr>org_invites := vs\<rparr>)"
    "R d0 (d\<lparr>refresh_tokens := rs\<rparr>)" "R d0 (d\<lparr>skills := ss\<rparr>)"
  using assms trans to_users to_tenants to_members to_invites to_tokens to_skills by blast+

lemma on_account_writes [calm]:
  assumes "R d0 d"
  shows "R d0 (snd (User_Create e n d))" "R d0 (snd (SetPasswordHash i h d))" "R d0 (snd (AddToTenant t u r d))"
    "R d0 (snd (FindOrCreateByOIDC p su e n d))" "R d0 (snd (Tenant_Create n sl pl d))" "R d0 (snd (Tenant_Update tn d))"
    "R d0 (snd (Refresh_Create u t h ttl d))" "R d0 (snd (Revoke i d))" "R d0 (snd (Invite_Create t e r k ttl b d))"
    "R d0 (snd (Accept i d))"
    "R d0 (snd (IncrementDownloads i d))" "R d0 (snd (Skill_Create sk d))" "R d0 (snd (Skill_Update sk d))"
  using assms
  by (auto simp: User_Create_def SetPasswordHash_def AddToTenant_def FindOrCreateByOIDC_def link_stmt_def Tenant_Create_def Tenant_Update_def
      Refresh_Create_def Revoke_def Invite_Create_def Accept_def IncrementDownloads_def
      Skill_Create_def Skill_Update_def new_uuid_def case_prod_beta Let_def calm split: sum.split option.split)

lemma on_accounts [calm]:
  assumes "R d0 (fst s)"
  shows "R d0 (fst (snd (issuePair S u t r s)))" "R d0 (fst (snd (primaryTenant u s)))" "R d0 (fst (snd (register_org S us h o1 s)))"
  using assms by (auto simp: issuePair_def primaryTenant_def register_org_def case_prod_beta Let_def calm split: sum.split)

lemma on_sessions [calm]:
  assumes "R d0 (fst s)"
  shows "R d0 (fst (snd (Auth_Register S ri s)))" "R d0 (fst (snd (Auth_Login S e p s)))" "R d0 (fst (snd (Service_RefreshToken S k s)))"
    "R d0 (fst (snd (LoginOIDC S oc s)))" "R d0 (fst (snd (Auth_Logout k s)))"
  using assms
  by (auto simp: Auth_Register_def Auth_Login_def Service_RefreshToken_def LoginOIDC_def Auth_Logout_def case_prod_beta Let_def calm
      split: sum.split option.split)

lemma on_account_handlers [calm]:
  assumes "R d0 (fst s)"
  shows "R d0 (fst (snd (handleRegister S b1 s)))" "R d0 (fst (snd (handleLogin S b2 s)))" "R d0 (fst (snd (handleRefresh S b3 s)))"
    "R d0 (fst (snd (handleLogout b3 s)))" "R d0 (fst (snd (handleAcceptInvite S cl k b4 s)))"
    "R d0 (fst (snd (handleCreateInvite c i b2 s)))" "R d0 (fst (snd (snd (handleOIDCCallback S redeem verify p rq (m, s)))))"
  using assms
  by (auto simp: handleRegister_def handleLogin_def handleRefresh_def handleLogout_def handleAcceptInvite_def accept_as_new_def
      accept_as_user_def handleCreateInvite_def handleOIDCCallback_def case_prod_beta Let_def calm split: sum.split option.split)

lemma on_tenant_handlers [calm]:
  assumes "R d0 d"
  shows "R d0 (snd (handleCreateTenant c b1 d))" "R d0 (snd (handleUpdateTenant c i b2 d))"
    "R d0 (snd (handleGetSkill av i d))" "R d0 (snd (handleUpdateSkill av i b3 d))"
  using assms
  by (auto simp: handleCreateTenant_def handleUpdateTenant_def handleGetSkill_def handleUpdateSkill_def case_prod_beta Let_def calm
      split: sum.split option.split)

lemma on_handleConnectStart [calm]: "R d0 (oa_db e) \<Longrightarrow> R d0 (oa_db (snd (handleConnectStart en c p rq e)))"
  by (auto simp: handleConnectStart_def StartAuth_def case_prod_beta Let_def calm split: sum.split option.split)

lemma on_HandleCallback [calm]: "R d0 (oa_db e) \<Longrightarrow> R d0 (oa_db (snd (HandleCallback post b st co e)))"
  by (auto simp: HandleCallback_def exchangeCode_def case_prod_beta Let_def calm split: sum.split option.split)

end

section \<open>Credentials\<close>

locale credential_bystander = account_bystander +
  assumes to_credentials: "R d (d\<lparr>user_credentials := cs\<rparr>)" and to_audit: "R d (d\<lparr>credential_audit_log := as\<rparr>)"
begin

lemma on_credential_tables [calm]:
  assumes "R d0 d"
  shows "R d0 (d\<lparr>user_credentials := cs\<rparr>)" "R d0 (d\<lparr>credential_audit_log := as\<rparr>)"
  using assms trans to_credentials to_audit by blast+

lemma on_credential_writes [calm]:
  assumes "R d0 d"
  shows "R d0 (snd (Cred_Store uc d))" "R d0 (snd (AuditLog ca d))" "R d0 (snd (Cred_Delete t u p d))"
  using assms
  by (auto simp: Cred_Store_def AuditLog_def Cred_Delete_def new_uuid_def case_prod_beta Let_def calm split: sum.split option.split)

lemma on_StoreCredential [calm]: "R d0 (fst s) \<Longrightarrow> R d0 (fst (snd (StoreCredential A req s)))"
  by (auto simp: StoreCredential_def case_prod_beta Let_def calm split: sum.split)

lemma on_credentials [calm]:
  assumes "R d0 d"
  shows "R d0 (snd (IssueToken A tr d))" "R d0 (snd (DeleteCredential t u p d))"
  using assms by (auto simp: IssueToken_def DeleteCredential_def case_prod_beta Let_def calm split: sum.split)

lemma on_credential_handlers [calm]:
  assumes "R d0 d"
  shows "R d0 (snd (handleDeleteCredential A c p d))" "R d0 (snd (handleIssueToken A c b d))"
  using assms
  by (auto simp: handleDeleteCredential_def handleIssueToken_def case_prod_beta calm split: sum.split option.split)

lemma on_handleStoreCredential [calm]: "R d0 (fst s) \<Longrightarrow> R d0 (fst (snd (handleStoreCredential pt A c b s)))"
  by (auto simp: handleStoreCredential_def case_prod_beta calm split: sum.split option.split)

lemma on_handleConnectCallback [calm]: "R d0 (oa_db e) \<Longrightarrow> R d0 (oa_db (snd (handleConnectCallback post A page en rq e)))"
  by (auto simp: handleConnectCallback_def case_prod_beta calm split: sum.split option.split)

end

section \<open>Everything but conversations, messages, tasks, profiles and attachments\<close>

locale side_bystander = credential_bystander +
  assumes to_tenant_skills: "R d (d\<lparr>tenant_skills := xs\<rparr>)" and to_user_skills: "R d (d\<lparr>user_skills := ys\<rparr>)"
    and to_memories: "R d (d\<lparr>memories := mems\<rparr>)" and to_providers: "R d (d\<lparr>oauth_providers := ps\<rparr>)"
    and to_instances: "R d (d\<lparr>agent_instances := is\<rparr>)" and to_usage: "R d (d\<lparr>usage_events := es\<rparr>)"
    and to_clock: "R d (d\<lparr>clock := now\<rparr>)"
begin

lemma on_side_tables [calm]:
  assumes "R d0 d"
  shows "R d0 (d\<lparr>tenant_skills := xs\<rparr>)" "R d0 (d\<lparr>user_skills := ys\<rparr>)" "R d0 (d\<lparr>memories := mems\<rparr>)"
    "R d0 (d\<lparr>oauth_providers := ps\<rparr>)" "R d0 (d\<lparr>agent_instances := is\<rparr>)" "R d0 (d\<lparr>usage_events := es\<rparr>)"
    "R d0 (d\<lparr>clock := now\<rparr>)"
  using assms trans to_tenant_skills to_user_skills to_memories to_providers to_instances to_usage to_clock by blast+

lemma on_side_writes [calm]:
  assumes "R d0 d"
  shows "R d0 (snd (InstallForTenant t sk d))" "R d0 (snd (UninstallForTenant t sk d))" "R d0 (snd (EnableForUser t u sk d))"
    "R d0 (snd (DisableForUser t u sk d))" "R d0 (snd (Skill_Delete i d))" "R d0 (snd (Memory_Store V m emb d))"
    "R d0 (snd (SearchSimilar V t u emb l d))" "R d0 (snd (Memory_Delete_row i t d))"
    "R d0 (snd (RegisterFromSkill pc d))" "R d0 (snd (SetCredentials i ci cs d))" "R d0 (snd (Registry_Delete i d))"
    "R d0 (snd (ClaimInstance t p d))" "R d0 (snd (ReleaseInstance i d))" "R d0 (snd (UpsertInstanceByPodName t pid n a b d))"
    "R d0 (snd (Record ev d))"
  using assms
  by (auto simp: InstallForTenant_def UninstallForTenant_def EnableForUser_def DisableForUser_def Skill_Delete_def Memory_Store_def
      update_duplicate_def insert_memory_def SearchSimilar_def Memory_Delete_row_def RegisterFromSkill_def upsert_provider_def
      SetCredentials_def Registry_Delete_def ClaimInstance_def claim_stmt_def ReleaseInstance_def UpsertInstanceByPodName_def upsert_stmt_def
      Record_def record_stmt_def new_uuid_def case_prod_beta Let_def calm split: sum.split option.split list.split)

end

context side_bystander
begin

lemma on_register_declared [calm]: "R d0 d \<Longrightarrow> R d0 (register_declared n ps d)"
  by (induction n ps d rule: register_declared.induct) (auto simp: calm)

lemma on_change_skill [calm]:
  "R d0 d \<Longrightarrow> (\<And>i d. R d0 d \<Longrightarrow> R d0 (snd (change i d))) \<Longrightarrow> R d0 (snd (change_skill change st pre word i d))"
  by (auto simp: change_skill_def case_prod_beta calm split: sum.split)

lemma on_skill_handlers [calm]:
  assumes "R d0 d"
  shows "R d0 (snd (handleInstallSkill c i d))" "R d0 (snd (handleUninstallSkill c i d))" "R d0 (snd (handleEnableSkill c i d))"
    "R d0 (snd (handleDisableSkill c i d))" "R d0 (snd (handleDeleteSkill av i d))" "R d0 (snd (handlePublishSkill parse en av c body d))"
  using assms
  by (auto simp: handleInstallSkill_def handleUninstallSkill_def handleEnableSkill_def handleDisableSkill_def handleDeleteSkill_def
      handlePublishSkill_def registerSkillProviders_def case_prod_beta calm split: sum.split option.split)

lemma on_side_handlers [calm]:
  assumes "R d0 d"
  shows "R d0 (snd (handleDeleteMemory av c i d))" "R d0 (snd (handleSetProviderCredentials en c i body d))"
    "R d0 (snd (handleDeleteProvider en c i d))" "R d0 (handleEvent ev d)"
  using assms
  by (auto simp: handleDeleteMemory_def handleSetProviderCredentials_def handleDeleteProvider_def handleEvent_def
      case_prod_beta calm split: sum.split option.split)

lemma on_handleHeartbeat [calm]: "R d0 d \<Longrightarrow> R d0 (handleHeartbeat hb d)"
  by (simp add: handleHeartbeat_def case_prod_beta calm split: sum.split option.split)

lemma on_handleStoreMemory [calm]: "R d0 d \<Longrightarrow> R d0 (snd (handleStoreMemory av V vecs c body d))"
  by (simp add: handleStoreMemory_def on_case_result Let_def calm)

lemma on_handleSearchMemory [calm]: "R d0 d \<Longrightarrow> R d0 (snd (handleSearchMemory av V vecs c body d))"
  by (simp add: handleSearchMemory_def case_prod_beta Let_def calm split: sum.split option.split list.split)

lemma on_claims [calm]:
  assumes "R d0 (snd s)"
  shows "R d0 (snd (snd (EnsureInstance T agentRepoAdapter cid t p s)))" "R d0 (snd (snd (Release T agentRepoAdapter cid s)))"
  using assms
  by (auto simp: EnsureInstance_def Release_def agentRepoAdapter_def adapter_ClaimInstance_def case_prod_beta Let_def calm
      split: sum.split option.split)

lemma on_issue_all [calm]: "R d0 d \<Longrightarrow> R d0 (snd (issue_all A t u cid ps d))"
  by (induction ps arbitrary: d) (auto simp: case_prod_beta calm split: sum.split)

lemma on_task_parts [calm]:
  assumes "R d0 d"
  shows "R d0 (snd (with_active_skills S job task d))" "R d0 (snd (with_credentials S job task d))"
    "R d0 (snd (snd (with_instance S job task (rt, d))))"
  using assms
  by (auto simp: with_active_skills_def with_credentials_def with_instance_def case_prod_beta Let_def calm split: sum.split option.split)

end

section \<open>Pages\<close>

lemma put_db_simps [simp]:
  "db_of (put_db d s) = d" "gs_src (put_db d s) = gs_src s" "gs_jobs (put_db d s) = gs_jobs s" "gs_disk (put_db d s) = gs_disk s"
  "gs_oidc (put_db d s) = gs_oidc s" "gs_states (put_db d s) = gs_states s" "gs_sent (put_db d s) = gs_sent s"
  "gs_router (put_db d s) = gs_router s" "gs_world (put_db d s) = gs_world s"
  "gw_rt (gs_gw (put_db d s)) = gw_rt (gs_gw s)" "gw_nats (gs_gw (put_db d s)) = gw_nats (gs_gw s)"
  "gw_watchers (gs_gw (put_db d s)) = gw_watchers (gs_gw s)"
  by (simp_all add: put_db_def)

lemma page_db [simp]:
  "db_of (snd (db_page h rq s)) = snd (h rq (db_of s))"
  "db_of (snd (auth_page a rq s)) = fst (snd (a rq (db_of s, gs_src s)))"
  "db_of (snd (engine_page g rq s)) =
     oa_db (snd (g rq \<lparr>oa_db = db_of s, oa_src = gs_src s, oa_states = gs_states s, oa_sent = gs_sent s\<rparr>))"
  "db_of (snd (sso_page f rq s)) = fst (snd (snd (f rq (gs_oidc s, db_of s, gs_src s))))"
  "db_of (snd (file_page k rq s)) = fst (snd (k rq (db_of s, gs_disk s)))"
  by (simp_all add: db_page_def auth_page_def engine_page_def sso_page_def file_page_def case_prod_beta)

lemma claimsFromReq_cases:
  "snd (claimsFromReq h rq s) = s \<or> (\<exists>claims. rq_claims rq = Some claims \<and> snd (claimsFromReq h rq s) = snd (h claims rq s))"
  by (simp add: claimsFromReq_def split: option.split)

lemma embed_body_db [simp]: "gs_gw (snd (embed_body tick t s)) = gs_gw s" "gs_jobs (snd (embed_body tick t s)) = gs_jobs s"
  by (simp_all add: embed_body_def embedFn_def case_prod_beta split: option.split)

definition touching :: "endpoint set" where
  "touching = {HandleCreateAgent, HandleCreateSystemAgent, HandleUpdateAgent, HandleDeleteAgent, HandleCreateConversation,
     HandleUpdateConversation, HandleDeleteConversation, HandlePostMessage, HandleUploadAttachment, HandleCancelTask, HandleDeleteTenant}"

context side_bystander
begin

lemma on_claims_page: "(\<And>c. R d0 (db_of (snd (h c rq s)))) \<Longrightarrow> R d0 (db_of s) \<Longrightarrow> R d0 (db_of (snd (claimsFromReq h rq s)))"
  by (simp add: claimsFromReq_def split: option.split)

lemma on_memory_pages:
  "R (db_of s) (db_of (snd (store_memory_page E c rq s)))" "R (db_of s) (db_of (snd (search_memory_page E c rq s)))"
  by (simp_all add: store_memory_page_def search_memory_page_def Let_def case_prod_beta calm)

lemma on_services: "h \<notin> touching \<Longrightarrow> R (db_of s) (db_of (snd (services E h rq s)))"
  by (cases h) (auto simp: touching_def on_claims_page on_memory_pages case_prod_beta calm)

end

end
