(* ===== verification/Isolation.thy ===== *)
theory Isolation
  imports Bystander
begin

text \<open>
  Who can change what, for the gateway as a whole: requests go through the middleware, the routes and the handlers of
  \<open>API_Services\<close>. What a stranger cannot touch and what another tenant cannot touch are two bystanders, and the
  handlers leave them alone by the lemmas of \<open>Bystander\<close>. A theorem about all routes that name a conversation
  closes the theory.
\<close>

section \<open>Strangers\<close>

text \<open>What belongs to the tenants, but for their credentials\<close>

definition tenant_data :: "'a oauth_db_scheme \<Rightarrow> _" where
  "tenant_data d = (conversations d, messages d, tasks d, agent_profiles d, agent_instances d, attachments d, memories d,
     (usage_events d, tenant_quotas d, tenant_skills d, user_skills d, oauth_providers d))"

definition same_data :: "'a oauth_db_scheme \<Rightarrow> 'a oauth_db_scheme \<Rightarrow> bool" where
  "same_data d d' \<longleftrightarrow> tenant_data d' = tenant_data d"

definition same_data_and_credentials :: "'a oauth_db_scheme \<Rightarrow> 'a oauth_db_scheme \<Rightarrow> bool" where
  "same_data_and_credentials d d' \<longleftrightarrow> tenant_data d' = tenant_data d \<and> user_credentials d' = user_credentials d"

interpretation data: credential_bystander same_data
  by unfold_locales (auto simp: same_data_def tenant_data_def)

interpretation kept: account_bystander same_data_and_credentials
  by unfold_locales (auto simp: same_data_and_credentials_def tenant_data_def)

text \<open>The callback of a connect flow that was not started changes nothing.\<close>

lemma unknown_callback:
  "oa_states e (rq_query rq ''state'') = None \<Longrightarrow> oa_db (snd (handleConnectCallback post A page en rq e)) = oa_db e"
  by (auto simp: handleConnectCallback_def HandleCallback_def State_Pop_def Let_def case_prod_beta split: option.splits)

lemma public_pages_data: "h \<in> public_handlers \<Longrightarrow> same_data (db_of s) (db_of (snd (services E h rq s)))"
  by (auto simp: public_handlers_def calm case_prod_beta)

lemma public_pages_credentials:
  "h \<in> public_handlers \<Longrightarrow> same_data_and_credentials (db_of s) (db_of (snd (services E h rq s))) \<or>
     h = HandleConnectCallback \<and> gs_states s (rq_query rq ''state'') \<noteq> None"
  by (cases "h = HandleConnectCallback") (auto simp: public_handlers_def unknown_callback calm case_prod_beta)

text \<open>Nothing is published, stored on disk, started or asked of a model either.\<close>

lemma public_pages_rest:
  assumes "h \<in> public_handlers"
  shows "gs_disk (snd (services E h rq s)) = gs_disk s \<and> gs_jobs (snd (services E h rq s)) = gs_jobs s \<and>
    gs_router (snd (services E h rq s)) = gs_router s \<and> gw_nats (gs_gw (snd (services E h rq s))) = gw_nats (gs_gw s) \<and>
    gw_rt (gs_gw (snd (services E h rq s))) = gw_rt (gs_gw s)"
  using assms
  by (auto simp: public_handlers_def db_page_def auth_page_def sso_page_def engine_page_def case_prod_beta)

lemma ws_page_stranger: "rq_claims rq = None \<Longrightarrow> snd (ws_page W X rq s) = s"
  by (auto simp: ws_page_def handleConvStream_def Let_def case_prod_beta)

text \<open>C4: strangers change accounts only. Whatever a request without a valid token of this server asks for, it goes
  through the middleware, the routes and the handlers without changing a row of any tenant's conversations, messages,
  tasks, agents, files, memories, usage, skills or provider settings; nothing is published to an agent, no
  goroutine is started and no model is asked. Credentials change only through the callback of a connect flow that a
  user has started. What is left to strangers are accounts, tenants, memberships and the download counts of skills.\<close>

theorem strangers_change_accounts_only:
  assumes "jwt_spec (sv_jwt (ae_auth E)) signed_by" "rq_claims rq = None"
    and "\<forall>claims. signed_by HMAC (tm_secret (sv_tm (ae_auth E))) claims (token_of_request rq) \<longrightarrow> \<not> unexpired now claims"
    and run: "serve_request E W X metrics redirectCode now rq (s, lines) = (r, (s', lines'))"
  shows "tenant_data (db_of s') = tenant_data (db_of s) \<and> gs_disk s' = gs_disk s \<and> gs_jobs s' = gs_jobs s \<and> gs_router s' = gs_router s \<and>
    gw_nats (gs_gw s') = gw_nats (gs_gw s) \<and> gw_rt (gs_gw s') = gw_rt (gs_gw s) \<and>
    (user_credentials (db_of s') = user_credentials (db_of s) \<or> gs_states s (rq_query rq ''state'') \<noteq> None)"
proof -
  have "s' = s \<or> (\<exists>h \<in> public_handlers. \<exists>vs. snd (services E h (rq\<lparr>rq_values := vs\<rparr>) s) = s')"
    by (rule strangers_reach_public_handlers [OF assms(1-3) _ _ run [unfolded serve_request_def gateway_routes_def]])
      (simp_all add: ws_page_stranger)
  then consider "s' = s" | h vs where "h \<in> public_handlers" "s' = snd (services E h (rq\<lparr>rq_values := vs\<rparr>) s)" by blast
  then show ?thesis
  proof cases
    case 2
    then show ?thesis
      using public_pages_data [OF 2(1), of s E "rq\<lparr>rq_values := vs\<rparr>"] public_pages_rest [OF 2(1), of E "rq\<lparr>rq_values := vs\<rparr>" s]
        public_pages_credentials [OF 2(1), of s E "rq\<lparr>rq_values := vs\<rparr>"]
      by (auto simp: same_data_def same_data_and_credentials_def)
  qed simp
qed

section \<open>Other tenants\<close>

text \<open>The rows of one tenant: its conversations with their messages, tasks, agent profiles and files\<close>

definition conv_ids :: "string \<Rightarrow> 'a conv_db_scheme \<Rightarrow> string set" where
  "conv_ids T d = set (map cv_ID (filter (\<lambda>c. cv_TenantID c = T) (conversations d)))"

definition task_ids :: "string \<Rightarrow> 'a task_db_scheme \<Rightarrow> string set" where
  "task_ids T d = set (map tk_ID (filter (\<lambda>t. tk_TenantID t = T) (tasks d)))"

definition rows_of :: "string \<Rightarrow> 'a oauth_db_scheme \<Rightarrow> _" where
  "rows_of T d =
     (filter (\<lambda>c. cv_TenantID c = T) (conversations d), filter (\<lambda>m. dm_ConversationID m \<in> conv_ids T d) (messages d),
      filter (\<lambda>t. tk_TenantID t = T) (tasks d), filter (\<lambda>p. ap_TenantID p = T) (agent_profiles d),
      filter (\<lambda>a. at_TenantID a = T) (attachments d))"

text \<open>Primary keys are pairwise different and were drawn before.\<close>

definition drawn :: "(nat \<Rightarrow> string) \<Rightarrow> nat \<Rightarrow> string list \<Rightarrow> bool" where
  "drawn u n ids \<longleftrightarrow> distinct ids \<and> set ids \<subseteq> u ` {..<n}"

definition keys_ok :: "'a oauth_db_scheme \<Rightarrow> bool" where
  "keys_ok d \<longleftrightarrow> inj (uuids d) \<and> drawn (uuids d) (uuid_count d) (map cv_ID (conversations d)) \<and> drawn (uuids d) (uuid_count d) (map tk_ID (tasks d)) \<and>
     drawn (uuids d) (uuid_count d) (map ap_ID (agent_profiles d))"

definition spared :: "string \<Rightarrow> 'a oauth_db_scheme \<Rightarrow> 'a oauth_db_scheme \<Rightarrow> bool" where
  "spared T d d' \<longleftrightarrow> (keys_ok d \<longrightarrow> keys_ok d' \<and> rows_of T d' = rows_of T d)"

lemma drawn_more: "drawn u n ids \<Longrightarrow> n \<le> m \<Longrightarrow> drawn u m ids"
  by (fastforce simp: drawn_def)

lemma drawn_Suc [simp]: "drawn u n ids \<Longrightarrow> drawn u (Suc n) ids"
  by (erule drawn_more) simp

lemma drawn_fresh [simp]: "inj u \<Longrightarrow> drawn u n ids \<Longrightarrow> drawn u (Suc n) (ids @ [u n])"
  by (auto simp: drawn_def dest: injD)

lemma spared_trans: "spared T d d1 \<Longrightarrow> spared T d1 d2 \<Longrightarrow> spared T d d2"
  by (simp add: spared_def)

lemma drawn_less: "drawn (uuids d) (uuid_count d) ids \<Longrightarrow> uuid_count d \<le> n \<Longrightarrow> drawn (uuids d) n ids"
  by (rule drawn_more)

interpretation other: side_bystander "spared T" for T
  by unfold_locales (erule (1) spared_trans | simp add: spared_def keys_ok_def rows_of_def conv_ids_def drawn_less)+

text \<open>The statements that add rows for another tenant, or change rows of another tenant\<close>

lemma spared_statement:
  assumes "\<And>fs. spared T (d\<lparr>faults := fs\<rparr>) (snd (f (d\<lparr>faults := fs\<rparr>)))"
  shows "spared T d (snd (statement f d))"
proof -
  obtain r d' where s: "statement f d = (r, d')" by (meson surj_pair)
  then have "spared T d d'"
  proof (cases rule: statement_cases)
    case (executed fs)
    then show ?thesis using other.trans [OF other.to_faults assms [of fs]] by simp
  qed (simp add: other.to_faults)
  with s show ?thesis by simp
qed

lemma spared_any_statement: "(\<And>d. spared T d (snd (f d))) \<Longrightarrow> spared T d (snd (statement f d))"
  by (rule spared_statement)

lemma spared_insert_new:
  assumes "\<And>d. spared T d (add (mk d (uuids d (uuid_count d))) (d\<lparr>uuid_count := Suc (uuid_count d)\<rparr>))"
  shows "spared T d (snd (insert_new mk add d))"
  unfolding insert_new_def by (rule spared_any_statement) (simp add: assms new_uuid_def Let_def)

lemma filter_update_where:
  "(\<And>r. r \<in> set rows \<Longrightarrow> P r \<Longrightarrow> \<not> Q r \<and> \<not> Q (f r)) \<Longrightarrow> filter Q (update_where P f rows) = filter Q rows"
  by (induction rows) (auto simp: update_where_Cons)

lemma foreign_id: "cid \<notin> conv_ids T d \<longleftrightarrow> (\<forall>c \<in> set (conversations d). cv_ID c = cid \<longrightarrow> cv_TenantID c \<noteq> T)"
  by (auto simp: conv_ids_def)

lemma foreign_task: "tid \<notin> task_ids T d \<longleftrightarrow> (\<forall>t \<in> set (tasks d). tk_ID t = tid \<longrightarrow> tk_TenantID t \<noteq> T)"
  by (auto simp: task_ids_def)

lemma rows_of_ids: "rows_of T d' = rows_of T d \<Longrightarrow> conv_ids T d' = conv_ids T d \<and> task_ids T d' = task_ids T d"
  by (simp add: rows_of_def conv_ids_def task_ids_def)

lemma spared_Conv_Create: "t \<noteq> T \<Longrightarrow> spared T d (snd (Conv_Create t u title d))"
  unfolding Conv_Create_def case_prod_beta snd_conv
  by (rule spared_insert_new) (simp add: spared_def keys_ok_def rows_of_def conv_ids_def)

lemma spared_Task_Create: "t \<noteq> T \<Longrightarrow> spared T d (snd (Task_Create t c title d))"
  unfolding Task_Create_def case_prod_beta snd_conv
  by (rule spared_insert_new) (simp add: spared_def keys_ok_def rows_of_def conv_ids_def)

lemma spared_Attachment_Create: "at_TenantID a \<noteq> T \<Longrightarrow> spared T d (snd (Attachment_Create a d))"
  unfolding Attachment_Create_def case_prod_beta snd_conv
  by (rule spared_insert_new) (simp add: spared_def keys_ok_def rows_of_def conv_ids_def)

lemma spared_add_profile:
  "ap_TenantID row \<noteq> T \<Longrightarrow> ap_ID row = uuids d (uuid_count d) \<Longrightarrow>
     spared T d (d\<lparr>uuid_count := Suc (uuid_count d), agent_profiles := agent_profiles d @ [row]\<rparr>)"
  by (simp add: spared_def keys_ok_def rows_of_def conv_ids_def)

lemma spared_CreateProfile:
  assumes "ap_TenantID p \<noteq> T"
  shows "spared T d (snd (CreateProfile p d))"
  unfolding CreateProfile_def case_prod_beta snd_conv
  by (rule spared_any_statement) (simp add: assms new_uuid_def Let_def spared_add_profile)

lemma spared_exec:
  "(\<And>fs. spared T (d\<lparr>faults := fs\<rparr>) (f (d\<lparr>faults := fs\<rparr>))) \<Longrightarrow> spared T d (snd (exec f d))"
  unfolding exec_def by (rule spared_statement) simp

lemma spared_update_conv:
  assumes "cid \<notin> conv_ids T d" "\<And>c. cv_ID (f c) = cv_ID c" "\<And>c. cv_TenantID (f c) = cv_TenantID c"
  shows "spared T d (update_conv cid f d)"
proof -
  have "filter (\<lambda>c. cv_TenantID c = T) (update_where (\<lambda>c. cv_ID c = cid) f (conversations d)) = filter (\<lambda>c. cv_TenantID c = T) (conversations d)"
    using assms by (intro filter_update_where) (auto simp: foreign_id)
  then show ?thesis
    using map_update_where_key [of cv_ID f] assms(2) by (simp add: spared_def keys_ok_def rows_of_def conv_ids_def update_conv_def)
qed

lemma spared_update_task:
  assumes "tid \<notin> task_ids T d" "\<And>t. tk_ID (f t) = tk_ID t" "\<And>t. tk_TenantID (f t) = tk_TenantID t"
  shows "spared T d (update_task tid f d)"
proof -
  have "filter (\<lambda>t. tk_TenantID t = T) (update_where (\<lambda>t. tk_ID t = tid) f (tasks d)) = filter (\<lambda>t. tk_TenantID t = T) (tasks d)"
    using assms by (intro filter_update_where) (auto simp: foreign_task)
  then show ?thesis
    using map_update_where_key [of tk_ID f] assms(2) by (simp add: spared_def keys_ok_def rows_of_def conv_ids_def update_task_def)
qed

lemma spared_conv_updates:
  assumes "cid \<notin> conv_ids T d"
  shows "spared T d (snd (UpdateTitle cid title d))" "spared T d (snd (Conv_Delete cid d))"
  unfolding UpdateTitle_def Conv_Delete_def
  using assms by (auto intro!: spared_exec spared_update_conv simp: conv_ids_def)

lemma spared_task_updates:
  assumes "tid \<notin> task_ids T d"
  shows "spared T d (snd (SetRunning tid a d))" "spared T d (snd (Complete tid res d))" "spared T d (snd (Fail tid msg d))"
    "spared T d (snd (Cancel tid d))"
  unfolding SetRunning_def Complete_def Fail_def Cancel_def
  using assms by (auto intro!: spared_exec spared_update_task simp: task_ids_def)

lemma conv_ids_insert_message: "conv_ids T (snd (insert_new mk (\<lambda>row d. d\<lparr>messages := messages d @ [row]\<rparr>) d)) = conv_ids T d"
  by (auto simp: insert_new_def statement_def new_uuid_def conv_ids_def Let_def split: list.split option.split)

lemma spared_AddMessage:
  assumes "dm_ConversationID m \<notin> conv_ids T d"
  shows "spared T d (snd (AddMessage m d))"
proof -
  let ?ins = "insert_new (\<lambda>d uid. m\<lparr>dm_ID := uid, dm_CreatedAt := clock d\<rparr>) (\<lambda>row d. d\<lparr>messages := messages d @ [row]\<rparr>)"
  have "spared T d (snd (?ins d))"
    using assms
    by (auto simp: insert_new_def statement_def new_uuid_def Let_def spared_def keys_ok_def rows_of_def conv_ids_def
        split: list.split option.split)
  moreover have "spared T (snd (?ins d)) (snd (AddMessage m d))"
    using assms conv_ids_insert_message [of T "\<lambda>d uid. m\<lparr>dm_ID := uid, dm_CreatedAt := clock d\<rparr>" d]
    by (auto simp: AddMessage_def case_prod_beta conv_ids_def intro!: spared_exec spared_update_conv)
  ultimately show ?thesis by (rule other.trans)
qed

lemma spared_update_profile:
  assumes "\<And>q. q \<in> set (agent_profiles d) \<Longrightarrow> ap_ID q = i \<Longrightarrow> ap_TenantID q \<noteq> T" "ap_ID row = i" "ap_TenantID row \<noteq> T"
  shows "spared T d (d\<lparr>agent_profiles := update_where (\<lambda>q. ap_ID q = i) (\<lambda>_. row) (agent_profiles d)\<rparr>)"
proof -
  have "filter (\<lambda>p. ap_TenantID p = T) (update_where (\<lambda>q. ap_ID q = i) (\<lambda>_. row) (agent_profiles d)) = filter (\<lambda>p. ap_TenantID p = T) (agent_profiles d)"
    using assms by (intro filter_update_where) auto
  moreover have "map ap_ID (update_where (\<lambda>q. ap_ID q = i) (\<lambda>_. row) (agent_profiles d)) = map ap_ID (agent_profiles d)"
    using assms(2) by (simp add: update_where_def)
  ultimately show ?thesis by (simp add: spared_def keys_ok_def rows_of_def conv_ids_def)
qed

text \<open>The handlers that touch these tables look at the tenant of the row first; as ids are unique, the row they change
  is the one they looked at.\<close>

lemma spared_keys: "(keys_ok d \<Longrightarrow> spared T d d') \<Longrightarrow> spared T d d'"
  by (auto simp: spared_def)

lemma foreign_conv: "keys_ok d \<Longrightarrow> c \<in> set (conversations d) \<Longrightarrow> cv_TenantID c \<noteq> T \<Longrightarrow> cv_ID c \<notin> conv_ids T d"
  by (auto simp: keys_ok_def drawn_def foreign_id dest: distinct_keyD)

lemma foreign_row: "keys_ok d \<Longrightarrow> t \<in> set (tasks d) \<Longrightarrow> tk_TenantID t \<noteq> T \<Longrightarrow> tk_ID t \<notin> task_ids T d"
  by (auto simp: keys_ok_def drawn_def foreign_task dest: distinct_keyD)

lemma Conv_Get_spared:
  assumes "Conv_Get i d = (r, d1)" "\<And>c. r = Inr c \<Longrightarrow> cv_TenantID c \<noteq> T \<Longrightarrow> cv_ID c \<notin> conv_ids T d1 \<Longrightarrow> spared T d1 d2"
    "\<And>c. r = Inr c \<Longrightarrow> cv_TenantID c = T \<Longrightarrow> d2 = d1" "\<And>e. r = Inl e \<Longrightarrow> d2 = d1"
  shows "spared T d d2"
proof (rule spared_keys)
  assume keys: "keys_ok d"
  obtain fs where d1: "d1 = d\<lparr>faults := fs\<rparr>" using Conv_Get_state [OF assms(1)] by blast
  then have "spared T d d1" by (simp add: other.to_faults)
  moreover have "spared T d1 d2"
  proof (cases r)
    case (Inr c)
    then have "c \<in> set (conversations d)" using Conv_Get_state [OF assms(1)] by blast
    then have "cv_TenantID c \<noteq> T \<Longrightarrow> cv_ID c \<notin> conv_ids T d1" using foreign_conv [OF keys] d1 by (auto simp: conv_ids_def)
    then show ?thesis using assms(2,3) Inr by (cases "cv_TenantID c = T") auto
  qed (use assms(4) in simp)
  ultimately show ?thesis by (rule other.trans)
qed

lemma own_conversation_spared:
  assumes "cl_TenantID c \<noteq> T"
    and "\<And>convo d. cv_TenantID convo \<noteq> T \<Longrightarrow> cv_ID convo \<notin> conv_ids T d \<Longrightarrow> spared T d (snd (k convo d))"
  shows "spared T d (snd (own_conversation c i k d))"
proof -
  obtain r d1 where g: "Conv_Get i d = (r, d1)" by (meson surj_pair)
  show ?thesis
    by (rule Conv_Get_spared [OF g]) (use g assms in \<open>auto simp: own_conversation_def other.refl\<close>)
qed

lemma conversation_handlers_spared:
  assumes "cl_TenantID c \<noteq> T"
  shows "spared T d (snd (handleCreateConversation c b d))" "spared T d (snd (handleUpdateConversation c i b d))"
    "spared T d (snd (handleDeleteConversation c i d))"
proof -
  show "spared T d (snd (handleCreateConversation c b d))"
    using spared_Conv_Create [OF assms]
    by (auto simp: handleCreateConversation_def decode_body_def Let_def case_prod_beta other.refl split: sum.split)
  show "spared T d (snd (handleUpdateConversation c i b d))" unfolding handleUpdateConversation_def
    by (rule own_conversation_spared [OF assms])
      (auto simp: decode_body_def case_prod_beta other.refl spared_conv_updates split: sum.split)
  show "spared T d (snd (handleDeleteConversation c i d))" unfolding handleDeleteConversation_def
    by (rule own_conversation_spared [OF assms])
      (auto simp: decode_body_def case_prod_beta spared_conv_updates split: sum.split)
qed

lemma handlePostMessage_spared:
  assumes "cl_TenantID c \<noteq> T"
  shows "spared T d (fst (snd (handlePostMessage can c i b d)))"
proof -
  obtain r d1 where g: "Conv_Get i d = (r, d1)" by (meson surj_pair)
  show ?thesis
  proof (rule Conv_Get_spared [OF g])
    fix convo
    assume "r = Inr convo" "cv_TenantID convo \<noteq> T" "cv_ID convo \<notin> conv_ids T d1"
    then show "spared T d1 (fst (snd (handlePostMessage can c i b d)))"
      using g by (auto simp: handlePostMessage_def case_prod_beta spared_AddMessage other.refl split: sum.split option.split)
  qed (use g assms in \<open>auto simp: handlePostMessage_def\<close>)
qed

lemma handleUploadAttachment_spared:
  assumes "cl_TenantID c \<noteq> T"
  shows "spared T d (fst (snd (handleUploadAttachment F c i form (d, k))))"
proof -
  obtain r d1 where g: "Conv_Get i d = (r, d1)" by (meson surj_pair)
  show ?thesis
  proof (rule Conv_Get_spared [OF g])
    fix convo
    assume convo: "r = Inr convo" "cv_TenantID convo \<noteq> T" "cv_ID convo \<notin> conv_ids T d1"
    have "spared T d1 (fst (snd (store_upload store c convo part mt (d1, k))))" for store part mt
      using convo(2) by (auto simp: store_upload_def case_prod_beta Let_def spared_Attachment_Create split: sum.split)
    then show "spared T d1 (fst (snd (handleUploadAttachment F c i form (d, k))))"
      using g convo by (auto simp: handleUploadAttachment_def Let_def other.refl split: sum.split option.split)
  qed (use g assms in \<open>auto simp: handleUploadAttachment_def\<close>)
qed

lemma handleCancelTask_spared:
  assumes "cl_TenantID c \<noteq> T" "cl_Role c \<noteq> ''platform_admin''"
  shows "spared T d (snd (handleCancelTask c i d))"
proof (rule spared_keys)
  assume keys: "keys_ok d"
  obtain r d1 where g: "Task_Get i d = (r, d1)" by (meson surj_pair)
  obtain fs where d1: "d1 = d\<lparr>faults := fs\<rparr>" using Task_Get_state [OF g] by blast
  then have "spared T d d1" by (simp add: other.to_faults)
  moreover have "spared T d1 (snd (handleCancelTask c i d))"
  proof (cases r)
    case (Inr t)
    then have "t \<in> set (tasks d)" using Task_Get_state [OF g] by blast
    then have "tk_TenantID t \<noteq> T \<Longrightarrow> tk_ID t \<notin> task_ids T d1" using foreign_row [OF keys] d1 by (auto simp: task_ids_def)
    then show ?thesis using g Inr assms
      by (auto simp: handleCancelTask_def case_prod_beta other.refl spared_task_updates split: sum.split)
  qed (use g in \<open>simp add: handleCancelTask_def other.refl\<close>)
  ultimately show ?thesis by (rule other.trans)
qed

lemma editable_agent_spared:
  assumes "cl_TenantID c \<noteq> T"
    and "\<And>p d. ap_ID p = i \<Longrightarrow> ap_TenantID p \<noteq> T \<Longrightarrow> (\<And>q. q \<in> set (agent_profiles d) \<Longrightarrow> ap_ID q = i \<Longrightarrow> ap_TenantID q \<noteq> T) \<Longrightarrow>
      spared T d (snd (k p d))"
  shows "spared T d (snd (editable_agent c i what k d))"
proof (rule spared_keys)
  assume keys: "keys_ok d"
  obtain r d1 where g: "GetProfile i d = (r, d1)" by (meson surj_pair)
  obtain fs where d1: "d1 = d\<lparr>faults := fs\<rparr>" using GetProfile_state [OF g] by blast
  then have "spared T d d1" by (simp add: other.to_faults)
  moreover have "spared T d1 (snd (editable_agent c i what k d))"
  proof (cases r)
    case (Inr p)
    then have p: "p \<in> set (agent_profiles d)" "ap_ID p = i" using GetProfile_state [OF g] by auto
    have "ap_TenantID q \<noteq> T" if "ap_TenantID p \<noteq> T" "q \<in> set (agent_profiles d1)" "ap_ID q = i" for q
      using that p keys d1 distinct_keyD [of ap_ID "agent_profiles d" p q] by (simp add: keys_ok_def drawn_def)
    then show ?thesis using g Inr p assms by (auto simp: editable_agent_def other.refl)
  qed (use g in \<open>simp add: editable_agent_def other.refl\<close>)
  ultimately show ?thesis by (rule other.trans)
qed

lemma spared_UpdateProfile:
  assumes "\<And>q. q \<in> set (agent_profiles d) \<Longrightarrow> ap_ID q = ap_ID p \<Longrightarrow> ap_TenantID q \<noteq> T"
  shows "spared T d (snd (UpdateProfile p d))"
proof -
  have row: "spared T (d\<lparr>faults := fs\<rparr>) (d\<lparr>faults := fs, agent_profiles := update_where (\<lambda>q. ap_ID q = ap_ID p) (\<lambda>_. row) (agent_profiles d)\<rparr>)"
    if "select_one (\<lambda>q. ap_ID q = ap_ID p) (agent_profiles d) = Some q" "ap_ID row = ap_ID q" "ap_TenantID row = ap_TenantID q" for q row fs
    using spared_update_profile [of "d\<lparr>faults := fs\<rparr>" "ap_ID p" T row] assms that select_one_Some [OF that(1)] by auto
  show ?thesis unfolding UpdateProfile_def case_prod_beta snd_conv
    by (rule spared_statement) (use row in \<open>auto simp: Let_def other.refl split: option.split\<close>)
qed

lemma spared_DeleteProfile:
  assumes "\<And>q. q \<in> set (agent_profiles d) \<Longrightarrow> ap_ID q = i \<Longrightarrow> ap_TenantID q \<noteq> T"
  shows "spared T d (snd (DeleteProfile i d))"
proof -
  have same: "filter (\<lambda>p. ap_TenantID p = T) (delete_where (\<lambda>p. ap_ID p = i) (agent_profiles d)) = filter (\<lambda>p. ap_TenantID p = T) (agent_profiles d)"
    using assms unfolding delete_where_def filter_filter by (auto intro!: filter_cong)
  have less: "drawn u n (map ap_ID rows) \<Longrightarrow> drawn u n (map ap_ID (delete_where Q rows))" for u n Q rows
    by (auto simp: drawn_def delete_where_def distinct_map_filter)
  then show ?thesis using same
    by (auto simp: DeleteProfile_def statement_def spared_def keys_ok_def rows_of_def conv_ids_def split: list.split option.split)
qed

lemma agent_handlers_spared:
  assumes "cl_TenantID c \<noteq> T"
  shows "spared T d (snd (handleCreateAgent c b d))" "spared T d (snd (handleCreateSystemAgent c b d))"
    "spared T d (snd (handleUpdateAgent c i b' d))" "spared T d (snd (handleDeleteAgent c i d))"
proof -
  have patched: "ap_ID (patch_profile inp p) = ap_ID p" for inp p by (simp add: patch_profile_def)
  have new: "ap_TenantID (new_profile c v ow inp) \<noteq> T" for v ow inp using assms by (simp add: new_profile_def)
  show "spared T d (snd (handleCreateAgent c b d))" "spared T d (snd (handleCreateSystemAgent c b d))"
    by (auto simp: handleCreateAgent_def handleCreateSystemAgent_def decode_body_def case_prod_beta other.refl spared_CreateProfile [OF new]
        split: sum.split)
  show "spared T d (snd (handleUpdateAgent c i b' d))" unfolding handleUpdateAgent_def
    by (rule editable_agent_spared [OF assms])
      (simp add: decode_body_def case_prod_beta spared_UpdateProfile patched split: sum.split)
  show "spared T d (snd (handleDeleteAgent c i d))" unfolding handleDeleteAgent_def
    by (rule editable_agent_spared [OF assms]) (auto simp: case_prod_beta spared_DeleteProfile split: sum.split)
qed

lemma handleDeleteTenant_spared: "cl_Role c \<noteq> ''platform_admin'' \<Longrightarrow> snd (handleDeleteTenant further c i d) = d"
  by (simp add: handleDeleteTenant_def)

lemma services_spared:
  assumes "\<And>c. rq_claims rq = Some c \<Longrightarrow> cl_TenantID c \<noteq> T \<and> cl_Role c \<noteq> ''platform_admin''"
  shows "spared T (db_of s) (db_of (snd (services E h rq s)))"
proof (cases "h \<in> touching")
  case True
  have "spared T (db_of s) (db_of (snd (claimsFromReq k rq s)))"
    if "\<And>c. cl_TenantID c \<noteq> T \<Longrightarrow> cl_Role c \<noteq> ''platform_admin'' \<Longrightarrow> spared T (db_of s) (db_of (snd (k c rq s)))" for k
    using that assms by (auto simp: claimsFromReq_def other.refl split: option.split)
  then show ?thesis using True
    by (auto simp: touching_def conversation_handlers_spared handlePostMessage_spared handleUploadAttachment_spared handleCancelTask_spared
        agent_handlers_spared handleDeleteTenant_spared other.refl post_message_page_def case_prod_beta)
qed (rule other.on_services)

section \<open>The system as a whole\<close>

text \<open>What happens in a gateway, one thing at a time: a request is served, a goroutine of a posted message runs, a watcher
  sees some signals (\<open>w\<close> is what it has gathered so far), a heartbeat or a usage event comes in, time passes. The label of
  a request are the claims of its token, if it is valid.\<close>

inductive system_step ::
  "('rt, 'ep, 'w) api \<Rightarrow> 'rt ws_server \<Rightarrow> Claims option \<Rightarrow> ('rt, 'ep, 'w, 'a oauth_db_scheme) server \<Rightarrow>
   ('rt, 'ep, 'w, 'a oauth_db_scheme) server \<Rightarrow> bool" for E W where
  step_request: "serve_request E W X metrics redirectCode now rq (s, lines) = (r, (s', lines')) \<Longrightarrow> rq_claims rq = None \<Longrightarrow>
    actor = (case Validate (sv_jwt (ae_auth E)) (sv_tm (ae_auth E)) now (token_of_request rq) of Inl _ \<Rightarrow> None | Inr c \<Rightarrow> Some c) \<Longrightarrow>
    system_step E W actor s s'"
| step_job: "gs_jobs s = js @ j # js' \<Longrightarrow> system_step E W None s ((run_job E taskID j s)\<lparr>gs_jobs := js @ js'\<rparr>)"
| step_watch: "(cid, tid) \<in> set (gw_watchers (gs_gw s)) \<Longrightarrow> watch_loop W cid tid sigs w (gw_rt (gs_gw s), db_of s) = (w', rt, d) \<Longrightarrow>
    system_step E W None s (s\<lparr>gs_gw := (gs_gw s)\<lparr>gw_rt := rt, gw_db := d\<rparr>\<rparr>)"
| step_heartbeat: "system_step E W None s (put_db (handleHeartbeat hb (db_of s)) s)"
| step_usage: "system_step E W None s (put_db (handleEvent ev (db_of s)) s)"
| step_time: "system_step E W None s (put_db ((db_of s)\<lparr>clock := now\<rparr>) s)"

text \<open>A run in which nobody of the tenant \<open>T\<close> and no platform administrator sends a request\<close>

definition outsider :: "string \<Rightarrow> Claims option \<Rightarrow> bool" where
  "outsider T actor \<longleftrightarrow> (\<forall>c. actor = Some c \<longrightarrow> cl_TenantID c \<noteq> T \<and> cl_Role c \<noteq> ''platform_admin'')"

inductive outsiders_run ::
  "('rt, 'ep, 'w) api \<Rightarrow> 'rt ws_server \<Rightarrow> string \<Rightarrow> ('rt, 'ep, 'w, 'a oauth_db_scheme) server \<Rightarrow>
   ('rt, 'ep, 'w, 'a oauth_db_scheme) server \<Rightarrow> bool" for E W T s where
  run_none: "outsiders_run E W T s s"
| run_step: "outsiders_run E W T s s1 \<Longrightarrow> system_step E W actor s1 s2 \<Longrightarrow> outsider T actor \<Longrightarrow> outsiders_run E W T s s2"

text \<open>No goroutine or watcher works for the tenant.\<close>

definition apart :: "string \<Rightarrow> string \<Rightarrow> string \<Rightarrow> 'a oauth_db_scheme \<Rightarrow> bool" where
  "apart T cid tid d \<longleftrightarrow> cid \<notin> conv_ids T d \<and> (tid = '''' \<or> tid \<notin> task_ids T d)"

definition idle_for :: "string \<Rightarrow> ('rt, 'ep, 'w, 'a oauth_db_scheme) server \<Rightarrow> bool" where
  "idle_for T s \<longleftrightarrow>
     (\<forall>j \<in> set (gs_jobs s). dj_tenantID j \<noteq> T \<and> cv_ID (dj_convo j) \<notin> conv_ids T (db_of s)) \<and>
     (\<forall>(cid, tid) \<in> set (gw_watchers (gs_gw s)). apart T cid tid (db_of s))"

lemma spared_apart: "spared T d d' \<Longrightarrow> keys_ok d \<Longrightarrow> apart T cid tid d' = apart T cid tid d"
  using rows_of_ids [of T d' d] by (simp add: spared_def apart_def)

lemma spared_then:
  assumes "apart T cid tid d" "spared T d d1" "apart T cid tid d1 \<Longrightarrow> spared T d1 d2"
  shows "spared T d d2"
proof (rule spared_keys)
  assume "keys_ok d"
  then have "apart T cid tid d1" using assms(1,2) spared_apart by blast
  then show "spared T d d2" by (rule other.trans [OF assms(2) assms(3)])
qed

lemma watch_event_spared:
  assumes "apart T cid tid d"
  shows "spared T d (snd (snd (watch_event W cid tid evt w (rt, d))))"
proof -
  have persist: "spared T d (persistAssistantMessage W cid a t d)" if "apart T cid tid d" for d a t
    using that by (simp add: persistAssistantMessage_def apart_def assistant_message_def spared_AddMessage)
  have start: "spared T d (snd (watch_start W cid tid evt (rt, d)))"
  proof -
    obtain i d1 where i: "(if se_InstanceID evt \<noteq> '''' \<and> ws_pool W
            then (case GetInstanceByPodName (se_InstanceID evt) d of (Inl _, d1) \<Rightarrow> ('''', d1) | (Inr inst, d1) \<Rightarrow> (ai_ID inst, d1))
            else ('''', d)) = (i, d1)" by (meson surj_pair)
    have "spared T d (snd (GetInstanceByPodName (se_InstanceID evt) d))" by (simp add: calm)
    then have "spared T d d1" using i other.refl by (auto split: if_splits prod.splits sum.splits)
    then show ?thesis
      by (rule spared_then [OF assms]) (use i in \<open>auto simp: watch_start_def apart_def spared_task_updates other.refl\<close>)
  qed
  have finish: "spared T d (snd (watch_end W cid tid w (rt, d)))"
  proof -
    let ?d1 = "if ws_pool W \<and> wt_content w \<noteq> '''' then persistAssistantMessage W cid (wt_agentName w) (wt_content w) d else d"
    let ?d2 = "if tid \<noteq> '''' \<and> ws_pool W then snd (Complete tid done_json ?d1) else ?d1"
    have "spared T d ?d1" using persist [OF assms] other.refl by simp
    then have "spared T d ?d2"
      by (rule spared_then [OF assms]) (auto simp: apart_def spared_task_updates other.refl)
    moreover have "spared T ?d2 (snd (watch_end W cid tid w (rt, d)))"
      by (auto simp: watch_end_def Let_def case_prod_beta calm)
    ultimately show ?thesis by (rule other.trans)
  qed
  show ?thesis
    using start finish persist [OF assms] assms
    by (auto simp: watch_event_def other.refl apart_def spared_task_updates)
qed

lemma watch_loop_spared:
  "apart T cid tid (snd s) \<Longrightarrow> spared T (snd s) (snd (snd (watch_loop W cid tid sigs w s)))"
proof (induction W cid tid sigs w s rule: watch_loop.induct)
  case (2 W cid tid sig sigs w s)
  show ?case
  proof (cases sig)
    case (W_event evt)
    obtain wo s1 where e: "watch_event W cid tid evt w s = (wo, s1)" by (meson surj_pair)
    have first: "spared T (snd s) (snd s1)"
      using watch_event_spared [OF 2(2), of W evt w "fst s"] e by simp
    show ?thesis
    proof (cases wo)
      case (Some w1)
      have "spared T (snd s) (snd (snd (watch_loop W cid tid sigs w1 s1)))"
        by (rule spared_then [OF 2(2) first]) (use 2(1) W_event e Some in auto)
      then show ?thesis using W_event e Some by simp
    qed (use first W_event e in simp)
  qed (simp_all add: other.refl)
qed (simp add: other.refl)

text \<open>The task of a goroutine is for the conversation of its job.\<close>

lemma task_parts_keep:
  "dt_ConversationID (fst (with_task_record job task d)) = dt_ConversationID task"
  "dt_ConversationID (apply_profile P task) = dt_ConversationID task" "dt_DBTaskID (apply_profile P task) = dt_DBTaskID task"
  "dt_ConversationID (fst (with_active_skills S job task d)) = dt_ConversationID task"
  "dt_DBTaskID (fst (with_active_skills S job task d)) = dt_DBTaskID task"
  "dt_ConversationID (fst (with_credentials S job task d)) = dt_ConversationID task"
  "dt_DBTaskID (fst (with_credentials S job task d)) = dt_DBTaskID task"
  "dt_ConversationID (fst (with_instance S job task s)) = dt_ConversationID task"
  "dt_DBTaskID (fst (with_instance S job task s)) = dt_DBTaskID task"
  by (auto simp: with_task_record_def apply_profile_def with_active_skills_def with_credentials_def with_instance_def case_prod_beta Let_def
      split: sum.split option.split)

lemma dispatchTask_frame:
  assumes "dispatchTask dp task g = (r, g')"
  shows "gw_db g' = gw_db g \<and> set (gw_watchers g') \<subseteq> insert (dt_ConversationID task, dt_DBTaskID task) (set (gw_watchers g))"
  using assms by (auto simp: dispatchTask_def split: option.splits prod.splits sum.splits if_splits)

lemma Task_Create_row:
  assumes "Task_Create t c title d = (Inr row, d')"
  shows "row \<in> set (tasks d') \<and> tk_TenantID row = t"
proof -
  obtain r1 where ins: "insert_new (\<lambda>d uid.
        \<lparr>tk_ID = uid, tk_TenantID = t, tk_ConversationID = c, tk_AgentID = None, tk_Title = title, tk_Status = ''pending'',
         tk_Result = None, tk_Error = None, tk_CreatedAt = clock d, tk_UpdatedAt = clock d, tk_CompletedAt = None\<rparr>)
      (\<lambda>row d. d\<lparr>tasks := tasks d @ [row]\<rparr>) d = (r1, d')" "scanTask r1 = Inr row"
    using assms by (auto simp: Task_Create_def split: prod.splits)
  from ins(1) show ?thesis
    by (cases rule: insert_new_state) (use ins(2) in \<open>auto simp: scanTask_def\<close>)
qed

lemma with_task_record_spared:
  assumes "dj_tenantID job \<noteq> T" "keys_ok d" "with_task_record job task d = (task', d')"
  shows "spared T d d' \<and> (dt_DBTaskID task' = dt_DBTaskID task \<or> dt_DBTaskID task' \<notin> task_ids T d')"
proof -
  obtain r d1 where c: "Task_Create (dj_tenantID job) (Some (cv_ID (dj_convo job))) (''Agent task: '' @ dt_ProfileName task) d = (r, d1)"
    by (meson surj_pair)
  have sp: "spared T d d1" using spared_Task_Create [OF assms(1)] c by (metis snd_conv)
  show ?thesis
  proof (cases r)
    case (Inr row)
    then have "tk_ID row \<notin> task_ids T d1"
      using foreign_row [of d1 row T] Task_Create_row [of "dj_tenantID job" _ _ d row d1] c sp assms(1,2) by (auto simp: spared_def)
    then show ?thesis using assms(3) c Inr sp by (auto simp: with_task_record_def)
  qed (use assms(3) c sp in \<open>auto simp: with_task_record_def\<close>)
qed

lemma dispatchToAgent_spared:
  assumes "dj_tenantID job \<noteq> T" "keys_ok (gw_db g)"
  shows "spared T (gw_db g) (gw_db (dispatchToAgent S taskID job g)) \<and>
    (\<forall>(cid, tid) \<in> set (gw_watchers (dispatchToAgent S taskID job g)). (cid, tid) \<in> set (gw_watchers g) \<or>
       cid = cv_ID (dj_convo job) \<and> (tid = '''' \<or> tid \<notin> task_ids T (gw_db (dispatchToAgent S taskID job g))))"
proof -
  obtain r d1 where l: "ListMessages (cv_ID (dj_convo job)) 500 (gw_db g) = (r, d1)" by (meson surj_pair)
  have "spared T (gw_db g) (snd (ListMessages (cv_ID (dj_convo job)) 500 (gw_db g)))" by (simp add: calm)
  then have s1: "spared T (gw_db g) d1" using l by simp
  show ?thesis
  proof (cases r)
    case (Inr msgs)
    define task0 where "task0 = apply_profile (svc_profiles S)
      (zero_task\<lparr>dt_TaskID := taskID, dt_ConversationID := cv_ID (dj_convo job), dt_TenantID := dj_tenantID job,
         dt_ProfileName := (if dj_profileName job = '''' then ''default-orchestrator'' else dj_profileName job),
         dt_ProfileType := (if dj_profileType job = '''' then ''orchestrator'' else dj_profileType job),
         dt_Messages := buildMessages (svc_parse_blocks S) msgs\<rparr>)"
    then have task0: "dt_ConversationID task0 = cv_ID (dj_convo job)" "dt_DBTaskID task0 = ''''"
      by (simp_all add: task_parts_keep zero_task_def)
    have steps: "dispatchToAgent S taskID job g =
        (case with_task_record job task0 d1 of (task1, d2) \<Rightarrow> case with_active_skills S job task1 d2 of (task2, d3) \<Rightarrow>
         case with_credentials S job task2 d3 of (task3, d4) \<Rightarrow> case with_instance S job task3 (gw_rt g, d4) of (task4, rt5, d5) \<Rightarrow>
           snd (dispatchTask (svc_dispatcher S) task4 (g\<lparr>gw_db := d5, gw_rt := rt5\<rparr>)))"
      using l Inr by (simp add: dispatchToAgent_def Let_def task0_def)
    obtain task1 d2 where t1: "with_task_record job task0 d1 = (task1, d2)" by (meson surj_pair)
    obtain task2 d3 where t2: "with_active_skills S job task1 d2 = (task2, d3)" by (meson surj_pair)
    obtain task3 d4 where t3: "with_credentials S job task2 d3 = (task3, d4)" by (meson surj_pair)
    obtain task4 rt5 d5 where t4: "with_instance S job task3 (gw_rt g, d4) = (task4, rt5, d5)" by (metis prod.collapse)
    obtain r6 g6 where t5: "dispatchTask (svc_dispatcher S) task4 (g\<lparr>gw_db := d5, gw_rt := rt5\<rparr>) = (r6, g6)" by (meson surj_pair)
    have g6: "dispatchToAgent S taskID job g = g6" using steps t1 t2 t3 t4 t5 by simp
    have keys1: "keys_ok d1" using s1 assms(2) by (simp add: spared_def)
    have s2: "spared T d1 d2" and id1: "dt_DBTaskID task1 = '''' \<or> dt_DBTaskID task1 \<notin> task_ids T d2"
      using with_task_record_spared [OF assms(1) keys1 t1] task0(2) by auto
    have "spared T d2 (snd (with_active_skills S job task1 d2))" "spared T d3 (snd (with_credentials S job task2 d3))"
      "spared T d4 (snd (snd (with_instance S job task3 (gw_rt g, d4))))" by (simp_all add: calm)
    then have s5: "spared T d2 d5" using t2 t3 t4 other.trans [of T d2 d3] other.trans [of T d2 d4 d5] by auto
    have "keys_ok d2" using s2 keys1 by (simp add: spared_def)
    then have "task_ids T d5 = task_ids T d2" using s5 rows_of_ids [of T d5 d2] by (simp add: spared_def)
    moreover have "dt_DBTaskID task4 = dt_DBTaskID task1" "dt_ConversationID task4 = cv_ID (dj_convo job)"
      using task_parts_keep(5) [of S job task1 d2] task_parts_keep(7) [of S job task2 d3] task_parts_keep(9) [of S job task3 "(gw_rt g, d4)"]
        task_parts_keep(4) [of S job task1 d2] task_parts_keep(6) [of S job task2 d3] task_parts_keep(8) [of S job task3 "(gw_rt g, d4)"]
        task_parts_keep(1) [of job task0 d1] task0(1) t1 t2 t3 t4 by simp_all
    moreover have "spared T (gw_db g) d5" using s1 s2 s5 other.trans by blast
    ultimately show ?thesis using dispatchTask_frame [OF t5] id1 g6 by auto
  qed (use l s1 in \<open>auto simp: dispatchToAgent_def\<close>)
qed

text \<open>Requests start goroutines for the conversations of their caller only, and no watchers.\<close>

lemma post_message_job:
  assumes "handlePostMessage can c i b d = (r, d', Some j)" "cl_TenantID c \<noteq> T" "keys_ok d"
  shows "dj_tenantID j \<noteq> T \<and> cv_ID (dj_convo j) \<notin> conv_ids T d"
proof -
  obtain g d1 where get: "Conv_Get i d = (g, d1)" by (meson surj_pair)
  then obtain convo where convo: "g = Inr convo" "cv_TenantID convo = cl_TenantID c" "dj_convo j = convo" "dj_tenantID j = cl_TenantID c"
    using assms(1) by (auto simp: handlePostMessage_def split: sum.splits if_splits option.splits prod.splits)
  then have "convo \<in> set (conversations d)" using Conv_Get_state [OF get] by blast
  then show ?thesis using convo assms(2) foreign_conv [OF assms(3)] by simp
qed

lemma services_start:
  assumes "\<And>c. rq_claims rq = Some c \<Longrightarrow> cl_TenantID c \<noteq> T" "keys_ok (db_of s)"
  shows "gw_watchers (gs_gw (snd (services E h rq s))) = gw_watchers (gs_gw s) \<and>
    (\<forall>j \<in> set (gs_jobs (snd (services E h rq s))). j \<in> set (gs_jobs s) \<or> dj_tenantID j \<noteq> T \<and> cv_ID (dj_convo j) \<notin> conv_ids T (db_of s))"
proof (cases "h = HandlePostMessage")
  case True
  show ?thesis
  proof (cases "rq_claims rq")
    case (Some c)
    obtain r d' job where p: "handlePostMessage True c (PathValue ''id'' rq) (dec_message (ae_dec E) (rq_body rq)) (db_of s) = (r, d', job)"
      by (metis prod.collapse)
    then have "snd (services E h rq s) = (put_db d' s)\<lparr>gs_jobs := gs_jobs s @ (case job of None \<Rightarrow> [] | Some j \<Rightarrow> [j])\<rparr>"
      using True Some by (simp add: claimsFromReq_def post_message_page_def)
    then show ?thesis
      using post_message_job [of True c _ _ "db_of s" r d'] p assms(1) [OF Some] assms(2) by (cases job) auto
  qed (use True in \<open>simp add: claimsFromReq_def\<close>)
next
  case False
  have "gw_watchers (gs_gw (snd (claimsFromReq k rq s))) = gw_watchers (gs_gw s) \<and> gs_jobs (snd (claimsFromReq k rq s)) = gs_jobs s"
    if "\<And>c. gw_watchers (gs_gw (snd (k c rq s))) = gw_watchers (gs_gw s) \<and> gs_jobs (snd (k c rq s)) = gs_jobs s" for k
    using that by (simp add: claimsFromReq_def split: option.split)
  then have "gw_watchers (gs_gw (snd (services E h rq s))) = gw_watchers (gs_gw s) \<and> gs_jobs (snd (services E h rq s)) = gs_jobs s"
    using False by (cases h) (simp_all add: db_page_def auth_page_def sso_page_def engine_page_def file_page_def store_memory_page_def
        search_memory_page_def Let_def case_prod_beta)
  then show ?thesis by simp
qed

lemma ws_page_frame:
  "spared T (db_of s) (db_of (snd (ws_page W X rq s))) \<and> gw_watchers (gs_gw (snd (ws_page W X rq s))) = gw_watchers (gs_gw s) \<and>
     gs_jobs (snd (ws_page W X rq s)) = gs_jobs s"
proof -
  have "spared T d (snd (Conv_Get i d))" for i d by (simp add: calm)
  then show ?thesis
    by (auto simp: ws_page_def handleConvStream_def Let_def case_prod_beta other.refl split: sum.split option.split)
qed

lemma routed_page:
  assumes "(p, page) \<in> set (gateway_routes E W X metrics)"
  shows "snd (page rq s) = s \<or> (\<exists>h. snd (page rq s) = snd (services E h rq s)) \<or> snd (page rq s) = snd (ws_page W X rq s)"
proof -
  consider "(p, page) \<in> set (API_Register (services E))" | "page = ws_page W X"
    | "page \<in> {healthz, \<lambda>rq s. (Some legacyHandleChat, s), \<lambda>rq s. (Some (metrics rq), s)}"
    using assms by (auto simp: gateway_routes_def gateway_mux_def)
  then show ?thesis
  proof cases
    case 1
    then show ?thesis by (auto simp: API_Register_def RequireAuth_def split: option.splits)
  qed (auto simp: healthz_def)
qed

lemma served_request_idle:
  assumes "serve_request E W X metrics redirectCode now rq (s, lines) = (r, (s', lines'))" "rq_claims rq = None"
    and "outsider T (case Validate (sv_jwt (ae_auth E)) (sv_tm (ae_auth E)) now (token_of_request rq) of Inl _ \<Rightarrow> None | Inr c \<Rightarrow> Some c)"
    and "keys_ok (db_of s)"
  shows "spared T (db_of s) (db_of s') \<and> gw_watchers (gs_gw s') = gw_watchers (gs_gw s) \<and>
    (\<forall>j \<in> set (gs_jobs s'). j \<in> set (gs_jobs s) \<or> dj_tenantID j \<noteq> T \<and> cv_ID (dj_convo j) \<notin> conv_ids T (db_of s))"
proof -
  consider "s' = s" | p page vs cl r0 where "(p, page) \<in> set (gateway_routes E W X metrics)" "page (rq\<lparr>rq_values := vs, rq_claims := cl\<rparr>) s = (r0, s')"
      "cl = rq_claims rq \<or> (\<exists>claims. cl = Some claims \<and> Validate (sv_jwt (ae_auth E)) (sv_tm (ae_auth E)) now (token_of_request rq) = Inr claims)"
    using gateway_runs_one_page [OF assms(1) [unfolded serve_request_def]] by blast
  then show ?thesis
  proof cases
    case 2
    let ?rq = "rq\<lparr>rq_values := vs, rq_claims := cl\<rparr>"
    have cl: "cl_TenantID c \<noteq> T \<and> cl_Role c \<noteq> ''platform_admin''" if "rq_claims ?rq = Some c" for c
      using that 2(3) assms(2,3) by (auto simp: outsider_def)
    have "s' = snd (page ?rq s)" using 2(2) by simp
    then consider "s' = s" | h where "s' = snd (services E h ?rq s)" | "s' = snd (ws_page W X ?rq s)"
      using routed_page [OF 2(1), of ?rq s] by auto
    then show ?thesis
    proof cases
      case (2 h)
      then show ?thesis using services_spared [of ?rq T s E h] services_start [of ?rq T s E h] cl assms(4) by blast
    next
      case 3
      then show ?thesis using ws_page_frame [of T s W X ?rq] by simp
    qed (simp add: other.refl)
  qed (simp add: other.refl)
qed

lemma system_step_idle:
  assumes "system_step E W actor s s'" "outsider T actor" "keys_ok (db_of s)" "idle_for T s"
  shows "spared T (db_of s) (db_of s') \<and> idle_for T s'"
  using assms
proof cases
  case (step_request X metrics redirectCode now rq lines r lines')
  then have served: "spared T (db_of s) (db_of s') \<and> gw_watchers (gs_gw s') = gw_watchers (gs_gw s) \<and>
    (\<forall>j \<in> set (gs_jobs s'). j \<in> set (gs_jobs s) \<or> dj_tenantID j \<noteq> T \<and> cv_ID (dj_convo j) \<notin> conv_ids T (db_of s))"
    using served_request_idle assms(2,3) by blast
  then show ?thesis
    using assms(3,4) rows_of_ids [of T "db_of s'" "db_of s"] by (auto simp: idle_for_def spared_def apart_def)
next
  case (step_job js j js' taskID)
  then have j: "dj_tenantID j \<noteq> T" "cv_ID (dj_convo j) \<notin> conv_ids T (db_of s)" using assms(4) by (auto simp: idle_for_def)
  note d = dispatchToAgent_spared [OF j(1) assms(3), of "ae_dispatch E" taskID]
  moreover from d have "conv_ids T (db_of s') = conv_ids T (db_of s) \<and> task_ids T (db_of s') = task_ids T (db_of s)"
    using rows_of_ids [of T "db_of s'" "db_of s"] assms(3) step_job by (simp add: spared_def run_job_def)
  ultimately show ?thesis
    using step_job assms(4) j by (fastforce simp: idle_for_def apart_def run_job_def)
next
  case (step_watch cid tid sigs w w' rt d)
  then have "spared T (db_of s) d"
    using watch_loop_spared [of T cid tid "(gw_rt (gs_gw s), db_of s)" W sigs w] assms(4) by (auto simp: idle_for_def)
  then show ?thesis
    using step_watch assms(3,4) rows_of_ids [of T d "db_of s"] by (auto simp: idle_for_def spared_def apart_def)
next
  case (step_heartbeat hb)
  have "spared T (db_of s) (handleHeartbeat hb (db_of s))" by (simp add: calm)
  then show ?thesis
    using step_heartbeat assms(3,4) rows_of_ids [of T "handleHeartbeat hb (db_of s)" "db_of s"] by (auto simp: idle_for_def spared_def apart_def)
next
  case (step_usage ev)
  have "spared T (db_of s) (handleEvent ev (db_of s))" by (simp add: calm)
  then show ?thesis
    using step_usage assms(3,4) rows_of_ids [of T "handleEvent ev (db_of s)" "db_of s"] by (auto simp: idle_for_def spared_def apart_def)
next
  case (step_time now)
  have "spared T (db_of s) ((db_of s)\<lparr>clock := now\<rparr>)" by (simp add: calm)
  then show ?thesis
    using step_time assms(3,4) by (auto simp: idle_for_def apart_def conv_ids_def task_ids_def)
qed

text \<open>C2: tenants are isolated. In any run of the gateway in which no member of tenant \<open>T\<close> and no platform
  administrator sends a request, whatever requests others send (with or without a token), whatever goroutines, watchers,
  heartbeats and usage events they cause and in whatever order, the conversations of \<open>T\<close> with their messages, its tasks, agent
  profiles and files stay as they are, row by row. The run starts with distinct primary keys and no work for \<open>T\<close> under way.
  Nothing is said of memories, whose handlers take the tenant from the body, or of credentials, usage and skills.\<close>

theorem tenants_are_isolated:
  assumes "outsiders_run E W T s s'" "keys_ok (db_of s)" "idle_for T s"
  shows "rows_of T (db_of s') = rows_of T (db_of s)"
proof -
  have "rows_of T (db_of s') = rows_of T (db_of s) \<and> keys_ok (db_of s') \<and> idle_for T s'"
    using assms(1)
  proof induction
    case (run_step s1 actor s2)
    then show ?case using system_step_idle [of E W actor s1 s2 T] by (simp add: spared_def)
  qed (use assms(2,3) in simp)
  then show ?thesis by blast
qed

section \<open>Tenants do not see each other's conversations\<close>

text \<open>The routes whose path names a conversation, read off their patterns.\<close>

fun names_conv :: "seg list \<Rightarrow> bool" where
  "names_conv (Lit w # Wild n # ps) \<longleftrightarrow> w = ''conversations'' \<or> w = ''conv'' \<or> names_conv ps"
| "names_conv (x # ps) \<longleftrightarrow> names_conv ps"
| "names_conv [] \<longleftrightarrow> False"

definition names_conversation :: "pattern \<Rightarrow> bool" where
  "names_conversation p = names_conv (pt_segs p)"

definition conversation_handlers :: "endpoint list" where
  "conversation_handlers =
     [HandleGetConversation, HandleUpdateConversation, HandleDeleteConversation, HandlePostMessage,
      HandleUploadAttachment, HandleListAttachments, HandleUsageByConversation]"

lemma conversation_routes:
  "map snd (filter (\<lambda>(p, _). names_conversation (parse_pattern p)) api_routes) = map (Pair True) conversation_handlers"
  "\<not> names_conversation (parse_pattern ''GET /healthz'')" "\<not> names_conversation (parse_pattern ''/ws/chat'')"
  "\<not> names_conversation (parse_pattern ''GET /metrics'')"
  by code_simp+

lemma conversation_route_cases:
  assumes "(p, page) \<in> set (gateway_routes E W X metrics)" "names_conversation p"
  obtains (api) h where "h \<in> set conversation_handlers" "page = RequireAuth (\<lambda>_. services E h)"
    | (ws) "page = ws_page W X"
proof -
  have "(\<exists>h \<in> set conversation_handlers. page = RequireAuth (\<lambda>_. services E h)) \<or> page = ws_page W X"
  proof (cases "(p, page) \<in> set (API_Register (services E))")
    case True
    then obtain q prot h where q: "(q, prot, h) \<in> set api_routes" "p = parse_pattern q"
      "page = (if prot then RequireAuth (\<lambda>_. services E h) else services E h)" by (auto simp: API_Register_def)
    then have "(prot, h) \<in> snd ` set (filter (\<lambda>(p, _). names_conversation (parse_pattern p)) api_routes)"
      using assms(2) by force
    then have "(prot, h) \<in> set (map (Pair True) conversation_handlers)"
      unfolding conversation_routes(1) [symmetric] by simp
    then show ?thesis using q(3) by auto
  next
    case False
    then show ?thesis using assms conversation_routes(2-4) by (auto simp: gateway_routes_def gateway_mux_def)
  qed
  then show thesis using api ws by blast
qed

text \<open>What a caller outside the tenant can be told about a conversation\<close>

definition told_nothing :: "response set" where
  "told_nothing =
     {writeError 401 ''unauthorized'', writeError 404 ''conversation not found'', writeError 403 ''forbidden'',
      http_Error ''conversation_id required'' 400, http_Error ''unauthorized'' 401, http_Error ''conversation not found'' 404}"

lemma own_conversation_foreign:
  assumes "\<And>c. c \<in> set (conversations d) \<Longrightarrow> cv_ID c = uid \<Longrightarrow> cv_TenantID c \<noteq> cl_TenantID claims"
  shows "\<exists>fs r. own_conversation claims uid k d = (r, d\<lparr>faults := fs\<rparr>) \<and> r \<in> told_nothing"
proof -
  obtain r d1 where g: "Conv_Get uid d = (r, d1)" by (meson surj_pair)
  from Conv_Get_state [OF g] assms g show ?thesis
    by (cases r) (auto simp: own_conversation_def told_nothing_def)
qed

lemma conversation_pages_foreign:
  assumes foreign: "\<And>c. c \<in> set (conversations (db_of s)) \<Longrightarrow> cv_ID c = PathValue ''id'' rq \<Longrightarrow> cv_TenantID c \<noteq> cl_TenantID claims"
    and rq: "rq_claims rq = Some claims" and h: "h \<in> set conversation_handlers"
  shows "\<exists>fs r. services E h rq s = (Some r, put_db ((db_of s)\<lparr>faults := fs\<rparr>) s) \<and> r \<in> told_nothing"
proof -
  note own = own_conversation_foreign [OF foreign]
  obtain r d1 where g: "Conv_Get (PathValue ''id'' rq) (db_of s) = (r, d1)" by (meson surj_pair)
  note st = Conv_Get_state [OF g]
  have tenant: "cv_TenantID c \<noteq> cl_TenantID claims" if "r = Inr c" for c using st foreign that by blast
  consider "h \<in> {HandleGetConversation, HandleUpdateConversation, HandleDeleteConversation, HandleListAttachments, HandleUsageByConversation}"
    | "h = HandlePostMessage" | "h = HandleUploadAttachment" using h by (auto simp: conversation_handlers_def)
  then show ?thesis
  proof cases
    case 1
    then have "\<exists>k. services E h rq s = (case own_conversation claims (PathValue ''id'' rq) k (db_of s) of (r, d) \<Rightarrow> (Some r, put_db d s))"
      using rq by (auto simp: claimsFromReq_def db_page_def handleGetConversation_def handleUpdateConversation_def
        handleDeleteConversation_def handleListAttachments_def handleUsageByConversation_def)
    then obtain k where k: "services E h rq s =
        (case own_conversation claims (PathValue ''id'' rq) k (db_of s) of (r, d) \<Rightarrow> (Some r, put_db d s))" by blast
    obtain fs r where "own_conversation claims (PathValue ''id'' rq) k (db_of s) = (r, (db_of s)\<lparr>faults := fs\<rparr>)" "r \<in> told_nothing"
      using own by blast
    then show ?thesis unfolding k by auto
  next
    case 2
    then show ?thesis using g st tenant rq
      by (cases r) (auto simp: claimsFromReq_def post_message_page_def handlePostMessage_def told_nothing_def put_db_def)
  next
    case 3
    then show ?thesis using g st tenant rq
      by (cases r) (auto simp: claimsFromReq_def file_page_def handleUploadAttachment_def told_nothing_def put_db_def)
  qed
qed

lemma ws_page_foreign:
  assumes foreign: "\<And>c claims. rq_claims rq = Some claims \<Longrightarrow> c \<in> set (conversations (db_of s)) \<Longrightarrow> cv_ID c = PathValue ''id'' rq \<Longrightarrow>
      cv_TenantID c \<noteq> cl_TenantID claims"
    and "ws_pool W"
  shows "\<exists>fs r. ws_page W X rq s = (Some r, put_db ((db_of s)\<lparr>faults := fs\<rparr>) s) \<and> r \<in> told_nothing"
proof -
  obtain r d1 where g: "Conv_Get (PathValue ''id'' rq) (db_of s) = (r, d1)" by (meson surj_pair)
  note st = Conv_Get_state [OF g]
  have same: "put_db ((db_of s)\<lparr>faults := faults (db_of s)\<rparr>) s = s" by (simp add: put_db_def)
  show ?thesis
  proof (cases "PathValue ''id'' rq = '''' \<or> rq_claims rq = None")
    case True
    then have "ws_page W X rq s \<in> {(Some (http_Error ''conversation_id required'' 400), s), (Some (http_Error ''unauthorized'' 401), s)}"
      by (auto simp: ws_page_def handleConvStream_def Let_def)
    then show ?thesis using same by (intro exI [of _ "faults (db_of s)"]) (auto simp: told_nothing_def)
  next
    case False
    then obtain claims where c: "rq_claims rq = Some claims" by auto
    have "case r of Inl _ \<Rightarrow> True | Inr convo \<Rightarrow> cv_TenantID convo \<noteq> cl_TenantID claims"
      using st foreign [OF c] by (auto split: sum.split)
    then have "ws_page W X rq s = (Some (http_Error ''conversation not found'' 404), put_db d1 s)"
      using False c g assms(2) by (simp add: ws_page_def handleConvStream_def put_db_def)
    then show ?thesis using st by (auto simp: told_nothing_def)
  qed
qed

text \<open>C12: a conversation is invisible outside its tenant, on every route that names one. Take any route of the gateway whose
  path has a conversation id (reading, renaming and deleting a conversation, posting a message, uploading and listing
  attachments, the usage of a conversation, and the WebSocket stream, in a gateway with a database) and a request whose
  caller is not known or not of the tenant that the conversation with this id belongs to. The answer is one of a few fixed
  errors that say nothing about the conversation, and nothing of the gateway's state changes: no row of any table, no
  file, no route, no message published, no goroutine started; also when statements are refused.\<close>

theorem conversations_are_isolated:
  assumes "(p, page) \<in> set (gateway_routes E W X metrics)" "names_conversation p" "ws_pool W"
    and "\<And>c claims. rq_claims rq = Some claims \<Longrightarrow> c \<in> set (conversations (db_of s)) \<Longrightarrow> cv_ID c = PathValue ''id'' rq \<Longrightarrow>
      cv_TenantID c \<noteq> cl_TenantID claims"
  shows "\<exists>fs r. page rq s = (Some r, put_db ((db_of s)\<lparr>faults := fs\<rparr>) s) \<and> r \<in> told_nothing"
  using assms(1,2)
proof (cases rule: conversation_route_cases)
  case (api h)
  show ?thesis
  proof (cases "rq_claims rq")
    case None
    then show ?thesis
      using api(2) by (intro exI [of _ "faults (db_of s)"]) (simp add: RequireAuth_def put_db_def told_nothing_def)
  next
    case (Some claims)
    then have page: "page rq s = services E h rq s" using api(2) by (simp add: RequireAuth_def)
    show ?thesis unfolding page by (rule conversation_pages_foreign [OF assms(4) [OF Some] Some api(1)])
  qed
next
  case ws
  show ?thesis unfolding ws by (rule ws_page_foreign [OF assms(4,3)])
qed

section \<open>A gateway to run\<close>

definition ref_decoders :: decoders where
  "ref_decoders = \<lparr>dec_register = (\<lambda>_. Inl ''EOF''), dec_login = (\<lambda>_. Inl ''EOF''), dec_refresh = (\<lambda>_. Inl ''EOF''),
     dec_logout = (\<lambda>_. Inl ''EOF''), dec_create_tenant = (\<lambda>_. Inl ''EOF''), dec_update_tenant = (\<lambda>_. Inl ''EOF''),
     dec_invite = (\<lambda>_. Inl ''EOF''), dec_accept = (\<lambda>_. Inl ''EOF''), dec_agent = (\<lambda>_. Inl ''EOF''),
     dec_agent_patch = (\<lambda>_. Inl ''EOF''), dec_conversation = (\<lambda>_. Inl ''EOF''), dec_title = (\<lambda>b. Inr b),
     dec_message = (\<lambda>_. Inl ''EOF''), dec_publish = (\<lambda>_. Inl ''EOF''), dec_update_skill = (\<lambda>_. Inl ''EOF''),
     dec_store_memory = (\<lambda>_. Inl ''EOF''), dec_search_memory = (\<lambda>_. Inl ''EOF''), dec_store_credential = (\<lambda>_. Inl ''EOF''),
     dec_issue_token = (\<lambda>_. Inl ''EOF''), dec_provider_credentials = (\<lambda>_. Inl ''EOF''), dec_form = (\<lambda>_. ref_form)\<rparr>"

definition ref_api :: "(MemoryRoutingTable, unit, unit) api" where
  "ref_api = \<lparr>ae_auth = ref_service, ae_dec = ref_decoders, ae_dispatch = busy_services, ae_visit = (\<lambda>xs. xs),
     ae_authCodeURL = (\<lambda>_ st. st), ae_redeem = (\<lambda>_ _. Inl EOF), ae_verify = (\<lambda>_ _. Inl EOF), ae_engine = None,
     ae_post = (\<lambda>_. Undelivered EOF), ae_page = (\<lambda>p. p), ae_parse_time = (\<lambda>_. None), ae_parse_providers = (\<lambda>_. None),
     ae_provider_ids = (\<lambda>_. []), ae_vectors = ref_vectors, ae_files = ref_uploads, ae_tick = (\<lambda>_. 0)\<rparr>"

text \<open>Tenant \<open>t\<close> has a conversation with the first key.\<close>

definition ref_server :: "(MemoryRoutingTable, unit, unit, oauth_db) server" where
  "ref_server = \<lparr>gs_gw = \<lparr>gw_db = gmail_db\<lparr>uuid_count := 1, conversations := [\<lparr>cv_ID = ''u'', cv_TenantID = ''t'', cv_UserID = None, cv_Title = ''plan'',
       cv_Status = ''active'', cv_CreatedAt = 0, cv_UpdatedAt = 0\<rparr>]\<rparr>, gw_rt = NewMemoryRoutingTable, gw_nats = \<lparr>published = [], pub_outcomes = []\<rparr>,
       gw_watchers = []\<rparr>,
     gs_src = [], gs_states = Map.empty, gs_sent = [], gs_oidc = None, gs_disk = ref_disk, gs_router = buildRouter ref_sdks (ref_config ''key''),
     gs_world = (), gs_jobs = []\<rparr>"

definition ref_session :: ws_session where
  "ref_session = \<lparr>wx_refused = None, wx_subscribed = Inr (), wx_signals = (\<lambda>_. [])\<rparr>"

abbreviation ref_serve_request :: "request \<Rightarrow> _" where
  "ref_serve_request rq \<equiv> serve_request ref_api run_server (\<lambda>_. ref_session) (\<lambda>_. writeJSON 200 JNull) 301 0 rq (ref_server, [])"

lemma ref_server_ok: "keys_ok (db_of ref_server)" "idle_for T ref_server"
proof -
  have "inj (\<lambda>n. replicate (Suc n) CHR ''u'')" by (rule injI) (metis length_replicate nat.inject)
  then show "keys_ok (db_of ref_server)" "idle_for T ref_server"
    by (simp_all add: keys_ok_def drawn_def ref_server_def gmail_db_def idle_for_def)
qed

theorem strangers_change_accounts_only_witness:
  "\<exists>r s' lines. ref_serve_request ((plain_request ''/v1/conversations/u'' '''')\<lparr>rq_method := ''DELETE''\<rparr>) = (r, (s', lines)) \<and>
     tenant_data (db_of s') = tenant_data (db_of ref_server)"
proof -
  let ?rq = "(plain_request ''/v1/conversations/u'' '''')\<lparr>rq_method := ''DELETE''\<rparr>"
  obtain r s' lines where run: "ref_serve_request ?rq = (r, (s', lines))" by (metis prod.collapse)
  have "decode_command [] = None" by code_simp
  then have "\<forall>claims. ref_signed HMAC (tm_secret (sv_tm (ae_auth ref_api))) claims (token_of_request ?rq) \<longrightarrow> \<not> unexpired 0 claims"
    by (simp add: ref_signed_def token_of_request_def plain_request_def)
  moreover have "jwt_spec (sv_jwt (ae_auth ref_api)) ref_signed" by (simp add: ref_api_def ref_jwt_spec)
  ultimately have "tenant_data (db_of s') = tenant_data (db_of ref_server)"
    using strangers_change_accounts_only [OF _ _ _ run] by (simp add: plain_request_def)
  with run show ?thesis by blast
qed

text \<open>A member of tenant \<open>x\<close> renames the conversation of \<open>t\<close>.\<close>

theorem tenants_are_isolated_witness:
  "\<exists>tok r s' lines. Generate ref_jwt (NewTokenManager ''s'') 0 ''eve'' ''x'' ''owner'' AccessTokenTTL = Inr tok \<and>
     ref_serve_request ((plain_request ''/v1/conversations/u'' (''Bearer '' @ tok))\<lparr>rq_method := ''PATCH'', rq_body := ''mine''\<rparr>) = (r, (s', lines)) \<and>
     rows_of ''t'' (db_of s') = rows_of ''t'' (db_of ref_server)"
proof -
  obtain tok where tok: "Generate ref_jwt (NewTokenManager ''s'') 0 ''eve'' ''x'' ''owner'' AccessTokenTTL = Inr tok" by (simp add: ref_Generate)
  let ?rq = "(plain_request ''/v1/conversations/u'' (''Bearer '' @ tok))\<lparr>rq_method := ''PATCH'', rq_body := ''mine''\<rparr>"
  obtain r s' lines where run: "ref_serve_request ?rq = (r, (s', lines))" by (metis prod.collapse)
  have token: "token_of_request ?rq = tok" by (simp add: token_of_request_def plain_request_def trim_prefix_append [of "''Bearer ''", simplified])
  let ?actor = "Some (issued_claims ref_jwt 0 ''eve'' ''x'' ''owner'' AccessTokenTTL)"
  have actor: "?actor = (case Validate (sv_jwt (ae_auth ref_api)) (sv_tm (ae_auth ref_api)) 0 (token_of_request ?rq) of Inl _ \<Rightarrow> None | Inr c \<Rightarrow> Some c)"
    unfolding token using issued_token_valid [OF ref_jwt_spec tok] by (simp add: ref_api_def)
  have "system_step ref_api run_server ?actor ref_server s'"
    by (rule step_request [OF run _ actor]) (simp add: plain_request_def)
  moreover have "outsider ''t'' ?actor" by (simp add: outsider_def issued_claims_def)
  ultimately have "outsiders_run ref_api run_server ''t'' ref_server s'" by (rule run_step [OF run_none])
  from tenants_are_isolated [OF this ref_server_ok] run tok show ?thesis by blast
qed

text \<open>A member of tenant \<open>x\<close> uploads a file to the conversation of \<open>t\<close>.\<close>

theorem conversations_are_isolated_witness:
  "\<exists>fs r. RequireAuth (\<lambda>_. services ref_api HandleUploadAttachment)
      ((plain_request ''/v1/conversations/u/attachments'' '''')\<lparr>rq_claims := Some (API_Resources.member_claims ''x''), rq_values := [(''id'', ''u'')]\<rparr>) ref_server =
      (Some r, put_db ((db_of ref_server)\<lparr>faults := fs\<rparr>) ref_server) \<and> r \<in> told_nothing"
proof (rule conversations_are_isolated)
  let ?p = "''POST /v1/conversations/{id}/attachments''"
  have "(?p, True, HandleUploadAttachment) \<in> set api_routes" by (simp add: api_routes_def)
  then have "(parse_pattern ?p, RequireAuth (\<lambda>_. services ref_api HandleUploadAttachment)) \<in> set (API_Register (services ref_api))"
    unfolding API_Register_def set_map by (rule image_eqI [rotated]) simp
  then show "(parse_pattern ?p, RequireAuth (\<lambda>_. services ref_api HandleUploadAttachment)) \<in>
      set (gateway_routes ref_api run_server (\<lambda>_. ref_session) (\<lambda>_. writeJSON 200 JNull))"
    unfolding gateway_routes_def gateway_mux_def if_True set_append by blast
  show "names_conversation (parse_pattern ?p)" by code_simp
  show "ws_pool run_server" by (simp add: run_server_def)
qed (auto simp: ref_server_def API_Resources.member_claims_def)

end
