(* ===== verification/Lifecycle.thy ===== *)
theory Lifecycle
  imports API_Services
begin

text \<open>
  Starting and stopping: \<open>New\<close>, \<open>Start\<close> and \<open>Stop\<close> of the gateway (\<^verbatim>\<open>internal/gateway/server.go\<close>) and of the control
  plane (\<^verbatim>\<open>internal/controlplane/server.go\<close>), the telemetry they run with (\<open>Init\<close> of \<^verbatim>\<open>internal/otel/otel.go\<close>), the three
  commands of \<^verbatim>\<open>cmd/volund\<close>, and what the gRPC servers answer. The state is what the process holds open.
\<close>

section \<open>What a process holds open\<close>

text \<open>A connection to NATS and a subscription on it carry the number of the connection. \<open>host_outcomes\<close> are the outcomes of
  the operations to come; after the last one all succeed.\<close>

datatype handle =
    Nats nat string
  | Subscription nat string
  | Listener string string
  | Redis_conn string
  | Db_pool string
  | Telemetry string

record host =
  handles :: "handle list"
  conns :: nat
  host_outcomes :: "go_err option list"

definition attempt :: "host \<Rightarrow> unit result \<times> host" where
  "attempt w =
     (case host_outcomes w of
        [] \<Rightarrow> (Inr (), w)
      | None # os \<Rightarrow> (Inr (), w\<lparr>host_outcomes := os\<rparr>)
      | Some err # os \<Rightarrow> (Inl err, w\<lparr>host_outcomes := os\<rparr>))"

definition hold :: "handle \<Rightarrow> host \<Rightarrow> host" where
  "hold h w = w\<lparr>handles := handles w @ [h]\<rparr>"

definition acquire :: "handle \<Rightarrow> host \<Rightarrow> unit result \<times> host" where
  "acquire h w = and_then (attempt w) (\<lambda>_ w1. (Inr (), hold h w1))"

definition let_go :: "(handle \<Rightarrow> bool) \<Rightarrow> host \<Rightarrow> host" where
  "let_go P w = w\<lparr>handles := filter (\<lambda>h. \<not> P h) (handles w)\<rparr>"

text \<open>\<open>nats.Connect\<close>, \<open>Subscribe\<close>, \<open>Unsubscribe\<close> and \<open>Drain\<close>, which ends the subscriptions with their connection\<close>

definition nats_Connect :: "string \<Rightarrow> host \<Rightarrow> nat result \<times> host" where
  "nats_Connect url w = and_then (acquire (Nats (conns w) url) w) (\<lambda>_ w1. (Inr (conns w), w1\<lparr>conns := Suc (conns w)\<rparr>))"

definition on_conn :: "nat \<Rightarrow> handle \<Rightarrow> bool" where
  "on_conn n h = (case h of Nats m _ \<Rightarrow> m = n | Subscription m _ \<Rightarrow> m = n | _ \<Rightarrow> False)"

definition Drain :: "nat \<Rightarrow> host \<Rightarrow> host" where
  "Drain n = let_go (on_conn n)"

section \<open>Subscribers and the dispatcher\<close>

definition heartbeatSubject :: string where
  "heartbeatSubject = ''volund.events.io.volund.agent.heartbeat''"

definition usageSubject :: string where
  "usageSubject = ''volund.events.io.volund.usage.tokens''"

definition startInstanceSyncer :: "nat \<Rightarrow> host \<Rightarrow> handle result \<times> host" where
  "startInstanceSyncer n w =
     and_then (acquire (Subscription n heartbeatSubject) w) (\<lambda>_ w1. (Inr (Subscription n heartbeatSubject), w1))"

definition StartTracker :: "nat \<Rightarrow> host \<Rightarrow> handle result \<times> host" where
  "StartTracker n w = and_then (acquire (Subscription n usageSubject) w) (\<lambda>_ w1. (Inr (Subscription n usageSubject), w1))"

definition Syncer_Close :: "handle \<Rightarrow> host \<Rightarrow> host" where
  "Syncer_Close sub = let_go (\<lambda>h. h = sub)"

definition Tracker_Close :: "handle \<Rightarrow> host \<Rightarrow> host" where
  "Tracker_Close sub = let_go (\<lambda>h. h = sub)"

text \<open>A dispatcher with its connection, if it has one\<close>

definition connect_dispatcher :: "string \<Rightarrow> host \<Rightarrow> (Dispatcher \<times> nat option) result \<times> host" where
  "connect_dispatcher natsURL w =
     (if natsURL = '''' then (map_sum id (\<lambda>d. (d, None)) (Connect (\<lambda>_. Inr ()) natsURL), w)
      else (case nats_Connect natsURL w of
              (r, w1) \<Rightarrow>
                (map_sum id (\<lambda>d. (d, case r of Inl _ \<Rightarrow> None | Inr n \<Rightarrow> Some n)) (Connect (\<lambda>_. map_sum id (\<lambda>_. ()) r) natsURL), w1)))"

definition Dispatcher_Close :: "Dispatcher \<times> nat option \<Rightarrow> host \<Rightarrow> host" where
  "Dispatcher_Close d w = (case snd d of None \<Rightarrow> w | Some n \<Rightarrow> Drain n w)"

section \<open>The gateway\<close>

text \<open>The fields of \<open>Server\<close> that \<open>Start\<close> sets; \<open>gp_redis\<close> is the address of a Redis table.\<close>

record gateway_proc =
  gp_redis :: "string option"
  gp_natsConn :: "nat option"
  gp_instSyncer :: "handle option"
  gp_usageTracker :: "handle option"
  gp_dispatcher :: "(Dispatcher \<times> nat option) option"
  gp_grpcServer :: "string option"
  gp_httpServer :: "string option"

definition gateway_New :: "config \<Rightarrow> host \<Rightarrow> gateway_proc \<times> host" where
  "gateway_New cfg w =
     (let p = \<lparr>gp_redis = None, gp_natsConn = None, gp_instSyncer = None, gp_usageTracker = None, gp_dispatcher = None,
               gp_grpcServer = None, gp_httpServer = None\<rparr> in
      if cf_RedisAddr cfg \<noteq> '''' then
        (case acquire (Redis_conn (cf_RedisAddr cfg)) w of
           (Inl _, w1) \<Rightarrow> (p, w1)
         | (Inr _, w1) \<Rightarrow> (p\<lparr>gp_redis := Some (cf_RedisAddr cfg)\<rparr>, w1))
      else (p, w))"

definition ok_of :: "'a result \<Rightarrow> 'a option" where
  "ok_of r = (case r of Inl _ \<Rightarrow> None | Inr x \<Rightarrow> Some x)"

definition start_events :: "config \<Rightarrow> bool \<Rightarrow> gateway_proc \<Rightarrow> host \<Rightarrow> gateway_proc \<times> host" where
  "start_events cfg has_pool p w =
     (if cf_NATSUrl cfg \<noteq> '''' then
        (case nats_Connect (cf_NATSUrl cfg) w of
           (Inl _, w1) \<Rightarrow> (p, w1)
         | (Inr n, w1) \<Rightarrow>
             (if has_pool then
                (case startInstanceSyncer n w1 of
                   (syncer, w2) \<Rightarrow>
                     (case StartTracker n w2 of
                        (ut, w3) \<Rightarrow> (p\<lparr>gp_natsConn := Some n, gp_instSyncer := ok_of syncer, gp_usageTracker := ok_of ut\<rparr>, w3)))
              else (p\<lparr>gp_natsConn := Some n\<rparr>, w1)))
      else (p, w))"

definition start_dispatcher :: "config \<Rightarrow> gateway_proc \<Rightarrow> host \<Rightarrow> gateway_proc \<times> host" where
  "start_dispatcher cfg p w =
     (case connect_dispatcher (cf_NATSUrl cfg) w of (r, w1) \<Rightarrow> (p\<lparr>gp_dispatcher := ok_of r\<rparr>, w1))"

text \<open>The gRPC server listens before it is served; the HTTP server listens in the goroutine that serves it, which only logs
  an error.\<close>

definition serve_http :: "config \<Rightarrow> host \<Rightarrow> host" where
  "serve_http cfg w = snd (acquire (Listener ''gateway http'' (cf_GatewayHTTPAddr cfg)) w)"

definition gateway_Start :: "config \<Rightarrow> bool \<Rightarrow> gateway_proc \<Rightarrow> host \<Rightarrow> unit result \<times> gateway_proc \<times> host" where
  "gateway_Start cfg has_pool p w =
     (case start_events cfg has_pool p w of
        (p1, w1) \<Rightarrow>
          (case start_dispatcher cfg p1 w1 of
             (p2, w2) \<Rightarrow>
               (let p3 = p2\<lparr>gp_grpcServer := Some (cf_GatewayGRPCAddr cfg)\<rparr> in
                (case acquire (Listener ''gateway grpc'' (cf_GatewayGRPCAddr cfg)) w2 of
                   (Inl err, w3) \<Rightarrow> (Inl (Wrap ''gateway grpc listen'' err), p3, w3)
                 | (Inr _, w3) \<Rightarrow>
                     (Inr (), p3\<lparr>gp_httpServer := Some (cf_GatewayHTTPAddr cfg)\<rparr>,
                      serve_http cfg w3)))))"

definition when_set :: "'a option \<Rightarrow> ('a \<Rightarrow> host \<Rightarrow> host) \<Rightarrow> host \<Rightarrow> host" where
  "when_set x f w = (case x of None \<Rightarrow> w | Some y \<Rightarrow> f y w)"

definition close_server :: "string \<Rightarrow> string \<Rightarrow> host \<Rightarrow> host" where
  "close_server server addr = let_go (\<lambda>h. h = Listener server addr)"

definition gateway_Stop :: "gateway_proc \<Rightarrow> host \<Rightarrow> host" where
  "gateway_Stop p w =
     when_set (gp_redis p) (\<lambda>addr. let_go (\<lambda>h. h = Redis_conn addr))
       (when_set (gp_natsConn p) Drain
         (when_set (gp_dispatcher p) Dispatcher_Close
           (when_set (gp_usageTracker p) Tracker_Close
             (when_set (gp_instSyncer p) Syncer_Close
               (when_set (gp_grpcServer p) (close_server ''gateway grpc'')
                 (when_set (gp_httpServer p) (close_server ''gateway http'') w))))))"

text \<open>The services that \<open>Start\<close> hands to the API when there is a database: \<open>base\<close> has what libraries provide, \<open>profiles\<close> reads
  the skill configuration.\<close>

definition gateway_api ::
  "(string \<Rightarrow> aead) \<Rightarrow> (string \<Rightarrow> string \<rightharpoonup> profileEntry) \<Rightarrow> ('rt, 'ep, 'w) api \<Rightarrow> config \<Rightarrow> 'rt RoutingTable \<Rightarrow> Dispatcher option \<Rightarrow> disk \<Rightarrow>
   ('rt, 'ep, 'w) api \<times> disk" where
  "gateway_api gcm profiles base cfg rtab dispatcher d =
     (case init_store cfg d of
        (store, d') \<Rightarrow>
          (base\<lparr>ae_auth := (ae_auth base)\<lparr>sv_tm := NewTokenManager (cf_JWTSecret cfg)\<rparr>,
                ae_dispatch := (ae_dispatch base)\<lparr>svc_profiles := profiles (cf_SkillConfigPath cfg), svc_broker := init_broker gcm cfg,
                  svc_route := rtab, svc_dispatcher := dispatcher\<rparr>,
                ae_engine := Some (cf_BaseURL cfg),
                ae_files := \<lparr>as_available = True, as_Store = store, as_MaxUploadSize = cf_MaxUploadSize cfg\<rparr>\<rparr>, d'))"

section \<open>The control plane\<close>

definition controlplane_Start :: "config \<Rightarrow> host \<Rightarrow> unit result \<times> string option \<times> host" where
  "controlplane_Start cfg w =
     (case acquire (Listener ''controlplane'' (cf_ControlPlaneAddr cfg)) w of
        (Inl err, w1) \<Rightarrow> (Inl (Wrap ''controlplane listen'' err), Some (cf_ControlPlaneAddr cfg), w1)
      | (Inr _, w1) \<Rightarrow> (Inr (), Some (cf_ControlPlaneAddr cfg), w1))"

definition controlplane_Stop :: "string option \<Rightarrow> host \<Rightarrow> host" where
  "controlplane_Stop grpcServer w = when_set grpcServer (close_server ''controlplane'') w"

section \<open>Telemetry\<close>

text \<open>\<open>Init\<close> gives back the providers to shut down, the tracer provider first. Shutting down stops at the first error.\<close>

definition telemetry_Init :: "config \<Rightarrow> host \<Rightarrow> handle list result \<times> host" where
  "telemetry_Init cfg w =
     and_then (wrapped ''otel: build resource'' (attempt w)) (\<lambda>_ w1.
     and_then (if cf_OTLPEndpoint cfg \<noteq> '''' then wrapped ''otel: create trace exporter'' (attempt w1) else (Inr (), w1)) (\<lambda>_ w2.
     and_then (wrapped ''otel: create prometheus exporter'' (attempt (hold (Telemetry ''traces'') w2))) (\<lambda>_ w3.
       (Inr [Telemetry ''traces'', Telemetry ''metrics''], hold (Telemetry ''metrics'') w3))))"

primrec telemetry_shutdown :: "handle list \<Rightarrow> host \<Rightarrow> unit result \<times> host" where
  "telemetry_shutdown [] w = (Inr (), w)"
| "telemetry_shutdown (h # hs) w = and_then (attempt w) (\<lambda>_ w1. telemetry_shutdown hs (let_go (\<lambda>x. x = h) w1))"

section \<open>The commands\<close>

text \<open>\<open>os.Exit\<close> skips the deferred calls; a command that returns an error or ends runs them.\<close>

datatype ending = Exited | Failed go_err | Stopped

definition open_database :: "config \<Rightarrow> host \<Rightarrow> string option result \<times> host" where
  "open_database cfg w =
     (if cf_DatabaseURL cfg = '''' then (Inr None, w)
      else and_then (attempt w) (\<lambda>_ w1. and_then (acquire (Db_pool (cf_DatabaseURL cfg)) w1) (\<lambda>_ w2. (Inr (Some (cf_DatabaseURL cfg)), w2))))"

definition run_servers :: "config \<Rightarrow> bool \<Rightarrow> host \<Rightarrow> ending \<times> host" where
  "run_servers cfg has_pool w =
     (case gateway_New cfg w of
        (p0, w0) \<Rightarrow>
          (case gateway_Start cfg has_pool p0 w0 of
             (Inl err, _, w1) \<Rightarrow> (Failed err, w1)
           | (Inr _, p, w1) \<Rightarrow>
               (case controlplane_Start cfg w1 of
                  (Inl err, _, w2) \<Rightarrow> (Failed err, w2)
                | (Inr _, cp, w2) \<Rightarrow> (Stopped, gateway_Stop p (controlplane_Stop cp w2)))))"

definition serveCmd :: "config \<Rightarrow> host \<Rightarrow> ending \<times> host" where
  "serveCmd cfg w =
     (case telemetry_Init cfg w of
        (Inl _, w1) \<Rightarrow> (Exited, w1)
      | (Inr shutdowns, w1) \<Rightarrow>
          (case open_database cfg w1 of
             (Inl _, w2) \<Rightarrow> (Exited, w2)
           | (Inr pool, w2) \<Rightarrow>
               (case run_servers cfg (pool \<noteq> None) w2 of
                  (e, w3) \<Rightarrow>
                    (e, snd (telemetry_shutdown shutdowns (when_set pool (\<lambda>url. let_go (\<lambda>h. h = Db_pool url)) w3))))))"

definition gatewayCmd :: "config \<Rightarrow> host \<Rightarrow> ending \<times> host" where
  "gatewayCmd cfg w =
     (case gateway_New cfg w of
        (p0, w0) \<Rightarrow>
          (case gateway_Start cfg False p0 w0 of
             (Inl err, _, w1) \<Rightarrow> (Failed err, w1)
           | (Inr _, p, w1) \<Rightarrow> (Stopped, gateway_Stop p w1)))"

definition controlplaneCmd :: "config \<Rightarrow> host \<Rightarrow> ending \<times> host" where
  "controlplaneCmd cfg w =
     (case controlplane_Start cfg w of
        (Inl err, _, w1) \<Rightarrow> (Failed err, w1)
      | (Inr _, cp, w1) \<Rightarrow> (Stopped, controlplane_Stop cp w1))"

text \<open>The process: \<open>main\<close> turns an error of the command into the exit code.\<close>

definition exit_code :: "ending \<Rightarrow> nat" where
  "exit_code e = (case e of Stopped \<Rightarrow> 0 | _ \<Rightarrow> 1)"

section \<open>Stopping undoes starting\<close>

definition closed_by :: "gateway_proc \<Rightarrow> handle \<Rightarrow> bool" where
  "closed_by p h \<longleftrightarrow>
     (\<exists>a. gp_redis p = Some a \<and> h = Redis_conn a) \<or> (\<exists>n. gp_natsConn p = Some n \<and> on_conn n h) \<or>
     (\<exists>d n. gp_dispatcher p = Some (d, Some n) \<and> on_conn n h) \<or> gp_usageTracker p = Some h \<or> gp_instSyncer p = Some h \<or>
     (\<exists>a. gp_grpcServer p = Some a \<and> h = Listener ''gateway grpc'' a) \<or>
     (\<exists>a. gp_httpServer p = Some a \<and> h = Listener ''gateway http'' a)"

lemma when_set_handles:
  "handles (when_set x (\<lambda>y. let_go (P y)) w) = filter (\<lambda>h. \<not> (\<exists>y. x = Some y \<and> P y h)) (handles w)"
  by (cases x) (simp_all add: when_set_def let_go_def)

lemma Stop_handles: "handles (gateway_Stop p w) = filter (\<lambda>h. \<not> closed_by p h) (handles w)"
proof -
  have d: "Dispatcher_Close = (\<lambda>d. let_go (\<lambda>h. \<exists>n. snd d = Some n \<and> on_conn n h))"
    by (intro ext) (auto simp: Dispatcher_Close_def Drain_def let_go_def split: option.split)
  have s: "Drain = (\<lambda>n. let_go (on_conn n))" "Tracker_Close = (\<lambda>sub. let_go (\<lambda>h. h = sub))" "Syncer_Close = (\<lambda>sub. let_go (\<lambda>h. h = sub))"
    "close_server server = (\<lambda>addr. let_go (\<lambda>h. h = Listener server addr))" for server
    by (intro ext; simp add: Drain_def Tracker_Close_def Syncer_Close_def close_server_def)+
  show ?thesis
    unfolding gateway_Stop_def d s when_set_handles filter_filter
    by (rule filter_cong [OF refl]) (auto simp: closed_by_def)
qed

lemma attempt_state: "attempt w = (r, w') \<Longrightarrow> handles w' = handles w \<and> conns w' = conns w"
  by (auto simp: attempt_def split: list.splits option.splits)

lemma acquire_state:
  assumes "acquire h w = (r, w')"
  shows "conns w' = conns w \<and> (r = Inr () \<and> handles w' = handles w @ [h] \<or> (\<exists>e. r = Inl e) \<and> handles w' = handles w)"
proof -
  obtain r1 w1 where a: "attempt w = (r1, w1)" by fastforce
  show ?thesis using attempt_state [OF a] a assms by (cases r1) (auto simp: acquire_def hold_def)
qed

lemma nats_Connect_state:
  assumes "nats_Connect url w = (r, w')"
  shows "r = Inr (conns w) \<and> conns w' = Suc (conns w) \<and> handles w' = handles w @ [Nats (conns w) url] \<or>
    (\<exists>e. r = Inl e) \<and> conns w' = conns w \<and> handles w' = handles w"
proof -
  obtain r1 w1 where a: "acquire (Nats (conns w) url) w = (r1, w1)" by fastforce
  show ?thesis using acquire_state [OF a] a assms by (cases r1) (auto simp: nats_Connect_def)
qed

text \<open>All that a gateway has opened since \<open>w0\<close> is closed by \<open>Stop\<close>, on connections of its own.\<close>

definition grown :: "host \<Rightarrow> gateway_proc \<Rightarrow> host \<Rightarrow> bool" where
  "grown w0 p w \<longleftrightarrow> conns w0 \<le> conns w \<and>
     (\<exists>hs. handles w = handles w0 @ hs \<and> (\<forall>h \<in> set hs. closed_by p h)) \<and>
     (\<forall>n. gp_natsConn p = Some n \<longrightarrow> conns w0 \<le> n) \<and> (\<forall>d n. gp_dispatcher p = Some (d, Some n) \<longrightarrow> conns w0 \<le> n) \<and>
     (\<forall>h. gp_usageTracker p = Some h \<or> gp_instSyncer p = Some h \<longrightarrow> (\<exists>n s. conns w0 \<le> n \<and> h = Subscription n s))"

text \<open>Handles that are there before are not the gateway's.\<close>

fun foreign :: "nat \<Rightarrow> handle \<Rightarrow> bool" where
  "foreign c (Nats n _) = (n < c)"
| "foreign c (Subscription n _) = (n < c)"
| "foreign c (Redis_conn _) = False"
| "foreign c (Listener server _) = (server \<notin> {''gateway grpc'', ''gateway http''})"
| "foreign c _ = True"

definition tidy :: "host \<Rightarrow> bool" where
  "tidy w \<longleftrightarrow> (\<forall>h \<in> set (handles w). foreign (conns w) h)"

lemma grown_Stop:
  assumes "tidy w0" "grown w0 p w"
  shows "handles (gateway_Stop p w) = handles w0"
proof -
  obtain hs where hs: "handles w = handles w0 @ hs" "\<forall>h \<in> set hs. closed_by p h" using assms(2) by (auto simp: grown_def)
  have "\<not> closed_by p h" if "h \<in> set (handles w0)" for h
    using assms that by (cases h) (fastforce simp: tidy_def grown_def closed_by_def on_conn_def)+
  then have "filter (\<lambda>h. \<not> closed_by p h) (handles w0) = handles w0" by simp
  moreover have "filter (\<lambda>h. \<not> closed_by p h) hs = []" using hs(2) by simp
  ultimately show ?thesis using hs(1) by (simp add: Stop_handles)
qed

text \<open>Adding handles that the process will close keeps the books.\<close>

lemma grownI:
  assumes "grown w0 p w" "conns w \<le> conns w'" "handles w' = handles w @ hs" "\<And>h. h \<in> set hs \<Longrightarrow> closed_by p' h" "\<And>h. closed_by p h \<Longrightarrow> closed_by p' h"
    and "\<And>n. gp_natsConn p' = Some n \<Longrightarrow> gp_natsConn p = Some n \<or> conns w \<le> n"
    and "\<And>d n. gp_dispatcher p' = Some (d, Some n) \<Longrightarrow> gp_dispatcher p = Some (d, Some n) \<or> conns w \<le> n"
    and "\<And>h. gp_usageTracker p' = Some h \<or> gp_instSyncer p' = Some h \<Longrightarrow>
      gp_usageTracker p = Some h \<or> gp_instSyncer p = Some h \<or> (\<exists>n s. conns w \<le> n \<and> h = Subscription n s)"
  shows "grown w0 p' w'"
proof -
  have c: "conns w0 \<le> conns w" using assms(1) by (simp add: grown_def)
  have "\<exists>hs. handles w' = handles w0 @ hs \<and> (\<forall>h \<in> set hs. closed_by p' h)"
    using assms(1,3,4,5) by (fastforce simp: grown_def)
  moreover have "gp_natsConn p' = Some n \<Longrightarrow> conns w0 \<le> n" for n
    using assms(1) assms(6) [of n] c by (auto simp: grown_def)
  moreover have "gp_dispatcher p' = Some (d, Some n) \<Longrightarrow> conns w0 \<le> n" for d n
    using assms(1) assms(7) [of d n] c by (auto simp: grown_def)
  moreover have "gp_usageTracker p' = Some h \<or> gp_instSyncer p' = Some h \<Longrightarrow> \<exists>n s. conns w0 \<le> n \<and> h = Subscription n s" for h
    using assms(1) assms(8) [of h] c le_trans [OF c] unfolding grown_def by blast
  ultimately show ?thesis using c assms(2) by (auto simp: grown_def)
qed

definition unstarted :: "gateway_proc \<Rightarrow> bool" where
  "unstarted p \<longleftrightarrow> gp_natsConn p = None \<and> gp_instSyncer p = None \<and> gp_usageTracker p = None \<and> gp_dispatcher p = None \<and>
     gp_grpcServer p = None \<and> gp_httpServer p = None"

lemma New_grown:
  assumes "gateway_New cfg w = (p, w')"
  shows "grown w p w' \<and> unstarted p"
proof (cases "cf_RedisAddr cfg = ''''")
  case False
  obtain r1 w1 where a: "acquire (Redis_conn (cf_RedisAddr cfg)) w = (r1, w1)" by fastforce
  show ?thesis
    using assms False a acquire_state [OF a]
    by (cases r1) (auto simp: gateway_New_def Let_def grown_def closed_by_def unstarted_def)
qed (use assms in \<open>auto simp: gateway_New_def grown_def unstarted_def\<close>)

lemma subscribers_state:
  assumes "startInstanceSyncer n w = (r, w')"
  shows "conns w' = conns w \<and> (ok_of r = Some (Subscription n heartbeatSubject) \<and> handles w' = handles w @ [Subscription n heartbeatSubject] \<or>
    ok_of r = None \<and> handles w' = handles w)"
proof -
  obtain r1 w1 where a: "acquire (Subscription n heartbeatSubject) w = (r1, w1)" by fastforce
  show ?thesis using acquire_state [OF a] a assms by (cases r1) (auto simp: startInstanceSyncer_def ok_of_def)
qed

lemma tracker_state:
  assumes "StartTracker n w = (r, w')"
  shows "conns w' = conns w \<and> (ok_of r = Some (Subscription n usageSubject) \<and> handles w' = handles w @ [Subscription n usageSubject] \<or>
    ok_of r = None \<and> handles w' = handles w)"
proof -
  obtain r1 w1 where a: "acquire (Subscription n usageSubject) w = (r1, w1)" by fastforce
  show ?thesis using acquire_state [OF a] a assms by (cases r1) (auto simp: StartTracker_def ok_of_def)
qed

lemma start_events_grown:
  assumes "grown w0 p w" "unstarted p" "start_events cfg has_pool p w = (p', w')"
  shows "grown w0 p' w' \<and> gp_dispatcher p' = None \<and> gp_grpcServer p' = None \<and> gp_httpServer p' = None"
proof (cases "cf_NATSUrl cfg = ''''")
  case False
  obtain r w1 where c: "nats_Connect (cf_NATSUrl cfg) w = (r, w1)" by fastforce
  show ?thesis
  proof (cases r)
    case (Inl e)
    then have "p' = p" "w' = w1" using assms(3) c False by (auto simp: start_events_def)
    then show ?thesis using assms(1,2) nats_Connect_state [OF c] Inl by (auto simp: grown_def unstarted_def)
  next
    case (Inr n)
    then have n: "n = conns w" "conns w1 = Suc n" "handles w1 = handles w @ [Nats n (cf_NATSUrl cfg)]"
      using nats_Connect_state [OF c] by auto
    obtain r2 w2 where s: "startInstanceSyncer n w1 = (r2, w2)" by fastforce
    obtain r3 w3 where t: "StartTracker n w2 = (r3, w3)" by fastforce
    have p': "(p', w') = (if has_pool then (p\<lparr>gp_natsConn := Some n, gp_instSyncer := ok_of r2, gp_usageTracker := ok_of r3\<rparr>, w3)
        else (p\<lparr>gp_natsConn := Some n\<rparr>, w1))"
      using assms(3) c False Inr s t by (auto simp: start_events_def)
    have "\<exists>hs. handles w' = handles w @ hs \<and> (\<forall>h \<in> set hs. on_conn n h)"
      using p' n subscribers_state [OF s] tracker_state [OF t] by (auto simp: on_conn_def split: if_splits)
    then obtain hs where hs: "handles w' = handles w @ hs" "\<And>h. h \<in> set hs \<Longrightarrow> on_conn n h" by blast
    have "grown w0 p' w'"
      by (rule grownI [OF assms(1) _ hs(1)])
        (use p' n hs(2) assms(2) subscribers_state [OF s] tracker_state [OF t] in \<open>auto simp: closed_by_def unstarted_def split: if_splits\<close>)
    then show ?thesis using p' assms(2) by (auto simp: unstarted_def split: if_splits)
  qed
qed (use assms in \<open>auto simp: start_events_def unstarted_def\<close>)

lemma dispatcher_state:
  assumes "connect_dispatcher url w = (r, w')"
  shows "(\<exists>d. ok_of r = Some (d, Some (conns w)) \<and> conns w' = Suc (conns w) \<and> handles w' = handles w @ [Nats (conns w) url]) \<or>
    ((\<forall>d n. ok_of r \<noteq> Some (d, Some n)) \<and> conns w' = conns w \<and> handles w' = handles w)"
proof (cases "url = ''''")
  case False
  obtain r1 w1 where c: "nats_Connect url w = (r1, w1)" by fastforce
  show ?thesis
    using nats_Connect_state [OF c] c False assms by (cases r1) (auto simp: connect_dispatcher_def Connect_def ok_of_def)
qed (use assms in \<open>auto simp: connect_dispatcher_def Connect_def ok_of_def\<close>)

lemma gateway_Start_grown:
  assumes "grown w0 p w" "unstarted p" "gateway_Start cfg has_pool p w = (r, p', w')"
  shows "grown w0 p' w'"
proof -
  obtain p1 w1 where e: "start_events cfg has_pool p w = (p1, w1)" by fastforce
  obtain r2 w2 where d: "connect_dispatcher (cf_NATSUrl cfg) w1 = (r2, w2)" by fastforce
  obtain r3 w3 where l: "acquire (Listener ''gateway grpc'' (cf_GatewayGRPCAddr cfg)) w2 = (r3, w3)" by fastforce
  obtain r4 w4 where h: "acquire (Listener ''gateway http'' (cf_GatewayHTTPAddr cfg)) w3 = (r4, w4)" by fastforce
  note g1 = start_events_grown [OF assms(1,2) e]
  let ?p2 = "p1\<lparr>gp_dispatcher := ok_of r2\<rparr>"
  let ?p3 = "?p2\<lparr>gp_grpcServer := Some (cf_GatewayGRPCAddr cfg)\<rparr>"
  have "\<exists>hs. handles w2 = handles w1 @ hs \<and> (\<forall>h \<in> set hs. closed_by ?p2 h)"
    using dispatcher_state [OF d] by (auto simp: closed_by_def on_conn_def)
  then obtain hs where hs: "handles w2 = handles w1 @ hs" "\<And>h. h \<in> set hs \<Longrightarrow> closed_by ?p2 h" by blast
  have g2: "grown w0 ?p2 w2"
    by (rule grownI [OF _ _ hs(1)], use g1 in blast) (use g1 hs(2) dispatcher_state [OF d] in \<open>auto simp: closed_by_def\<close>)
  obtain hs3 where hs3: "handles w3 = handles w2 @ hs3" "\<And>h. h \<in> set hs3 \<Longrightarrow> closed_by ?p3 h"
    using acquire_state [OF l] by (auto simp: closed_by_def)
  have g3: "grown w0 ?p3 w3"
    by (rule grownI [OF g2 _ hs3(1)]) (use g1 hs3(2) acquire_state [OF l] in \<open>auto simp: closed_by_def\<close>)
  show ?thesis
  proof (cases r3)
    case Inl
    then show ?thesis using g3 assms(3) e d l by (simp add: gateway_Start_def start_dispatcher_def Let_def)
  next
    case Inr
    let ?p4 = "?p3\<lparr>gp_httpServer := Some (cf_GatewayHTTPAddr cfg)\<rparr>"
    obtain hs4 where hs4: "handles w4 = handles w3 @ hs4" "\<And>h. h \<in> set hs4 \<Longrightarrow> closed_by ?p4 h"
      using acquire_state [OF h] by (auto simp: closed_by_def)
    have "grown w0 ?p4 w4"
      by (rule grownI [OF g3 _ hs4(1)]) (use g1 hs4(2) acquire_state [OF h] in \<open>auto simp: closed_by_def\<close>)
    then show ?thesis using Inr assms(3) e d l h by (simp add: gateway_Start_def serve_http_def start_dispatcher_def Let_def)
  qed
qed

lemma gateway_roundtrip:
  assumes "tidy w" "gateway_New cfg w = (p0, w0)" "gateway_Start cfg has_pool p0 w0 = (r, p, w1)"
  shows "handles (gateway_Stop p w1) = handles w"
  using grown_Stop [OF assms(1) gateway_Start_grown] New_grown [OF assms(2)] assms(3) by blast

lemma run_servers_handles:
  assumes "tidy w" "run_servers cfg has_pool w = (Stopped, w')"
  shows "set (handles w') \<subseteq> set (handles w)"
proof -
  obtain p0 w0 where n: "gateway_New cfg w = (p0, w0)" by fastforce
  obtain r p w1 where s: "gateway_Start cfg has_pool p0 w0 = (r, p, w1)" by (metis prod.collapse)
  obtain r2 w2 where c: "acquire (Listener ''controlplane'' (cf_ControlPlaneAddr cfg)) w1 = (r2, w2)" by fastforce
  have "w' = gateway_Stop p (controlplane_Stop (Some (cf_ControlPlaneAddr cfg)) w2)"
    using assms(2) n s c by (auto simp: run_servers_def controlplane_Start_def split: sum.splits)
  then have "set (handles w') \<subseteq> set (handles (gateway_Stop p w1))"
    using acquire_state [OF c] by (auto simp: Stop_handles controlplane_Stop_def when_set_def close_server_def let_go_def)
  then show ?thesis using gateway_roundtrip [OF assms(1) n s] by simp
qed

lemma telemetry_Init_handles:
  assumes "telemetry_Init cfg w = (Inr hs, w')"
  shows "handles w' = handles w @ [Telemetry ''traces'', Telemetry ''metrics''] \<and> conns w' = conns w"
proof -
  have a: "handles (snd (attempt v)) = handles v \<and> conns (snd (attempt v)) = conns v" for v
    using attempt_state [of v] by (cases "attempt v") simp
  obtain r1 w1 where 1: "attempt w = (r1, w1)" by fastforce
  obtain r2 w2 where 2: "(if cf_OTLPEndpoint cfg \<noteq> '''' then wrapped ''otel: create trace exporter'' (attempt w1) else (Inr (), w1)) = (r2, w2)" by fastforce
  obtain r3 w3 where 3: "attempt (hold (Telemetry ''traces'') w2) = (r3, w3)" by fastforce
  have "handles w1 = handles w \<and> conns w1 = conns w" "handles w2 = handles w1 \<and> conns w2 = conns w1"
    "handles w3 = handles w2 @ [Telemetry ''traces''] \<and> conns w3 = conns w2"
    using 1 2 3 a [of w] a [of w1] a [of "hold (Telemetry ''traces'') w2"] by (auto simp: hold_def wrapped_def split: if_splits)
  moreover have "w' = hold (Telemetry ''metrics'') w3"
    using assms 1 2 3 by (cases r1; cases r2; cases r3) (auto simp: telemetry_Init_def)
  ultimately show ?thesis by (simp add: hold_def)
qed

lemma open_database_handles:
  assumes "open_database cfg w = (Inr pool, w')"
  shows "conns w' = conns w \<and> (pool = None \<and> handles w' = handles w \<or> (\<exists>url. pool = Some url \<and> handles w' = handles w @ [Db_pool url]))"
proof (cases "cf_DatabaseURL cfg = ''''")
  case False
  obtain r1 w1 where a: "attempt w = (r1, w1)" by fastforce
  obtain r2 w2 where b: "acquire (Db_pool (cf_DatabaseURL cfg)) w1 = (r2, w2)" by fastforce
  show ?thesis
    using assms False a b attempt_state [OF a] acquire_state [OF b] by (cases r1; cases r2) (auto simp: open_database_def)
qed (use assms in \<open>auto simp: open_database_def\<close>)

lemma telemetry_shutdown_handles: "set (handles (snd (telemetry_shutdown hs w))) \<subseteq> set (handles w)"
proof (induction hs arbitrary: w)
  case (Cons h hs)
  obtain r w1 where a: "attempt w = (r, w1)" by fastforce
  show ?case
    using Cons.IH [of "let_go (\<lambda>x. x = h) w1"] a attempt_state [OF a] by (cases r) (auto simp: let_go_def)
qed simp

text \<open>C30: stopping closes what starting opened. Whatever fails while the gateway starts (Redis, NATS, a subscription,
  the dispatcher, a listener), \<open>Stop\<close> afterwards leaves the process with exactly the handles it had before \<open>New\<close>, also when
  \<open>Start\<close> itself gave up with an error; and a \<open>serve\<close> that runs to its end leaves nothing open but telemetry providers whose
  shutdown failed or was not tried.\<close>

theorem stopping_closes_what_starting_opened:
  assumes "tidy w"
  shows "(\<forall>p0 w0 r p w1. gateway_New cfg w = (p0, w0) \<longrightarrow> gateway_Start cfg has_pool p0 w0 = (r, p, w1) \<longrightarrow> handles (gateway_Stop p w1) = handles w) \<and>
    (\<forall>w2. serveCmd cfg w = (Stopped, w2) \<longrightarrow> set (handles w2) \<subseteq> set (handles w) \<union> {Telemetry ''traces'', Telemetry ''metrics''})"
proof (intro conjI allI impI)
  fix w5
  assume run: "serveCmd cfg w = (Stopped, w5)"
  obtain hs w1 where i: "telemetry_Init cfg w = (Inr hs, w1)"
    using run by (auto simp: serveCmd_def split: prod.splits sum.splits)
  obtain pool w2 where d: "open_database cfg w1 = (Inr pool, w2)"
    using run i by (auto simp: serveCmd_def split: prod.splits sum.splits)
  obtain e w3 where s: "run_servers cfg (pool \<noteq> None) w2 = (e, w3)" by fastforce
  have out: "e = Stopped" "w5 = snd (telemetry_shutdown hs (when_set pool (\<lambda>url. let_go (\<lambda>h. h = Db_pool url)) w3))"
    using run i d s by (auto simp: serveCmd_def)
  have "tidy w2"
    using assms telemetry_Init_handles [OF i] open_database_handles [OF d] by (auto simp: tidy_def)
  then have "set (handles w3) \<subseteq> set (handles w2)" using run_servers_handles s out(1) by blast
  moreover have "set (handles w5) \<subseteq> set (handles (when_set pool (\<lambda>url. let_go (\<lambda>h. h = Db_pool url)) w3))"
    unfolding out(2) by (rule telemetry_shutdown_handles)
  ultimately show "set (handles w5) \<subseteq> set (handles w) \<union> {Telemetry ''traces'', Telemetry ''metrics''}"
    using telemetry_Init_handles [OF i] open_database_handles [OF d] by (auto simp: when_set_def let_go_def split: option.splits)
qed (rule gateway_roundtrip [OF assms])

section \<open>What is left open\<close>

text \<open>A tracer provider whose shutdown fails keeps the meter provider from being shut down.\<close>

lemma failed_trace_shutdown_keeps_metrics:
  assumes "host_outcomes w = Some err # os" "Telemetry ''metrics'' \<in> set (handles w)"
  shows "fst (telemetry_shutdown [Telemetry ''traces'', Telemetry ''metrics''] w) = Inl err \<and>
    Telemetry ''metrics'' \<in> set (handles (snd (telemetry_shutdown [Telemetry ''traces'', Telemetry ''metrics''] w)))"
  using assms by (simp add: attempt_def)

text \<open>The HTTP address may be taken: \<open>Start\<close> succeeds, and the gateway runs without its API.\<close>

lemma http_listen_error_is_not_returned:
  assumes "cf_RedisAddr cfg = ''''" "cf_NATSUrl cfg = ''''" "host_outcomes w = [None, Some err]"
    and "gateway_New cfg w = (p0, w0)"
  shows "\<exists>p w'. gateway_Start cfg has_pool p0 w0 = (Inr (), p, w') \<and> handles w' = handles w @ [Listener ''gateway grpc'' (cf_GatewayGRPCAddr cfg)]"
  using assms by (auto simp: gateway_New_def gateway_Start_def serve_http_def start_events_def start_dispatcher_def connect_dispatcher_def Connect_def
      acquire_def attempt_def hold_def Let_def)

text \<open>A control plane that cannot listen ends the command with the gateway still running.\<close>

lemma failed_control_plane_keeps_the_gateway:
  assumes "run_servers cfg has_pool w = (Failed err, w')" "gateway_New cfg w = (p0, w0)" "gateway_Start cfg has_pool p0 w0 = (Inr (), p, w1)"
  shows "handles w' = handles w1"
proof -
  obtain r2 w2 where c: "acquire (Listener ''controlplane'' (cf_ControlPlaneAddr cfg)) w1 = (r2, w2)" by fastforce
  show ?thesis
    using assms c acquire_state [OF c] by (cases r2) (auto simp: run_servers_def controlplane_Start_def)
qed

text \<open>Without an encryption key the API has a connect engine but no broker to store what it gets.\<close>

lemma engine_without_broker:
  assumes "cf_CredentialEncryptionKey cfg = []"
  shows "ae_engine (fst (gateway_api gcm profiles base cfg rtab dispatcher d)) \<noteq> None \<and>
    broker_of (fst (gateway_api gcm profiles base cfg rtab dispatcher d)) = None"
  using assms by (simp add: gateway_api_def init_broker_def split: prod.split)

section \<open>Calls to the gRPC servers\<close>

text \<open>What the generated code and the gRPC library answer: the health and reflection services, the methods that are not
  implemented, and services that are not registered. A handler gets the method and the claims of its context.\<close>

type_synonym 'resp grpc_handler = "string \<Rightarrow> Claims option \<Rightarrow> (Auth_Token.grpc_code \<times> string) + 'resp"

record 'resp grpc_lib =
  gl_health :: "'resp grpc_handler"
  gl_reflection :: "'resp grpc_handler"
  gl_unimplemented :: "string \<Rightarrow> 'resp grpc_handler"
  gl_unknown :: "string \<Rightarrow> string \<Rightarrow> (Auth_Token.grpc_code \<times> string) + 'resp"

definition grpc_infrastructure :: "'resp grpc_lib \<Rightarrow> (string \<times> 'resp grpc_handler) list" where
  "grpc_infrastructure G =
     [(''grpc.health.v1.Health'', gl_health G), (''grpc.reflection.v1.ServerReflection'', gl_reflection G),
      (''grpc.reflection.v1alpha.ServerReflection'', gl_reflection G)]"

text \<open>The services of \<^verbatim>\<open>internal/tenant\<close>, \<^verbatim>\<open>internal/agent\<close> and \<^verbatim>\<open>internal/task\<close> embed the generated servers and add nothing.\<close>

definition tenant_NewService :: "'resp grpc_lib \<Rightarrow> 'resp grpc_handler" where
  "tenant_NewService G = gl_unimplemented G ''volund.v1.TenantService''"

definition agent_NewService :: "'resp grpc_lib \<Rightarrow> 'resp grpc_handler" where
  "agent_NewService G = gl_unimplemented G ''volund.v1.AgentService''"

definition task_NewService :: "'resp grpc_lib \<Rightarrow> 'resp grpc_handler" where
  "task_NewService G = gl_unimplemented G ''volund.v1.TaskService''"

definition gateway_services :: "'resp grpc_lib \<Rightarrow> (string \<times> 'resp grpc_handler) list" where
  "gateway_services G = grpc_infrastructure G @
     map (\<lambda>service. (service, gl_unimplemented G service))
       [''volund.v1.AuthService'', ''volund.v1.ChatService'', ''volund.v1.ForgeService'', ''volund.v1.UsageService'']"

definition controlplane_services :: "'resp grpc_lib \<Rightarrow> 'resp grpc_handler \<Rightarrow> (string \<times> 'resp grpc_handler) list" where
  "controlplane_services G llm = grpc_infrastructure G @
     [(''volund.v1.TenantService'', tenant_NewService G), (''volund.v1.AgentService'', agent_NewService G),
      (''volund.v1.TaskService'', task_NewService G), (''volund.v1.LLMService'', llm)]"

definition full_method :: "string \<Rightarrow> string \<Rightarrow> string" where
  "full_method service meth = ''/'' @ service @ ''/'' @ meth"

definition grpc_call ::
  "jwt_lib \<Rightarrow> config \<Rightarrow> time \<Rightarrow> 'resp grpc_lib \<Rightarrow> (string \<times> 'resp grpc_handler) list \<Rightarrow> bool \<Rightarrow> string \<Rightarrow> string \<Rightarrow> string list option \<Rightarrow>
   (Auth_Token.grpc_code \<times> string) + 'resp" where
  "grpc_call J cfg now G registered streams service meth md =
     (let tm = NewTokenManager (cf_JWTSecret cfg) in
      (case map_of registered service of
         None \<Rightarrow> gl_unknown G service meth
       | Some h \<Rightarrow>
           (if streams then StreamServerInterceptor J tm now (full_method service meth) md (h meth)
            else UnaryServerInterceptor J tm now (full_method service meth) md (h meth))))"

lemma intercepted:
  assumes "UnaryServerInterceptor J tm now meth md h = Inr resp \<or> StreamServerInterceptor J tm now meth md h = Inr resp"
  shows "\<exists>cl. h cl = Inr resp"
  using assms by (auto simp: UnaryServerInterceptor_def StreamServerInterceptor_def split: if_splits sum.splits)

lemma stubs_refuse:
  assumes "\<And>h cl. map_of registered service = Some h \<Longrightarrow> \<exists>e. h meth cl = Inl e" "\<exists>e. gl_unknown G service meth = Inl e"
  shows "\<exists>e. grpc_call J cfg now G registered streams service meth md = Inl e"
proof (cases "grpc_call J cfg now G registered streams service meth md")
  case (Inr r)
  then obtain h where h: "map_of registered service = Some h"
    using assms(2) by (auto simp: grpc_call_def Let_def split: option.splits)
  then have "\<exists>cl. h meth cl = Inr r"
    using Inr by (intro intercepted [of J "NewTokenManager (cf_JWTSecret cfg)" now "full_method service meth" md])
      (auto simp: grpc_call_def Let_def split: if_splits)
  then show ?thesis using assms(1) [OF h] by (metis Inl_Inr_False)
qed blast

lemma llm_calls_are_skipped: "shouldSkipAuth (full_method ''volund.v1.LLMService'' meth)"
  by (simp add: shouldSkipAuth_def skipMethods_def full_method_def has_prefix_def)

text \<open>C9: GRPC does nothing but LLM, and LLM needs no token. When the generated servers answer unimplemented methods with an
  error, no call to a service of Volund succeeds on the gateway's gRPC server, and on the control plane only those to the LLM
  service do; these run without claims, whatever token, or none, comes with the call.\<close>

theorem grpc_serves_llm_only_to_anyone:
  assumes "\<And>service meth claims. \<exists>e. gl_unimplemented G service meth claims = Inl e"
    and "\<And>service meth. \<exists>e. gl_unknown G service meth = Inl e"
    and "service \<notin> fst ` set (grpc_infrastructure G)"
  shows "(\<exists>e. grpc_call J cfg now G (gateway_services G) streams service meth md = Inl e) \<and>
    (grpc_call J cfg now G (controlplane_services G llm) streams service meth md = Inr resp \<longleftrightarrow>
       service = ''volund.v1.LLMService'' \<and> llm meth None = Inr resp)"
proof -
  have infra: "map_of (grpc_infrastructure G @ more) service = map_of more service" for more :: "(string \<times> 'a grpc_handler) list"
  proof -
    have "map_of (grpc_infrastructure G) service = None" using assms(3) by (simp add: map_of_eq_None_iff)
    then show ?thesis by (simp add: map_add_def)
  qed
  have stub: "\<exists>e. h meth cl = Inl e" if "map_of (gateway_services G) service = Some h" for h cl
    using that assms(1) unfolding gateway_services_def infra by (auto split: if_splits)
  have gw: "\<exists>e. grpc_call J cfg now G (gateway_services G) streams service meth md = Inl e"
    using stub assms(2) by (rule stubs_refuse)
  show ?thesis
  proof (cases "service = ''volund.v1.LLMService''")
    case True
    then have "map_of (controlplane_services G llm) service = Some llm"
      unfolding controlplane_services_def infra by simp
    then show ?thesis
      using gw True llm_calls_are_skipped [of meth]
      by (simp add: grpc_call_def Let_def UnaryServerInterceptor_def StreamServerInterceptor_def)
  next
    case False
    have "\<exists>e. h meth cl = Inl e" if "map_of (controlplane_services G llm) service = Some h" for h cl
      using that assms(1) False unfolding controlplane_services_def infra tenant_NewService_def agent_NewService_def task_NewService_def
      by (auto split: if_splits)
    then have "\<exists>e. grpc_call J cfg now G (controlplane_services G llm) streams service meth md = Inl e"
      using assms(2) by (rule stubs_refuse)
    then show ?thesis using gw False by auto
  qed
qed

section \<open>A run\<close>

definition idle_host :: host where
  "idle_host = \<lparr>handles = [], conns = 0, host_outcomes = []\<rparr>"

definition local_config :: config where
  "local_config = (Load (\<lambda>_. ''''))\<lparr>cf_NATSUrl := ''nats://n''\<rparr>"

theorem stopping_closes_what_starting_opened_witness:
  "\<exists>w. serveCmd local_config idle_host = (Stopped, w) \<and> set (handles w) \<subseteq> {Telemetry ''traces'', Telemetry ''metrics''}"
proof -
  have "tidy idle_host" by (simp add: tidy_def idle_host_def)
  note main = stopping_closes_what_starting_opened [OF this, of local_config True]
  have "fst (serveCmd local_config idle_host) = Stopped"
    by code_simp
  then obtain w where "serveCmd local_config idle_host = (Stopped, w)" by (metis prod.collapse)
  with main show ?thesis by (auto simp: idle_host_def)
qed

definition ref_grpc :: "nat grpc_lib" where
  "ref_grpc = \<lparr>gl_health = (\<lambda>_ _. Inr 1), gl_reflection = (\<lambda>_ _. Inr 2), gl_unimplemented = (\<lambda>_ m _. Inl (OtherCode, m)),
     gl_unknown = (\<lambda>_ m. Inl (OtherCode, m))\<rparr>"

theorem grpc_serves_llm_only_to_anyone_witness:
  "grpc_call ref_jwt local_config 0 ref_grpc (controlplane_services ref_grpc (\<lambda>_ _. Inr 7)) False ''volund.v1.LLMService'' ''Chat'' None = Inr 7"
  using grpc_serves_llm_only_to_anyone [of ref_grpc "''volund.v1.LLMService''" ref_jwt local_config 0 False "''Chat''" None "\<lambda>_ _. Inr 7" 7]
  by (simp add: ref_grpc_def grpc_infrastructure_def)

end
