(* ===== verification/Metrics.thy ===== *)
theory Metrics
  imports Claims Config
begin

text \<open>
  What the program reports about itself (\<^verbatim>\<open>internal/otel\<close>): the instruments and their attributes (\<^verbatim>\<open>metrics.go\<close>), what the
  claim manager and the dispatcher measure, the trace context of tasks (\<^verbatim>\<open>nats.go\<close>) and of log records (\<^verbatim>\<open>slog.go\<close>), and the
  log level. The exporters are set up and shut down in \<open>Lifecycle\<close>.
\<close>

section \<open>Instruments\<close>

datatype instrument =
    DispatchTotal | DispatchDuration | ClaimTotal | ClaimDuration | ActiveInstances | WarmPoolSize | HTTPRequestTotal | HTTPRequestDur

datatype instrument_kind = Int64Counter | Float64Histogram | Int64UpDownCounter

record instrument_config =
  ic_kind :: instrument_kind
  ic_name :: string
  ic_unit :: string
  ic_buckets :: "rat list"

definition plain_instrument :: "instrument_kind \<Rightarrow> string \<Rightarrow> instrument_config" where
  "plain_instrument k name = \<lparr>ic_kind = k, ic_name = name, ic_unit = '''', ic_buckets = []\<rparr>"

primrec instrument_of :: "instrument \<Rightarrow> instrument_config" where
  "instrument_of DispatchTotal = plain_instrument Int64Counter ''volund.dispatch.total''"
| "instrument_of DispatchDuration = (plain_instrument Float64Histogram ''volund.dispatch.duration_seconds'')\<lparr>ic_unit := ''s''\<rparr>"
| "instrument_of ClaimTotal = plain_instrument Int64Counter ''volund.claim.total''"
| "instrument_of ClaimDuration = (plain_instrument Float64Histogram ''volund.claim.duration_seconds'')\<lparr>ic_unit := ''s'',
     ic_buckets := [1/100, 25/1000, 5/100, 1/10, 2/10, 3/10, 5/10, 75/100, 1, 2, 5]\<rparr>"
| "instrument_of ActiveInstances = plain_instrument Int64UpDownCounter ''volund.active_instances''"
| "instrument_of WarmPoolSize = plain_instrument Int64UpDownCounter ''volund.warm_pool.size''"
| "instrument_of HTTPRequestTotal = plain_instrument Int64Counter ''volund.http.request.total''"
| "instrument_of HTTPRequestDur = (plain_instrument Float64Histogram ''volund.http.request.duration_seconds'')\<lparr>ic_unit := ''s''\<rparr>"

text \<open>\<open>init\<close> creates them in this order and panics with the first error.\<close>

definition metrics_init :: "(instrument_config \<Rightarrow> unit result) \<Rightarrow> instrument list result" where
  "metrics_init create =
     (let all = [DispatchTotal, DispatchDuration, ClaimTotal, ClaimDuration, ActiveInstances, WarmPoolSize, HTTPRequestTotal, HTTPRequestDur] in
      (case filter (\<lambda>i. \<not> is_ok (create (instrument_of i))) all of
         [] \<Rightarrow> Inr all
       | i # _ \<Rightarrow> (case create (instrument_of i) of Inl err \<Rightarrow> Inl err | Inr _ \<Rightarrow> Inr all)))"

type_synonym attributes = "(string \<times> string) list"

definition dispatchAttrSet :: "string \<Rightarrow> string \<Rightarrow> attributes" where
  "dispatchAttrSet profile meth = [(''profile'', profile), (''method'', meth)]"

definition ClaimAttrs :: "string \<Rightarrow> attributes" where
  "ClaimAttrs res = [(''result'', res)]"

definition ClaimRecordAttrs :: "string \<Rightarrow> string \<Rightarrow> attributes" where
  "ClaimRecordAttrs res path = [(''result'', res), (''path'', path)]"

definition WarmPoolAttrs :: "string \<Rightarrow> attributes" where
  "WarmPoolAttrs profile = [(''profile'', profile)]"

section \<open>Measurements of the claim manager\<close>

text \<open>A counter is changed by a number, a histogram records a duration, which is not modelled.\<close>

datatype measurement = Counted instrument int attributes | Timed instrument attributes

definition EnsureInstance_measured ::
  "'rt RoutingTable \<Rightarrow> 'db AgentInstanceRepo \<Rightarrow> string \<Rightarrow> string \<Rightarrow> string \<Rightarrow> 'rt \<times> 'db \<Rightarrow> measurement list" where
  "EnsureInstance_measured T R convID tenantID profileID s =
     (case s of (rt, d) \<Rightarrow>
        if fst (rtab_Get T convID rt) \<noteq> '''' then [Timed ClaimDuration (ClaimRecordAttrs ''hit'' ''cache_hit'')]
        else
          (case fst (air_ClaimInstance R tenantID profileID d) of
             Inl _ \<Rightarrow> [Timed ClaimDuration (ClaimRecordAttrs ''error'' ''db_claim''), Counted ClaimTotal 1 (ClaimAttrs ''error'')]
           | Inr None \<Rightarrow> [Timed ClaimDuration (ClaimRecordAttrs ''unavailable'' ''db_claim''), Counted ClaimTotal 1 (ClaimAttrs ''unavailable'')]
           | Inr (Some _) \<Rightarrow>
               [Timed ClaimDuration (ClaimRecordAttrs ''claimed'' ''db_claim''), Counted ClaimTotal 1 (ClaimAttrs ''claimed''),
                Counted ActiveInstances 1 []]))"

definition Release_measured :: "'rt RoutingTable \<Rightarrow> 'db AgentInstanceRepo \<Rightarrow> string \<Rightarrow> 'rt \<times> 'db \<Rightarrow> measurement list" where
  "Release_measured T R convID s =
     (case s of (rt, d) \<Rightarrow>
        let instanceID = fst (rtab_Get T convID rt) in
        if instanceID = '''' then []
        else (case fst (air_ReleaseInstance R instanceID d) of Inl _ \<Rightarrow> [] | Inr _ \<Rightarrow> [Counted ActiveInstances (- 1) []]))"

primrec gauge_change :: "measurement \<Rightarrow> int" where
  "gauge_change (Counted i n _) = (if i = ActiveInstances then n else 0)"
| "gauge_change (Timed _ _) = 0"

definition gauge :: "measurement list \<Rightarrow> int" where
  "gauge ms = sum_list (map gauge_change ms)"

text \<open>The gauge of active instances follows the claims, but a release counts for any route. When no instance could be
  claimed, the message goes to the pool, the watcher sets the route to the instance that took it, and the release at the end
  makes the gauge drop below its value before the message.\<close>

lemma gauge_of_claim:
  "gauge (EnsureInstance_measured T R c t p (rt, d)) =
     (if fst (rtab_Get T c rt) = '''' \<and> (\<exists>i. fst (air_ClaimInstance R t p d) = Inr (Some i)) then 1 else 0)"
  by (auto simp: gauge_def EnsureInstance_measured_def split: sum.split option.split)

lemma gauge_of_release:
  "gauge (Release_measured T R c (rt, d)) =
     (if fst (rtab_Get T c rt) \<noteq> '''' \<and> is_ok (fst (air_ReleaseInstance R (fst (rtab_Get T c rt)) d)) then - 1 else 0)"
  by (auto simp: gauge_def Release_measured_def Let_def is_ok_def split: sum.split)

theorem pool_messages_lower_the_gauge:
  assumes "EnsureInstance memory_table R c t p (m, d) = (r, m1, d1)" "\<forall>i. r \<noteq> Inr (Some i)"
    and "i \<noteq> ''''" "is_ok (fst (air_ReleaseInstance R i d2))"
  shows "gauge (EnsureInstance_measured memory_table R c t p (m, d) @
    Release_measured memory_table R c (SetActiveInstance memory_table c i m1, d2)) = - 1"
proof -
  have "gauge (EnsureInstance_measured memory_table R c t p (m, d)) = 0"
    using assms(1,2) by (auto simp: gauge_of_claim EnsureInstance_def split: prod.splits sum.splits option.splits if_splits)
  moreover have "fst (rtab_Get memory_table c (SetActiveInstance memory_table c i m1)) = i"
    by (simp add: memory_table_def SetActiveInstance_def Memory_Get_def Memory_Set_def)
  ultimately show ?thesis using assms(3,4) gauge_of_release [of memory_table R c] by (simp add: gauge_def)
qed

section \<open>Trace context\<close>

text \<open>A carrier is a map; the propagator of the library reads and writes it through \<open>Get\<close> and \<open>Set\<close>.\<close>

type_synonym NATSCarrier = "string \<rightharpoonup> string"

definition Carrier_Get :: "NATSCarrier \<Rightarrow> string \<Rightarrow> string" where
  "Carrier_Get c k = (case c k of None \<Rightarrow> '''' | Some v \<Rightarrow> v)"

definition Carrier_Set :: "string \<Rightarrow> string \<Rightarrow> NATSCarrier \<Rightarrow> NATSCarrier" where
  "Carrier_Set k v c = c(k \<mapsto> v)"

record 'ctx propagator =
  pr_Inject :: "'ctx \<Rightarrow> (string \<times> string) list"
  pr_Extract :: "'ctx \<Rightarrow> (string \<Rightarrow> string) \<Rightarrow> 'ctx"

definition InjectContext :: "'ctx propagator \<Rightarrow> 'ctx \<Rightarrow> NATSCarrier" where
  "InjectContext P ctx = fold (\<lambda>(k, v). Carrier_Set k v) (pr_Inject P ctx) Map.empty"

definition ExtractContext :: "'ctx propagator \<Rightarrow> 'ctx \<Rightarrow> NATSCarrier \<Rightarrow> 'ctx" where
  "ExtractContext P ctx carrier = pr_Extract P ctx (Carrier_Get carrier)"

lemma fold_Carrier_Set:
  "distinct (map fst kvs) \<Longrightarrow> fold (\<lambda>(k, v). Carrier_Set k v) kvs c x = (case map_of kvs x of None \<Rightarrow> c x | Some v \<Rightarrow> Some v)"
proof (induction kvs arbitrary: c)
  case (Cons kv kvs)
  obtain k v where kv: "kv = (k, v)" by fastforce
  have "map_of kvs k = None" using Cons.prems kv by (simp add: map_of_eq_None_iff)
  then show ?case using Cons.IH [of "Carrier_Set k v c"] Cons.prems kv by (simp add: Carrier_Set_def split: option.split)
qed simp

text \<open>The receiver of a task sees exactly the fields that the propagator wrote.\<close>

lemma carried_context:
  assumes "distinct (map fst (pr_Inject P ctx))"
  shows "ExtractContext P ctx' (InjectContext P ctx) = pr_Extract P ctx' (\<lambda>k. case map_of (pr_Inject P ctx) k of None \<Rightarrow> '''' | Some v \<Rightarrow> v)"
proof -
  have "Carrier_Get (InjectContext P ctx) = (\<lambda>k. case map_of (pr_Inject P ctx) k of None \<Rightarrow> '''' | Some v \<Rightarrow> v)"
    using fold_Carrier_Set [OF assms] by (auto simp: fun_eq_iff Carrier_Get_def InjectContext_def split: option.split)
  then show ?thesis by (simp add: ExtractContext_def)
qed

section \<open>Logging\<close>

record span_context =
  sc_TraceID :: "string option"
  sc_SpanID :: "string option"

definition TraceSlog_Handle :: "(attributes \<Rightarrow> unit result) \<Rightarrow> span_context \<Rightarrow> attributes \<Rightarrow> unit result" where
  "TraceSlog_Handle inner sc r =
     inner (r @ (case sc_TraceID sc of None \<Rightarrow> [] | Some t \<Rightarrow> [(''trace_id'', t)]) @ (case sc_SpanID sc of None \<Rightarrow> [] | Some s \<Rightarrow> [(''span_id'', s)]))"

datatype log_level = LevelDebug | LevelInfo | LevelWarn | LevelError

definition setupLogging :: "string \<Rightarrow> log_level" where
  "setupLogging level =
     (if level = ''debug'' then LevelDebug else if level = ''warn'' then LevelWarn else if level = ''error'' then LevelError else LevelInfo)"

end
