(* ===== verification/Spec2Isabelle.thy ===== *)
theory Spec2Isabelle
  imports Isolation Lifecycle Metrics
begin

text \<open>
  Verification of Volund, a platform that runs LLM agents for the users of many tenants. Paths below are
  relative to \<^verbatim>\<open>src/\<close>.

  \<^bold>\<open>The program.\<close> A gateway (\<^verbatim>\<open>internal/gateway\<close>) serves a REST API, a WebSocket stream per conversation
  and a front of routes and middleware. A message posted to a conversation is stored, an agent instance (a pod)
  is claimed for the conversation, and a task that carries the profile, the skills and the credentials of the
  user is published to that instance over NATS; a watcher follows the events the agent sends back, stores what
  it says and updates the routing table and the task. Repositories (\<^verbatim>\<open>internal/db\<close>) keep everything in
  PostgreSQL. Users sign in with a password or through OIDC (\<^verbatim>\<open>internal/auth\<close>), connect external services
  through OAuth2 (\<^verbatim>\<open>internal/providers\<close>), and agents draw on the stored tokens through a broker
  (\<^verbatim>\<open>internal/credentials\<close>). The control plane serves LLM requests (\<^verbatim>\<open>internal/llm\<close>): a router with one
  circuit breaker per provider in front of the adapters for OpenAI, Anthropic and Ollama. Usage is metered and
  held against quotas (\<^verbatim>\<open>internal/usage\<close>), attachments go to an object store (\<^verbatim>\<open>internal/storage\<close>).

  \<^bold>\<open>How code is translated.\<close> A struct is a record and an operation one definition with the same
  branches; an error is a value of \<open>go_err\<close>, whose text is kept because some code decides on it, and a fallible
  function returns a \<open>result\<close>. State is passed explicitly. The tables of the database are one chain of records
  that extend each other (\<open>pool\<close> in \<open>Pool\<close>, then agents, tasks, conversations, users, credentials, skills,
  usage, memories, attachments, OAuth providers), so that a repository changes its own tables and a handler can
  use several. Every statement, disk operation, publication and network operation may fail: the state holds the
  list of the outcomes to come, and a theorem holds for all such lists unless it assumes that there are none.
  Machine integers keep their width where the code can leave it (\<open>int32\<close> and \<open>int64\<close> conversions, \<open>INTEGER\<close> and
  \<open>NUMERIC\<close> columns); \<open>float64\<close> is \<^typ>\<open>rat\<close>. A panic is a missing response. Goroutines that interleave are
  step relations, and a \<open>select\<close> is the list of its ready cases.

  \<^bold>\<open>The theories.\<close>

  \<^item> \<open>Prelude\<close>: Go's errors and string functions, rows of tables, generic lemmas. \<open>Pool\<close>: statements.
    \<open>One_Time_Flow\<close>: the contract of flows with a random state, as a locale.
  \<^item> LLM: \<open>LLM_Types\<close> (\<^verbatim>\<open>provider.go\<close>), \<open>Circuit\<close> (\<^verbatim>\<open>circuit.go\<close>), \<open>Router\<close> (\<^verbatim>\<open>router.go\<close>),
    \<open>LLM_Service\<close> (\<^verbatim>\<open>service.go\<close>), \<open>Chat_SDK\<close> (what the adapters share of the client libraries), \<open>OpenAI\<close>,
    \<open>Anthropic\<close>, \<open>Ollama\<close> (one \<^verbatim>\<open>provider.go\<close> each), \<open>Catalogue\<close> (the two \<^verbatim>\<open>models.go\<close> against
    \<^verbatim>\<open>usage/cost.go\<close>).
  \<^item> Claims and dispatch: \<open>Routing\<close> (\<^verbatim>\<open>routing.go\<close>), \<open>Agent_Repo\<close>, \<open>Claims\<close> (\<^verbatim>\<open>claim.go\<close>,
    \<^verbatim>\<open>instance_syncer.go\<close>, the adapter in \<^verbatim>\<open>server.go\<close>), \<open>Task_Repo\<close>, \<open>Conversation_Repo\<close>, \<open>Dispatch\<close>
    (\<^verbatim>\<open>internal/dispatch\<close>, \<^verbatim>\<open>skills.go\<close>, \<open>dispatchTask\<close>, \<open>dispatchToAgent\<close>), \<open>Dispatch_Props\<close>,
    \<open>Conv_Stream\<close> (\<^verbatim>\<open>ws.go\<close>).
  \<^item> Accounts: \<open>Auth_Token\<close> (\<^verbatim>\<open>jwt.go\<close>, \<^verbatim>\<open>password.go\<close>, \<^verbatim>\<open>middleware.go\<close>), \<open>User_Repo\<close> (users, tenants,
    invites, refresh tokens), \<open>Auth_Service\<close> (\<^verbatim>\<open>service.go\<close>), \<open>API_Auth\<close> (\<^verbatim>\<open>oidc.go\<close> and the handlers of
    \<^verbatim>\<open>auth.go\<close> and \<^verbatim>\<open>tenants.go\<close>).
  \<^item> Credentials, connections and skills: \<open>Credentials\<close> (broker and repository), \<open>Skill_Repo\<close>, \<open>OAuth\<close>
    (\<^verbatim>\<open>internal/providers\<close>), \<open>API_Connect\<close> (\<^verbatim>\<open>connect.go\<close>, \<^verbatim>\<open>credentials.go\<close>), \<open>API_Forge\<close>
    (\<^verbatim>\<open>forge.go\<close>, \<^verbatim>\<open>skills_activation.go\<close>).
  \<^item> Usage, memory and files: \<open>Usage\<close>, \<open>Memory_Repo\<close>, \<open>Storage\<close>, \<open>Attachments\<close>, each with its repository
    and its handlers.
  \<^item> HTTP: \<open>Web\<close> (the helpers of \<^verbatim>\<open>api.go\<close> and the middleware), \<open>API_Resources\<close> (\<^verbatim>\<open>conversations.go\<close>,
    \<^verbatim>\<open>tasks.go\<close>, \<^verbatim>\<open>agents.go\<close>), \<open>Gateway_Routes\<close> (the routes of \<^verbatim>\<open>api.go\<close> and \<^verbatim>\<open>server.go\<close>, the chain of
    middleware, the optional services), \<open>Config\<close> (\<^verbatim>\<open>config.go\<close>) and \<open>Serve\<close> (\<^verbatim>\<open>cmd/volund/serve.go\<close>,
    \<^verbatim>\<open>db.go\<close>).
  \<^item> The whole: \<open>API_Services\<close> puts all 64 handlers behind their routes over one state (\<open>server\<close>: database, routing
    table, NATS, disk, LLM router, pending flows, goroutines not yet run); \<open>Bystander\<close> has the locales for what
    such a system leaves alone and \<open>Isolation\<close> uses them for strangers and for other tenants. \<open>Lifecycle\<close> is \<open>New\<close>, \<open>Start\<close> and
    \<open>Stop\<close> of both servers (\<^verbatim>\<open>internal/gateway/server.go\<close>, \<^verbatim>\<open>internal/controlplane/server.go\<close>), the commands of
    \<^verbatim>\<open>cmd/volund\<close> and the gRPC services, over the handles a process holds open; \<open>Metrics\<close> is \<^verbatim>\<open>internal/otel\<close>.

  \<^bold>\<open>Interfaces.\<close> A locale stands where the code has an interface or two components rely on the same
  promise. \<open>routing_table\<close> is met by the in-memory and by the Redis table, over every behaviour of the network;
  \<open>instance_repo\<close> and \<open>claim_backend\<close> by the agent repository, and exclusivity of claims under interleaving is
  proved against them; \<open>breaker\<close> by the circuit breaker, and the router's loop is verified against it; \<open>receiver\<close>
  by the streams of all adapters, which gives the bound that \<open>drain\<close> needs: a stream is a finite list of events,
  and what is left of it decreases with each call, so reading one more time than is left always reaches the end;
  \<open>one_time_flow\<close> by the sign-on and by the connect flow; \<open>bystander\<close> and its extensions \<open>account_bystander\<close>, \<open>credential_bystander\<close> and
  \<open>side_bystander\<close> stand for a relation between databases that the statements of a kind respect, and the lemmas that the handlers
  respect it are proved once in them: they are met by the data of all tenants, with and without credentials, and by the rows of
  one tenant. No other fuel is used: all loops are structural
  recursions or have a termination proof.

  \<^bold>\<open>What is shown.\<close>

  \<^item> Claims: in every interleaving of claims and releases, each taken apart into its calls of the routing table and
    of the repository, two conversations never hold the same instance, under the provisos of \<open>orderly\<close>:
    \<open>SetActiveInstance\<close> confirms the route that is there or names an active instance that nobody else has, and a
    conversation is released by one request at a time. Two theorems of \<open>Claims\<close> show that each proviso is needed. A conversation keeps its instance; a claim takes exactly one warm instance, and nothing else
    of the table changes; the Redis protocol never hands one request the reply of another, as a late
    reply stays on its connection, which is given up.
  \<^item> LLM: the fallback loop returns the first answer of a usable provider and touches no provider behind an open
    breaker; the breaker refines a count of consecutive failures; streams are reassembled as the provider sent
    them and end; but the program that is started configures no fallback chain.
  \<^item> Accounts: a login needs the password, a refresh token works once, a token round trips and cannot be made
    without the secret, a sign-on or connect callback has its own start. Without a token only eleven handlers are
    reached, and every request has exactly one route.
  \<^item> The whole gateway: in any run without a request by a tenant's own members, its conversations, messages, tasks,
    agent profiles and files stay as they are, whatever requests, goroutines, watchers and events of others interleave;
    and a request without a valid token changes accounts only. Stopping closes all that starting opened, whatever failed on
    the way; over gRPC only the LLM service does anything, and it asks for no token.
  \<^item> Tenants: a request to any route that names a conversation, the attachments, the usage and the stream included,
    tells another tenant nothing about it and leaves its data alone (where there is a database: without one the stream
    is open to all); agents, credentials and skills of a task are those of the caller's tenant
    or of the user. The usage that is published for a tenant is charged to this tenant, at the prices of
    \<^verbatim>\<open>cost.go\<close>. Five theorems show where this does not hold: an owner can take any role, a member can draw on
    the credentials of another, a search of memories takes tenant and user from its body, a verified mail address
    is not asked for at sign-on, and a published skill redirects the client secret of a configured provider.
  \<^item> Data: histories, credentials and the files of the store come back as they were stored (a download over HTTP
    does not, its body is empty), paths stay below their directory, quotas block exactly at the limit, and the tables keep their invariants under every sequence of
    statements, refused ones included.

  \<^bold>\<open>Where the model decides what the platform leaves open.\<close> Rows with equal keys keep the order of the
  table under \<open>ORDER BY\<close> (\<open>order_by\<close>); \<open>strings.ToLower\<close> and \<open>strings.TrimSpace\<close> are those of ASCII text;
  the types of columns are checks of the statement that writes them (\<open>record_stmt\<close>), and the
  empty string is refused as a UUID where the code can pass it on (\<open>Refresh_Create\<close>). A token without an expiry is
  accepted, as the JWT package does (\<open>unexpired\<close>).

  \<^bold>\<open>Parameters.\<close> Code that is not in the repository is an argument, with what is relied on as a named
  hypothesis that a reference instance meets: the JWT package (\<open>jwt_spec\<close>), bcrypt, the authenticated cipher
  (\<open>aead_spec\<close>), the Redis server (\<open>redis_spec\<close>), the pgvector functions, the client libraries of the three
  providers and their accumulator, the OAuth2 and OIDC packages, HTTP endpoints, JSON decoding, time parsing, the
  random source.

  \<^bold>\<open>Not modelled.\<close> What libraries do once they are called: accepting connections, draining of requests at
  shutdown and its timeout, exporting of telemetry, parsing of flags; durations in metrics and log lines other than the
  access log and recovered panics; the delivery of a quota webhook after its payload is made; data races, as maps that the code shares without a
  lock are changed atomically here; transactions of PostgreSQL beyond one statement, of which the code has none; the escapes
  of a URL path and the \<open>Allow\<close> header of a 405 answer. In the runs of \<open>Isolation\<close> a watcher handles the signals of a step
  without interruption.
\<close>

end
